(* ===== verification/GoCore.thy ===== *)
theory GoCore imports Main "HOL-Library.Sublist" begin

text \<open>
  Prelude: what every component of the model uses of the Go language and its standard library.

  \<^item> A Go \<open>string\<close> or \<open>[]byte\<close> is a sequence of bytes, and HOL's \<open>char\<close> is a byte, so both
    are \<open>char list\<close>.
  \<^item> A Go error is a \<open>goerr\<close>: a leaf with the dynamic type the code can ask about, or a
    \<open>fmt.Errorf\<close> with one wrapped error.
  \<^item> A Go function with effects is a state-passing function \<open>('s, 'a) go\<close> whose result is a
    value, a returned error, or a panic. \<open>go_bind\<close> is the sequence
    \<open>x, err := m; if err != nil { return err }\<close>, and \<open>go_wrap\<close> the variant that returns
    \<open>fmt.Errorf("...: %w", err)\<close>.
  \<^item> A Go map is \<open>gomap\<close>, with \<open>None\<close> for the nil map.
\<close>

named_theorems go_inv \<open>what a sequence of Go statements did, from its result\<close>
named_theorems go_run \<open>one step of the evaluation of a sequence of Go statements\<close>

section \<open>Strings and bytes\<close>

type_synonym bytes = string

text \<open>\<open>strings.HasPrefix\<close>, \<open>strings.TrimPrefix\<close>, \<open>strings.Contains\<close> and \<open>strings.ToLower\<close>. The last
  maps the ASCII letters only, which decides a comparison with the ASCII word \<open>true\<close>: no letter
  outside ASCII has t, r, u or e as its lower case.\<close>

definition HasPrefix :: "string \<Rightarrow> string \<Rightarrow> bool" where
  "HasPrefix s pre = (take (length pre) s = pre)"

definition TrimPrefix :: "string \<Rightarrow> string \<Rightarrow> string" where
  "TrimPrefix s pre = (if HasPrefix s pre then drop (length pre) s else s)"

fun Contains :: "string \<Rightarrow> string \<Rightarrow> bool" where
  "Contains [] sub = (sub = [])"
| "Contains (c # s) sub = (HasPrefix (c # s) sub \<or> Contains s sub)"

definition lower_char :: "char \<Rightarrow> char" where
  "lower_char c =
     (let n = of_char c :: nat in if 65 \<le> n \<and> n \<le> 90 then char_of (n + 32) else c)"

definition ToLower :: "string \<Rightarrow> string" where
  "ToLower s = map lower_char s"

lemma HasPrefix_prefix: "HasPrefix s pre \<longleftrightarrow> prefix pre s"
  by (metis HasPrefix_def append_eq_conv_conj prefix_def)

lemma HasPrefix_append [simp]: "HasPrefix (pre @ s) pre"
  by (simp add: HasPrefix_def)

lemma TrimPrefix_append [simp]: "TrimPrefix (pre @ s) pre = s"
  by (simp add: TrimPrefix_def)

lemma TrimPrefix_absent: "\<not> HasPrefix s pre \<Longrightarrow> TrimPrefix s pre = s"
  by (simp add: TrimPrefix_def)

lemma Contains_sublist: "Contains s sub \<longleftrightarrow> sublist sub s"
  by (induction s) (auto simp: HasPrefix_prefix sublist_Cons_right)

section \<open>Errors\<close>

text \<open>The dynamic types of an error the code asks about: the API server's status reasons
  (\<open>apierrors.IsConflict\<close>, \<open>apierrors.IsNotFound\<close>), cosign's \<open>EntityNotFoundError\<close>, the KMS
  \<open>ProviderNotFoundError\<close> and \<open>fs.ErrNotExist\<close>. \<open>Plain\<close> is any other.\<close>

datatype errkind =
    Plain
  | ApiConflict
  | ApiNotFound
  | EntityNotFoundError
  | KmsProviderNotFoundError
  | FsErrNotExist

datatype goerr =
    GoErr errkind string
  | WrapErr string goerr

text \<open>\<open>err.Error()\<close>; the kind \<open>errors.As\<close> finds by unwrapping; a plain type assertion on \<open>err\<close>,
  which does not unwrap.\<close>

primrec err_Error :: "goerr \<Rightarrow> string" where
  "err_Error (GoErr k msg) = msg"
| "err_Error (WrapErr pre e) = pre @ err_Error e"

primrec err_As :: "goerr \<Rightarrow> errkind" where
  "err_As (GoErr k msg) = k"
| "err_As (WrapErr pre e) = err_As e"

primrec err_is_type :: "goerr \<Rightarrow> errkind \<Rightarrow> bool" where
  "err_is_type (GoErr k msg) k' = (k = k')"
| "err_is_type (WrapErr pre e) k' = False"

definition errors_New :: "string \<Rightarrow> goerr" where
  "errors_New msg = GoErr Plain msg"

definition IsConflict :: "goerr \<Rightarrow> bool" where
  "IsConflict e = (err_As e = ApiConflict)"

definition IsNotFound :: "goerr \<Rightarrow> bool" where
  "IsNotFound e = (err_As e = ApiNotFound)"

lemma err_As_errors_New [simp]: "err_As (errors_New msg) = Plain"
  by (simp add: errors_New_def)

lemma err_Error_errors_New [simp]: "err_Error (errors_New msg) = msg"
  by (simp add: errors_New_def)

lemma errors_New_inject [simp]: "errors_New a = errors_New b \<longleftrightarrow> a = b"
  by (simp add: errors_New_def)

lemma IsConflict_errors_New [simp]: "\<not> IsConflict (errors_New msg)"
  by (simp add: IsConflict_def)

lemma IsNotFound_errors_New [simp]: "\<not> IsNotFound (errors_New msg)"
  by (simp add: IsNotFound_def)

section \<open>Computations\<close>

datatype 'a result =
    Ok 'a
  | Fail goerr
  | Panic string

type_synonym ('s, 'a) go = "'s \<Rightarrow> 'a result \<times> 's"

definition go_ret :: "'a \<Rightarrow> ('s, 'a) go" where
  "go_ret a s = (Ok a, s)"

definition go_fail :: "goerr \<Rightarrow> ('s, 'a) go" where
  "go_fail e s = (Fail e, s)"

definition go_panic :: "string \<Rightarrow> ('s, 'a) go" where
  "go_panic msg s = (Panic msg, s)"

definition go_bind :: "('s, 'a) go \<Rightarrow> ('a \<Rightarrow> ('s, 'b) go) \<Rightarrow> ('s, 'b) go" where
  "go_bind m k s =
     (case m s of
        (Ok a, s') \<Rightarrow> k a s'
      | (Fail e, s') \<Rightarrow> (Fail e, s')
      | (Panic p, s') \<Rightarrow> (Panic p, s'))"

definition go_wrap :: "string \<Rightarrow> ('s, 'a) go \<Rightarrow> ('s, 'a) go" where
  "go_wrap pre m s =
     (case m s of
        (Fail e, s') \<Rightarrow> (Fail (WrapErr pre e), s')
      | (Ok a, s') \<Rightarrow> (Ok a, s')
      | (Panic p, s') \<Rightarrow> (Panic p, s'))"

text \<open>\<open>if x, err := m; err != nil { h err } else { k x }\<close>: the error is handled, not returned.\<close>

definition go_catch ::
  "('s, 'a) go \<Rightarrow> (goerr \<Rightarrow> ('s, 'b) go) \<Rightarrow> ('a \<Rightarrow> ('s, 'b) go) \<Rightarrow> ('s, 'b) go" where
  "go_catch m h k s =
     (case m s of
        (Ok a, s') \<Rightarrow> k a s'
      | (Fail e, s') \<Rightarrow> h e s'
      | (Panic p, s') \<Rightarrow> (Panic p, s'))"

text \<open>\<open>defer d()\<close>: \<open>d\<close> runs last, also on an error or a panic; its result is dropped.\<close>

definition go_defer :: "('s, unit) go \<Rightarrow> ('s, 'a) go \<Rightarrow> ('s, 'a) go" where
  "go_defer d m s = (case m s of (r, s') \<Rightarrow> (r, snd (d s')))"

text \<open>A call without effects that returns \<open>(value, error)\<close>, and one that returns an error only.\<close>

definition go_of :: "goerr + 'a \<Rightarrow> ('s, 'a) go" where
  "go_of x = (case x of Inl e \<Rightarrow> go_fail e | Inr a \<Rightarrow> go_ret a)"

definition go_err :: "goerr option \<Rightarrow> ('s, unit) go" where
  "go_err x = (case x of Some e \<Rightarrow> go_fail e | None \<Rightarrow> go_ret ())"

text \<open>A call that returns nothing.\<close>

definition go_do :: "('s \<Rightarrow> 's) \<Rightarrow> ('s, unit) go" where
  "go_do f = (\<lambda>s. (Ok (), f s))"

lemma go_do_id [simp]: "go_do (\<lambda>s. s) = go_ret ()"
  by (simp add: go_do_def go_ret_def fun_eq_iff)

text \<open>A computation on the second component of a larger state.\<close>

definition go_snd :: "('w, 'a) go \<Rightarrow> ('p \<times> 'w, 'a) go" where
  "go_snd m = (\<lambda>(p, w). case m w of (r, w') \<Rightarrow> (r, (p, w')))"

text \<open>A computation on the first and the last of three components, and one on a new local variable
  beside the state, which is dropped at the end.\<close>

definition go_mid :: "('p \<times> 'w, 'a) go \<Rightarrow> ('p \<times> 'v \<times> 'w, 'a) go" where
  "go_mid m = (\<lambda>(p, (v, w)). case m (p, w) of (r, (p', w')) \<Rightarrow> (r, (p', (v, w'))))"

definition go_local :: "'p \<Rightarrow> ('p \<times> 'w, 'a) go \<Rightarrow> ('w, 'a) go" where
  "go_local p m = (\<lambda>w. case m (p, w) of (r, (p', w')) \<Rightarrow> (r, w'))"

text \<open>Assignments to, and reads of, the first component.\<close>

definition go_upd :: "('p \<Rightarrow> 'p) \<Rightarrow> ('p \<times> 'w, unit) go" where
  "go_upd f = (\<lambda>(p, w). (Ok (), (f p, w)))"

definition go_get :: "('p \<Rightarrow> ('p \<times> 'w, 'a) go) \<Rightarrow> ('p \<times> 'w, 'a) go" where
  "go_get k = (\<lambda>(p, w). k p (p, w))"

text \<open>\<open>for _, x := range xs { if err := f x; err != nil { return err } }\<close>\<close>

fun go_each :: "('a \<Rightarrow> ('s, unit) go) \<Rightarrow> 'a list \<Rightarrow> ('s, unit) go" where
  "go_each f [] = go_ret ()"
| "go_each f (x # xs) = go_bind (f x) (\<lambda>_. go_each f xs)"

subsection \<open>Evaluation\<close>

lemma go_ret_run [go_run]: "go_ret a s = (Ok a, s)"
  by (simp add: go_ret_def)

lemma go_fail_run [go_run]: "go_fail e s = (Fail e, s)"
  by (simp add: go_fail_def)

lemma go_panic_run [go_run]: "go_panic p s = (Panic p, s)"
  by (simp add: go_panic_def)

lemma go_bind_ok [go_run]: "m s = (Ok a, s') \<Longrightarrow> go_bind m k s = k a s'"
  by (simp add: go_bind_def)

lemma go_bind_fail [go_run]: "m s = (Fail e, s') \<Longrightarrow> go_bind m k s = (Fail e, s')"
  by (simp add: go_bind_def)

lemma go_bind_panic [go_run]: "m s = (Panic p, s') \<Longrightarrow> go_bind m k s = (Panic p, s')"
  by (simp add: go_bind_def)

lemma go_wrap_ok [go_run]: "m s = (Ok a, s') \<Longrightarrow> go_wrap pre m s = (Ok a, s')"
  by (simp add: go_wrap_def)

lemma go_wrap_fail [go_run]: "m s = (Fail e, s') \<Longrightarrow> go_wrap pre m s = (Fail (WrapErr pre e), s')"
  by (simp add: go_wrap_def)

lemma go_wrap_panic [go_run]: "m s = (Panic p, s') \<Longrightarrow> go_wrap pre m s = (Panic p, s')"
  by (simp add: go_wrap_def)

lemma go_catch_ok [go_run]: "m s = (Ok a, s') \<Longrightarrow> go_catch m h k s = k a s'"
  by (simp add: go_catch_def)

lemma go_catch_fail [go_run]: "m s = (Fail e, s') \<Longrightarrow> go_catch m h k s = h e s'"
  by (simp add: go_catch_def)

lemma go_catch_panic [go_run]: "m s = (Panic p, s') \<Longrightarrow> go_catch m h k s = (Panic p, s')"
  by (simp add: go_catch_def)

lemma go_of_Inl [go_run]: "go_of (Inl e) s = (Fail e, s)"
  by (simp add: go_of_def go_fail_def)

lemma go_of_Inr [go_run]: "go_of (Inr a) s = (Ok a, s)"
  by (simp add: go_of_def go_ret_def)

lemma go_err_Some [go_run]: "go_err (Some e) s = (Fail e, s)"
  by (simp add: go_err_def go_fail_def)

lemma go_err_None [go_run]: "go_err None s = (Ok (), s)"
  by (simp add: go_err_def go_ret_def)

lemma go_snd_run [go_run]: "go_snd m (p, w) = (case m w of (r, w') \<Rightarrow> (r, (p, w')))"
  by (simp add: go_snd_def)

lemma go_mid_run [go_run]:
  "go_mid m (p, (v, w)) = (case m (p, w) of (r, (p', w')) \<Rightarrow> (r, (p', (v, w'))))"
  by (simp add: go_mid_def)

lemma go_local_run [go_run]: "m (p, w) = (r, (p', w')) \<Longrightarrow> go_local p m w = (r, w')"
  by (simp add: go_local_def)

lemma go_upd_run [go_run]: "go_upd f (p, w) = (Ok (), (f p, w))"
  by (simp add: go_upd_def)

lemma go_get_run [go_run]: "go_get k (p, w) = k p (p, w)"
  by (simp add: go_get_def)

lemma go_defer_run [go_run]: "m s = (r, s') \<Longrightarrow> go_defer d m s = (r, snd (d s'))"
  by (simp add: go_defer_def)

lemma go_bind_ret_run [simp]: "go_bind (go_ret a) k = k a"
  by (rule ext) (simp add: go_bind_def go_ret_def)

lemma go_bind_fail_run [simp]: "go_bind (go_fail e) k = go_fail e"
  by (rule ext) (simp add: go_bind_def go_fail_def)

subsection \<open>Inversion\<close>

lemma go_ret_inv [go_inv]: "go_ret a s = (r, s') \<longleftrightarrow> r = Ok a \<and> s' = s"
  by (auto simp: go_ret_def)

lemma go_fail_inv [go_inv]: "go_fail e s = (r, s') \<longleftrightarrow> r = Fail e \<and> s' = s"
  by (auto simp: go_fail_def)

lemma go_panic_inv [go_inv]: "go_panic p s = (r, s') \<longleftrightarrow> r = Panic p \<and> s' = s"
  by (auto simp: go_panic_def)

lemma go_bind_Ok [go_inv]:
  "go_bind m k s = (Ok b, s') \<longleftrightarrow> (\<exists>a s1. m s = (Ok a, s1) \<and> k a s1 = (Ok b, s'))"
  by (auto simp: go_bind_def split: prod.splits result.splits)

lemma go_bind_Fail [go_inv]:
  "go_bind m k s = (Fail e, s') \<longleftrightarrow>
     m s = (Fail e, s') \<or> (\<exists>a s1. m s = (Ok a, s1) \<and> k a s1 = (Fail e, s'))"
  by (auto simp: go_bind_def split: prod.splits result.splits)

lemma go_wrap_Ok [go_inv]: "go_wrap pre m s = (Ok a, s') \<longleftrightarrow> m s = (Ok a, s')"
  by (auto simp: go_wrap_def split: prod.splits result.splits)

lemma go_wrap_Fail [go_inv]:
  "go_wrap pre m s = (Fail e, s') \<longleftrightarrow> (\<exists>e'. m s = (Fail e', s') \<and> e = WrapErr pre e')"
  by (auto simp: go_wrap_def split: prod.splits result.splits)

lemma go_catch_Ok [go_inv]:
  "go_catch m h k s = (Ok b, s') \<longleftrightarrow>
     (\<exists>a s1. m s = (Ok a, s1) \<and> k a s1 = (Ok b, s')) \<or>
     (\<exists>e s1. m s = (Fail e, s1) \<and> h e s1 = (Ok b, s'))"
  by (auto simp: go_catch_def split: prod.splits result.splits)

lemma go_of_Ok [go_inv]: "go_of x s = (Ok a, s') \<longleftrightarrow> x = Inr a \<and> s' = s"
  by (auto simp: go_of_def go_ret_def go_fail_def split: sum.splits)

lemma go_of_Fail [go_inv]: "go_of x s = (Fail e, s') \<longleftrightarrow> x = Inl e \<and> s' = s"
  by (auto simp: go_of_def go_ret_def go_fail_def split: sum.splits)

lemma go_defer_inv [go_inv]:
  "go_defer d m s = (r, s') \<longleftrightarrow> (\<exists>s1. m s = (r, s1) \<and> s' = snd (d s1))"
  by (auto simp: go_defer_def split: prod.splits)

lemma go_snd_inv [go_inv]:
  "go_snd m s = (r, s') \<longleftrightarrow> (\<exists>w'. m (snd s) = (r, w') \<and> s' = (fst s, w'))"
  by (cases s) (auto simp: go_snd_def split: prod.splits)

lemma go_mid_inv [go_inv]:
  "go_mid m (p, (v, w)) = (r, s') \<longleftrightarrow> (\<exists>p' w'. m (p, w) = (r, (p', w')) \<and> s' = (p', (v, w')))"
  by (auto simp: go_mid_def split: prod.splits)

lemma go_local_inv [go_inv]:
  "go_local p m w = (r, w') \<longleftrightarrow> (\<exists>p'. m (p, w) = (r, (p', w')))"
  by (auto simp: go_local_def split: prod.splits)

lemma go_upd_inv [go_inv]: "go_upd f s = (r, s') \<longleftrightarrow> r = Ok () \<and> s' = (f (fst s), snd s)"
  by (cases s) (auto simp: go_upd_def)

lemma go_get_inv [go_inv]: "go_get k s = x \<longleftrightarrow> k (fst s) s = x"
  by (cases s) (simp add: go_get_def)

subsection \<open>What a computation leaves unchanged\<close>

text \<open>\<open>go_fixes f m\<close>: whatever \<open>m\<close> returns, also on an error or a panic, the observation \<open>f\<close> of the
  state is what it was. The rules follow the structure of the code.\<close>

named_theorems go_fixes_rules \<open>composition rules for unchanged observations\<close>

definition go_fixes :: "('s \<Rightarrow> 'b) \<Rightarrow> ('s, 'a) go \<Rightarrow> bool" where
  "go_fixes f m \<longleftrightarrow> (\<forall>s r s'. m s = (r, s') \<longrightarrow> f s' = f s)"

lemma go_fixesD: "go_fixes f m \<Longrightarrow> m s = (r, s') \<Longrightarrow> f s' = f s"
  by (simp add: go_fixes_def)

lemma go_fixes_leaf [go_fixes_rules]:
  "go_fixes f (go_ret a)" "go_fixes f (go_fail e)" "go_fixes f (go_panic p)"
  by (simp_all add: go_fixes_def go_inv)

lemma go_fixes_of [go_fixes_rules]: "go_fixes f (go_of x)"
  by (auto simp: go_fixes_def go_of_def go_inv split: sum.splits)

lemma go_fixes_bind [go_fixes_rules]:
  assumes "go_fixes f m" and "\<And>a. go_fixes f (k a)"
  shows "go_fixes f (go_bind m k)"
  using assms unfolding go_fixes_def go_bind_def
  by (fastforce split: prod.splits result.splits)

lemma go_fixes_catch [go_fixes_rules]:
  assumes "go_fixes f m" and "\<And>e. go_fixes f (h e)" and "\<And>a. go_fixes f (k a)"
  shows "go_fixes f (go_catch m h k)"
  using assms unfolding go_fixes_def go_catch_def
  by (fastforce split: prod.splits result.splits)

lemma go_fixes_wrap [go_fixes_rules]: "go_fixes f m \<Longrightarrow> go_fixes f (go_wrap pre m)"
  unfolding go_fixes_def go_wrap_def by (fastforce split: prod.splits result.splits)

lemma go_fixes_get [go_fixes_rules]:
  "(\<And>p. go_fixes f (k p)) \<Longrightarrow> go_fixes f (go_get k)"
  by (auto simp: go_fixes_def go_get_def)

lemma go_fixes_upd [go_fixes_rules]:
  "(\<And>p w. f (g p, w) = f (p, w)) \<Longrightarrow> go_fixes f (go_upd g)"
  by (auto simp: go_fixes_def go_upd_def)

lemma go_fixes_snd [go_fixes_rules]:
  "(\<And>p w w'. f (p, w') = f (p, w)) \<Longrightarrow> go_fixes f (go_snd m)"
  by (auto simp: go_fixes_def go_inv)

lemma go_fixes_mid [go_fixes_rules]:
  "(\<And>v. go_fixes (\<lambda>(p, w). f (p, (v, w))) m) \<Longrightarrow> go_fixes f (go_mid m)"
  unfolding go_fixes_def go_mid_def by (fastforce split: prod.splits)

lemma go_fixes_if [go_fixes_rules]:
  "(b \<Longrightarrow> go_fixes f m) \<Longrightarrow> (\<not> b \<Longrightarrow> go_fixes f n) \<Longrightarrow> go_fixes f (if b then m else n)"
  by simp

lemma go_fixes_option [go_fixes_rules]:
  "go_fixes f m \<Longrightarrow> (\<And>a. go_fixes f (n a)) \<Longrightarrow>
   go_fixes f (case x of None \<Rightarrow> m | Some a \<Rightarrow> n a)"
  by (cases x) simp_all

lemma go_fixes_prod [go_fixes_rules]:
  "(\<And>a b. go_fixes f (k a b)) \<Longrightarrow> go_fixes f (case x of (a, b) \<Rightarrow> k a b)"
  by (cases x) simp

section \<open>Go maps\<close>

type_synonym gomap = "(string \<rightharpoonup> string) option"

text \<open>\<open>v, ok := m[k]\<close> and \<open>m[k]\<close>; both read the nil map as an empty one.\<close>

definition gm_lookup :: "gomap \<Rightarrow> string \<Rightarrow> string option" where
  "gm_lookup m k = (case m of None \<Rightarrow> None | Some f \<Rightarrow> f k)"

definition gm_index :: "gomap \<Rightarrow> string \<Rightarrow> string" where
  "gm_index m k = (case gm_lookup m k of None \<Rightarrow> '''' | Some v \<Rightarrow> v)"

lemma gm_lookup_simps [simp]:
  "gm_lookup None k = None"
  "gm_lookup (Some f) k = f k"
  by (simp_all add: gm_lookup_def)

lemma gm_index_Some: "gm_lookup m k = Some v \<Longrightarrow> gm_index m k = v"
  by (simp add: gm_index_def)

lemma gm_index_None: "gm_lookup m k = None \<Longrightarrow> gm_index m k = ''''"
  by (simp add: gm_index_def)

section \<open>Decimal output\<close>

text \<open>The verb \<open>%d\<close> of \<open>fmt.Sprintf\<close>.\<close>

fun nat_digits :: "nat \<Rightarrow> string" where
  "nat_digits n =
     (if n < 10 then [char_of (48 + n)]
      else nat_digits (n div 10) @ [char_of (48 + n mod 10)])"

declare nat_digits.simps [simp del]

definition fmt_d :: "int \<Rightarrow> string" where
  "fmt_d i = (if i < 0 then ''-'' @ nat_digits (nat (- i)) else nat_digits (nat i))"

lemma nat_digits_nonempty: "nat_digits n \<noteq> []"
  by (subst nat_digits.simps) simp

end
