(* ===== verification/KubeObjects.thy ===== *)
theory KubeObjects imports GoCore begin

text \<open>
  The Kubernetes and Argo objects the controller reads and patches, with the fields the source
  uses. Labels and annotations are Go maps. The types themselves (\<open>corev1\<close>, \<open>wfv1alpha1\<close>,
  \<open>metav1\<close>) are third-party; what the source reads of a value is a field here, and every other part
  of it that the source only passes on is one opaque field.

  \<open>kube\<close> is what \<open>pkg/statusupdater\<close> calls for objects of one kind: the controller-runtime client's
  \<open>Get\<close> and \<open>Patch\<close>, \<open>DeepCopyObject\<close>, and \<open>retry.OnError\<close> of client-go. It is a parameter of every
  definition that uses it; \<open>kube_documented\<close> and \<open>retry_documented\<close> state their documented
  behaviour, as hypotheses of the theorems that rely on it.
\<close>

section \<open>Objects\<close>

type_synonym nsname = "string \<times> string"

record objmeta =
  m_namespace :: string
  m_name :: string
  m_uid :: string
  m_labels :: gomap
  m_annotations :: gomap

definition nsname_of :: "'a objmeta_scheme \<Rightarrow> nsname" where
  "nsname_of r = (m_namespace r, m_name r)"

text \<open>\<open>corev1.PodPhase\<close>: the one value the source compares with, and any other string.\<close>

datatype pod_phase =
    PodSucceeded
  | OtherPodPhase string

record pod = objmeta +
  pod_phase :: pod_phase

text \<open>\<open>wfv1alpha1.NodePhase\<close>: the constants the source names, and any other string.\<close>

datatype node_phase =
    NodePending
  | NodeRunning
  | NodeSucceeded
  | NodeSkipped
  | NodeFailed
  | NodeError
  | NodeOmitted
  | OtherPhase string

record parameter =
  par_Name :: string
  par_Value :: "string option"
  par_rest :: bytes

record artifact =
  art_Name :: string
  art_rest :: bytes

record outputs =
  out_Parameters :: "parameter list"
  out_Artifacts :: "artifact list"

record node =
  node_ID :: string
  node_DisplayName :: string
  node_Type :: string
  node_TemplateName :: string
  node_Phase :: node_phase
  node_Outputs :: "outputs option"

record wfspec =
  spec_parameters :: "parameter list"
  spec_rest :: bytes

text \<open>\<open>Status.Nodes\<close> is a Go map; \<open>wf_Nodes\<close> lists its entries in the order in which the runtime's
  \<open>range\<close> visits them, which Go leaves open: every theorem is for any order. Times are counted from
  Go's zero time.\<close>

record workflow = objmeta +
  wf_Spec :: wfspec
  wf_Nodes :: "(string \<times> node) list"
  wf_StartedAt :: int
  wf_FinishedAt :: int
  wf_Outputs :: "outputs option"

text \<open>The zero values \<open>var pod corev1.Pod\<close> and \<open>var workflow wfv1alpha1.Workflow\<close>.\<close>

definition zero_pod :: pod where
  "zero_pod = \<lparr>m_namespace = '''', m_name = '''', m_uid = '''', m_labels = None,
     m_annotations = None, pod_phase = OtherPodPhase ''''\<rparr>"

definition zero_workflow :: workflow where
  "zero_workflow = \<lparr>m_namespace = '''', m_name = '''', m_uid = '''', m_labels = None,
     m_annotations = None, wf_Spec = \<lparr>spec_parameters = [], spec_rest = ''''\<rparr>, wf_Nodes = [],
     wf_StartedAt = 0, wf_FinishedAt = 0, wf_Outputs = None\<rparr>"

section \<open>The client\<close>

text \<open>\<open>Get\<close> writes the object it read through its pointer argument and \<open>Patch\<close> the object the server
  answered with, so both act on the object and the world. \<open>cl_Patch\<close> takes the base of the merge
  patch. \<open>cl_DeepCopy\<close> is \<open>DeepCopyObject().(client.Object)\<close>, \<open>None\<close> when the assertion fails.\<close>

record ('o, 'w) kube =
  cl_Get :: "nsname \<Rightarrow> ('o \<times> 'w, unit) go"
  cl_Patch :: "'o \<Rightarrow> ('o \<times> 'w, unit) go"
  cl_DeepCopy :: "'o \<Rightarrow> 'o option"
  cl_OnError :: "nat \<Rightarrow> (goerr \<Rightarrow> bool) \<Rightarrow> ('o \<times> 'w, unit) go \<Rightarrow> ('o \<times> 'w, unit) go"

text \<open>The documented behaviour of \<open>retry.OnError\<close> with \<open>Steps = n\<close>: the function runs until it
  succeeds, fails with an error that is not retriable, or has run \<open>n\<close> times; the last error is
  returned. Between two runs the caller sleeps, and the world moves on by itself (\<open>sleep\<close>).\<close>

fun retry_loop ::
  "('w \<Rightarrow> 'w) \<Rightarrow> nat \<Rightarrow> (goerr \<Rightarrow> bool) \<Rightarrow> ('o \<times> 'w, unit) go \<Rightarrow> ('o \<times> 'w, unit) go" where
  "retry_loop sleep 0 retriable f s = (Ok (), s)"
| "retry_loop sleep (Suc n) retriable f s =
     (case f s of
        (Fail e, (r, w)) \<Rightarrow>
          if retriable e \<and> n \<noteq> 0 then retry_loop sleep n retriable f (r, sleep w)
          else (Fail e, (r, w))
      | other \<Rightarrow> other)"

definition retry_documented :: "('o, 'w) kube \<Rightarrow> ('w \<Rightarrow> 'w) \<Rightarrow> bool" where
  "retry_documented k sleep \<longleftrightarrow> (\<forall>n p f s. cl_OnError k n p f s = retry_loop sleep n p f s)"

text \<open>The documented behaviour of a client: what \<open>Get\<close> reads has the name it was asked for, the copy
  equals the object, and the answer to a successful merge patch is the same object with the labels
  and annotations in which it differs from its base.\<close>

definition kube_documented :: "('a objmeta_scheme, 'w) kube \<Rightarrow> bool" where
  "kube_documented k \<longleftrightarrow>
     (\<forall>nn s r w. cl_Get k nn s = (Ok (), (r, w)) \<longrightarrow> nsname_of r = nn) \<and>
     (\<forall>r. cl_DeepCopy k r = Some r) \<and>
     (\<forall>base r w r' w'. cl_Patch k base (r, w) = (Ok (), (r', w')) \<longrightarrow>
        nsname_of r' = nsname_of r \<and>
        (\<forall>key. gm_lookup (m_labels r) key \<noteq> gm_lookup (m_labels base) key \<longrightarrow>
           gm_lookup (m_labels r') key = gm_lookup (m_labels r) key) \<and>
        (\<forall>key. gm_lookup (m_annotations r) key \<noteq> gm_lookup (m_annotations base) key \<longrightarrow>
           gm_lookup (m_annotations r') key = gm_lookup (m_annotations r) key))"

section \<open>An in-memory API server\<close>

text \<open>A concrete client over a store of objects, on which the hypotheses above hold and on which the
  witnesses evaluate; it is the counterpart of the fake client of the repository's tests.\<close>

definition store_get :: "('w \<Rightarrow> nsname \<Rightarrow> 'o option) \<Rightarrow> nsname \<Rightarrow> ('o \<times> 'w, unit) go" where
  "store_get rd nn = (\<lambda>(r, w).
     case rd w nn of
       None \<Rightarrow> (Fail (GoErr ApiNotFound ''not found''), (r, w))
     | Some r' \<Rightarrow> (Ok (), (r', w)))"

definition store_patch ::
  "(nsname \<Rightarrow> 'a objmeta_scheme \<Rightarrow> 'w \<Rightarrow> 'w) \<Rightarrow> ('a objmeta_scheme \<times> 'w, unit) go" where
  "store_patch wr = (\<lambda>(r, w). (Ok (), (r, wr (nsname_of r) r w)))"

definition store_kube ::
  "('w \<Rightarrow> nsname \<Rightarrow> 'a objmeta_scheme option) \<Rightarrow> (nsname \<Rightarrow> 'a objmeta_scheme \<Rightarrow> 'w \<Rightarrow> 'w) \<Rightarrow>
   ('a objmeta_scheme, 'w) kube" where
  "store_kube rd wr =
     \<lparr>cl_Get = store_get rd, cl_Patch = (\<lambda>base. store_patch wr), cl_DeepCopy = Some,
      cl_OnError = retry_loop (\<lambda>w. w)\<rparr>"

lemma store_kube_sel [simp]:
  "cl_Get (store_kube rd wr) = store_get rd"
  "cl_Patch (store_kube rd wr) base = store_patch wr"
  "cl_DeepCopy (store_kube rd wr) = Some"
  "cl_OnError (store_kube rd wr) = retry_loop (\<lambda>w. w)"
  by (simp_all add: store_kube_def)

lemma store_kube_retry: "retry_documented (store_kube rd wr) (\<lambda>w. w)"
  by (simp add: retry_documented_def)

lemma store_kube_documented:
  assumes "\<And>w nn r. rd w nn = Some r \<Longrightarrow> nsname_of r = nn"
  shows "kube_documented (store_kube rd wr)"
  using assms
  by (auto simp: kube_documented_def store_get_def store_patch_def split: option.splits)

text \<open>A store of objects under their own names: what was written is read back, and only that.\<close>

definition named_store ::
  "('w \<Rightarrow> nsname \<Rightarrow> 'a objmeta_scheme option) \<Rightarrow> (nsname \<Rightarrow> 'a objmeta_scheme \<Rightarrow> 'w \<Rightarrow> 'w) \<Rightarrow> bool" where
  "named_store rd wr \<longleftrightarrow>
     (\<forall>w nn r. rd w nn = Some r \<longrightarrow> nsname_of r = nn) \<and>
     (\<forall>w nn r nn'. nsname_of r = nn \<longrightarrow> rd (wr nn r w) nn' = (if nn' = nn then Some r else rd w nn'))"

lemma named_storeD:
  assumes "named_store rd wr"
  shows "rd w nn = Some r \<Longrightarrow> nsname_of r = nn"
    "nsname_of r = nn \<Longrightarrow> rd (wr nn r w) nn' = (if nn' = nn then Some r else rd w nn')"
  using assms unfolding named_store_def by blast+

end
