(* ===== verification/StatusUpdater.thy ===== *)
theory StatusUpdater imports KubeObjects begin

text \<open>
  The package \<open>pkg/statusupdater\<close>: one label or annotation of an object is set by reading a fresh
  copy, editing it and sending a merge patch, with up to three attempts on a conflict.

  \<open>patchMetadata\<close> keeps the source's two function arguments \<open>getMetadata\<close> and \<open>setMetadata\<close>; its
  body under \<open>retry.OnError\<close> is \<open>patch_attempt\<close>. The interface the pod reconciler and the controller
  rely on is the locale \<open>metadata_patcher\<close>, interpreted on \<open>PatchAnnotations\<close> and \<open>PatchLabels\<close>.
\<close>

section \<open>The code\<close>

definition patch_attempt ::
  "('a objmeta_scheme, 'w) kube \<Rightarrow> string \<Rightarrow> string \<Rightarrow>
   ('a objmeta_scheme \<Rightarrow> gomap) \<Rightarrow> ('a objmeta_scheme \<Rightarrow> gomap \<Rightarrow> 'a objmeta_scheme) \<Rightarrow>
   ('a objmeta_scheme \<times> 'w, unit) go" where
  "patch_attempt k key value getMetadata setMetadata =
     go_get (\<lambda>r.
       go_bind (cl_Get k (m_namespace r, m_name r)) (\<lambda>_.
       go_get (\<lambda>fresh.
         case cl_DeepCopy k fresh of
           None \<Rightarrow> go_fail (errors_New ''unable to convert object to client.Object'')
         | Some original \<Rightarrow>
             let metadata = (case getMetadata fresh of None \<Rightarrow> Map.empty | Some m \<Rightarrow> m)
             in if metadata key = Some value then go_ret ()
                else go_bind (go_upd (\<lambda>o'. setMetadata o' (Some (metadata(key \<mapsto> value)))))
                       (\<lambda>_. cl_Patch k original))))"

definition conflict_or_not_found :: string where
  "conflict_or_not_found = ''conflict or not found''"

definition patchMetadata ::
  "('a objmeta_scheme, 'w) kube \<Rightarrow> string \<Rightarrow> string \<Rightarrow>
   ('a objmeta_scheme \<Rightarrow> gomap) \<Rightarrow> ('a objmeta_scheme \<Rightarrow> gomap \<Rightarrow> 'a objmeta_scheme) \<Rightarrow>
   ('a objmeta_scheme \<times> 'w, unit) go" where
  "patchMetadata k key value getMetadata setMetadata =
     go_catch (cl_OnError k 3 IsConflict (patch_attempt k key value getMetadata setMetadata))
       (\<lambda>err. if IsConflict err \<or> IsNotFound err
              then go_fail (errors_New conflict_or_not_found) else go_fail err)
       (\<lambda>_. go_ret ())"

definition set_annotations :: "'a objmeta_scheme \<Rightarrow> gomap \<Rightarrow> 'a objmeta_scheme" where
  "set_annotations r m = r\<lparr>m_annotations := m\<rparr>"

definition set_labels :: "'a objmeta_scheme \<Rightarrow> gomap \<Rightarrow> 'a objmeta_scheme" where
  "set_labels r m = r\<lparr>m_labels := m\<rparr>"

definition PatchAnnotations ::
  "('a objmeta_scheme, 'w) kube \<Rightarrow> string \<Rightarrow> string \<Rightarrow> ('a objmeta_scheme \<times> 'w, unit) go" where
  "PatchAnnotations k label info = patchMetadata k label info m_annotations set_annotations"

definition PatchLabels ::
  "('a objmeta_scheme, 'w) kube \<Rightarrow> string \<Rightarrow> string \<Rightarrow> ('a objmeta_scheme \<times> 'w, unit) go" where
  "PatchLabels k label info = patchMetadata k label info m_labels set_labels"

section \<open>Lemmas\<close>

subsection \<open>The retry loop\<close>

text \<open>What holds of the state before every attempt and is kept by a failed attempt and by sleeping
  holds before the attempt that succeeded.\<close>

lemma retry_loop_Ok_inv:
  assumes "retry_loop sleep n p f s = (Ok (), s')" and "n \<noteq> 0" and "I s"
    and "\<And>s e r w. I s \<Longrightarrow> f s = (Fail e, (r, w)) \<Longrightarrow> p e \<Longrightarrow> I (r, sleep w)"
  shows "\<exists>s0. I s0 \<and> f s0 = (Ok (), s')"
  using assms(1-3)
proof (induction n arbitrary: s)
  case 0
  then show ?case by simp
next
  case (Suc n)
  obtain res r w where fs: "f s = (res, (r, w))"
    by (cases "f s") auto
  show ?case
  proof (cases res)
    case (Ok u)
    with Suc.prems fs show ?thesis by (cases s) auto
  next
    case (Fail e)
    with Suc.prems(1) fs have "p e" "n \<noteq> 0" "retry_loop sleep n p f (r, sleep w) = (Ok (), s')"
      by (auto split: if_splits)
    with Suc.IH Suc.prems(3) assms(4) fs Fail show ?thesis by blast
  next
    case (Panic m)
    with Suc.prems(1) fs show ?thesis by simp
  qed
qed

lemma retry_loop_Ok:
  assumes "retry_loop sleep n p f s = (Ok (), s')" and "n \<noteq> 0"
  shows "\<exists>s0. f s0 = (Ok (), s')"
  using retry_loop_Ok_inv [OF assms, of "\<lambda>_. True"] by blast

lemma retry_loop_Fail:
  assumes "retry_loop sleep n p f s = (Fail e, s')"
  shows "\<exists>s0. f s0 = (Fail e, s')"
  using assms
proof (induction n arbitrary: s)
  case 0
  then show ?case by simp
next
  case (Suc n)
  obtain res r w where fs: "f s = (res, (r, w))"
    by (cases "f s") auto
  show ?case
  proof (cases res)
    case (Fail e')
    show ?thesis
    proof (cases "p e' \<and> n \<noteq> 0")
      case True
      with Suc.prems fs Fail have "retry_loop sleep n p f (r, sleep w) = (Fail e, s')" by simp
      then show ?thesis by (rule Suc.IH)
    next
      case False
      with Suc.prems fs Fail have "f s = (Fail e, s')" by auto
      then show ?thesis ..
    qed
  qed (use Suc.prems fs in auto)
qed

subsection \<open>One attempt\<close>

lemma patch_attempt_run:
  "patch_attempt k key value gm sm (r, w) =
     (case cl_Get k (nsname_of r) (r, w) of
        (Ok _, (fresh, w1)) \<Rightarrow>
          (case cl_DeepCopy k fresh of
             None \<Rightarrow> (Fail (errors_New ''unable to convert object to client.Object''), (fresh, w1))
           | Some original \<Rightarrow>
               (if gm_lookup (gm fresh) key = Some value then (Ok (), (fresh, w1))
                else cl_Patch k original
                  (sm fresh (Some ((case gm fresh of None \<Rightarrow> Map.empty | Some m \<Rightarrow> m)
                     (key \<mapsto> value))), w1)))
      | (Fail e, s1) \<Rightarrow> (Fail e, s1)
      | (Panic p, s1) \<Rightarrow> (Panic p, s1))"
  by (simp add: patch_attempt_def go_get_def go_bind_def nsname_of_def go_fail_def go_ret_def
      go_upd_def Let_def split: prod.splits result.splits option.splits)

text \<open>The law both setters obey: only the map they set changes.\<close>

definition lawful_accessors ::
  "('a objmeta_scheme \<Rightarrow> gomap) \<Rightarrow> ('a objmeta_scheme \<Rightarrow> gomap \<Rightarrow> 'a objmeta_scheme) \<Rightarrow> bool" where
  "lawful_accessors gm sm \<longleftrightarrow>
     (gm = m_annotations \<and> sm = set_annotations) \<or> (gm = m_labels \<and> sm = set_labels)"

lemma lawful_annotations [simp]: "lawful_accessors m_annotations set_annotations"
  by (simp add: lawful_accessors_def)

lemma lawful_labels [simp]: "lawful_accessors m_labels set_labels"
  by (simp add: lawful_accessors_def)

lemma lawful_get_set: "lawful_accessors gm sm \<Longrightarrow> gm (sm r m) = m"
  by (auto simp: lawful_accessors_def set_annotations_def set_labels_def)

lemma lawful_nsname: "lawful_accessors gm sm \<Longrightarrow> nsname_of (sm r m) = nsname_of r"
  by (auto simp: lawful_accessors_def set_annotations_def set_labels_def nsname_of_def)

lemma kube_patch_response:
  assumes "kube_documented k" and "lawful_accessors gm sm"
    and "cl_Patch k base (sm base (Some m), w) = (Ok (), (r', w'))"
    and "m key \<noteq> gm_lookup (gm base) key"
  shows "gm_lookup (gm r') key = m key" and "nsname_of r' = nsname_of base"
proof -
  have resp: "nsname_of r' = nsname_of (sm base (Some m)) \<and>
      (\<forall>key. gm_lookup (m_labels (sm base (Some m))) key \<noteq> gm_lookup (m_labels base) key \<longrightarrow>
         gm_lookup (m_labels r') key = gm_lookup (m_labels (sm base (Some m))) key) \<and>
      (\<forall>key. gm_lookup (m_annotations (sm base (Some m))) key
           \<noteq> gm_lookup (m_annotations base) key \<longrightarrow>
         gm_lookup (m_annotations r') key = gm_lookup (m_annotations (sm base (Some m))) key)"
    using assms(1,3) unfolding kube_documented_def by blast
  show "nsname_of r' = nsname_of base"
    using resp assms(2) by (simp add: lawful_nsname)
  show "gm_lookup (gm r') key = m key"
    using resp assms(2,4)
    by (auto simp: lawful_accessors_def set_annotations_def set_labels_def)
qed

lemma patch_attempt_Ok:
  assumes "kube_documented k" and "lawful_accessors gm sm"
    and "patch_attempt k key value gm sm (r, w) = (Ok (), (r', w'))"
  shows "gm_lookup (gm r') key = Some value \<and> nsname_of r' = nsname_of r"
proof -
  obtain fresh w1 where get: "cl_Get k (nsname_of r) (r, w) = (Ok (), (fresh, w1))"
    using assms(3) by (auto simp: patch_attempt_run split: prod.splits result.splits)
  have nn: "nsname_of fresh = nsname_of r" and copy: "cl_DeepCopy k fresh = Some fresh"
    using assms(1) get unfolding kube_documented_def by blast+
  show ?thesis
  proof (cases "gm_lookup (gm fresh) key = Some value")
    case True
    then show ?thesis using assms(3) nn by (auto simp: patch_attempt_run get copy)
  next
    case False
    let ?m = "(case gm fresh of None \<Rightarrow> Map.empty | Some m \<Rightarrow> m)(key \<mapsto> value)"
    have "cl_Patch k fresh (sm fresh (Some ?m), w1) = (Ok (), (r', w'))"
      using assms(3) False by (simp add: patch_attempt_run get copy)
    note resp = kube_patch_response [OF assms(1,2) this, of key]
    have "?m key \<noteq> gm_lookup (gm fresh) key" using False by simp
    from resp [OF this] nn show ?thesis by simp
  qed
qed

subsection \<open>The whole operation\<close>

lemma patchMetadata_Ok [go_inv]:
  "patchMetadata k key value gm sm s = (Ok u, s') \<longleftrightarrow>
     cl_OnError k 3 IsConflict (patch_attempt k key value gm sm) s = (Ok (), s')"
  by (auto simp: patchMetadata_def go_inv split: if_splits)

lemma patchMetadata_Fail:
  "patchMetadata k key value gm sm s = (Fail e, s') \<longleftrightarrow>
     (\<exists>e0. cl_OnError k 3 IsConflict (patch_attempt k key value gm sm) s = (Fail e0, s') \<and>
        e = (if IsConflict e0 \<or> IsNotFound e0 then errors_New conflict_or_not_found else e0))"
  by (auto simp: patchMetadata_def go_catch_def go_fail_def go_ret_def
      split: prod.splits result.splits)

lemma patchMetadata_success:
  assumes "retry_documented k sleep" and "kube_documented k" and "lawful_accessors gm sm"
    and "patchMetadata k key value gm sm s = (Ok u, (r', w'))"
  shows "gm_lookup (gm r') key = Some value"
proof -
  have "retry_loop sleep 3 IsConflict (patch_attempt k key value gm sm) s = (Ok (), (r', w'))"
    using assms(1,4) unfolding retry_documented_def patchMetadata_Ok by metis
  then obtain r0 w0 where "patch_attempt k key value gm sm (r0, w0) = (Ok (), (r', w'))"
    using retry_loop_Ok by fastforce
  then show ?thesis using patch_attempt_Ok [OF assms(2,3)] by simp
qed

text \<open>What setting a label or an annotation does on an API server of the kind \<open>store_kube\<close>: the object
  is read afresh and written back with the one entry set.\<close>

definition with_meta ::
  "('a objmeta_scheme \<Rightarrow> gomap) \<Rightarrow> ('a objmeta_scheme \<Rightarrow> gomap \<Rightarrow> 'a objmeta_scheme) \<Rightarrow> string \<Rightarrow> string \<Rightarrow>
   'a objmeta_scheme \<Rightarrow> 'a objmeta_scheme" where
  "with_meta gm sm key value r =
     sm r (Some ((case gm r of None \<Rightarrow> Map.empty | Some m \<Rightarrow> m)(key \<mapsto> value)))"

abbreviation with_label :: "string \<Rightarrow> string \<Rightarrow> 'a objmeta_scheme \<Rightarrow> 'a objmeta_scheme" where
  "with_label \<equiv> with_meta m_labels set_labels"

abbreviation with_annotation :: "string \<Rightarrow> string \<Rightarrow> 'a objmeta_scheme \<Rightarrow> 'a objmeta_scheme" where
  "with_annotation \<equiv> with_meta m_annotations set_annotations"

lemma with_label_update:
  "with_label key v r =
     r\<lparr>m_labels := Some ((case m_labels r of None \<Rightarrow> Map.empty | Some m \<Rightarrow> m)(key \<mapsto> v))\<rparr>"
  by (simp add: with_meta_def set_labels_def)

lemma with_meta_lookup:
  "lawful_accessors gm sm \<Longrightarrow> gm_lookup (gm (with_meta gm sm key value r)) k =
     (if k = key then Some value else gm_lookup (gm r) k)"
  by (cases "gm r") (simp_all add: with_meta_def lawful_get_set)

lemmas with_label_lookup [simp] = with_meta_lookup [OF lawful_labels]
lemmas with_annotation_lookup [simp] = with_meta_lookup [OF lawful_annotations]

lemma with_meta_name: "lawful_accessors gm sm \<Longrightarrow> nsname_of (with_meta gm sm key value r) = nsname_of r"
  by (simp add: with_meta_def lawful_nsname)

lemmas with_label_name [simp] = with_meta_name [OF lawful_labels]
lemmas with_annotation_name [simp] = with_meta_name [OF lawful_annotations]

lemma with_meta_same:
  "lawful_accessors gm sm \<Longrightarrow> gm_lookup (gm r) key = Some value \<Longrightarrow> with_meta gm sm key value r = r"
  by (cases r; cases "gm r")
    (auto simp: with_meta_def lawful_accessors_def set_labels_def set_annotations_def fun_upd_idem)

lemmas with_label_same = with_meta_same [OF lawful_labels]

lemma patchMetadata_store_run:
  assumes "lawful_accessors gm sm" and "rd w (nsname_of r) = Some cur" and "nsname_of cur = nsname_of r"
  shows "patchMetadata (store_kube rd wr) key v gm sm (r, w) =
    (Ok (), (with_meta gm sm key v cur,
       if gm_lookup (gm cur) key = Some v then w
       else wr (nsname_of r) (with_meta gm sm key v cur) w))"
proof -
  have get: "store_get rd (nsname_of r) (r, w) = (Ok (), (cur, w))"
    using assms(2) by (simp add: store_get_def)
  have name: "nsname_of (with_meta gm sm key v cur) = nsname_of r"
    using with_meta_name [OF assms(1)] assms(3) by metis
  show ?thesis
    using with_meta_same [OF assms(1), of cur key v] name
    by (simp add: patchMetadata_def go_catch_def patch_attempt_run get store_patch_def
        go_ret_def numeral_3_eq_3 with_meta_def [symmetric])
qed

lemmas PatchLabels_store_run =
  patchMetadata_store_run [OF lawful_labels, folded PatchLabels_def]
lemmas PatchAnnotations_store_run =
  patchMetadata_store_run [OF lawful_annotations, folded PatchAnnotations_def]

text \<open>A missing object is a conflict, and nothing else happens.\<close>

lemma patchMetadata_store_missing:
  assumes "rd w (nsname_of r) = None"
  shows "patchMetadata (store_kube rd wr) key v gm sm (r, w) =
    (Fail (errors_New conflict_or_not_found), (r, w))"
  using assms
  by (simp add: patchMetadata_def go_catch_def patch_attempt_run store_get_def go_fail_def
      numeral_3_eq_3 IsConflict_def IsNotFound_def)

section \<open>The interface\<close>

text \<open>What the callers of the package rely on, for the map \<open>gm\<close> an operation patches: an error is
  never the API server's own conflict or not-found error, and after a success the object holds the
  value (the first law needs nothing of the client, the second its documented behaviour).\<close>

locale metadata_patcher =
  fixes patch :: "('a objmeta_scheme, 'w) kube \<Rightarrow> string \<Rightarrow> string \<Rightarrow> ('a objmeta_scheme \<times> 'w, unit) go"
    and gm :: "'a objmeta_scheme \<Rightarrow> gomap"
  assumes error_normal:
      "patch k key value s = (Fail e, s') \<Longrightarrow> \<not> IsConflict e \<and> \<not> IsNotFound e"
    and patched:
      "retry_documented k sleep \<Longrightarrow> kube_documented k \<Longrightarrow>
       patch k key value s = (Ok u, (r', w')) \<Longrightarrow> gm_lookup (gm r') key = Some value"
begin

lemma patched_index:
  assumes "retry_documented k sleep" and "kube_documented k"
    and "patch k key value s = (Ok u, (r', w'))"
  shows "gm_index (gm r') key = value"
  using patched [OF assms] by (simp add: gm_index_Some)

end

interpretation annotations: metadata_patcher PatchAnnotations m_annotations
proof unfold_locales
  show "\<not> IsConflict e \<and> \<not> IsNotFound e"
    if "PatchAnnotations k key v s = (Fail e, s')" for k :: "('a objmeta_scheme, 'b) kube" and key v s e s'
    using that by (auto simp: PatchAnnotations_def patchMetadata_Fail split: if_splits)
  show "gm_lookup (m_annotations r') key = Some v"
    if "retry_documented k sleep" "kube_documented k"
      "PatchAnnotations k key v s = (Ok u, (r', w'))"
    for k :: "('a objmeta_scheme, 'b) kube" and sleep key v s u r' w'
    using that(3) unfolding PatchAnnotations_def
    by (rule patchMetadata_success [OF that(1,2) lawful_annotations])
qed

interpretation labels: metadata_patcher PatchLabels m_labels
proof unfold_locales
  show "\<not> IsConflict e \<and> \<not> IsNotFound e"
    if "PatchLabels k key v s = (Fail e, s')" for k :: "('a objmeta_scheme, 'b) kube" and key v s e s'
    using that by (auto simp: PatchLabels_def patchMetadata_Fail split: if_splits)
  show "gm_lookup (m_labels r') key = Some v"
    if "retry_documented k sleep" "kube_documented k"
      "PatchLabels k key v s = (Ok u, (r', w'))"
    for k :: "('a objmeta_scheme, 'b) kube" and sleep key v s u r' w'
    using that(3) unfolding PatchLabels_def
    by (rule patchMetadata_success [OF that(1,2) lawful_labels])
qed

end
