(* ===== verification/Base64.thy ===== *)
theory Base64 imports GoCore begin

text \<open>
  The standard encoding of \<open>encoding/base64\<close> (\<open>StdEncoding\<close>, with padding): \<open>EncodeToString\<close> and
  \<open>DecodeString\<close>. The signature a payload signer makes is stored in base64, and the Rekor wrapper
  decodes it again; \<open>b64_roundtrip\<close> is what makes the two agree.

  The two characters beyond letters and digits are plus (43) and slash (47).
  The decoder skips carriage returns and newlines and ignores the unused low bits of the last
  character, as Go's does. The error's text does not give the offset of the bad byte.
\<close>

definition enc6 :: "nat \<Rightarrow> char" where
  "enc6 n =
     (if n < 26 then char_of (65 + n)
      else if n < 52 then char_of (97 + (n - 26))
      else if n < 62 then char_of (48 + (n - 52))
      else if n = 62 then char_of (43 :: nat) else char_of (47 :: nat))"

definition dec6 :: "char \<Rightarrow> nat option" where
  "dec6 c =
     (let k = of_char c :: nat in
      if 65 \<le> k \<and> k \<le> 90 then Some (k - 65)
      else if 97 \<le> k \<and> k \<le> 122 then Some (k - 97 + 26)
      else if 48 \<le> k \<and> k \<le> 57 then Some (k - 48 + 52)
      else if k = 43 then Some 62
      else if k = 47 then Some 63
      else None)"

fun b64_encode :: "bytes \<Rightarrow> string" where
  "b64_encode [] = []"
| "b64_encode [a] =
     (let n = of_char a :: nat in [enc6 (n div 4), enc6 (n mod 4 * 16), CHR ''='', CHR ''=''])"
| "b64_encode [a, b] =
     (let n = of_char a :: nat; m = of_char b :: nat
      in [enc6 (n div 4), enc6 (n mod 4 * 16 + m div 16), enc6 (m mod 16 * 4), CHR ''=''])"
| "b64_encode (a # b # c # rest) =
     (let n = of_char a :: nat; m = of_char b :: nat; k = of_char c :: nat
      in enc6 (n div 4) # enc6 (n mod 4 * 16 + m div 16) # enc6 (m mod 16 * 4 + k div 64)
         # enc6 (k mod 64) # b64_encode rest)"

definition b64_corrupt :: goerr where
  "b64_corrupt = errors_New ''illegal base64 data''"

fun b64_quads :: "string \<Rightarrow> goerr + bytes" where
  "b64_quads [] = Inr []"
| "b64_quads (a # b # c # d # rest) =
     (case (dec6 a, dec6 b) of
        (Some x, Some y) \<Rightarrow>
          if c = CHR ''='' \<and> d = CHR ''='' \<and> rest = [] then Inr [char_of (x * 4 + y div 16)]
          else (case dec6 c of
            None \<Rightarrow> Inl b64_corrupt
          | Some z \<Rightarrow>
              if d = CHR ''='' \<and> rest = []
              then Inr [char_of (x * 4 + y div 16), char_of (y mod 16 * 16 + z div 4)]
              else (case dec6 d of
                None \<Rightarrow> Inl b64_corrupt
              | Some v \<Rightarrow>
                  (case b64_quads rest of
                     Inl e \<Rightarrow> Inl e
                   | Inr bs \<Rightarrow>
                       Inr (char_of (x * 4 + y div 16) # char_of (y mod 16 * 16 + z div 4)
                            # char_of (z mod 4 * 64 + v) # bs))))
      | other \<Rightarrow> Inl b64_corrupt)"
| "b64_quads other = Inl b64_corrupt"

definition b64_decode :: "string \<Rightarrow> goerr + bytes" where
  "b64_decode s = b64_quads (filter (\<lambda>c. c \<noteq> CHR 0x0A \<and> c \<noteq> CHR 0x0D) s)"

section \<open>Round trip\<close>

lemma of_char_bound: "of_char c < (256 :: nat)"
  by (metis of_char_mod_256 mod_less_divisor zero_less_numeral)

lemma of_char_enc6:
  assumes "n < 64"
  shows "(of_char (enc6 n) :: nat) =
    (if n < 26 then 65 + n else if n < 52 then 71 + n else if n < 62 then n - 4
     else if n = 62 then 43 else 47)"
  using assms by (simp add: enc6_def)

lemma dec6_enc6 [simp]: "n < 64 \<Longrightarrow> dec6 (enc6 n) = Some n"
  by (auto simp: dec6_def of_char_enc6 Let_def)

lemma enc6_not_special:
  assumes "n < 64" and "(of_char c :: nat) \<in> {10, 13, 61}"
  shows "enc6 n \<noteq> c"
  using of_char_enc6 [OF assms(1)] assms(2) by (auto split: if_splits)

lemma enc6_special [simp]:
  assumes "n < 64"
  shows "enc6 n \<noteq> CHR ''=''" "enc6 n \<noteq> CHR 0x0A" "enc6 n \<noteq> CHR 0x0D"
  by (rule enc6_not_special [OF assms], simp)+

lemma div_small [simp]:
  fixes c :: char
  shows "of_char c div 4 < (64 :: nat)"
    "of_char c div 16 div 16 = (0 :: nat)" "of_char c div 16 mod 16 = (of_char c div 16 :: nat)"
    "of_char c div 64 div 4 = (0 :: nat)" "of_char c div 64 mod 4 = (of_char c div 64 :: nat)"
  using of_char_bound [of c] by (simp_all add: less_mult_imp_div_less)

lemma mod_join [simp]:
  fixes n :: nat and c :: char
  shows "n mod 4 * 16 + of_char c div 16 < 64" "n mod 16 * 4 + of_char c div 64 < 64"
    "n mod 4 * 16 < 64" "n mod 16 * 4 < 64" "n mod 64 < 64"
proof -
  have "n mod 4 \<le> 3" "n mod 16 \<le> 15" using mod_less_divisor [of 4 n] mod_less_divisor [of 16 n]
    by linarith+
  moreover have "of_char c div 16 < (16 :: nat)" "of_char c div 64 < (4 :: nat)"
    using of_char_bound [of c] by (simp_all add: less_mult_imp_div_less)
  ultimately show "n mod 4 * 16 + of_char c div 16 < 64" "n mod 16 * 4 + of_char c div 64 < 64"
    "n mod 4 * 16 < 64" "n mod 16 * 4 < 64" "n mod 64 < 64"
    by simp_all
qed

lemma b64_encode_no_newline:
  "filter (\<lambda>c. c \<noteq> CHR 0x0A \<and> c \<noteq> CHR 0x0D) (b64_encode bs) = b64_encode bs"
  by (induction bs rule: b64_encode.induct) (simp_all add: Let_def)

lemma b64_quads_encode: "b64_quads (b64_encode bs) = Inr bs"
  by (induction bs rule: b64_encode.induct) (simp_all add: Let_def)

lemma b64_roundtrip [simp]: "b64_decode (b64_encode bs) = Inr bs"
  by (simp only: b64_decode_def b64_encode_no_newline b64_quads_encode)

lemma b64_encode_inject: "b64_encode a = b64_encode b \<longleftrightarrow> a = b"
  by (metis b64_roundtrip sum.inject(2))

lemma b64_encode_length: "length (b64_encode bs) = 4 * ((length bs + 2) div 3)"
proof (induction bs rule: b64_encode.induct)
  case (4 a b c rest)
  have "(length (a # b # c # rest) + 2) div 3 = Suc ((length rest + 2) div 3)" by simp
  with 4 show ?case by (simp add: Let_def)
qed (simp_all add: Let_def)

end
