(* ===== verification/CosignSigner.thy ===== *)
theory CosignSigner imports Base64 begin

text \<open>
  The interface \<open>cosign.Signer\<close> of \<open>pkg/signer/internal/pkg/cosign\<close> and the implementations that
  signing composes: the payload signer, the Fulcio wrapper (adds a certificate chain) and the Rekor
  wrapper (uploads to the transparency log and adds the log's bundle).

  A reader \<open>payload io.Reader\<close> is the result of reading it to its end. The values of third-party
  types (\<open>oci.Signature\<close>, public keys, certificates, clients, bundles) are opaque, of type \<open>'h\<close>, and
  the third-party functions the code calls on them are the fields of \<open>cosign_env\<close>, over the world
  \<open>'w\<close> when they have effects.
\<close>

text \<open>An option value of the sigstore library: which option interfaces it implements.\<close>

record sigopt =
  so_is_SignOption :: bool
  so_is_PublicKeyOption :: bool
  so_id :: string

type_synonym reader = "goerr + bytes"

text \<open>A \<open>sign.SignerVerifier\<close>: the embedded signer, nil when it was never set, and the PEM bytes of its
  certificate and chain, nil when there is none.\<close>

record 'h signer_verifier =
  sv_SignerVerifier :: "'h option"
  sv_Cert :: "bytes option"
  sv_Chain :: "bytes option"

record ('h, 'w) cosign_env =
  ce_WithContext :: sigopt
  ce_SignMessage :: "'h \<Rightarrow> sigopt list \<Rightarrow> bytes \<Rightarrow> ('w, bytes) go"
  ce_PublicKey :: "'h \<Rightarrow> sigopt list \<Rightarrow> ('w, 'h) go"
  ce_static_NewSignature :: "bytes \<Rightarrow> string \<Rightarrow> goerr + 'h"
  ce_mutate_WithCertChain :: "'h \<Rightarrow> bytes option \<Rightarrow> bytes option \<Rightarrow> goerr + 'h"
  ce_mutate_WithBundle :: "'h \<Rightarrow> 'h \<Rightarrow> goerr + 'h"
  ce_sig_Payload :: "'h \<Rightarrow> goerr + bytes"
  ce_sig_Base64Signature :: "'h \<Rightarrow> goerr + string"
  ce_sig_Cert :: "'h \<Rightarrow> goerr + 'h option"
  ce_MarshalCertificateToPEM :: "'h \<Rightarrow> goerr + bytes"
  ce_MarshalPublicKeyToPEM :: "'h \<Rightarrow> goerr + bytes"
  ce_TLogUpload :: "'h \<Rightarrow> bytes \<Rightarrow> bytes \<Rightarrow> bytes \<Rightarrow> ('w, 'h) go"
  ce_EntryToBundle :: "'h \<Rightarrow> 'h"

text \<open>A method call on a nil embedded interface.\<close>

definition nil_dereference :: string where
  "nil_dereference = ''invalid memory address or nil pointer dereference''"

definition sv_call :: "'h signer_verifier \<Rightarrow> ('h \<Rightarrow> ('w, 'a) go) \<Rightarrow> ('w, 'a) go" where
  "sv_call sv f = (case sv_SignerVerifier sv of None \<Rightarrow> go_panic nil_dereference | Some h \<Rightarrow> f h)"

section \<open>The payload signer\<close>

record 'h payload_signer =
  ps_payloadSigner :: "'h signer_verifier"
  ps_payloadSignerOpts :: "sigopt list"
  ps_publicKeyProviderOpts :: "sigopt list"

definition payload_publicKey ::
  "('h, 'w, 'z) cosign_env_scheme \<Rightarrow> 'h payload_signer \<Rightarrow> ('w, 'h) go" where
  "payload_publicKey env ps =
     sv_call (ps_payloadSigner ps)
       (\<lambda>h. ce_PublicKey env h (ce_WithContext env # ps_publicKeyProviderOpts ps))"

definition payload_signPayload ::
  "('h, 'w, 'z) cosign_env_scheme \<Rightarrow> 'h payload_signer \<Rightarrow> bytes \<Rightarrow> ('w, bytes) go" where
  "payload_signPayload env ps payloadBytes =
     sv_call (ps_payloadSigner ps)
       (\<lambda>h. ce_SignMessage env h (ce_WithContext env # ps_payloadSignerOpts ps) payloadBytes)"

definition payload_Sign ::
  "('h, 'w, 'z) cosign_env_scheme \<Rightarrow> 'h payload_signer \<Rightarrow> reader \<Rightarrow> ('w, 'h \<times> 'h) go" where
  "payload_Sign env ps payload =
     go_bind (go_of payload) (\<lambda>payloadBytes.
     go_bind (payload_signPayload env ps payloadBytes) (\<lambda>sig.
     go_bind (payload_publicKey env ps) (\<lambda>pk.
     go_bind (go_of (ce_static_NewSignature env payloadBytes (b64_encode sig))) (\<lambda>ociSig.
     go_ret (ociSig, pk)))))"

text \<open>\<open>newSigner\<close>: the type switch takes the first interface an option implements, and panics on an
  option that implements neither.\<close>

fun split_opts :: "sigopt list \<Rightarrow> string + sigopt list \<times> sigopt list" where
  "split_opts [] = Inr ([], [])"
| "split_opts (opt # opts) =
     (if so_is_SignOption opt then
        (case split_opts opts of Inl p \<Rightarrow> Inl p | Inr (ss, ks) \<Rightarrow> Inr (opt # ss, ks))
      else if so_is_PublicKeyOption opt then
        (case split_opts opts of Inl p \<Rightarrow> Inl p | Inr (ss, ks) \<Rightarrow> Inr (ss, opt # ks))
      else Inl (''options must be of type `signature.SignOption` or `signature.PublicKeyOption`. Got a ''
                  @ so_id opt))"

definition payload_newSigner ::
  "'h signer_verifier \<Rightarrow> sigopt list \<Rightarrow> ('w, 'h payload_signer) go" where
  "payload_newSigner s opts =
     (case split_opts opts of
        Inl p \<Rightarrow> go_panic p
      | Inr (sOpts, pkOpts) \<Rightarrow>
          go_ret \<lparr>ps_payloadSigner = s, ps_payloadSignerOpts = sOpts,
            ps_publicKeyProviderOpts = pkOpts\<rparr>)"

section \<open>The wrappers\<close>

definition fulcio_Sign ::
  "('h, 'w, 'z) cosign_env_scheme \<Rightarrow> (reader \<Rightarrow> ('w, 'h \<times> 'h) go) \<Rightarrow> bytes option \<Rightarrow> bytes option \<Rightarrow>
   reader \<Rightarrow> ('w, 'h \<times> 'h) go" where
  "fulcio_Sign env inner_Sign cert chain payload =
     go_bind (inner_Sign payload) (\<lambda>(sig, pub).
     go_bind (go_of (ce_mutate_WithCertChain env sig cert chain)) (\<lambda>newSig.
     go_ret (newSig, pub)))"

definition rekor_uploadToTlog ::
  "('h, 'w, 'z) cosign_env_scheme \<Rightarrow> bytes \<Rightarrow> 'h \<Rightarrow> ('h \<Rightarrow> bytes \<Rightarrow> ('w, 'h) go) \<Rightarrow> ('w, 'h) go" where
  "rekor_uploadToTlog env rekorBytes rClient upload =
     go_bind (upload rClient rekorBytes) (\<lambda>entry. go_ret (ce_EntryToBundle env entry))"

text \<open>The upload hashes the signature's payload: \<open>ce_TLogUpload\<close> takes the bytes written to the
  SHA-256 hash.\<close>

definition rekor_Sign ::
  "('h, 'w, 'z) cosign_env_scheme \<Rightarrow> (reader \<Rightarrow> ('w, 'h \<times> 'h) go) \<Rightarrow> 'h \<Rightarrow>
   reader \<Rightarrow> ('w, 'h \<times> 'h) go" where
  "rekor_Sign env inner_Sign rClient payload =
     go_bind (inner_Sign payload) (\<lambda>(sig, pub).
     go_bind (go_of (ce_sig_Payload env sig)) (\<lambda>payloadBytes.
     go_bind (go_of (ce_sig_Base64Signature env sig)) (\<lambda>b64Sig.
     go_bind (go_of (b64_decode b64Sig)) (\<lambda>sigBytes.
     go_bind (go_of (ce_sig_Cert env sig)) (\<lambda>cert.
     go_bind (go_of (case cert of
         Some c \<Rightarrow> ce_MarshalCertificateToPEM env c
       | None \<Rightarrow> ce_MarshalPublicKeyToPEM env pub)) (\<lambda>rekorBytes.
     go_bind (rekor_uploadToTlog env rekorBytes rClient
         (\<lambda>r b. ce_TLogUpload env r sigBytes payloadBytes b)) (\<lambda>bundle.
     go_bind (go_of (ce_mutate_WithBundle env sig bundle)) (\<lambda>newSig.
     go_ret (newSig, pub)))))))))"

section \<open>The constructors\<close>

text \<open>A \<open>cosign.Signer\<close> is its method \<open>Sign\<close>, so a constructor returns the method of the value it
  makes.\<close>

type_synonym ('h, 'w) cosign_signer = "reader \<Rightarrow> ('w, 'h \<times> 'h) go"

definition payload_NewSigner ::
  "('h, 'w, 'z) cosign_env_scheme \<Rightarrow> 'h signer_verifier \<Rightarrow> sigopt list \<Rightarrow>
   ('w, ('h, 'w) cosign_signer) go" where
  "payload_NewSigner env s opts =
     go_bind (payload_newSigner s opts) (\<lambda>signer. go_ret (payload_Sign env signer))"

definition fulcio_NewSigner ::
  "('h, 'w, 'z) cosign_env_scheme \<Rightarrow> ('h, 'w) cosign_signer \<Rightarrow> bytes option \<Rightarrow> bytes option \<Rightarrow>
   ('h, 'w) cosign_signer" where
  "fulcio_NewSigner env inner cert chain = fulcio_Sign env inner cert chain"

definition rekor_NewSigner ::
  "('h, 'w, 'z) cosign_env_scheme \<Rightarrow> ('h, 'w) cosign_signer \<Rightarrow> 'h \<Rightarrow> ('h, 'w) cosign_signer" where
  "rekor_NewSigner env inner rClient = rekor_Sign env inner rClient"

declare fulcio_NewSigner_def [simp] rekor_NewSigner_def [simp]

section \<open>The interface\<close>

text \<open>The documented behaviour of the \<open>oci.Signature\<close> values: a static signature returns the payload
  and signature it was made of, and the mutators keep both.\<close>

definition oci_documented :: "('h, 'w, 'z) cosign_env_scheme \<Rightarrow> bool" where
  "oci_documented env \<longleftrightarrow>
     (\<forall>p b s. ce_static_NewSignature env p b = Inr s \<longrightarrow>
        ce_sig_Payload env s = Inr p \<and> ce_sig_Base64Signature env s = Inr b) \<and>
     (\<forall>s c ch s'. ce_mutate_WithCertChain env s c ch = Inr s' \<longrightarrow>
        ce_sig_Payload env s' = ce_sig_Payload env s \<and>
        ce_sig_Base64Signature env s' = ce_sig_Base64Signature env s) \<and>
     (\<forall>s b s'. ce_mutate_WithBundle env s b = Inr s' \<longrightarrow>
        ce_sig_Payload env s' = ce_sig_Payload env s \<and>
        ce_sig_Base64Signature env s' = ce_sig_Base64Signature env s)"

text \<open>What a caller of \<open>Sign\<close> relies on. \<open>signed_by env sv p sig\<close> says that \<open>sig\<close> is a
  signature the underlying key made over \<open>p\<close>.\<close>

definition signed_by ::
  "('h, 'w, 'z) cosign_env_scheme \<Rightarrow> 'h signer_verifier \<Rightarrow> bytes \<Rightarrow> bytes \<Rightarrow> bool" where
  "signed_by env sv p sig \<longleftrightarrow>
     (\<exists>h opts w w'. sv_SignerVerifier sv = Some h \<and> ce_SignMessage env h opts p w = (Ok sig, w'))"

locale faithful_signer =
  fixes env :: "('h, 'w, 'z) cosign_env_scheme"
    and sv :: "'h signer_verifier"
    and Sign :: "reader \<Rightarrow> ('w, 'h \<times> 'h) go"
  assumes unreadable_not_signed: "Sign (Inl e) w \<noteq> (Ok x, w')"
    and faithful:
      "oci_documented env \<Longrightarrow> Sign (Inr p) w = (Ok (s, pk), w') \<Longrightarrow>
       ce_sig_Payload env s = Inr p \<and>
       (\<exists>sig. ce_sig_Base64Signature env s = Inr (b64_encode sig) \<and> signed_by env sv p sig)"
begin

lemma wrapped_by_fulcio: "faithful_signer env sv (fulcio_Sign env Sign cert chain)"
proof unfold_locales
  show "fulcio_Sign env Sign cert chain (Inl e) w \<noteq> (Ok x, w')" for e w x w'
    by (auto simp: fulcio_Sign_def go_inv unreadable_not_signed)
next
  fix p w s pk w'
  assume doc: "oci_documented env"
    and run: "fulcio_Sign env Sign cert chain (Inr p) w = (Ok (s, pk), w')"
  from run obtain s0 w1 where inner: "Sign (Inr p) w = (Ok (s0, pk), w1)"
    and s: "ce_mutate_WithCertChain env s0 cert chain = Inr s"
    by (auto simp: fulcio_Sign_def go_inv)
  have "ce_sig_Payload env s = ce_sig_Payload env s0 \<and>
      ce_sig_Base64Signature env s = ce_sig_Base64Signature env s0"
    using doc s unfolding oci_documented_def by blast
  with faithful [OF doc inner]
  show "ce_sig_Payload env s = Inr p \<and>
      (\<exists>sig. ce_sig_Base64Signature env s = Inr (b64_encode sig) \<and> signed_by env sv p sig)"
    by simp
qed

lemma wrapped_by_rekor: "faithful_signer env sv (rekor_Sign env Sign rClient)"
proof unfold_locales
  show "rekor_Sign env Sign rClient (Inl e) w \<noteq> (Ok x, w')" for e w x w'
    by (auto simp: rekor_Sign_def go_inv unreadable_not_signed)
next
  fix p w s pk w'
  assume doc: "oci_documented env"
    and run: "rekor_Sign env Sign rClient (Inr p) w = (Ok (s, pk), w')"
  from run obtain s0 w1 bdl where inner: "Sign (Inr p) w = (Ok (s0, pk), w1)"
    and s: "ce_mutate_WithBundle env s0 bdl = Inr s"
    by (auto simp: rekor_Sign_def go_inv)
  have "ce_sig_Payload env s = ce_sig_Payload env s0 \<and>
      ce_sig_Base64Signature env s = ce_sig_Base64Signature env s0"
    using doc s unfolding oci_documented_def by blast
  with faithful [OF doc inner]
  show "ce_sig_Payload env s = Inr p \<and>
      (\<exists>sig. ce_sig_Base64Signature env s = Inr (b64_encode sig) \<and> signed_by env sv p sig)"
    by simp
qed

text \<open>What the Rekor wrapper uploads: the inner signer's own signature, over the same payload.\<close>

lemma rekor_uploads:
  assumes doc: "oci_documented env"
    and run: "rekor_Sign env Sign rClient (Inr p) w = (Ok (s, pk), w')"
  shows "\<exists>sig rekorBytes w1 entry. signed_by env sv p sig \<and>
    ce_sig_Payload env s = Inr p \<and> ce_sig_Base64Signature env s = Inr (b64_encode sig) \<and>
    ce_TLogUpload env rClient sig p rekorBytes w1 = (Ok entry, w') \<and>
    (\<exists>s0. ce_mutate_WithBundle env s0 (ce_EntryToBundle env entry) = Inr s)"
proof -
  from run obtain s0 w1 payloadBytes b64Sig sigBytes rekorBytes entry where
    inner: "Sign (Inr p) w = (Ok (s0, pk), w1)" and
    pl: "ce_sig_Payload env s0 = Inr payloadBytes" and
    b64: "ce_sig_Base64Signature env s0 = Inr b64Sig" "b64_decode b64Sig = Inr sigBytes" and
    up: "ce_TLogUpload env rClient sigBytes payloadBytes rekorBytes w1 = (Ok entry, w')" and
    s: "ce_mutate_WithBundle env s0 (ce_EntryToBundle env entry) = Inr s"
    by (auto simp: rekor_Sign_def rekor_uploadToTlog_def go_inv)
  from faithful [OF doc inner] pl b64 have "payloadBytes = p" "signed_by env sv p sigBytes"
    "ce_sig_Payload env s0 = Inr p" "ce_sig_Base64Signature env s0 = Inr (b64_encode sigBytes)"
    by auto
  moreover have "ce_sig_Payload env s = ce_sig_Payload env s0 \<and>
      ce_sig_Base64Signature env s = ce_sig_Base64Signature env s0"
    using doc s unfolding oci_documented_def by blast
  ultimately show ?thesis using up s by (intro exI conjI) simp_all
qed

end

text \<open>The signers that signing composes read the payload first: when that fails, nothing else happens.\<close>

locale cosign_signer = faithful_signer +
  assumes unreadable: "Sign (Inl e) w = (Fail e, w)"
begin

lemma reads_first_fulcio: "cosign_signer env sv (fulcio_Sign env Sign cert chain)"
  by (intro cosign_signer.intro wrapped_by_fulcio cosign_signer_axioms.intro)
    (simp add: fulcio_Sign_def go_bind_def unreadable)

lemma reads_first_rekor: "cosign_signer env sv (rekor_Sign env Sign rClient)"
  by (intro cosign_signer.intro wrapped_by_rekor cosign_signer_axioms.intro)
    (simp add: rekor_Sign_def go_bind_def unreadable)

end

interpretation payload_signer: cosign_signer env "ps_payloadSigner ps" "payload_Sign env ps"
  for env :: "('h, 'w, 'z) cosign_env_scheme" and ps :: "'h payload_signer"
proof unfold_locales
  show unread: "payload_Sign env ps (Inl e) w = (Fail e, w)" for e w
    by (simp add: payload_Sign_def go_of_Inl go_bind_def)
  then show "payload_Sign env ps (Inl e) w \<noteq> (Ok x, w')" for e w x w'
    by simp
next
  fix p w s pk w'
  assume doc: "oci_documented env"
    and run: "payload_Sign env ps (Inr p) w = (Ok (s, pk), w')"
  from run obtain sig w1 where sig: "payload_signPayload env ps p w = (Ok sig, w1)"
    and s: "ce_static_NewSignature env p (b64_encode sig) = Inr s"
    by (auto simp: payload_Sign_def go_inv)
  have "signed_by env (ps_payloadSigner ps) p sig"
    using sig unfolding signed_by_def payload_signPayload_def sv_call_def
    by (auto simp: go_inv split: option.splits)
  moreover have "ce_sig_Payload env s = Inr p \<and> ce_sig_Base64Signature env s = Inr (b64_encode sig)"
    using doc s unfolding oci_documented_def by blast
  ultimately show "ce_sig_Payload env s = Inr p \<and>
      (\<exists>sig. ce_sig_Base64Signature env s = Inr (b64_encode sig) \<and>
        signed_by env (ps_payloadSigner ps) p sig)"
    by blast
qed

interpretation keyless_signer: cosign_signer env "ps_payloadSigner ps"
    "fulcio_Sign env (payload_Sign env ps) cert chain"
  for env :: "('h, 'w, 'z) cosign_env_scheme" and ps :: "'h payload_signer" and cert chain
  by (rule payload_signer.reads_first_fulcio)

end
