(* ===== verification/Registry.thy ===== *)
theory Registry imports CosignSigner begin

text \<open>
  Image references and the options for talking to a registry: \<open>pkg/auth\<close>'s
  \<open>GetRemoteOptsWithKeychain\<close> and \<open>pkg/signer/cosignauth\<close>.

  A \<open>name.Reference\<close> of go-containerregistry is the record of what the source asks of it; its dynamic
  type is \<open>name.Digest\<close> exactly when \<open>ref_Digest\<close> is \<open>Some\<close>. Parsing is the library's
  (\<open>rg_ParseReference\<close>).
\<close>

record reference =
  ref_RegistryStr :: string
  ref_RepositoryStr :: string
  ref_Repository :: string
  ref_Identifier :: string
  ref_Digest :: "string option"

record ('h, 'w) registry_env = "('h, 'w) cosign_env" +
  rg_ParseReference :: "string \<Rightarrow> goerr + reference"
  rg_WithContext :: 'h
  rg_WithAuthFromKeychain :: "'h option \<Rightarrow> 'h"
  rg_NewPuller :: "'h list \<Rightarrow> ('w, 'h) go"
  rg_NewPusher :: "'h list \<Rightarrow> ('w, 'h) go"
  rg_Reuse :: "'h \<Rightarrow> 'h"
  rg_WithRemoteOptions :: "'h list \<Rightarrow> 'h"

definition GetRemoteOptsWithKeychain ::
  "('h, 'w, 'z) registry_env_scheme \<Rightarrow> 'h option \<Rightarrow> ('w, 'h list) go" where
  "GetRemoteOptsWithKeychain env keychain =
     go_bind (go_ret [rg_WithContext env, rg_WithAuthFromKeychain env keychain]) (\<lambda>opts.
     go_bind (go_catch (rg_NewPuller env opts) (\<lambda>err. go_ret opts)
        (\<lambda>puller. go_ret (opts @ [rg_Reuse env puller]))) (\<lambda>opts.
     go_catch (rg_NewPusher env opts) (\<lambda>err. go_ret opts)
        (\<lambda>pusher. go_ret (opts @ [rg_Reuse env pusher]))))"

definition CosignRemoteAuthOptsWithKeyChain ::
  "('h, 'w, 'z) registry_env_scheme \<Rightarrow> 'h option \<Rightarrow> ('w, 'h list) go" where
  "CosignRemoteAuthOptsWithKeyChain env keychain =
     go_bind (GetRemoteOptsWithKeychain env keychain) (\<lambda>opts.
       let remoteOpts = [rg_WithRemoteOptions env opts]
       in if length remoteOpts = 0 then go_fail (errors_New ''no auth mechanisms configured'')
          else go_ret remoteOpts)"

lemma GetRemoteOptsWithKeychain_no_Fail: "GetRemoteOptsWithKeychain env kc w \<noteq> (Fail e, w')"
  by (simp add: GetRemoteOptsWithKeychain_def go_bind_def go_catch_def go_ret_def
      split: prod.splits result.splits)

lemma CosignRemoteAuthOptsWithKeyChain_no_Fail:
  "CosignRemoteAuthOptsWithKeyChain env kc w \<noteq> (Fail e, w')"
  using GetRemoteOptsWithKeychain_no_Fail [of env kc w e w']
  by (auto simp: CosignRemoteAuthOptsWithKeyChain_def go_inv)

lemma GetRemoteOptsWithKeychain_Ok:
  assumes "GetRemoteOptsWithKeychain env kc w = (Ok opts, w')"
  shows "prefix [rg_WithContext env, rg_WithAuthFromKeychain env kc] opts \<and> length opts \<le> 4"
  using assms by (auto simp: GetRemoteOptsWithKeychain_def go_inv)

lemma CosignRemoteAuthOptsWithKeyChain_Ok:
  "CosignRemoteAuthOptsWithKeyChain env kc w = (Ok ro, w') \<longleftrightarrow>
     (\<exists>opts. GetRemoteOptsWithKeychain env kc w = (Ok opts, w') \<and>
        ro = [rg_WithRemoteOptions env opts])"
  by (auto simp: CosignRemoteAuthOptsWithKeyChain_def go_inv)

end
