(* ===== verification/Config.thy ===== *)
theory Config imports GoCore begin

text \<open>
  The package \<open>pkg/config\<close>: the controller's settings, read from the data of its config map.

  \<open>'h\<close> is the type of the opaque values of third-party libraries that the program only hands on (a
  keychain here). The default transparency URL is cosign's constant \<open>options.DefaultRekorURL\<close>, a
  parameter.
\<close>

definition signerKey :: string where "signerKey = ''artifacts.signer''"
definition SecretSigner :: string where "SecretSigner = ''cosign''"
definition KmsSigner :: string where "KmsSigner = ''kms''"
definition FulcioSigner :: string where "FulcioSigner = ''fulcio''"
definition kmsURLKey :: string where "kmsURLKey = ''kms.kmsref''"
definition transparencyKey :: string where "transparencyKey = ''signer.transparency.enabled''"
definition transparencyURLKey :: string where "transparencyURLKey = ''signer.transparency.url''"
definition sbomGenerationKey :: string where "sbomGenerationKey = ''sbom.generation.enabled''"

lemmas config_constants = signerKey_def SecretSigner_def KmsSigner_def FulcioSigner_def
  kmsURLKey_def transparencyKey_def transparencyURLKey_def sbomGenerationKey_def

record 'h config =
  cfg_AuthKeyChain :: "'h option"
  cfg_SignerType :: string
  cfg_KmsURL :: string
  cfg_Transparency :: bool
  cfg_TransparencyURL :: string
  cfg_SbomGeneration :: bool

definition config_New :: "string \<Rightarrow> (string \<rightharpoonup> string) \<Rightarrow> 'h config" where
  "config_New defaultTransparencyURL configData =
     (let signer = (case configData signerKey of None \<Rightarrow> SecretSigner | Some s \<Rightarrow> s);
          kmsURL = (case configData kmsURLKey of None \<Rightarrow> '''' | Some kmsRef \<Rightarrow> kmsRef);
          transparency = (case configData transparencyKey of
             None \<Rightarrow> False | Some t \<Rightarrow> ToLower t = ''true'');
          transparencyURL = (case configData transparencyURLKey of
             None \<Rightarrow> defaultTransparencyURL
           | Some u \<Rightarrow> if u \<noteq> '''' then u else defaultTransparencyURL);
          sbomGeneration = (case configData sbomGenerationKey of
             None \<Rightarrow> False | Some t \<Rightarrow> ToLower t = ''true'')
      in \<lparr>cfg_AuthKeyChain = None, cfg_SignerType = signer, cfg_KmsURL = kmsURL,
          cfg_Transparency = transparency, cfg_TransparencyURL = transparencyURL,
          cfg_SbomGeneration = sbomGeneration\<rparr>)"

text \<open>The settings are switched on by any capitalisation of \<open>true\<close>, and by nothing else.\<close>

lemma lower_char_code:
  "(of_char (lower_char c) :: nat) =
     (if 65 \<le> (of_char c :: nat) \<and> of_char c \<le> (90 :: nat) then of_char c + 32 else of_char c)"
  by (simp add: lower_char_def Let_def)

lemma lower_code_eq:
  fixes x d :: nat
  assumes "97 \<le> d" and "d \<le> 122"
  shows "(if 65 \<le> x \<and> x \<le> 90 then x + 32 else x) = d \<longleftrightarrow> x = d \<or> x = d - 32"
  using assms by auto

lemma lower_char_eq:
  assumes "97 \<le> (of_char d :: nat)" and "of_char d \<le> (122 :: nat)"
    and "(of_char u :: nat) = of_char d - 32"
  shows "lower_char c = d \<longleftrightarrow> c = d \<or> c = u"
proof -
  have "lower_char c = d \<longleftrightarrow> (of_char (lower_char c) :: nat) = of_char d"
    by simp
  also have "\<dots> \<longleftrightarrow> (of_char c :: nat) = of_char d \<or> (of_char c :: nat) = of_char d - 32"
    unfolding lower_char_code by (rule lower_code_eq [OF assms(1,2)])
  also have "\<dots> \<longleftrightarrow> c = d \<or> c = u"
    unfolding assms(3) [symmetric] by simp
  finally show ?thesis .
qed

lemmas lower_char_true =
  lower_char_eq [of "CHR ''t''" "CHR ''T''", simplified]
  lower_char_eq [of "CHR ''r''" "CHR ''R''", simplified]
  lower_char_eq [of "CHR ''u''" "CHR ''U''", simplified]
  lower_char_eq [of "CHR ''e''" "CHR ''E''", simplified]

lemma ToLower_true:
  "ToLower s = ''true'' \<longleftrightarrow>
     (\<exists>a b c d. s = [a, b, c, d] \<and> a \<in> {CHR ''t'', CHR ''T''} \<and> b \<in> {CHR ''r'', CHR ''R''} \<and>
        c \<in> {CHR ''u'', CHR ''U''} \<and> d \<in> {CHR ''e'', CHR ''E''})"
proof -
  have "ToLower s = ''true'' \<longleftrightarrow>
     (\<exists>a b c d. s = [a, b, c, d] \<and> lower_char a = CHR ''t'' \<and> lower_char b = CHR ''r'' \<and>
        lower_char c = CHR ''u'' \<and> lower_char d = CHR ''e'')"
    unfolding ToLower_def map_eq_Cons_conv map_is_Nil_conv by blast
  then show ?thesis
    by (simp only: lower_char_true insert_iff empty_iff simp_thms)
qed

end
