(* ===== verification/Sign.thy ===== *)
theory Sign imports Registry Config begin

text \<open>
  The package \<open>pkg/signer/sign\<close>: obtaining a signer (from the cosign key pair secret, from a KMS, or
  keyless from Fulcio) and signing the digest of an image with it.

  \<open>sign_env\<close> adds the library functions these operations call. The option structs of cosign have the
  fields the source sets or reads; their callback \<open>PassFunc\<close> is left out, nothing here calls it.
\<close>

section \<open>Options\<close>

record sign_options =
  sgo_Key :: string
  sgo_TlogUpload :: bool
  sgo_Rekor_URL :: string
  sgo_Fulcio_URL :: string
  sgo_Fulcio_IdentityToken :: string
  sgo_Fulcio_AuthFlow :: string
  sgo_Fulcio_InsecureSkipFulcioVerify :: bool
  sgo_OIDC_Issuer :: string
  sgo_OIDC_ClientID :: string
  sgo_OIDC_RedirectURL :: string
  sgo_OIDC_DisableAmbientProviders :: bool
  sgo_OIDC_Provider :: string
  sgo_SkipConfirmation :: bool
  sgo_TSAClientCACert :: string
  sgo_TSAClientCert :: string
  sgo_TSAClientKey :: string
  sgo_TSAServerName :: string
  sgo_TSAServerURL :: string
  sgo_IssueCertificate :: bool
  sgo_SignContainerIdentity :: string
  sgo_RecordCreationTimestamp :: bool

record key_opts =
  ko_KeyRef :: string
  ko_Sk :: bool
  ko_Slot :: string
  ko_FulcioURL :: string
  ko_IDToken :: string
  ko_FulcioAuthFlow :: string
  ko_InsecureSkipFulcioVerify :: bool
  ko_RekorURL :: string
  ko_OIDCIssuer :: string
  ko_OIDCClientID :: string
  ko_OIDCClientSecret :: string
  ko_OIDCRedirectURL :: string
  ko_OIDCDisableProviders :: bool
  ko_OIDCProvider :: string
  ko_SkipConfirmation :: bool
  ko_TSAClientCACert :: string
  ko_TSAClientCert :: string
  ko_TSAClientKey :: string
  ko_TSAServerName :: string
  ko_TSAServerURL :: string
  ko_IssueCertificateForExistingKey :: bool

definition zero_sign_options :: sign_options where
  "zero_sign_options = \<lparr>sgo_Key = '''', sgo_TlogUpload = False, sgo_Rekor_URL = '''',
     sgo_Fulcio_URL = '''', sgo_Fulcio_IdentityToken = '''', sgo_Fulcio_AuthFlow = '''',
     sgo_Fulcio_InsecureSkipFulcioVerify = False, sgo_OIDC_Issuer = '''',
     sgo_OIDC_ClientID = '''', sgo_OIDC_RedirectURL = '''',
     sgo_OIDC_DisableAmbientProviders = False, sgo_OIDC_Provider = '''',
     sgo_SkipConfirmation = False, sgo_TSAClientCACert = '''', sgo_TSAClientCert = '''',
     sgo_TSAClientKey = '''', sgo_TSAServerName = '''', sgo_TSAServerURL = '''',
     sgo_IssueCertificate = False, sgo_SignContainerIdentity = '''',
     sgo_RecordCreationTimestamp = False\<rparr>"

definition zero_key_opts :: key_opts where
  "zero_key_opts = \<lparr>ko_KeyRef = '''', ko_Sk = False, ko_Slot = '''', ko_FulcioURL = '''',
     ko_IDToken = '''', ko_FulcioAuthFlow = '''', ko_InsecureSkipFulcioVerify = False,
     ko_RekorURL = '''', ko_OIDCIssuer = '''', ko_OIDCClientID = '''', ko_OIDCClientSecret = '''',
     ko_OIDCRedirectURL = '''', ko_OIDCDisableProviders = False, ko_OIDCProvider = '''',
     ko_SkipConfirmation = False, ko_TSAClientCACert = '''', ko_TSAClientCert = '''',
     ko_TSAClientKey = '''', ko_TSAServerName = '''', ko_TSAServerURL = '''',
     ko_IssueCertificateForExistingKey = False\<rparr>"

definition SignOci_options :: "string \<Rightarrow> 'h config \<Rightarrow> sign_options" where
  "SignOci_options keyRef cfg =
     zero_sign_options\<lparr>sgo_Key := keyRef, sgo_TlogUpload := cfg_Transparency cfg,
       sgo_Rekor_URL := cfg_TransparencyURL cfg\<rparr>"

definition SignOci_keyopts :: "sign_options \<Rightarrow> key_opts" where
  "SignOci_keyopts so =
     zero_key_opts\<lparr>ko_KeyRef := sgo_Key so, ko_FulcioURL := sgo_Fulcio_URL so,
       ko_IDToken := sgo_Fulcio_IdentityToken so, ko_FulcioAuthFlow := sgo_Fulcio_AuthFlow so,
       ko_InsecureSkipFulcioVerify := sgo_Fulcio_InsecureSkipFulcioVerify so,
       ko_RekorURL := sgo_Rekor_URL so, ko_OIDCIssuer := sgo_OIDC_Issuer so,
       ko_OIDCClientID := sgo_OIDC_ClientID so, ko_OIDCClientSecret := '''',
       ko_OIDCRedirectURL := sgo_OIDC_RedirectURL so,
       ko_OIDCDisableProviders := sgo_OIDC_DisableAmbientProviders so,
       ko_OIDCProvider := sgo_OIDC_Provider so, ko_SkipConfirmation := sgo_SkipConfirmation so,
       ko_TSAClientCACert := sgo_TSAClientCACert so, ko_TSAClientCert := sgo_TSAClientCert so,
       ko_TSAClientKey := sgo_TSAClientKey so, ko_TSAServerName := sgo_TSAServerName so,
       ko_TSAServerURL := sgo_TSAServerURL so,
       ko_IssueCertificateForExistingKey := sgo_IssueCertificate so\<rparr>"

lemma SignOci_keyopts_used [simp]:
  "ko_KeyRef (SignOci_keyopts (SignOci_options keyRef cfg)) = keyRef"
  "ko_RekorURL (SignOci_keyopts (SignOci_options keyRef cfg)) = cfg_TransparencyURL cfg"
  "sgo_TlogUpload (SignOci_options keyRef cfg) = cfg_Transparency cfg"
  by (simp_all add: SignOci_keyopts_def SignOci_options_def)

section \<open>The libraries\<close>

text \<open>A Kubernetes secret: its name and its data, a map given as a list of entries.\<close>

record secret =
  sec_Name :: string
  sec_Data :: "(string \<times> bytes) list"

record ('h, 'w) sign_env = "('h, 'w) registry_env" +
  sg_GetKeyPairSecret :: "string \<Rightarrow> ('w, secret) go"
  sg_LoadPrivateKey :: "bytes \<Rightarrow> bytes \<Rightarrow> ('w, 'h) go"
  sg_kms_Get :: "string \<Rightarrow> ('w, 'h) go"
  sg_as_pkcs11 :: "'h \<Rightarrow> 'h option"
  sg_pkcs11_Certificate :: "'h \<Rightarrow> ('w, 'h option) go"
  sg_pkcs11_Close :: "'h \<Rightarrow> 'w \<Rightarrow> 'w"
  sg_cert_PublicKey :: "'h \<Rightarrow> 'h"
  sg_EqualKeys :: "'h \<Rightarrow> 'h \<Rightarrow> goerr option"
  sg_providers_Enabled :: "('w, bool) go"
  sg_providers_Provide :: "string \<Rightarrow> ('w, string) go"
  sg_GeneratePrivateKey :: "('w, 'h) go"
  sg_LoadECDSASignerVerifier :: "'h \<Rightarrow> goerr + 'h"
  sg_fulcio_NewSigner :: "key_opts \<Rightarrow> 'h \<Rightarrow> ('w, bytes option \<times> bytes option) go"
  sg_Close :: "'h signer_verifier \<Rightarrow> ('w, unit) go"
  sg_NewDupeDetector :: "'h signer_verifier \<Rightarrow> 'h"
  sg_SignedEntity :: "reference \<Rightarrow> 'h list \<Rightarrow> ('w, 'h) go"
  sg_SignedUnknown :: "reference \<Rightarrow> 'h list \<Rightarrow> 'h"
  sg_payload_MarshalJSON :: "reference \<Rightarrow> string \<Rightarrow> goerr + bytes"
  sg_rekor_NewClient :: "string \<Rightarrow> ('w, 'h) go"
  sg_AttachSignatureToEntity :: "'h \<Rightarrow> 'h \<Rightarrow> 'h \<Rightarrow> bool \<Rightarrow> ('w, 'h) go"
  sg_WriteSignatures :: "string \<Rightarrow> 'h \<Rightarrow> 'h list \<Rightarrow> ('w, unit) go"

section \<open>Obtaining a signer\<close>

definition cosignKey :: string where "cosignKey = ''cosign.key''"
definition cosignPassKey :: string where "cosignPassKey = ''cosign.password''"
definition identityTokenFilPath :: string where "identityTokenFilPath = ''/var/run/sigstore/cosign''"
definition defaultOIDCClientID :: string where "defaultOIDCClientID = ''sigstore''"
definition defaultFulcioAddress :: string where "defaultFulcioAddress = ''https://fulcio.sigstore.dev''"
definition defaultOIDCIssuer :: string where
  "defaultOIDCIssuer = ''https://oauth2.sigstore.dev/auth''"

definition cosignSeecretSigner ::
  "('h, 'w, 'z) sign_env_scheme \<Rightarrow> string \<Rightarrow> ('w, 'h) go" where
  "cosignSeecretSigner env keyRef =
     go_bind (sg_GetKeyPairSecret env keyRef) (\<lambda>s.
       if length (sec_Data s) = 0
       then go_fail (errors_New (''no data available in secret: '' @ sec_Name s))
       else (case map_of (sec_Data s) cosignKey of
         None \<Rightarrow> go_fail (errors_New (''no data with '' @ cosignKey @ '' in secret: '' @ sec_Name s))
       | Some key \<Rightarrow>
           (case map_of (sec_Data s) cosignPassKey of
              None \<Rightarrow>
                go_fail (errors_New (''no data with '' @ cosignPassKey @ '' in secret: '' @ sec_Name s))
            | Some passKey \<Rightarrow> sg_LoadPrivateKey env key passKey)))"

text \<open>A provider that is not found is not an error here: the signer is then nil.\<close>

definition kmsSigner ::
  "('h, 'w, 'z) sign_env_scheme \<Rightarrow> string \<Rightarrow> ('w, 'h option) go" where
  "kmsSigner env keyRef =
     go_catch (sg_kms_Get env keyRef)
       (\<lambda>err. if err_As err \<noteq> KmsProviderNotFoundError then go_fail err else go_ret None)
       (\<lambda>sv. go_ret (Some sv))"

definition pkcs11_certSigner ::
  "('h, 'w, 'z) sign_env_scheme \<Rightarrow> 'h \<Rightarrow> 'h \<Rightarrow> 'h \<Rightarrow> 'h signer_verifier \<Rightarrow>
   ('w, 'h signer_verifier) go" where
  "pkcs11_certSigner env k pkcs11Key cert certSigner =
     (let closing = (\<lambda>err. go_bind (go_do (sg_pkcs11_Close env pkcs11Key)) (\<lambda>_. go_fail err))
      in go_catch (go_of (ce_MarshalCertificateToPEM env cert)) closing (\<lambda>pemBytes.
         go_catch (ce_PublicKey env k []) closing (\<lambda>pubKey.
           if sg_EqualKeys env pubKey (sg_cert_PublicKey env cert) \<noteq> None
           then closing (errors_New ''pkcs11 key and certificate do not match'')
           else go_ret (certSigner\<lparr>sv_Cert := Some pemBytes\<rparr>))))"

definition signerFromKeyRef ::
  "('h, 'w, 'z) sign_env_scheme \<Rightarrow> string \<Rightarrow> bool \<Rightarrow> ('w, 'h signer_verifier) go" where
  "signerFromKeyRef env keyRef getKmsSigner =
     go_bind
       (if \<not> getKmsSigner
        then go_wrap ''failed to create signer from secret ''
               (go_bind (cosignSeecretSigner env keyRef) (\<lambda>k. go_ret (Some k)))
        else go_wrap ''failed to create signer from kms  '' (kmsSigner env keyRef)) (\<lambda>k.
     let certSigner = \<lparr>sv_SignerVerifier = k, sv_Cert = None, sv_Chain = None\<rparr>
     in case k of
          None \<Rightarrow> go_ret certSigner
        | Some h \<Rightarrow>
            (case sg_as_pkcs11 env h of
               None \<Rightarrow> go_ret certSigner
             | Some pkcs11Key \<Rightarrow>
                 go_bind (go_catch (sg_pkcs11_Certificate env pkcs11Key) (\<lambda>_. go_ret None) go_ret)
                   (\<lambda>cert. case cert of
                      None \<Rightarrow> go_ret certSigner
                    | Some c \<Rightarrow> pkcs11_certSigner env h pkcs11Key c certSigner)))"

definition keylessSigner ::
  "('h, 'w, 'z) sign_env_scheme \<Rightarrow> ('w, 'h signer_verifier) go" where
  "keylessSigner env =
     go_bind (sg_providers_Enabled env) (\<lambda>enabled.
       let providersEnabled = (if identityTokenFilPath \<noteq> '''' then True else enabled)
       in if \<not> providersEnabled
          then go_fail (errors_New ''no auth provider for fulcio is enabled'')
          else
            go_bind (go_wrap ''getting token from provider: ''
              (sg_providers_Provide env defaultOIDCClientID)) (\<lambda>token.
            go_bind (go_wrap ''error generating keypair: '' (sg_GeneratePrivateKey env)) (\<lambda>privetKey.
            go_bind (go_wrap ''error loading sigstore signer: ''
              (go_of (sg_LoadECDSASignerVerifier env privetKey))) (\<lambda>signer.
            go_bind (go_wrap ''getting Fulcio signer: ''
              (sg_fulcio_NewSigner env
                 (zero_key_opts\<lparr>ko_FulcioURL := defaultFulcioAddress, ko_IDToken := token,
                    ko_OIDCIssuer := defaultOIDCIssuer, ko_OIDCClientID := defaultOIDCClientID\<rparr>)
                 signer)) (\<lambda>(cert, chain).
            go_ret \<lparr>sv_SignerVerifier = Some signer, sv_Cert = cert, sv_Chain = chain\<rparr>)))))"

definition SignerFromKeyOpts ::
  "('h, 'w, 'z) sign_env_scheme \<Rightarrow> key_opts \<Rightarrow> bool \<Rightarrow> ('w, 'h signer_verifier) go" where
  "SignerFromKeyOpts env ko getKmsSigner =
     (if ko_KeyRef ko \<noteq> ''''
      then go_wrap ''failed to createte keyed signer '' (signerFromKeyRef env (ko_KeyRef ko) getKmsSigner)
      else keylessSigner env)"

definition signerFromNewKey ::
  "('h, 'w, 'z) sign_env_scheme \<Rightarrow> ('w, 'h signer_verifier) go" where
  "signerFromNewKey env =
     go_bind (go_wrap ''generating cert: '' (sg_GeneratePrivateKey env)) (\<lambda>privKey.
     go_bind (go_of (sg_LoadECDSASignerVerifier env privKey)) (\<lambda>sv.
     go_ret \<lparr>sv_SignerVerifier = Some sv, sv_Cert = None, sv_Chain = None\<rparr>))"

section \<open>Signing\<close>

text \<open>The signer \<open>signDigest\<close> composes: payload, then Fulcio if there is a certificate, then Rekor if
  the signature is to be logged.\<close>

definition digest_signer ::
  "('h, 'w, 'z) sign_env_scheme \<Rightarrow> key_opts \<Rightarrow> sign_options \<Rightarrow> 'h signer_verifier \<Rightarrow>
   ('w, ('h, 'w) cosign_signer) go" where
  "digest_signer env ko signOpts sv =
     go_bind (payload_NewSigner env sv []) (\<lambda>s.
       let s = (case sv_Cert sv of
                  None \<Rightarrow> s
                | Some c \<Rightarrow> fulcio_NewSigner env s (Some c) (sv_Chain sv))
       in if sgo_TlogUpload signOpts
          then go_bind (sg_rekor_NewClient env (ko_RekorURL ko))
                 (\<lambda>rClient. go_ret (rekor_NewSigner env s rClient))
          else go_ret s)"

definition signDigest ::
  "('h, 'w, 'z) sign_env_scheme \<Rightarrow> reference \<Rightarrow> key_opts \<Rightarrow> sign_options \<Rightarrow> 'h \<Rightarrow>
   'h signer_verifier \<Rightarrow> 'h \<Rightarrow> 'h list \<Rightarrow> ('w, unit) go" where
  "signDigest env digest ko signOpts dd sv se remoteOptions =
     go_bind (go_wrap ''payload: ''
       (go_of (sg_payload_MarshalJSON env digest (sgo_SignContainerIdentity signOpts)))) (\<lambda>payload.
     go_bind (digest_signer env ko signOpts sv) (\<lambda>s.
     go_bind (s (Inr payload)) (\<lambda>(ociSig, pub).
     go_bind (sg_AttachSignatureToEntity env se ociSig dd (sgo_RecordCreationTimestamp signOpts))
       (\<lambda>newSE. sg_WriteSignatures env (ref_Repository digest) newSE remoteOptions))))"

definition SignOci ::
  "('h, 'w, 'z) sign_env_scheme \<Rightarrow> string \<Rightarrow> string \<Rightarrow> 'h config \<Rightarrow> ('w, unit) go" where
  "SignOci env ociImage keyRef cfg =
     (let so = SignOci_options keyRef cfg; ko = SignOci_keyopts so
      in go_bind (go_wrap ''getting signer: '' (SignerFromKeyOpts env ko False)) (\<lambda>sv.
         go_defer (sg_Close env sv) (
         let dd = sg_NewDupeDetector env sv
         in go_bind (go_wrap ''constructing oci client options: ''
              (CosignRemoteAuthOptsWithKeyChain env (cfg_AuthKeyChain cfg))) (\<lambda>opts.
            go_bind (go_wrap ''parsing reference: '' (go_of (rg_ParseReference env ociImage))) (\<lambda>ref.
              if ref_Digest ref = None
              then go_fail (errors_New ''digest not available in oci ref'')
              else
                go_bind (go_catch (sg_SignedEntity env ref opts)
                  (\<lambda>err. if err_is_type err EntityNotFoundError
                         then go_ret (sg_SignedUnknown env ref [])
                         else go_fail (WrapErr ''accessing image: '' err)) go_ret) (\<lambda>se.
                go_wrap ''signing digest: '' (signDigest env ref ko so dd sv se opts)))))))"

end
