(* ===== verification/Attest.thy ===== *)
theory Attest imports Sign begin

text \<open>
  The package \<open>pkg/signer/attest\<close>: an in-toto statement about an image is signed as a DSSE envelope,
  logged, and attached to the image in its registry.

  \<open>attest_env\<close> adds the library functions called here. The options of a static attestation and of the
  attest command are the values the source builds.
\<close>

datatype 'h static_option =
    WithLayerMediaType string
  | WithCertChain bytes "bytes option"
  | WithAnnotations "(string \<times> string) list"
  | WithBundle 'h

record attest_options =
  ato_Key :: string
  ato_RekorEntryType :: string
  ato_TlogUpload :: bool
  ato_Rekor_URL :: string
  ato_Predicate_Type :: string
  ato_RecordCreationTimestamp :: bool

record attest_command =
  ac_KeyOpts :: key_opts
  ac_PredicateType :: string
  ac_TlogUpload :: bool
  ac_RekorEntryType :: string
  ac_RecordCreationTimestamp :: bool

record ('h, 'w) attest_env = "('h, 'w) sign_env" +
  at_NewHash :: "string \<Rightarrow> goerr + string"
  at_GenerateStatement :: "bytes \<Rightarrow> string \<Rightarrow> string \<Rightarrow> string \<Rightarrow> goerr + 'h"
  at_json_Marshal :: "'h \<Rightarrow> goerr + bytes"
  at_IntotoPayloadType :: string
  at_DssePayloadType :: string
  at_dsse_SignMessage :: "'h signer_verifier \<Rightarrow> string \<Rightarrow> bytes \<Rightarrow> ('w, bytes) go"
  at_ParsePredicateType :: "string \<Rightarrow> goerr + string"
  at_sv_Bytes :: "'h signer_verifier \<Rightarrow> ('w, bytes) go"
  at_TLogUploadDSSEEnvelope :: "'h \<Rightarrow> bytes \<Rightarrow> bytes \<Rightarrow> ('w, 'h) go"
  at_LogIndex :: "'h \<Rightarrow> int option"
  at_NewAttestation :: "bytes \<Rightarrow> 'h static_option list \<Rightarrow> goerr + 'h"
  at_AttachAttestationToEntity :: "'h \<Rightarrow> 'h \<Rightarrow> 'h \<Rightarrow> bool \<Rightarrow> ('w, 'h) go"
  at_WriteAttestations :: "string \<Rightarrow> 'h \<Rightarrow> 'h list \<Rightarrow> ('w, unit) go"

definition AttestOci_options :: "string \<Rightarrow> string \<Rightarrow> 'h config \<Rightarrow> attest_options" where
  "AttestOci_options keyRef payloadType cfg =
     \<lparr>ato_Key = keyRef, ato_RekorEntryType = ''dsse'', ato_TlogUpload = cfg_Transparency cfg,
      ato_Rekor_URL = cfg_TransparencyURL cfg, ato_Predicate_Type = payloadType,
      ato_RecordCreationTimestamp = False\<rparr>"

definition AttestOci_command :: "attest_options \<Rightarrow> attest_command" where
  "AttestOci_command ao =
     \<lparr>ac_KeyOpts = zero_key_opts\<lparr>ko_KeyRef := ato_Key ao, ko_RekorURL := ato_Rekor_URL ao\<rparr>,
      ac_PredicateType = ato_Predicate_Type ao, ac_TlogUpload = ato_TlogUpload ao,
      ac_RekorEntryType = ato_RekorEntryType ao,
      ac_RecordCreationTimestamp = ato_RecordCreationTimestamp ao\<rparr>"

text \<open>Returns the bundle and the pointer to the log index.\<close>

definition attest_uploadToTlog ::
  "('h, 'w, 'z) attest_env_scheme \<Rightarrow> 'h signer_verifier \<Rightarrow> string \<Rightarrow>
   ('h \<Rightarrow> bytes \<Rightarrow> ('w, 'h) go) \<Rightarrow> ('w, 'h \<times> int option) go" where
  "attest_uploadToTlog env sv rekorURL upload =
     go_bind (at_sv_Bytes env sv) (\<lambda>rekorBytes.
     go_bind (sg_rekor_NewClient env rekorURL) (\<lambda>rekorClient.
     go_bind (upload rekorClient rekorBytes) (\<lambda>entry.
     go_ret (ce_EntryToBundle env entry, at_LogIndex env entry))))"

text \<open>The payload that is signed: the predicate as it is for the SLSA types, which already are whole
  statements, and otherwise a statement generated around it.\<close>

definition attest_payload ::
  "('h, 'w, 'z) attest_env_scheme \<Rightarrow> string \<Rightarrow> string \<Rightarrow> string \<Rightarrow> bytes \<Rightarrow> goerr + bytes" where
  "attest_payload env predicateType hex repo predicate =
     (if \<not> HasPrefix predicateType ''slsa'' then
        (case at_GenerateStatement env predicate predicateType hex repo of
           Inl err \<Rightarrow> Inl (WrapErr ''generating statement: '' err)
         | Inr sh \<Rightarrow>
             (case at_json_Marshal env sh of
                Inl err \<Rightarrow> Inl (WrapErr ''marshalling payload: '' err)
              | Inr payload \<Rightarrow> Inr payload))
      else Inr predicate)"

text \<open>The options after the media type, and the lines the upload adds to the result; dereferencing a
  nil log index panics.\<close>

definition attest_tlog ::
  "('h, 'w, 'z) attest_env_scheme \<Rightarrow> attest_command \<Rightarrow> 'h signer_verifier \<Rightarrow> bytes \<Rightarrow>
   ('w, 'h static_option list \<times> string list) go" where
  "attest_tlog env c sv signedPayload =
     (if ac_TlogUpload c then
        (let url = ko_RekorURL (ac_KeyOpts c)
         in go_bind (attest_uploadToTlog env sv url
              (\<lambda>r b. at_TLogUploadDSSEEnvelope env r signedPayload b)) (\<lambda>(bdl, index).
            case index of
              None \<Rightarrow> go_panic nil_dereference
            | Some i \<Rightarrow>
                go_ret ([WithBundle bdl],
                  [''tlog uploaded to'', url, ''tlog entry created with index'', fmt_d i])))
      else go_ret ([], []))"

definition AttestOci ::
  "('h, 'w, 'z) attest_env_scheme \<Rightarrow> 'h config \<Rightarrow> string \<Rightarrow> string \<Rightarrow> string \<Rightarrow> bytes \<Rightarrow>
   ('w, string list) go" where
  "AttestOci env cfg ociImage keyRef payloadType predicate =
     (let c = AttestOci_command (AttestOci_options keyRef payloadType cfg);
          attestInfo = [''reference'', ociImage, ''predicate type'', ac_PredicateType c]
      in go_bind (go_wrap ''parsing reference: '' (go_of (rg_ParseReference env ociImage))) (\<lambda>ref.
         if ref_Digest ref = None
         then go_fail (errors_New ''digest not awailable in oci ref'')
         else
           let hex = (case at_NewHash env (ref_Identifier ref) of Inl _ \<Rightarrow> '''' | Inr h \<Rightarrow> h)
           in go_bind (go_wrap ''constructing oci client options: ''
                (CosignRemoteAuthOptsWithKeyChain env (cfg_AuthKeyChain cfg))) (\<lambda>ociremoteOpts.
              go_bind (go_wrap ''getting signer: ''
                (SignerFromKeyOpts env (ac_KeyOpts c) False)) (\<lambda>sv.
              go_defer (sg_Close env sv) (
              let dd = sg_NewDupeDetector env sv
              in go_bind (go_of (attest_payload env (ac_PredicateType c) hex
                   (ref_Repository ref) predicate)) (\<lambda>payload.
                 go_bind (go_wrap ''signing: ''
                   (at_dsse_SignMessage env sv (at_IntotoPayloadType env) payload)) (\<lambda>signedPayload.
                 let opts = [WithLayerMediaType (at_DssePayloadType env)]
                       @ (case sv_Cert sv of None \<Rightarrow> [] | Some ce \<Rightarrow> [WithCertChain ce (sv_Chain sv)])
                 in go_bind (go_of (at_ParsePredicateType env (ac_PredicateType c)))
                      (\<lambda>predicateType.
                    go_bind (attest_tlog env c sv signedPayload) (\<lambda>(tlogOpts, tlogInfo).
                    go_bind (go_of (at_NewAttestation env signedPayload
                      (opts @ [WithAnnotations [(''predicateType'', predicateType)]] @ tlogOpts)))
                      (\<lambda>sig.
                    go_bind (at_AttachAttestationToEntity env
                      (sg_SignedUnknown env ref ociremoteOpts) sig dd (ac_RecordCreationTimestamp c))
                      (\<lambda>newSE.
                    go_bind (at_WriteAttestations env (ref_Repository ref) newSE ociremoteOpts)
                      (\<lambda>_. go_ret (attestInfo @ tlogInfo)))))))))))))"

lemma AttestOci_command_used [simp]:
  "ko_KeyRef (ac_KeyOpts (AttestOci_command (AttestOci_options keyRef pt cfg))) = keyRef"
  "ko_RekorURL (ac_KeyOpts (AttestOci_command (AttestOci_options keyRef pt cfg))) = cfg_TransparencyURL cfg"
  "ac_PredicateType (AttestOci_command (AttestOci_options keyRef pt cfg)) = pt"
  "ac_TlogUpload (AttestOci_command (AttestOci_options keyRef pt cfg)) = cfg_Transparency cfg"
  by (simp_all add: AttestOci_command_def AttestOci_options_def)

end
