(* ===== verification/Sbom.thy ===== *)
theory Sbom imports Attest begin

text \<open>
  The packages \<open>pkg/crane\<close>, \<open>pkg/sbom/syft\<close> and \<open>pkg/sbom/oci\<close>: a software bill of materials is
  generated for an image, or for every platform of a multi-platform image, and attested.

  \<open>sbom_env\<close> adds the library functions called here. The loop over the platforms is structural
  recursion over the manifests, with the source's flag \<open>failed\<close> as its result.
\<close>

text \<open>\<open>v1.Descriptor\<close> and \<open>v1.IndexManifest\<close>; \<open>mf_Platform\<close> is the pointer the log messages call
  \<open>String\<close> on.\<close>

record 'h descriptor =
  mf_Digest :: string
  mf_Platform :: "'h option"

record 'h index_manifest =
  im_MediaType :: string
  im_Manifests :: "'h descriptor list"

record ('h, 'w) sbom_env = "('h, 'w) attest_env" +
  sb_crane_Manifest :: "string \<Rightarrow> 'h option \<Rightarrow> ('w, bytes) go"
  sb_json_Unmarshal_index :: "bytes \<Rightarrow> goerr + 'h index_manifest"
  sb_DockerManifestList :: string
  sb_Platform_String :: "'h option \<Rightarrow> ('w, string) go"
  sb_syft_GetSource :: "string \<Rightarrow> 'h option \<Rightarrow> ('w, 'h) go"
  sb_syft_CreateSBOM :: "'h \<Rightarrow> ('w, 'h) go"
  sb_cyclonedx_NewEncoder :: "goerr + 'h"
  sb_cyclonedx_Encode :: "'h \<Rightarrow> 'h \<Rightarrow> goerr + bytes"

definition GetManifest ::
  "('h, 'w, 'z) sbom_env_scheme \<Rightarrow> 'h option \<Rightarrow> string \<Rightarrow> ('w, bytes) go" where
  "GetManifest env keychain oci = sb_crane_Manifest env oci keychain"

definition GenerateSBOMwithSyft ::
  "('h, 'w, 'z) sbom_env_scheme \<Rightarrow> 'h option \<Rightarrow> string \<Rightarrow> ('w, bytes) go" where
  "GenerateSBOMwithSyft env keychain oci =
     go_bind (go_catch (sb_syft_GetSource env oci keychain)
       (\<lambda>err. if Contains (err_Error err) ''unknown layer media type'' then go_fail err
              else go_fail (WrapErr ''fetching image source: '' err)) go_ret) (\<lambda>src.
     go_bind (go_wrap ''generating SBOM: '' (sb_syft_CreateSBOM env src)) (\<lambda>sbom.
     go_bind (go_wrap ''creating CycloneDX encoder: '' (go_of (sb_cyclonedx_NewEncoder env)))
       (\<lambda>encoder. go_wrap ''encoding SBOM: '' (go_of (sb_cyclonedx_Encode env encoder sbom)))))"

definition checkIfMultiMlatformImage ::
  "('h, 'w, 'z) sbom_env_scheme \<Rightarrow> bytes \<Rightarrow> goerr + bool \<times> 'h index_manifest option" where
  "checkIfMultiMlatformImage env manifest =
     (case sb_json_Unmarshal_index env manifest of
        Inl err \<Rightarrow> Inl (WrapErr ''unmarshalling manifest: '' err)
      | Inr indexManifest \<Rightarrow>
          if im_MediaType indexManifest = sb_DockerManifestList env
          then Inr (True, Some indexManifest) else Inr (False, None))"

definition platform_ref :: "reference \<Rightarrow> string \<Rightarrow> string" where
  "platform_ref ref digest = ref_RegistryStr ref @ ''/'' @ ref_RepositoryStr ref @ ''@'' @ digest"

text \<open>One platform: whether it failed. The messages call \<open>Platform.String()\<close>.\<close>

definition sbom_platform ::
  "('h, 'w, 'z) sbom_env_scheme \<Rightarrow> 'h config \<Rightarrow> string \<Rightarrow> string \<Rightarrow> string \<Rightarrow> 'h descriptor \<Rightarrow>
   ('w, bool) go" where
  "sbom_platform env cfg keyRef oci payloadType d =
     (let logged = (\<lambda>failed. go_bind (sb_Platform_String env (mf_Platform d)) (\<lambda>_. go_ret failed))
      in go_catch (go_of (rg_ParseReference env oci)) (\<lambda>err. go_ret True) (\<lambda>ref.
         let refWithChildDigest = platform_ref ref (mf_Digest d)
         in go_catch (GenerateSBOMwithSyft env (cfg_AuthKeyChain cfg) refWithChildDigest)
              (\<lambda>err. logged True) (\<lambda>sbom.
            go_catch (AttestOci env cfg refWithChildDigest keyRef payloadType sbom)
              (\<lambda>err. logged True) (\<lambda>_. logged False))))"

fun sbom_platforms ::
  "('h, 'w, 'z) sbom_env_scheme \<Rightarrow> 'h config \<Rightarrow> string \<Rightarrow> string \<Rightarrow> string \<Rightarrow> bool \<Rightarrow>
   'h descriptor list \<Rightarrow> ('w, bool) go" where
  "sbom_platforms env cfg keyRef oci payloadType failed [] = go_ret failed"
| "sbom_platforms env cfg keyRef oci payloadType failed (d # ds) =
     go_bind (sbom_platform env cfg keyRef oci payloadType d)
       (\<lambda>f. sbom_platforms env cfg keyRef oci payloadType (failed \<or> f) ds)"

definition GenerateSBOMforOCI ::
  "('h, 'w, 'z) sbom_env_scheme \<Rightarrow> 'h config \<Rightarrow> string \<Rightarrow> string \<Rightarrow> string \<Rightarrow> ('w, unit) go" where
  "GenerateSBOMforOCI env cfg keyRef oci payloadType =
     go_bind (go_wrap ''getting manifest: '' (GetManifest env (cfg_AuthKeyChain cfg) oci)) (\<lambda>manifest.
     go_bind (go_wrap ''checking if multi-platform: ''
       (go_of (checkIfMultiMlatformImage env manifest))) (\<lambda>(isMultiPlatform, indexManifest).
     if isMultiPlatform then
       (case indexManifest of
          None \<Rightarrow> go_panic nil_dereference
        | Some im \<Rightarrow>
            go_bind (sbom_platforms env cfg keyRef oci payloadType False (im_Manifests im)) (\<lambda>failed.
              if failed then go_fail (errors_New ''failed to generate SBOM for all platforms'')
              else go_ret ()))
     else
       go_bind (go_wrap ''generating SBOM with syft: ''
         (GenerateSBOMwithSyft env (cfg_AuthKeyChain cfg) oci)) (\<lambda>sbom.
       go_bind (go_wrap ''attesting SBOM: ''
         (AttestOci env cfg oci keyRef payloadType sbom)) (\<lambda>_. go_ret ()))))"

end
