(* ===== verification/SignerDispatch.thy ===== *)
theory SignerDispatch imports Sbom begin

text \<open>
  The packages \<open>pkg/signer\<close> and \<open>pkg/sbom\<close>: the three operations signing, attesting and SBOM
  generation, each dispatched on the configured signer type. The three share one contract, the
  locale \<open>signer_dispatch\<close>: which key reference a configuration selects, and that an unknown signer
  type does nothing.
\<close>

definition DefaultSecretKey :: string where
  "DefaultSecretKey = ''k8s://argo-slsa/signing-secret''"

definition SignWithConfigOpts ::
  "('h, 'w, 'z) sign_env_scheme \<Rightarrow> string \<Rightarrow> 'h config \<Rightarrow> ('w, unit) go" where
  "SignWithConfigOpts env ociImage cfg =
     (if cfg_SignerType cfg = SecretSigner then SignOci env ociImage DefaultSecretKey cfg
      else if cfg_SignerType cfg = KmsSigner then SignOci env ociImage (cfg_KmsURL cfg) cfg
      else if cfg_SignerType cfg = FulcioSigner then SignOci env ociImage '''' cfg
      else go_fail (errors_New ''error occured while signing''))"

definition AttestWithConfigOpts ::
  "('h, 'w, 'z) attest_env_scheme \<Rightarrow> 'h config \<Rightarrow> string \<Rightarrow> string \<Rightarrow> bytes \<Rightarrow>
   ('w, string list) go" where
  "AttestWithConfigOpts env cfg ociImage payloadType payload =
     (if cfg_SignerType cfg = SecretSigner
      then AttestOci env cfg ociImage DefaultSecretKey payloadType payload
      else if cfg_SignerType cfg = KmsSigner
      then AttestOci env cfg ociImage (cfg_KmsURL cfg) payloadType payload
      else if cfg_SignerType cfg = FulcioSigner
      then AttestOci env cfg ociImage '''' payloadType payload
      else go_fail (errors_New ''error occured while attesting''))"

definition GenerateSBOMWithConfigOpts ::
  "('h, 'w, 'z) sbom_env_scheme \<Rightarrow> string \<Rightarrow> string \<Rightarrow> 'h config \<Rightarrow> ('w, unit) go" where
  "GenerateSBOMWithConfigOpts env ociImage sbomType cfg =
     (if cfg_SignerType cfg = SecretSigner
      then GenerateSBOMforOCI env cfg DefaultSecretKey ociImage sbomType
      else if cfg_SignerType cfg = KmsSigner
      then GenerateSBOMforOCI env cfg (cfg_KmsURL cfg) ociImage sbomType
      else if cfg_SignerType cfg = FulcioSigner
      then GenerateSBOMforOCI env cfg '''' ociImage sbomType
      else go_fail (errors_New ''error occured while generating SBOM''))"

section \<open>The shared contract\<close>

text \<open>The key reference a configuration selects; \<open>None\<close> for an unknown signer type.\<close>

definition key_ref :: "'h config \<Rightarrow> string option" where
  "key_ref cfg =
     (if cfg_SignerType cfg = SecretSigner then Some DefaultSecretKey
      else if cfg_SignerType cfg = KmsSigner then Some (cfg_KmsURL cfg)
      else if cfg_SignerType cfg = FulcioSigner then Some ''''
      else None)"

locale signer_dispatch =
  fixes dispatch :: "'h config \<Rightarrow> ('w, 'a) go"
    and keyed :: "string \<Rightarrow> 'h config \<Rightarrow> ('w, 'a) go"
  assumes known: "key_ref cfg = Some k \<Longrightarrow> dispatch cfg = keyed k cfg"
    and unknown: "key_ref cfg = None \<Longrightarrow> \<exists>e. err_As e = Plain \<and> dispatch cfg = go_fail e"
    and signer_type_irrelevant: "keyed k (cfg\<lparr>cfg_SignerType := t\<rparr>) = keyed k cfg"
begin

text \<open>A KMS configuration with an empty URL is the keyless configuration.\<close>

lemma kms_empty_url:
  assumes "cfg_SignerType cfg = KmsSigner" and "cfg_KmsURL cfg = ''''"
  shows "dispatch cfg = dispatch (cfg\<lparr>cfg_SignerType := FulcioSigner\<rparr>)"
proof -
  have "dispatch cfg = keyed '''' cfg"
    using assms by (intro known) (simp add: key_ref_def config_constants)
  moreover have "dispatch (cfg\<lparr>cfg_SignerType := FulcioSigner\<rparr>) =
      keyed '''' (cfg\<lparr>cfg_SignerType := FulcioSigner\<rparr>)"
    by (rule known) (simp add: key_ref_def config_constants)
  ultimately show ?thesis by (simp add: signer_type_irrelevant)
qed

lemma unknown_no_effect:
  assumes "key_ref cfg = None"
  shows "\<exists>e. dispatch cfg w = (Fail e, w)"
  using unknown [OF assms] by (auto simp: go_fail_def)

text \<open>Only a known signer type succeeds.\<close>

lemma success:
  assumes "dispatch cfg w = (Ok a, w')"
  obtains k where "key_ref cfg = Some k" and "keyed k cfg w = (Ok a, w')"
  using assms known unknown_no_effect [of cfg w] by (cases "key_ref cfg") auto

end

lemma SignOci_signer_type:
  "SignOci env img k (cfg\<lparr>cfg_SignerType := t\<rparr>) = SignOci env img k cfg"
  by (simp add: SignOci_def SignOci_options_def Let_def cong: if_cong)

lemma AttestOci_signer_type:
  "AttestOci env (cfg\<lparr>cfg_SignerType := t\<rparr>) img k pt p = AttestOci env cfg img k pt p"
  by (simp add: AttestOci_def AttestOci_options_def Let_def cong: if_cong)

lemma sbom_platform_signer_type:
  "sbom_platform env (cfg\<lparr>cfg_SignerType := t\<rparr>) k oci pt d = sbom_platform env cfg k oci pt d"
  by (simp add: sbom_platform_def AttestOci_signer_type Let_def cong: if_cong)

lemma sbom_platforms_signer_type:
  "sbom_platforms env (cfg\<lparr>cfg_SignerType := t\<rparr>) k oci pt f ds = sbom_platforms env cfg k oci pt f ds"
  by (induction ds arbitrary: f) (simp_all add: sbom_platform_signer_type)

lemma GenerateSBOMforOCI_signer_type:
  "GenerateSBOMforOCI env (cfg\<lparr>cfg_SignerType := t\<rparr>) k oci pt = GenerateSBOMforOCI env cfg k oci pt"
  by (simp add: GenerateSBOMforOCI_def AttestOci_signer_type sbom_platforms_signer_type
      cong: if_cong option.case_cong)

lemmas dispatch_defs = key_ref_def SignWithConfigOpts_def AttestWithConfigOpts_def
  GenerateSBOMWithConfigOpts_def

interpretation signing: signer_dispatch "SignWithConfigOpts env img" "SignOci env img" for env img
  by unfold_locales
    (auto simp: dispatch_defs SignOci_signer_type split: if_splits intro!: exI)

interpretation attesting: signer_dispatch "\<lambda>cfg. AttestWithConfigOpts env cfg img pt p"
    "\<lambda>k cfg. AttestOci env cfg img k pt p" for env img pt p
  by unfold_locales
    (auto simp: dispatch_defs AttestOci_signer_type split: if_splits intro!: exI)

interpretation sbom_generation: signer_dispatch "GenerateSBOMWithConfigOpts env img pt"
    "\<lambda>k cfg. GenerateSBOMforOCI env cfg k img pt" for env img pt
  by unfold_locales
    (auto simp: dispatch_defs GenerateSBOMforOCI_signer_type split: if_splits intro!: exI)

end
