(* ===== verification/Provenance.thy ===== *)
theory Provenance imports SignerDispatch KubeObjects begin

text \<open>
  The packages under \<open>pkg/provenance\<close>: the SLSA v1 provenance statement of a workflow.

  Functions that read the workflow only take it as an argument. \<open>removeArgoSlsaInfo\<close> deletes from the
  map it is given, which is the workflow's own label or annotation map, so \<open>GetInternalParams\<close> and
  everything that calls it act on the workflow as a state.

  \<open>json.Marshal\<close> of the third-party Argo types and the protobuf functions are fields of \<open>prov_env\<close>.
\<close>

text \<open>The values the source puts into a \<open>map[string]any\<close>: a string map, the \<open>*AnyString\<close> of a
  parameter, and the workflow's spec.\<close>

datatype anyval =
    AnyStringMap gomap
  | AnyStringPtr "string option"
  | AnySpec wfspec

record resource_descriptor =
  rd_Name :: string
  rd_Digest :: "(string \<times> string) list"
  rd_Content :: bytes
  rd_MediaType :: string

record 'h build_metadata =
  bm_InvocationId :: string
  bm_StartedOn :: "'h option"
  bm_FinishedOn :: "'h option"

record 'h run_details =
  rund_Builder_Id :: string
  rund_Builder_Version :: "(string \<times> string) list"
  rund_Metadata :: "'h build_metadata"
  rund_Byproducts :: "resource_descriptor list"

record 'h build_definition =
  bd_BuildType :: string
  bd_ExternalParameters :: 'h
  bd_InternalParameters :: 'h
  bd_ResolvedDependencies :: "resource_descriptor list"

record 'h statement =
  st_Type :: string
  st_PredicateType :: string
  st_Subject :: "resource_descriptor list"
  st_Predicate :: 'h

record ('h, 'w) prov_env = "('h, 'w) sbom_env" +
  pv_json_Marshal_any :: "(string \<rightharpoonup> anyval) \<Rightarrow> goerr + bytes"
  pv_json_Marshal_artifact :: "artifact \<Rightarrow> goerr + bytes"
  pv_json_Marshal_parameter :: "parameter \<Rightarrow> goerr + bytes"
  pv_protojson_Unmarshal_struct :: "bytes \<Rightarrow> goerr + 'h"
  pv_protojson_Marshal_provenance :: "'h build_definition \<Rightarrow> 'h run_details \<Rightarrow> goerr + bytes"
  pv_protojson_Marshal_statement :: "'h statement \<Rightarrow> goerr + bytes"
  pv_timestamppb_New :: "int \<Rightarrow> 'h"
  pv_StatementInTotoV01 :: string
  pv_PredicateSLSAProvenance :: string

section \<open>Parameters\<close>

definition slsa_prefix :: string where "slsa_prefix = ''argo.slsa.io/''"
definition slsa_enable :: string where "slsa_enable = ''argo.slsa.io/enable''"

definition slsa_info_key :: "string \<Rightarrow> bool" where
  "slsa_info_key key \<longleftrightarrow> HasPrefix key slsa_prefix \<and> key \<noteq> slsa_enable"

definition removeArgoSlsaInfo :: "gomap \<Rightarrow> gomap" where
  "removeArgoSlsaInfo annotations =
     map_option (\<lambda>m key. if slsa_info_key key then None else m key) annotations"

definition GetInternalParams :: "(workflow, string \<rightharpoonup> anyval) go" where
  "GetInternalParams wflow =
     (let labels = removeArgoSlsaInfo (m_labels wflow);
          wflow = wflow\<lparr>m_labels := labels\<rparr>;
          annotations = removeArgoSlsaInfo (m_annotations wflow);
          wflow = wflow\<lparr>m_annotations := annotations\<rparr>
      in (Ok [''labels'' \<mapsto> AnyStringMap labels, ''annotations'' \<mapsto> AnyStringMap annotations], wflow))"

definition GetExternalParams :: "workflow \<Rightarrow> string \<rightharpoonup> anyval" where
  "GetExternalParams wflow =
     (foldl (\<lambda>m param. m(par_Name param \<mapsto> AnyStringPtr (par_Value param)))
        Map.empty (spec_parameters (wf_Spec wflow)))(''runSpec'' \<mapsto> AnySpec (wf_Spec wflow))"

definition GetAnyProtoStruct ::
  "('h, 'w, 'z) prov_env_scheme \<Rightarrow> (string \<rightharpoonup> anyval) \<Rightarrow> goerr + 'h" where
  "GetAnyProtoStruct env data =
     (case pv_json_Marshal_any env data of
        Inl err \<Rightarrow> Inl err
      | Inr bytes \<Rightarrow> pv_protojson_Unmarshal_struct env bytes)"

definition GetResolvedDependencies :: "workflow \<Rightarrow> goerr + resource_descriptor list" where
  "GetResolvedDependencies wflow = Inr []"

section \<open>Run details\<close>

definition JsonMediaType :: string where "JsonMediaType = ''application/json''"

fun byproducts_of ::
  "('a \<Rightarrow> goerr + bytes) \<Rightarrow> ('a \<Rightarrow> string) \<Rightarrow> 'a list \<Rightarrow> resource_descriptor list \<Rightarrow>
   goerr + resource_descriptor list" where
  "byproducts_of marshal name [] byproduct = Inr byproduct"
| "byproducts_of marshal name (key # keys) byproduct =
     (case marshal key of
        Inl err \<Rightarrow> Inl err
      | Inr content \<Rightarrow>
          byproducts_of marshal name keys (byproduct @
            [\<lparr>rd_Name = name key, rd_Digest = [], rd_Content = content,
              rd_MediaType = JsonMediaType\<rparr>]))"

definition GetByproducts ::
  "('h, 'w, 'z) prov_env_scheme \<Rightarrow> workflow \<Rightarrow> goerr + resource_descriptor list" where
  "GetByproducts env wflow =
     (case wf_Outputs wflow of
        None \<Rightarrow> Inr []
      | Some outs \<Rightarrow>
          (case byproducts_of (pv_json_Marshal_artifact env)
                  (\<lambda>key. ''workflow-artifact/'' @ art_Name key) (out_Artifacts outs) [] of
             Inl err \<Rightarrow> Inl err
           | Inr byproduct \<Rightarrow>
               byproducts_of (pv_json_Marshal_parameter env)
                 (\<lambda>key. ''workflow-parameter/'' @ par_Name key) (out_Parameters outs) byproduct))"

definition GetMetadata :: "('h, 'w, 'z) prov_env_scheme \<Rightarrow> workflow \<Rightarrow> 'h build_metadata" where
  "GetMetadata env wflow =
     \<lparr>bm_InvocationId = m_uid wflow,
      bm_StartedOn = (if wf_StartedAt wflow \<noteq> 0
        then Some (pv_timestamppb_New env (wf_StartedAt wflow)) else None),
      bm_FinishedOn = (if wf_FinishedAt wflow \<noteq> 0
        then Some (pv_timestamppb_New env (wf_FinishedAt wflow)) else None)\<rparr>"

definition Wfv1alpha1BuildID :: string where
  "Wfv1alpha1BuildID = ''https://argo.slsa.io/argo-workflows/workflow/v1alpha1/l2''"

definition Wfv1alpha1BuildType :: string where
  "Wfv1alpha1BuildType = ''https://argo.slsa.io/argo-workflows-buildtypes/workflow/v1alpha1''"

definition ConstrunctWorkflowRunDetails ::
  "('h, 'w, 'z) prov_env_scheme \<Rightarrow> workflow \<Rightarrow> goerr + 'h run_details" where
  "ConstrunctWorkflowRunDetails env wflow =
     (case GetByproducts env wflow of
        Inl err \<Rightarrow> Inl err
      | Inr bp \<Rightarrow>
          Inr \<lparr>rund_Builder_Id = Wfv1alpha1BuildID,
            rund_Builder_Version = [(''argo-workflows'', ''v3'')],
            rund_Metadata = GetMetadata env wflow, rund_Byproducts = bp\<rparr>)"

section \<open>The statement\<close>

definition ConstrunctWorkflowBuildDefinition ::
  "('h, 'w, 'z) prov_env_scheme \<Rightarrow> (workflow, 'h build_definition) go" where
  "ConstrunctWorkflowBuildDefinition env =
     go_bind GetInternalParams (\<lambda>internalParams.
     go_bind (go_of (GetAnyProtoStruct env internalParams)) (\<lambda>protoInternalParams wflow.
     go_bind (go_of (GetAnyProtoStruct env (GetExternalParams wflow))) (\<lambda>protoExternalParams.
     go_bind (go_of (GetResolvedDependencies wflow)) (\<lambda>resolvedDeps.
     go_ret \<lparr>bd_BuildType = Wfv1alpha1BuildType, bd_ExternalParameters = protoExternalParams,
       bd_InternalParameters = protoInternalParams, bd_ResolvedDependencies = resolvedDeps\<rparr>)) wflow))"

text \<open>\<open>GetProtoStruct\<close>, at the one message it is called with: a provenance predicate.\<close>

definition GetProtoStruct ::
  "('h, 'w, 'z) prov_env_scheme \<Rightarrow> 'h build_definition \<Rightarrow> 'h run_details \<Rightarrow> goerr + 'h" where
  "GetProtoStruct env bd rd =
     (case pv_protojson_Marshal_provenance env bd rd of
        Inl err \<Rightarrow> Inl err
      | Inr predicateJSON \<Rightarrow> pv_protojson_Unmarshal_struct env predicateJSON)"

definition GenerateProvenance ::
  "('h, 'w, 'z) prov_env_scheme \<Rightarrow> 'h build_definition \<Rightarrow> 'h run_details \<Rightarrow>
   resource_descriptor list \<Rightarrow> goerr + 'h statement" where
  "GenerateProvenance env bd rd sub =
     (case GetProtoStruct env bd rd of
        Inl err \<Rightarrow> Inl err
      | Inr predicateStruct \<Rightarrow>
          Inr \<lparr>st_Type = pv_StatementInTotoV01 env,
            st_PredicateType = pv_PredicateSLSAProvenance env,
            st_Subject = sub, st_Predicate = predicateStruct\<rparr>)"

definition GenerateSlsaV1Provenance ::
  "('h, 'w, 'z) prov_env_scheme \<Rightarrow> resource_descriptor list \<Rightarrow> (workflow, bytes) go" where
  "GenerateSlsaV1Provenance env sub =
     (\<lambda>wflow. go_bind (go_of (ConstrunctWorkflowRunDetails env wflow)) (\<lambda>runDetails.
       go_bind (ConstrunctWorkflowBuildDefinition env) (\<lambda>buildDefinition.
       go_bind (go_of (GenerateProvenance env buildDefinition runDetails sub)) (\<lambda>provenance.
       go_of (pv_protojson_Marshal_statement env provenance)))) wflow)"

section \<open>Lemmas\<close>

lemma removeArgoSlsaInfo_lookup:
  "gm_lookup (removeArgoSlsaInfo m) key = (if slsa_info_key key then None else gm_lookup m key)"
  by (cases m) (simp_all add: removeArgoSlsaInfo_def)

lemma removeArgoSlsaInfo_idem [simp]:
  "removeArgoSlsaInfo (removeArgoSlsaInfo m) = removeArgoSlsaInfo m"
  by (cases m) (auto simp: removeArgoSlsaInfo_def)

lemma removeArgoSlsaInfo_nil: "removeArgoSlsaInfo m = None \<longleftrightarrow> m = None"
  by (simp add: removeArgoSlsaInfo_def)

text \<open>What the provenance code does to the workflow in memory.\<close>

definition strip_slsa_info :: "workflow \<Rightarrow> workflow" where
  "strip_slsa_info wflow =
     wflow\<lparr>m_labels := removeArgoSlsaInfo (m_labels wflow),
        m_annotations := removeArgoSlsaInfo (m_annotations wflow)\<rparr>"

lemma strip_slsa_info_idem [simp]: "strip_slsa_info (strip_slsa_info wflow) = strip_slsa_info wflow"
  by (simp add: strip_slsa_info_def)

lemma strip_slsa_info_sel [simp]:
  "m_namespace (strip_slsa_info wflow) = m_namespace wflow"
  "m_name (strip_slsa_info wflow) = m_name wflow"
  "m_uid (strip_slsa_info wflow) = m_uid wflow"
  "m_labels (strip_slsa_info wflow) = removeArgoSlsaInfo (m_labels wflow)"
  "m_annotations (strip_slsa_info wflow) = removeArgoSlsaInfo (m_annotations wflow)"
  "wf_Spec (strip_slsa_info wflow) = wf_Spec wflow"
  "wf_Nodes (strip_slsa_info wflow) = wf_Nodes wflow"
  "wf_Outputs (strip_slsa_info wflow) = wf_Outputs wflow"
  "wf_StartedAt (strip_slsa_info wflow) = wf_StartedAt wflow"
  "wf_FinishedAt (strip_slsa_info wflow) = wf_FinishedAt wflow"
  by (simp_all add: strip_slsa_info_def)

lemma GetInternalParams_run:
  "GetInternalParams wflow =
     (Ok [''labels'' \<mapsto> AnyStringMap (removeArgoSlsaInfo (m_labels wflow)),
          ''annotations'' \<mapsto> AnyStringMap (removeArgoSlsaInfo (m_annotations wflow))],
      strip_slsa_info wflow)"
  by (simp add: GetInternalParams_def strip_slsa_info_def Let_def)

lemma go_of_state: "go_of x s = (r, s') \<Longrightarrow> s' = s"
  by (cases x) (auto simp: go_run)

lemma ConstrunctWorkflowBuildDefinition_state:
  "ConstrunctWorkflowBuildDefinition env wflow = (r, wflow') \<Longrightarrow> wflow' = strip_slsa_info wflow"
  by (auto simp: ConstrunctWorkflowBuildDefinition_def GetInternalParams_run go_bind_def go_ret_def
      dest!: go_of_state split: prod.splits result.splits)

lemma GenerateSlsaV1Provenance_state:
  "GenerateSlsaV1Provenance env sub wflow = (r, wflow') \<Longrightarrow> wflow' = wflow \<or> wflow' = strip_slsa_info wflow"
  by (auto simp: GenerateSlsaV1Provenance_def go_bind_def
      dest!: go_of_state ConstrunctWorkflowBuildDefinition_state split: prod.splits result.splits)

lemma GenerateProvenance_subject:
  "GenerateProvenance env bd rd sub = Inr st \<Longrightarrow> st_Subject st = sub"
  by (auto simp: GenerateProvenance_def split: sum.splits)

lemma GenerateSlsaV1Provenance_Ok:
  assumes "GenerateSlsaV1Provenance env sub wflow = (Ok prov, wflow')"
  shows "wflow' = strip_slsa_info wflow \<and>
    (\<exists>st. pv_protojson_Marshal_statement env st = Inr prov \<and> st_Subject st = sub)"
proof -
  from assms obtain bd rd st where
    "ConstrunctWorkflowBuildDefinition env wflow = (Ok bd, wflow')"
    and "GenerateProvenance env bd rd sub = Inr st"
    and "pv_protojson_Marshal_statement env st = Inr prov"
    by (auto simp: GenerateSlsaV1Provenance_def go_inv)
  then show ?thesis
    using ConstrunctWorkflowBuildDefinition_state GenerateProvenance_subject by blast
qed

lemma byproducts_of_Inr:
  assumes "byproducts_of marshal name xs acc = Inr bps"
  shows "\<exists>ys. bps = acc @ ys \<and> map rd_Name ys = map name xs \<and>
    map (\<lambda>bp. Inr (rd_Content bp)) ys = map marshal xs"
  using assms
proof (induction xs arbitrary: acc)
  case Nil
  then show ?case by simp
next
  case (Cons x xs)
  then obtain c where c: "marshal x = Inr c" by (auto split: sum.splits)
  let ?bp = "\<lparr>rd_Name = name x, rd_Digest = [], rd_Content = c, rd_MediaType = JsonMediaType\<rparr>"
  from Cons.prems c have "byproducts_of marshal name xs (acc @ [?bp]) = Inr bps" by simp
  from Cons.IH [OF this] obtain ys where ys: "bps = acc @ ?bp # ys"
    "map rd_Name ys = map name xs" "map (\<lambda>bp. Inr (rd_Content bp)) ys = map marshal xs"
    by auto
  show ?case by (rule exI [of _ "?bp # ys"]) (simp add: ys c)
qed

lemma byproducts_of_Inl:
  "(\<exists>e. byproducts_of marshal name xs acc = Inl e) \<longleftrightarrow> (\<exists>x \<in> set xs. \<exists>e. marshal x = Inl e)"
  by (induction xs arbitrary: acc) (auto split: sum.splits)

end
