(* ===== verification/PodStatus.thy ===== *)
theory PodStatus imports StatusUpdater Provenance begin

text \<open>
  \<open>internal/workflow-pod-reconciler/pod_status.go\<close>: the state machine of one workflow pod.

  A method of \<open>*podStatus\<close> acts on the pod status and the world, \<open>(podStatus, 'w) go_method\<close>; the
  provenance method also on the in-memory workflow its runtime configuration points to. The pod the
  status points to is \<open>ps_pod\<close>, \<open>None\<close> for the nil pointer, and every call that dereferences it panics
  on nil. Log messages are left out, but for the values they dereference.

  \<open>pod_env\<close> adds the client for pods and the Argo methods \<open>HasParameters\<close> (which accepts a nil
  receiver) and \<open>GetValue\<close>, and cosign's two predicate type names.
\<close>

section \<open>State\<close>

definition podStatusAnnotation :: string where "podStatusAnnotation = ''argo.slsa.io/status''"
definition reconciliationInProgerss :: string where "reconciliationInProgerss = ''In-Progress''"
definition reconciliationCompleted :: string where "reconciliationCompleted = ''Completed''"
definition reconciliationError :: string where "reconciliationError = ''Error''"
definition reconciliationSkipped :: string where "reconciliationSkipped = ''Skipped''"
definition artifactsAnnotation :: string where "artifactsAnnotation = ''argo.slsa.io/artifacts''"
definition artifactsNotFound :: string where "artifactsNotFound = ''No-Artifacts-Found''"
definition signedAnnotation :: string where "signedAnnotation = ''argo.slsa.io/signed''"
definition signingCompleted :: string where "signingCompleted = ''Completed''"
definition signingError :: string where "signingError = ''Error''"
definition signingSkipped :: string where "signingSkipped = ''Skipped''"
definition sbomAnnotation :: string where "sbomAnnotation = ''argo.slsa.io/sbom''"
definition sbomCompleted :: string where "sbomCompleted = ''Attached''"
definition sbomError :: string where "sbomError = ''Error''"
definition sbomSkipped :: string where "sbomSkipped = ''Skipped''"
definition provenanceAnnotation :: string where "provenanceAnnotation = ''argo.slsa.io/provenance''"
definition provenanceCompleted :: string where "provenanceCompleted = ''Attached''"
definition provenanceError :: string where "provenanceError = ''Error''"
definition provenanceSkipped :: string where "provenanceSkipped = ''Skipped''"

lemmas pod_constants = podStatusAnnotation_def reconciliationInProgerss_def
  reconciliationCompleted_def reconciliationError_def reconciliationSkipped_def
  artifactsAnnotation_def artifactsNotFound_def signedAnnotation_def signingCompleted_def
  signingError_def signingSkipped_def sbomAnnotation_def sbomCompleted_def sbomError_def
  sbomSkipped_def provenanceAnnotation_def provenanceCompleted_def provenanceError_def provenanceSkipped_def

record podStatus =
  ps_podName :: string
  ps_pod :: "pod option"
  ps_status :: node_phase
  ps_node :: node
  ps_artifactsFound :: bool
  ps_artifactInfo :: string
  ps_signed :: bool
  ps_sbomAttached :: bool
  ps_provenanceAttached :: bool
  ps_reconciliation :: bool

record ('h, 'w) pod_env = "('h, 'w) prov_env" +
  pe_pods :: "(pod, 'w) kube"
  pe_HasParameters :: "outputs option \<Rightarrow> bool"
  pe_GetValue :: "parameter \<Rightarrow> string"
  pe_PredicateCycloneDX :: string
  pe_PredicateSLSA1 :: string

type_synonym ('p, 'w) go_method = "('p \<times> 'w, unit) go"

section \<open>Access to the pod\<close>

text \<open>Reading the pod, and \<open>statusupdater.PatchAnnotations(ctx, client, podStatus.pod, key, info)\<close>, which
  updates the object the pod status points to.\<close>

definition with_pod :: "(pod \<Rightarrow> (podStatus, 'w) go_method) \<Rightarrow> (podStatus, 'w) go_method" where
  "with_pod k = go_get (\<lambda>ps. case ps_pod ps of None \<Rightarrow> go_panic nil_dereference | Some p \<Rightarrow> k p)"

definition patch_pod ::
  "('h, 'w, 'z) pod_env_scheme \<Rightarrow> string \<Rightarrow> string \<Rightarrow> (podStatus, 'w) go_method" where
  "patch_pod env key info =
     with_pod (\<lambda>p (ps, w).
       case PatchAnnotations (pe_pods env) key info (p, w) of
         (r, (p', w')) \<Rightarrow> (r, (ps\<lparr>ps_pod := Some p'\<rparr>, w')))"

definition getPod ::
  "('h, 'w, 'z) pod_env_scheme \<Rightarrow> string \<Rightarrow> string \<Rightarrow> ('w, pod) go" where
  "getPod env namespace podName =
     (\<lambda>w. case cl_Get (pe_pods env) (namespace, podName) (zero_pod, w) of
        (Ok _, (p, w')) \<Rightarrow> (Ok p, w')
      | (Fail e, (p, w')) \<Rightarrow> (Fail e, w')
      | (Panic m, (p, w')) \<Rightarrow> (Panic m, w'))"

section \<open>The steps\<close>

definition isSkippedOrOmittedPod :: "podStatus \<Rightarrow> bool" where
  "isSkippedOrOmittedPod ps \<longleftrightarrow> ps_status ps = NodeSkipped \<or> ps_status ps = NodeOmitted"

definition inKnownState :: "podStatus \<Rightarrow> bool" where
  "inKnownState ps \<longleftrightarrow>
     ps_status ps = NodeSucceeded \<or> ps_status ps = NodeFailed \<or> ps_status ps = NodeError \<or>
     ps_status ps = NodePending \<or> ps_status ps = NodeRunning"

text \<open>The string of a phase, as \<open>fmt.Sprint\<close> prints it.\<close>

fun phase_string :: "node_phase \<Rightarrow> string" where
  "phase_string NodePending = ''Pending''"
| "phase_string NodeRunning = ''Running''"
| "phase_string NodeSucceeded = ''Succeeded''"
| "phase_string NodeSkipped = ''Skipped''"
| "phase_string NodeFailed = ''Failed''"
| "phase_string NodeError = ''Error''"
| "phase_string NodeOmitted = ''Omitted''"
| "phase_string (OtherPhase s) = s"

definition checkOCI ::
  "('h, 'w, 'z) registry_env_scheme \<Rightarrow> string \<Rightarrow> bool \<times> string \<times> string" where
  "checkOCI env oci =
     (case rg_ParseReference env oci of
        Inl err \<Rightarrow> (False, '''', '''')
      | Inr ref \<Rightarrow>
          (case ref_Digest ref of
             None \<Rightarrow> (False, '''', '''')
           | Some digest \<Rightarrow> (True, ref_RegistryStr ref @ ''/'' @ ref_RepositoryStr ref, digest)))"

text \<open>The loop over the output parameters, with the variables \<open>status\<close> and \<open>artifactInfo\<close>.\<close>

fun scan_parameters ::
  "('h, 'w, 'z) pod_env_scheme \<Rightarrow> parameter list \<Rightarrow> bool \<times> string \<Rightarrow> bool \<times> string" where
  "scan_parameters env [] acc = acc"
| "scan_parameters env (param # params) (status, artifactInfo) =
     scan_parameters env params
       (if HasPrefix ''OCI'' (par_Name param)
        then (let artifactInfo = pe_GetValue env param
              in if fst (checkOCI env artifactInfo) then (True, artifactInfo)
                 else (False, artifactsNotFound))
        else (status, artifactInfo))"

definition handleArtifactInfo :: "('h, 'w, 'z) pod_env_scheme \<Rightarrow> (podStatus, 'w) go_method" where
  "handleArtifactInfo env =
     with_pod (\<lambda>pod.
       if gm_lookup (m_annotations pod) artifactsAnnotation = None
       then go_get (\<lambda>ps.
         let outs = node_Outputs (ps_node ps);
             patch = (\<lambda>(status, artifactInfo).
               go_bind (go_upd (\<lambda>ps. ps\<lparr>ps_artifactsFound := status, ps_artifactInfo := artifactInfo\<rparr>))
                 (\<lambda>_. patch_pod env artifactsAnnotation artifactInfo))
         in if pe_HasParameters env outs
            then (case outs of
                    None \<Rightarrow> go_panic nil_dereference
                  | Some outs \<Rightarrow>
                      patch (scan_parameters env (out_Parameters outs) (False, artifactsNotFound)))
            else patch (False, artifactsNotFound))
       else go_upd (\<lambda>ps. ps\<lparr>ps_artifactsFound :=
         gm_index (m_annotations pod) artifactsAnnotation \<noteq> artifactsNotFound\<rparr>))"

definition handleArtifactSigning ::
  "('h, 'w, 'z) pod_env_scheme \<Rightarrow> 'h config \<Rightarrow> (podStatus, 'w) go_method" where
  "handleArtifactSigning env cfg =
     go_get (\<lambda>ps.
       if \<not> ps_artifactsFound ps then patch_pod env signedAnnotation signingSkipped
       else with_pod (\<lambda>pod.
         if gm_lookup (m_annotations pod) signedAnnotation = None
         then go_bind (go_catch (go_snd (SignWithConfigOpts env (ps_artifactInfo ps) cfg))
                (\<lambda>err. go_ret (False, signingError)) (\<lambda>_. go_ret (True, signingCompleted)))
              (\<lambda>(status, signingState).
                go_bind (go_upd (\<lambda>ps. ps\<lparr>ps_signed := status\<rparr>))
                  (\<lambda>_. patch_pod env signedAnnotation signingState))
         else go_upd (\<lambda>ps. ps\<lparr>ps_signed :=
           gm_index (m_annotations pod) signedAnnotation = signingCompleted\<rparr>)))"

definition handleSBOMgeneration ::
  "('h, 'w, 'z) pod_env_scheme \<Rightarrow> 'h config \<Rightarrow> (podStatus, 'w) go_method" where
  "handleSBOMgeneration env cfg =
     go_get (\<lambda>ps.
       if \<not> ps_artifactsFound ps then patch_pod env sbomAnnotation sbomSkipped
       else with_pod (\<lambda>pod.
         if gm_lookup (m_annotations pod) sbomAnnotation = None
         then go_bind (go_catch (go_snd (GenerateSBOMWithConfigOpts env (ps_artifactInfo ps)
                  (pe_PredicateCycloneDX env) cfg))
                (\<lambda>err. go_ret (False, sbomError)) (\<lambda>_. go_ret (True, sbomCompleted)))
              (\<lambda>(status, sbomState).
                go_bind (go_upd (\<lambda>ps. ps\<lparr>ps_sbomAttached := status\<rparr>))
                  (\<lambda>_. patch_pod env sbomAnnotation sbomState))
         else go_ret ()))"

definition currentRconsiliationStatus :: "pod \<Rightarrow> podStatus \<Rightarrow> podStatus" where
  "currentRconsiliationStatus pod ps =
     (let ps = ps\<lparr>ps_pod := Some pod\<rparr>;
          ps = (case gm_lookup (m_annotations pod) podStatusAnnotation of
                  None \<Rightarrow> ps
                | Some status \<Rightarrow>
                    if status \<noteq> reconciliationInProgerss then ps\<lparr>ps_reconciliation := True\<rparr> else ps);
          ps = (case gm_lookup (m_annotations pod) artifactsAnnotation of
                  None \<Rightarrow> ps
                | Some artifacts \<Rightarrow>
                    if artifacts \<noteq> artifactsNotFound
                    then ps\<lparr>ps_artifactsFound := True, ps_artifactInfo := artifacts\<rparr> else ps);
          ps = (if gm_lookup (m_annotations pod) signedAnnotation \<noteq> None
                then ps\<lparr>ps_signed := True\<rparr> else ps);
          ps = (if gm_lookup (m_annotations pod) sbomAnnotation \<noteq> None
                then ps\<lparr>ps_sbomAttached := True\<rparr> else ps)
      in (if gm_lookup (m_annotations pod) provenanceAnnotation \<noteq> None
          then ps\<lparr>ps_provenanceAttached := True\<rparr> else ps))"

definition markPodAsSkipped :: "('h, 'w, 'z) pod_env_scheme \<Rightarrow> (podStatus, 'w) go_method" where
  "markPodAsSkipped env =
     go_bind (go_upd (\<lambda>ps. ps\<lparr>ps_reconciliation := True\<rparr>))
       (\<lambda>_. patch_pod env podStatusAnnotation reconciliationSkipped)"

definition updateFinalStatus :: "('h, 'w, 'z) pod_env_scheme \<Rightarrow> (podStatus, 'w) go_method" where
  "updateFinalStatus env =
     go_bind (go_upd (\<lambda>ps. ps\<lparr>ps_reconciliation := True\<rparr>)) (\<lambda>_. go_get (\<lambda>ps.
       if \<not> ps_artifactsFound ps then patch_pod env podStatusAnnotation reconciliationSkipped
       else if ps_signed ps then patch_pod env podStatusAnnotation reconciliationCompleted
       else patch_pod env podStatusAnnotation reconciliationError))"

definition handlePodReconciliation ::
  "('h, 'w, 'z) pod_env_scheme \<Rightarrow> 'h config \<Rightarrow> (podStatus, 'w) go_method" where
  "handlePodReconciliation env cfg =
     go_get (\<lambda>ps.
       if ps_status ps = NodeError then markPodAsSkipped env
       else with_pod (\<lambda>pod.
         if pod_phase pod \<noteq> PodSucceeded then markPodAsSkipped env
         else
           go_bind (patch_pod env podStatusAnnotation reconciliationInProgerss) (\<lambda>_.
           go_bind (handleArtifactInfo env) (\<lambda>_.
           go_bind (handleArtifactSigning env cfg) (\<lambda>_.
           go_bind (if cfg_SbomGeneration cfg
                    then go_catch (handleSBOMgeneration env cfg) (\<lambda>err. go_ret ()) go_ret
                    else go_ret ()) (\<lambda>_.
           updateFinalStatus env))))))"

definition reconcilePod ::
  "('h, 'w, 'z) pod_env_scheme \<Rightarrow> 'h config \<Rightarrow> string \<Rightarrow> (podStatus, 'w) go_method" where
  "reconcilePod env cfg namespace =
     go_get (\<lambda>ps.
       if isSkippedOrOmittedPod ps then go_upd (\<lambda>ps. ps\<lparr>ps_reconciliation := True\<rparr>)
       else if \<not> inKnownState ps
       then go_fail (errors_New (ps_podName ps @ ''is in an unknown node state: ''
              @ phase_string (ps_status ps)))
       else if ps_status ps = NodeRunning \<or> ps_status ps = NodePending then go_ret ()
       else
         go_bind (go_snd (getPod env namespace (ps_podName ps))) (\<lambda>pod.
         go_bind (go_upd (currentRconsiliationStatus pod)) (\<lambda>_.
         go_get (\<lambda>ps.
           if ps_reconciliation ps then go_ret () else handlePodReconciliation env cfg))))"

text \<open>The provenance step acts on the pod status, the workflow and the world. Its state is written to
  \<open>ps_sbomAttached\<close>, as in the source.\<close>

definition on_workflow :: "(workflow, 'a) go \<Rightarrow> (podStatus \<times> workflow \<times> 'w, 'a) go" where
  "on_workflow m =
     (\<lambda>(ps, (wflow, w)). case m wflow of (r, wflow') \<Rightarrow> (r, (ps, (wflow', w))))"

definition handleProveneceAttachment ::
  "('h, 'w, 'z) pod_env_scheme \<Rightarrow> 'h config \<Rightarrow> resource_descriptor list \<Rightarrow>
   (podStatus, workflow \<times> 'w) go_method" where
  "handleProveneceAttachment env cfg subjects =
     go_get (\<lambda>ps.
       if \<not> ps_artifactsFound ps then go_mid (patch_pod env provenanceAnnotation provenanceSkipped)
       else (case ps_pod ps of
         None \<Rightarrow> go_panic nil_dereference
       | Some pod \<Rightarrow>
         if gm_lookup (m_annotations pod) provenanceAnnotation = None \<and> ps_signed ps
         then go_bind (go_wrap ''error while generating provenance: ''
                (on_workflow (GenerateSlsaV1Provenance env subjects))) (\<lambda>provenance.
              go_bind (go_catch
                (go_snd (go_snd (AttestWithConfigOpts env cfg (ps_artifactInfo ps)
                   (pe_PredicateSLSA1 env) provenance)))
                (\<lambda>err. go_ret (False, sbomError)) (\<lambda>attestInfo. go_ret (True, provenanceCompleted)))
              (\<lambda>(status, provenenceState).
                go_bind (go_upd (\<lambda>ps. ps\<lparr>ps_sbomAttached := status\<rparr>))
                  (\<lambda>_. go_mid (patch_pod env provenanceAnnotation provenenceState))))
         else go_ret ()))"

section \<open>Lemmas\<close>

subsection \<open>Patching the pod\<close>

definition pods_documented :: "('h, 'w, 'z) pod_env_scheme \<Rightarrow> ('w \<Rightarrow> 'w) \<Rightarrow> bool" where
  "pods_documented env sleep \<longleftrightarrow>
     retry_documented (pe_pods env) sleep \<and> kube_documented (pe_pods env)"

lemma patch_pod_run:
  "patch_pod env key info (ps, w) =
     (case ps_pod ps of
        None \<Rightarrow> (Panic nil_dereference, (ps, w))
      | Some p \<Rightarrow>
          (case PatchAnnotations (pe_pods env) key info (p, w) of
             (r, (p', w')) \<Rightarrow> (r, (ps\<lparr>ps_pod := Some p'\<rparr>, w'))))"
  by (simp add: patch_pod_def with_pod_def go_get_def go_panic_def split: option.splits)

lemma patch_pod_Ok:
  assumes "pods_documented env sleep" and "patch_pod env key info (ps, w) = (Ok u, (ps', w'))"
  shows "\<exists>p'. ps' = ps\<lparr>ps_pod := Some p'\<rparr> \<and> gm_lookup (m_annotations p') key = Some info"
  using assms annotations.patched [of "pe_pods env" sleep key info]
  by (auto simp: patch_pod_run pods_documented_def split: option.splits prod.splits)

lemma patch_pod_fixes [go_fixes_rules]:
  assumes "\<And>ps p w w'. f (ps\<lparr>ps_pod := p\<rparr>, w') = f (ps, w)"
  shows "go_fixes f (patch_pod env key info)"
  unfolding go_fixes_def
proof clarify
  fix ps w r ps' w'
  assume run: "patch_pod env key info (ps, w) = (r, (ps', w'))"
  then consider "ps' = ps" "w' = w" | p' where "ps' = ps\<lparr>ps_pod := p'\<rparr>"
    by (auto simp: patch_pod_run split: option.splits prod.splits)
  then show "f (ps', w') = f (ps, w)"
    by cases (simp_all add: assms)
qed

lemma with_pod_fixes [go_fixes_rules]:
  "(\<And>p. go_fixes f (k p)) \<Longrightarrow> go_fixes f (with_pod k)"
  unfolding with_pod_def by (intro go_fixes_rules)

subsection \<open>What the steps keep\<close>

text \<open>No step changes which pod and node a status is about, and only the provenance flag's own reader
  sets it.\<close>

definition pod_identity :: "podStatus \<times> 'v \<Rightarrow> string \<times> node_phase \<times> node" where
  "pod_identity = (\<lambda>(ps, v). (ps_podName ps, ps_status ps, ps_node ps))"

lemma pod_identity_simp [simp]: "pod_identity (ps, v) = (ps_podName ps, ps_status ps, ps_node ps)"
  by (simp add: pod_identity_def)

lemmas pod_steps = handleArtifactInfo_def handleArtifactSigning_def handleSBOMgeneration_def
  markPodAsSkipped_def updateFinalStatus_def handlePodReconciliation_def reconcilePod_def

lemma currentRconsiliationStatus_identity [simp]:
  "ps_podName (currentRconsiliationStatus pod ps) = ps_podName ps"
  "ps_status (currentRconsiliationStatus pod ps) = ps_status ps"
  "ps_node (currentRconsiliationStatus pod ps) = ps_node ps"
  "ps_pod (currentRconsiliationStatus pod ps) = Some pod"
  by (simp_all add: currentRconsiliationStatus_def Let_def split: option.splits)

lemma handleArtifactInfo_identity: "go_fixes pod_identity (handleArtifactInfo env)"
  unfolding handleArtifactInfo_def Let_def
  by (intro go_fixes_rules | simp)+

lemma handleArtifactSigning_identity: "go_fixes pod_identity (handleArtifactSigning env cfg)"
  unfolding handleArtifactSigning_def by (intro go_fixes_rules | simp)+

lemma handleSBOMgeneration_identity: "go_fixes pod_identity (handleSBOMgeneration env cfg)"
  unfolding handleSBOMgeneration_def by (intro go_fixes_rules | simp)+

lemma handlePodReconciliation_identity: "go_fixes pod_identity (handlePodReconciliation env cfg)"
  unfolding handlePodReconciliation_def markPodAsSkipped_def updateFinalStatus_def
  by (intro go_fixes_rules handleArtifactInfo_identity handleArtifactSigning_identity
      handleSBOMgeneration_identity | simp)+

lemma reconcilePod_identity: "go_fixes pod_identity (reconcilePod env cfg ns)"
  unfolding reconcilePod_def
  by (intro go_fixes_rules handlePodReconciliation_identity | simp)+

subsection \<open>Results of the steps\<close>

text \<open>The names \<open>strings.HasPrefix("OCI", param.Name)\<close> accepts.\<close>

definition scanned_name :: "string \<Rightarrow> bool" where
  "scanned_name n \<longleftrightarrow> HasPrefix ''OCI'' n"

lemma scanned_name_iff: "scanned_name n \<longleftrightarrow> n \<in> {'''', ''O'', ''OC'', ''OCI''}"
  by (auto simp: scanned_name_def HasPrefix_prefix prefix_Cons)

text \<open>What one scanned parameter makes of the two variables.\<close>

definition scan_outcome :: "('h, 'w, 'z) pod_env_scheme \<Rightarrow> parameter \<Rightarrow> bool \<times> string" where
  "scan_outcome env param =
     (if fst (checkOCI env (pe_GetValue env param)) then (True, pe_GetValue env param)
      else (False, artifactsNotFound))"

lemma scan_parameters_last:
  "scan_parameters env params acc =
     (let scanned = filter (\<lambda>p. scanned_name (par_Name p)) params
      in if scanned = [] then acc else scan_outcome env (last scanned))"
proof (induction params arbitrary: acc)
  case Nil
  then show ?case by simp
next
  case (Cons p params)
  then show ?case
    by (cases acc) (simp add: scanned_name_def scan_outcome_def Let_def)
qed

lemma handleArtifactSigning_absent:
  assumes "ps_artifactsFound ps" and "ps_pod ps = Some p"
    and "gm_lookup (m_annotations p) signedAnnotation = None"
    and "SignWithConfigOpts env (ps_artifactInfo ps) cfg w = (res, w1)"
    and "\<forall>msg. res \<noteq> Panic msg"
  shows "handleArtifactSigning env cfg (ps, w) =
    (if res = Ok () then patch_pod env signedAnnotation signingCompleted (ps\<lparr>ps_signed := True\<rparr>, w1)
     else patch_pod env signedAnnotation signingError (ps\<lparr>ps_signed := False\<rparr>, w1))"
  using assms
  by (cases res) (simp_all add: handleArtifactSigning_def with_pod_def go_get_def go_bind_def
      go_catch_def go_snd_def go_ret_def go_upd_def)

lemma handleArtifactSigning_present:
  assumes "ps_artifactsFound ps" and "ps_pod ps = Some p"
    and "gm_lookup (m_annotations p) signedAnnotation = Some v"
  shows "handleArtifactSigning env cfg (ps, w) = (Ok (), (ps\<lparr>ps_signed := (v = signingCompleted)\<rparr>, w))"
  using assms
  by (simp add: handleArtifactSigning_def with_pod_def go_get_def go_upd_def gm_index_Some)

lemma markPodAsSkipped_Ok:
  assumes "pods_documented env sleep" and "markPodAsSkipped env (ps, w) = (Ok u, (ps', w'))"
  shows "ps_reconciliation ps' \<and> (\<exists>p p'. ps_pod ps = Some p \<and> ps_pod ps' = Some p' \<and>
    gm_lookup (m_annotations p') podStatusAnnotation = Some reconciliationSkipped)"
proof -
  have run: "patch_pod env podStatusAnnotation reconciliationSkipped (ps\<lparr>ps_reconciliation := True\<rparr>, w) =
      (Ok u, (ps', w'))"
    using assms(2) by (simp add: markPodAsSkipped_def go_bind_def go_upd_def)
  then have "ps_pod ps \<noteq> None" by (auto simp: patch_pod_run split: option.splits)
  with patch_pod_Ok [OF assms(1) run] show ?thesis by auto
qed

definition verdict :: "podStatus \<Rightarrow> string" where
  "verdict ps =
     (if \<not> ps_artifactsFound ps then reconciliationSkipped
      else if ps_signed ps then reconciliationCompleted else reconciliationError)"

lemma updateFinalStatus_run:
  "updateFinalStatus env (ps, w) =
     patch_pod env podStatusAnnotation (verdict ps) (ps\<lparr>ps_reconciliation := True\<rparr>, w)"
  by (simp add: updateFinalStatus_def go_bind_def go_upd_def go_get_def verdict_def)

lemma updateFinalStatus_Ok:
  assumes "pods_documented env sleep" and "updateFinalStatus env (ps, w) = (Ok u, (ps', w'))"
  shows "ps_reconciliation ps' \<and> verdict ps' = verdict ps \<and> (\<exists>p'. ps_pod ps' = Some p' \<and>
    gm_lookup (m_annotations p') podStatusAnnotation = Some (verdict ps))"
  using patch_pod_Ok [OF assms(1) assms(2) [unfolded updateFinalStatus_run]]
  by (auto simp: verdict_def)

text \<open>A pod that is examined: its node did not fail with an error, and the pod succeeded.\<close>

definition examined :: "podStatus \<Rightarrow> bool" where
  "examined ps \<longleftrightarrow>
     ps_status ps \<noteq> NodeError \<and>
     (case ps_pod ps of None \<Rightarrow> False | Some p \<Rightarrow> pod_phase p = PodSucceeded)"

lemma handlePodReconciliation_cases:
  assumes "handlePodReconciliation env cfg (ps, w) = (Ok u, (ps', w'))"
  shows "(\<not> examined ps \<and> markPodAsSkipped env (ps, w) = (Ok u, (ps', w'))) \<or>
    (examined ps \<and> (\<exists>ps1 w1. updateFinalStatus env (ps1, w1) = (Ok u, (ps', w'))))"
proof (cases "ps_status ps = NodeError")
  case True
  with assms show ?thesis
    by (simp add: handlePodReconciliation_def go_get_def examined_def)
next
  case False
  with assms obtain p where p: "ps_pod ps = Some p"
    by (cases "ps_pod ps") (auto simp: handlePodReconciliation_def go_get_def with_pod_def go_panic_def)
  show ?thesis
  proof (cases "pod_phase p = PodSucceeded")
    case True
    with assms False p show ?thesis
      by (auto simp: handlePodReconciliation_def go_get_def with_pod_def examined_def go_bind_Ok)
  next
    case phase: False
    with assms False p show ?thesis
      by (auto simp: handlePodReconciliation_def go_get_def with_pod_def examined_def)
  qed
qed

subsection \<open>A second visit\<close>

lemma currentRconsiliationStatus_final:
  assumes "gm_lookup (m_annotations p) podStatusAnnotation = Some st"
    and "st \<noteq> reconciliationInProgerss"
  shows "ps_reconciliation (currentRconsiliationStatus p ps)"
  using assms by (simp add: currentRconsiliationStatus_def Let_def split: option.splits)

lemma currentRconsiliationStatus_signed:
  "gm_lookup (m_annotations p) signedAnnotation = Some v \<Longrightarrow>
     ps_signed (currentRconsiliationStatus p ps)"
  by (simp add: currentRconsiliationStatus_def Let_def split: option.splits)

lemma currentRconsiliationStatus_artifacts:
  "gm_lookup (m_annotations p) artifactsAnnotation = Some img \<Longrightarrow> img \<noteq> artifactsNotFound \<Longrightarrow>
     ps_artifactsFound (currentRconsiliationStatus p ps) \<and>
     ps_artifactInfo (currentRconsiliationStatus p ps) = img"
  by (simp add: currentRconsiliationStatus_def Let_def split: option.splits)

lemma reconcilePod_terminated:
  assumes "ps_status ps \<in> {NodeSucceeded, NodeFailed, NodeError}"
    and "getPod env ns (ps_podName ps) w = (Ok p, w1)"
  shows "reconcilePod env cfg ns (ps, w) =
    (if ps_reconciliation (currentRconsiliationStatus p ps)
     then (Ok (), (currentRconsiliationStatus p ps, w1))
     else handlePodReconciliation env cfg (currentRconsiliationStatus p ps, w1))"
  using assms
  by (auto simp: reconcilePod_def isSkippedOrOmittedPod_def inKnownState_def go_get_def
      go_bind_def go_snd_def go_upd_def go_ret_def)

end
