(* ===== verification/WorkflowPods.thy ===== *)
theory WorkflowPods imports PodStatus begin

text \<open>
  \<open>internal/workflow-pod-reconciler/workflow_pod_reconciler.go\<close>: the pods of one workflow.

  \<open>WorkflowStatus\<close> is the list of its pod statuses; each holds a pointer, so a method on one of them
  updates it in place. A loop over the list that stops at the first error is \<open>each_pod\<close>.
\<close>

fun each_pod :: "(podStatus, 'v) go_method \<Rightarrow> (podStatus list, 'v) go_method" where
  "each_pod m ([], v) = (Ok (), ([], v))"
| "each_pod m (p # ps, v) =
     (case m (p, v) of
        (Ok _, (p', v')) \<Rightarrow> (case each_pod m (ps, v') of (r, (ps', v'')) \<Rightarrow> (r, (p' # ps', v'')))
      | (Fail e, (p', v')) \<Rightarrow> (Fail e, (p' # ps, v'))
      | (Panic msg, (p', v')) \<Rightarrow> (Panic msg, (p' # ps, v')))"

definition formatPodName :: "string \<Rightarrow> string \<Rightarrow> string \<Rightarrow> string" where
  "formatPodName workflowName templateName nodeID =
     workflowName @ ''-'' @ templateName @ ''-'' @ TrimPrefix nodeID (workflowName @ ''-'')"

definition new_podStatus :: "string \<Rightarrow> node \<Rightarrow> podStatus" where
  "new_podStatus workflowName n =
     \<lparr>ps_podName = formatPodName workflowName (node_TemplateName n) (node_ID n),
      ps_pod = None, ps_status = node_Phase n, ps_node = n, ps_artifactsFound = False,
      ps_artifactInfo = '''', ps_signed = False, ps_sbomAttached = False,
      ps_provenanceAttached = False, ps_reconciliation = False\<rparr>"

fun collect_pods :: "string \<Rightarrow> (string \<times> node) list \<Rightarrow> podStatus list" where
  "collect_pods workflowName [] = []"
| "collect_pods workflowName ((_, n) # nodes) =
     (if node_Type n = ''Pod''
      then new_podStatus workflowName n # collect_pods workflowName nodes
      else collect_pods workflowName nodes)"

definition GetPodInfo :: "workflow \<Rightarrow> goerr + podStatus list" where
  "GetPodInfo wflow =
     (if length (wf_Nodes wflow) = 0 then Inl (errors_New ''no pods found in the workflow'')
      else let podsStatus = collect_pods (m_name wflow) (wf_Nodes wflow)
           in if length podsStatus = 0 then Inl (errors_New ''no pods found in the workflow'')
              else Inr podsStatus)"

definition not_all_reconciled :: string where
  "not_all_reconciled = ''not all workflow pods have been reconciled''"

definition signing_error_prefix :: string where
  "signing_error_prefix = ''error while signing artifacts found in ''"

fun validateAllPodsReconciled :: "podStatus list \<Rightarrow> goerr option" where
  "validateAllPodsReconciled [] = None"
| "validateAllPodsReconciled (p # ps) =
     (if \<not> ps_reconciliation p then Some (errors_New not_all_reconciled)
      else if ps_artifactsFound p \<and> \<not> ps_signed p
      then Some (errors_New (signing_error_prefix @ node_DisplayName (ps_node p)))
      else validateAllPodsReconciled ps)"

definition WorkflowStatus_Reconcile ::
  "('h, 'w, 'z) pod_env_scheme \<Rightarrow> 'h config \<Rightarrow> string \<Rightarrow> (podStatus list, 'w) go_method" where
  "WorkflowStatus_Reconcile env cfg namespace =
     go_bind (each_pod (reconcilePod env cfg namespace))
       (\<lambda>_. go_get (\<lambda>pods. go_err (validateAllPodsReconciled pods)))"

fun attest_subjects ::
  "('h, 'w, 'z) pod_env_scheme \<Rightarrow> podStatus list \<Rightarrow> resource_descriptor list" where
  "attest_subjects env [] = []"
| "attest_subjects env (p # ps) =
     (if ps_artifactsFound p \<and> ps_signed p then
        (case checkOCI env (ps_artifactInfo p) of
           (ok, ref, digest) \<Rightarrow>
             if ok then
               \<lparr>rd_Name = ref, rd_Digest = [(''sha256'', TrimPrefix digest ''sha256:'')],
                rd_Content = '''', rd_MediaType = ''''\<rparr> # attest_subjects env ps
             else attest_subjects env ps)
      else attest_subjects env ps)"

definition AttestArtifacts ::
  "('h, 'w, 'z) pod_env_scheme \<Rightarrow> 'h config \<Rightarrow> (podStatus list, workflow \<times> 'w) go_method" where
  "AttestArtifacts env cfg =
     go_get (\<lambda>pods. each_pod (handleProveneceAttachment env cfg (attest_subjects env pods)))"

section \<open>Lemmas\<close>

subsection \<open>The loop\<close>

lemma each_pod_Nil_inv [simp]:
  "each_pod m ([], v) = (r, s') \<longleftrightarrow> r = Ok () \<and> s' = ([], v)"
  by auto

lemma each_pod_Cons_inv:
  "each_pod m (p # ps, v) = (r, s') \<longleftrightarrow>
     (\<exists>res p1 v1. m (p, v) = (res, (p1, v1)) \<and>
        (case res of
           Ok _ \<Rightarrow> \<exists>ps2 v2. each_pod m (ps, v1) = (r, (ps2, v2)) \<and> s' = (p1 # ps2, v2)
         | Fail e \<Rightarrow> r = Fail e \<and> s' = (p1 # ps, v1)
         | Panic msg \<Rightarrow> r = Panic msg \<and> s' = (p1 # ps, v1)))"
  by (cases "m (p, v)"; cases "fst (m (p, v))")
    (auto split: prod.splits result.splits)

lemma each_pod_map_fixes:
  assumes fixed: "go_fixes (\<lambda>(p, v). g p) m"
    and run: "each_pod m (ps, v) = (r, (ps', v'))"
  shows "map g ps' = map g ps"
  using run
proof (induction ps arbitrary: v r ps' v')
  case Nil
  then show ?case by simp
next
  case (Cons p ps)
  then obtain res p1 v1 where step: "m (p, v) = (res, (p1, v1))"
    and rest: "case res of
           Ok _ \<Rightarrow> \<exists>ps2 v2. each_pod m (ps, v1) = (r, (ps2, v2)) \<and> (ps', v') = (p1 # ps2, v2)
         | Fail e \<Rightarrow> r = Fail e \<and> (ps', v') = (p1 # ps, v1)
         | Panic msg \<Rightarrow> r = Panic msg \<and> (ps', v') = (p1 # ps, v1)"
    unfolding each_pod_Cons_inv by blast
  have "g p1 = g p" using go_fixesD [OF fixed step] by simp
  with rest Cons.IH show ?case by (auto split: result.splits)
qed

lemma each_pod_fixes:
  assumes "go_fixes (\<lambda>(p, v). g p) m"
  shows "go_fixes (\<lambda>(ps, v). map g ps) (each_pod m)"
  using each_pod_map_fixes [OF assms] by (auto simp: go_fixes_def)

lemma each_pod_Ok:
  assumes "each_pod m (ps, v) = (Ok u, (ps', v'))"
  shows "list_all2 (\<lambda>p p'. \<exists>v1 v2. m (p, v1) = (Ok (), (p', v2))) ps ps'"
  using assms
  by (induction ps arbitrary: v ps' v')
    (auto simp: each_pod_Cons_inv simp del: each_pod.simps split: result.splits,
      metis result.exhaust unit.exhaust)

text \<open>A loop over the pods: \<open>I\<close> is an invariant of the world as long as every pod satisfies \<open>G\<close> when it
  is visited.\<close>

lemma each_pod_guarded:
  assumes "each_pod m (ps, v) = (r, (ps', v'))" and "I v" and "\<forall>p \<in> set ps. G p v"
    and "\<And>p v r p1 v1. I v \<Longrightarrow> G p v \<Longrightarrow> m (p, v) = (r, (p1, v1)) \<Longrightarrow> I v1"
    and "\<And>q p v r p1 v1. I v \<Longrightarrow> G p v \<Longrightarrow> G q v \<Longrightarrow> m (p, v) = (r, (p1, v1)) \<Longrightarrow> G q v1"
  shows "I v'"
  using assms(1-3)
proof (induction ps arbitrary: v ps')
  case (Cons p ps)
  obtain res p1 v1 where step: "m (p, v) = (res, (p1, v1))" by (metis prod.exhaust)
  have "I v1" "\<forall>q \<in> set ps. G q v1"
    using assms(4) [OF Cons.prems(2) _ step] assms(5) [OF Cons.prems(2) _ _ step] Cons.prems(3) by simp_all
  moreover have "v' = v1 \<or> (\<exists>ps2. each_pod m (ps, v1) = (r, (ps2, v')))"
    using Cons.prems(1) step by (cases res) (auto split: prod.splits)
  ultimately show ?case using Cons.IH by blast
qed simp

lemma each_pod_blocked:
  assumes "p \<in> set ps" and "\<And>v. \<forall>u. fst (m (p, v)) \<noteq> Ok u"
  shows "fst (each_pod m (ps, v)) \<noteq> Ok u"
proof
  assume "fst (each_pod m (ps, v)) = Ok u"
  then obtain ps' v' where "each_pod m (ps, v) = (Ok u, (ps', v'))"
    by (cases "each_pod m (ps, v)") auto
  from each_pod_Ok [OF this] assms(1) obtain p' v1 v2 where "m (p, v1) = (Ok (), (p', v2))"
    by (auto simp: list_all2_conv_all_nth in_set_conv_nth)
  with assms(2) [of v1] show False by simp
qed

subsection \<open>Names\<close>

lemma formatPodName_node:
  "formatPodName workflowName templateName (workflowName @ ''-'' @ rest) =
     workflowName @ ''-'' @ templateName @ ''-'' @ rest"
  using TrimPrefix_append [of "workflowName @ ''-''" rest] by (simp add: formatPodName_def)

lemma collect_pods_filter:
  "collect_pods workflowName nodes =
     map (new_podStatus workflowName) (filter (\<lambda>n. node_Type n = ''Pod'') (map snd nodes))"
  by (induction workflowName nodes rule: collect_pods.induct) simp_all

subsection \<open>Validation\<close>

definition settled :: "podStatus \<Rightarrow> bool" where
  "settled p \<longleftrightarrow> ps_reconciliation p \<and> (ps_artifactsFound p \<longrightarrow> ps_signed p)"

definition unsettled_error :: "podStatus \<Rightarrow> goerr" where
  "unsettled_error p =
     errors_New (if \<not> ps_reconciliation p then not_all_reconciled
       else signing_error_prefix @ node_DisplayName (ps_node p))"

lemma validate_find:
  "validateAllPodsReconciled ps = map_option unsettled_error (find (\<lambda>p. \<not> settled p) ps)"
  by (induction ps) (simp_all add: settled_def unsettled_error_def)

lemma validate_None: "validateAllPodsReconciled ps = None \<longleftrightarrow> (\<forall>p \<in> set ps. settled p)"
  by (auto simp: validate_find find_None_iff)

lemma WorkflowStatus_Reconcile_Ok:
  assumes "WorkflowStatus_Reconcile env cfg ns (pods, w) = (Ok u, (pods', w'))"
  shows "each_pod (reconcilePod env cfg ns) (pods, w) = (Ok (), (pods', w')) \<and>
    (\<forall>p \<in> set pods'. settled p)"
  using assms
  by (auto simp: WorkflowStatus_Reconcile_def go_bind_Ok go_get_def go_err_def go_ret_def
      go_fail_def validate_None split: option.splits)

lemma WorkflowStatus_Reconcile_identity:
  assumes "WorkflowStatus_Reconcile env cfg ns (pods, w) = (r, (pods', w'))"
  shows "map (\<lambda>p. (ps_podName p, ps_status p, ps_node p)) pods' =
    map (\<lambda>p. (ps_podName p, ps_status p, ps_node p)) pods"
proof -
  note pods_kept = each_pod_fixes [where g = "\<lambda>p. (ps_podName p, ps_status p, ps_node p)",
      OF reconcilePod_identity [of env cfg ns, unfolded pod_identity_def]]
  have "go_fixes (\<lambda>(ps, v). map (\<lambda>p. (ps_podName p, ps_status p, ps_node p)) ps)
      (WorkflowStatus_Reconcile env cfg ns)"
    unfolding WorkflowStatus_Reconcile_def go_err_def
    by (intro go_fixes_rules pods_kept)
  from go_fixesD [OF this assms] show ?thesis by simp
qed

subsection \<open>Subjects\<close>

definition attestable :: "('h, 'w, 'z) pod_env_scheme \<Rightarrow> podStatus \<Rightarrow> bool" where
  "attestable env p \<longleftrightarrow>
     ps_artifactsFound p \<and> ps_signed p \<and> fst (checkOCI env (ps_artifactInfo p))"

text \<open>The subject that stands for an image.\<close>

definition subject_of :: "('h, 'w, 'z) registry_env_scheme \<Rightarrow> string \<Rightarrow> resource_descriptor" where
  "subject_of env img =
     (case checkOCI env img of (ok, ref, digest) \<Rightarrow>
        \<lparr>rd_Name = ref, rd_Digest = [(''sha256'', TrimPrefix digest ''sha256:'')],
         rd_Content = '''', rd_MediaType = ''''\<rparr>)"

lemma attest_subjects_filter:
  "attest_subjects env pods = map (\<lambda>p. subject_of env (ps_artifactInfo p)) (filter (attestable env) pods)"
  by (induction pods) (auto simp: attestable_def subject_of_def split: prod.splits)

section \<open>What a complete reconciliation says of the nodes\<close>

definition terminated_phase :: "node_phase \<Rightarrow> bool" where
  "terminated_phase ph \<longleftrightarrow> ph = NodeSucceeded \<or> ph = NodeFailed \<or> ph = NodeError"

text \<open>A status that has not been visited: as \<open>GetPodInfo\<close> makes it.\<close>

definition unvisited :: "podStatus \<Rightarrow> bool" where
  "unvisited p \<longleftrightarrow> ps_pod p = None \<and> \<not> ps_reconciliation p \<and> \<not> ps_artifactsFound p"

lemma new_podStatus_unvisited: "unvisited (new_podStatus name n)"
  by (simp add: unvisited_def new_podStatus_def)

lemma reconcilePod_not_terminated:
  assumes "reconcilePod env cfg ns (ps, w) = (Ok u, (ps', w'))" and "\<not> terminated_phase (ps_status ps)"
  shows "w' = w \<and> ps' = ps\<lparr>ps_reconciliation := ps_reconciliation ps \<or> isSkippedOrOmittedPod ps\<rparr> \<and>
    (isSkippedOrOmittedPod ps \<or> ps_status ps = NodeRunning \<or> ps_status ps = NodePending)"
  using assms
  by (auto simp: reconcilePod_def go_get_def go_upd_def go_fail_def go_ret_def terminated_phase_def
      inKnownState_def isSkippedOrOmittedPod_def split: if_splits)

lemma handleProveneceAttachment_Ok_pod:
  "handleProveneceAttachment env cfg subs (ps, v) = (Ok u, s') \<Longrightarrow> ps_pod ps \<noteq> None"
  by (cases v) (auto simp: handleProveneceAttachment_def go_get_def go_inv patch_pod_run go_panic_def
      split: if_splits option.splits)

text \<open>A pod that is settled and that the provenance step accepts belongs to a node that ran to its
  end.\<close>

lemma settled_terminated:
  assumes "reconcilePod env cfg ns (ps, w1) = (Ok (), (ps', w2))" and "unvisited ps"
    and "settled ps'" and "ps_pod ps' \<noteq> None"
  shows "terminated_phase (ps_status ps)"
proof (rule ccontr)
  assume "\<not> terminated_phase (ps_status ps)"
  from reconcilePod_not_terminated [OF assms(1) this] assms(2-4) show False
    by (auto simp: unvisited_def settled_def)
qed

lemma AttestArtifacts_Ok_pods:
  assumes "AttestArtifacts env cfg (pods, v) = (Ok u, s')" and "p \<in> set pods"
  shows "ps_pod p \<noteq> None"
proof -
  obtain pods' v' where "each_pod (handleProveneceAttachment env cfg (attest_subjects env pods)) (pods, v) =
      (Ok u, (pods', v'))"
    using assms(1) by (cases s') (auto simp: AttestArtifacts_def go_get_def)
  from each_pod_Ok [OF this] assms(2) show ?thesis
    by (auto simp: list_all2_conv_all_nth in_set_conv_nth dest: handleProveneceAttachment_Ok_pod)
qed

lemma WorkflowStatus_Reconcile_terminated:
  assumes "WorkflowStatus_Reconcile env cfg ns (pods, w) = (Ok u, (pods', w'))"
    and "\<forall>p \<in> set pods. unvisited p" and "\<forall>p \<in> set pods'. ps_pod p \<noteq> None"
  shows "\<forall>p \<in> set pods. terminated_phase (ps_status p)"
proof
  fix p
  assume "p \<in> set pods"
  then obtain i where i: "i < length pods" "pods ! i = p" by (auto simp: in_set_conv_nth)
  from WorkflowStatus_Reconcile_Ok [OF assms(1)]
  have run: "each_pod (reconcilePod env cfg ns) (pods, w) = (Ok (), (pods', w'))"
    and st: "\<forall>p \<in> set pods'. settled p" by simp_all
  from each_pod_Ok [OF run] i obtain v1 v2 where len: "length pods' = length pods"
    and step: "reconcilePod env cfg ns (p, v1) = (Ok (), (pods' ! i, v2))"
    by (auto simp: list_all2_conv_all_nth)
  have mem: "pods' ! i \<in> set pods'" using i len by simp
  show "terminated_phase (ps_status p)"
    using settled_terminated [OF step] mem st assms(2,3) \<open>p \<in> set pods\<close> by blast
qed

end
