(* ===== verification/Auth.thy ===== *)
theory Auth imports PodStatus begin

text \<open>
  The package \<open>pkg/auth\<close>: the keychain with which registries are accessed, built from the cloud
  providers' keychains and the pull secrets of the controller's and the workflow's namespaces.

  The in-cluster client is an interface value, \<open>None\<close> for nil; calling a method on nil panics.
\<close>

definition ociSecretSelector :: string where
  "ociSecretSelector = ''argo.slsa.io/secret-type=oci''"

record ('h, 'w) auth_env = "('h, 'w) pod_env" +
  au_DefaultKeychain :: 'h
  au_GoogleKeychain :: 'h
  au_EcrKeychain :: 'h
  au_AzureAcrKeychain :: 'h
  au_AlibabaAcrKeychain :: 'h
  au_NewMultiKeychain :: "'h list \<Rightarrow> 'h"
  au_Secrets_List :: "'h \<Rightarrow> string \<Rightarrow> string \<Rightarrow> ('w, secret list) go"
  au_NewFromPullSecrets :: "secret list \<Rightarrow> ('w, 'h) go"
  au_ServiceAccount_ImagePullSecrets :: "'h \<Rightarrow> string \<Rightarrow> string \<Rightarrow> ('w, string list) go"
  au_k8schain_New :: "'h option \<Rightarrow> string \<Rightarrow> string \<Rightarrow> string list \<Rightarrow> bool \<Rightarrow> ('w, 'h) go"

definition on_client :: "'h option \<Rightarrow> ('h \<Rightarrow> ('w, 'a) go) \<Rightarrow> ('w, 'a) go" where
  "on_client c f = (case c of None \<Rightarrow> go_panic nil_dereference | Some h \<Rightarrow> f h)"

definition getNamespacedSecrets ::
  "('h, 'w, 'z) auth_env_scheme \<Rightarrow> 'h option \<Rightarrow> string \<Rightarrow> string \<Rightarrow> ('w, secret list) go" where
  "getNamespacedSecrets env client namespace labelSelector =
     go_wrap (''failed to list secrets in namespace '' @ namespace @ '': '')
       (on_client client (\<lambda>c. au_Secrets_List env c namespace labelSelector))"

fun collect_secrets ::
  "('h, 'w, 'z) auth_env_scheme \<Rightarrow> 'h option \<Rightarrow> string list \<Rightarrow> secret list \<Rightarrow>
   ('w, secret list) go" where
  "collect_secrets env client [] secretList = go_ret secretList"
| "collect_secrets env client (ns # namespaces) secretList =
     go_catch (getNamespacedSecrets env client ns ociSecretSelector)
       (\<lambda>err. collect_secrets env client namespaces secretList)
       (\<lambda>secrets. collect_secrets env client namespaces (secretList @ secrets))"

definition getAuthFromSecrets ::
  "('h, 'w, 'z) auth_env_scheme \<Rightarrow> 'h option \<Rightarrow> string list \<Rightarrow> ('w, 'h) go" where
  "getAuthFromSecrets env client namespaces =
     go_bind (collect_secrets env client namespaces []) (\<lambda>secretList.
       if length secretList = 0
       then go_fail (errors_New (''no secrets with '' @ ociSecretSelector @ '' label''))
       else go_catch (au_NewFromPullSecrets env secretList)
              (\<lambda>err. go_fail (errors_New ''unable to create keychain from secrets'')) go_ret)"

definition GetAuthnKeychain ::
  "('h, 'w, 'z) auth_env_scheme \<Rightarrow> 'h option \<Rightarrow> string \<Rightarrow> string \<Rightarrow> ('w, 'h) go" where
  "GetAuthnKeychain env client namespace wfNamespace =
     (let keyChains = [au_DefaultKeychain env, au_GoogleKeychain env, au_EcrKeychain env,
                       au_AzureAcrKeychain env, au_AlibabaAcrKeychain env]
      in go_catch (getAuthFromSecrets env client [namespace, wfNamespace])
           (\<lambda>err. go_ret (au_NewMultiKeychain env keyChains))
           (\<lambda>argoKeychain. go_ret (au_NewMultiKeychain env (keyChains @ [argoKeychain]))))"

definition getPullSecrets ::
  "('h, 'w, 'z) auth_env_scheme \<Rightarrow> 'h option \<Rightarrow> string \<Rightarrow> string \<Rightarrow> ('w, string list) go" where
  "getPullSecrets env client namespace serviceAccount =
     go_catch (on_client client
         (\<lambda>c. au_ServiceAccount_ImagePullSecrets env c namespace serviceAccount))
       (\<lambda>err. go_ret []) go_ret"

definition getAuthFromK8sServiceAccount ::
  "('h, 'w, 'z) auth_env_scheme \<Rightarrow> 'h option \<Rightarrow> string \<Rightarrow> string \<Rightarrow> ('w, 'h) go" where
  "getAuthFromK8sServiceAccount env client namespace serviceAccount =
     go_bind (getPullSecrets env client namespace serviceAccount) (\<lambda>secrets.
       au_k8schain_New env client namespace serviceAccount secrets True)"

end
