(* ===== verification/Controller.thy ===== *)
theory Controller imports WorkflowPods Auth begin

text \<open>
  \<open>internal/controller/workflow_controller.go\<close>: one reconciliation of a workflow.

  The state inside \<open>Reconcile\<close>, from the read of the workflow on, is the in-memory workflow and the
  world. \<open>Reconcile\<close> is composed of \<open>reconcile_workflow\<close> (the enable and status labels),
  \<open>secure_workflow\<close> (pods, provenance, completion) and \<open>handle_pods_error\<close> (the switch on the error's
  text); together they are the source's one function.
\<close>

section \<open>Constants and state\<close>

definition serviceAccountInfoPath :: string where
  "serviceAccountInfoPath = ''/var/run/secrets/kubernetes.io/serviceaccount''"
definition configMapName :: string where "configMapName = ''argo-slsa-config''"
definition enableLabel :: string where "enableLabel = ''argo.slsa.io/enable''"
definition featureEnabled :: string where "featureEnabled = ''true''"
definition workflowStatusLabel :: string where "workflowStatusLabel = ''argo.slsa.io/status''"
definition reconcileInProgrees :: string where "reconcileInProgrees = ''In-Progress''"
definition reconcileCompleted :: string where "reconcileCompleted = ''Completed''"
definition reconcileError :: string where "reconcileError = ''Error''"
definition requeueAfterSeconds :: int where "requeueAfterSeconds = 0"

definition conflictOrNotFoundError :: string where
  "conflictOrNotFoundError = ''conflict or not found''"

text \<open>The literals of the switch on the text of an error, which the packages that made the error spell
  out once more.\<close>

definition waiting_text :: string where
  "waiting_text = ''not all workflow pods have been reconciled''"
definition signing_failed_prefix :: string where
  "signing_failed_prefix = ''error while signing artifacts found in ''"

lemma controller_texts [simp]:
  "conflictOrNotFoundError = conflict_or_not_found" "waiting_text = not_all_reconciled"
  "signing_failed_prefix = signing_error_prefix"
  by (simp_all add: conflictOrNotFoundError_def conflict_or_not_found_def waiting_text_def
      not_all_reconciled_def signing_failed_prefix_def signing_error_prefix_def)

lemmas controller_constants = enableLabel_def featureEnabled_def workflowStatusLabel_def
  reconcileInProgrees_def reconcileCompleted_def reconcileError_def requeueAfterSeconds_def
  configMapName_def

text \<open>\<open>ctrl.Result\<close>, with the delay in nanoseconds, and the fields of the reconciler that are not
  clients of the environment.\<close>

record ctrl_result =
  res_Requeue :: bool
  res_RequeueAfter :: int

definition no_requeue :: ctrl_result where
  "no_requeue = \<lparr>res_Requeue = False, res_RequeueAfter = 0\<rparr>"

definition requeue :: ctrl_result where
  "requeue = \<lparr>res_Requeue = True, res_RequeueAfter = 0\<rparr>"

record configmap = objmeta +
  cm_Data :: gomap

record 'h reconciler =
  r_InclusterClient :: "'h option"
  r_Namespace :: string

record ('h, 'w) ctrl_env = "('h, 'w) auth_env" +
  ct_workflows :: "(workflow, 'w) kube"
  ct_ConfigMap_Get :: "nsname \<Rightarrow> (configmap \<times> 'w, unit) go"
  ct_ReadFile :: "string \<Rightarrow> ('w, bytes) go"
  ct_DefaultRekorURL :: string
  ct_InClusterConfig :: "('w, 'h) go"
  ct_NewForConfig :: "'h \<Rightarrow> ('w, 'h) go"
  ct_ConfigMaps_Get :: "'h \<Rightarrow> string \<Rightarrow> string \<Rightarrow> ('w, unit) go"
  ct_Complete :: "'h \<Rightarrow> ('w, unit) go"

section \<open>Settings\<close>

definition getCurrentNamespace :: "('h, 'w, 'z) ctrl_env_scheme \<Rightarrow> ('w, string) go" where
  "getCurrentNamespace env = ct_ReadFile env (serviceAccountInfoPath @ ''/namespace'')"

definition zero_configmap :: configmap where
  "zero_configmap = \<lparr>m_namespace = '''', m_name = '''', m_uid = '''', m_labels = None,
     m_annotations = None, cm_Data = None\<rparr>"

definition getConfigMap ::
  "('h, 'w, 'z) ctrl_env_scheme \<Rightarrow> string \<Rightarrow> string \<Rightarrow> ('w, string \<rightharpoonup> string) go" where
  "getConfigMap env name namespace =
     go_local zero_configmap
       (go_bind (ct_ConfigMap_Get env (namespace, name)) (\<lambda>_. go_get (\<lambda>configMap.
          case cm_Data configMap of
            None \<Rightarrow> go_fail (errors_New ''empty config map'')
          | Some data \<Rightarrow> go_ret data)))"

section \<open>Reconciling a workflow\<close>

definition updateWorkflowStatus ::
  "('h, 'w, 'z) ctrl_env_scheme \<Rightarrow> string \<Rightarrow> (workflow \<times> 'w, ctrl_result) go" where
  "updateWorkflowStatus env status =
     go_catch (PatchLabels (ct_workflows env) workflowStatusLabel status)
       (\<lambda>err. if err_Error err = conflictOrNotFoundError then go_ret requeue else go_fail err)
       (\<lambda>_. go_ret no_requeue)"

definition handle_pods_error ::
  "('h, 'w, 'z) ctrl_env_scheme \<Rightarrow> goerr \<Rightarrow> (workflow \<times> 'w, ctrl_result) go" where
  "handle_pods_error env err =
     (if err_Error err = waiting_text
      then go_ret \<lparr>res_Requeue = False, res_RequeueAfter = 1000000000 * requeueAfterSeconds\<rparr>
      else if HasPrefix (err_Error err) signing_failed_prefix
      then go_bind (updateWorkflowStatus env reconcileError) (\<lambda>_. go_ret no_requeue)
      else if err_Error err = conflictOrNotFoundError then go_ret requeue
      else go_fail err)"

definition secure_workflow ::
  "('h, 'w, 'z) ctrl_env_scheme \<Rightarrow> 'h config \<Rightarrow> (workflow \<times> 'w, ctrl_result) go" where
  "secure_workflow env cfg =
     go_get (\<lambda>wflow.
       case GetPodInfo wflow of
         Inl err \<Rightarrow> go_ret requeue
       | Inr pods \<Rightarrow>
           go_local pods
             (go_catch (go_mid (WorkflowStatus_Reconcile env cfg (m_namespace wflow)))
               (\<lambda>err. go_snd (handle_pods_error env err))
               (\<lambda>_. go_catch (AttestArtifacts env cfg)
                  (\<lambda>err. go_snd (go_bind (updateWorkflowStatus env reconcileError)
                    (\<lambda>_. go_ret no_requeue)))
                  (\<lambda>_. go_snd (go_bind (updateWorkflowStatus env reconcileCompleted)
                    (\<lambda>_. go_ret no_requeue))))))"

definition reconcile_workflow ::
  "('h, 'w, 'z) ctrl_env_scheme \<Rightarrow> 'h config \<Rightarrow> (workflow \<times> 'w, ctrl_result) go" where
  "reconcile_workflow env cfg =
     go_get (\<lambda>wflow.
       let isEnabled = (gm_index (m_labels wflow) enableLabel = featureEnabled);
           done = (case gm_lookup (m_labels wflow) workflowStatusLabel of
                     None \<Rightarrow> False
                   | Some status \<Rightarrow> status = reconcileCompleted \<or> status = reconcileError)
       in if isEnabled then
            (if done then go_ret no_requeue
             else go_bind (updateWorkflowStatus env reconcileInProgrees)
                    (\<lambda>_. secure_workflow env cfg))
          else go_ret no_requeue)"

definition Reconcile ::
  "('h, 'w, 'z) ctrl_env_scheme \<Rightarrow> 'h reconciler \<Rightarrow> nsname \<Rightarrow> ('w, ctrl_result) go" where
  "Reconcile env r req =
     go_bind (getCurrentNamespace env) (\<lambda>controllerNamespace.
     go_bind (getConfigMap env configMapName controllerNamespace) (\<lambda>configData.
     let cfg = config_New (ct_DefaultRekorURL env) configData
     in go_local zero_workflow
          (go_catch (cl_Get (ct_workflows env) req)
            (\<lambda>err. if IsNotFound err then go_ret no_requeue else go_fail err)
            (\<lambda>_. go_get (\<lambda>wflow.
               go_bind (go_snd (GetAuthnKeychain env (r_InclusterClient r) (r_Namespace r)
                   (m_namespace wflow))) (\<lambda>keychain.
                 reconcile_workflow env (cfg\<lparr>cfg_AuthKeyChain := Some keychain\<rparr>)))))))"

section \<open>Setup\<close>

definition clientWithInClusterConfig :: "('h, 'w, 'z) ctrl_env_scheme \<Rightarrow> ('w, 'h) go" where
  "clientWithInClusterConfig env =
     go_bind (ct_InClusterConfig env) (\<lambda>config.
     go_bind (ct_NewForConfig env config) (\<lambda>client. go_ret client))"

definition checkConfigMapExists ::
  "('h, 'w, 'z) ctrl_env_scheme \<Rightarrow> 'h reconciler \<Rightarrow> string \<Rightarrow> ('w, unit) go" where
  "checkConfigMapExists env r name =
     go_wrap (''ConfigMap '' @ r_Namespace r @ ''/'' @ name @ '' not found: '')
       (on_client (r_InclusterClient r) (\<lambda>c. ct_ConfigMaps_Get env c (r_Namespace r) name))"

definition panic_on_error :: "('s, 'a) go \<Rightarrow> ('s, 'a) go" where
  "panic_on_error m = go_catch m (\<lambda>err. go_panic (err_Error err)) go_ret"

definition SetupWithManager ::
  "('h, 'w, 'z) ctrl_env_scheme \<Rightarrow> 'h \<Rightarrow> ('h reconciler \<times> 'w, unit) go" where
  "SetupWithManager env mgr =
     go_bind (panic_on_error (go_snd (clientWithInClusterConfig env))) (\<lambda>client.
     go_bind (go_upd (\<lambda>r. r\<lparr>r_InclusterClient := Some client\<rparr>)) (\<lambda>_.
     go_bind (panic_on_error (go_snd (getCurrentNamespace env))) (\<lambda>namespace.
     go_bind (go_upd (\<lambda>r. r\<lparr>r_Namespace := namespace\<rparr>)) (\<lambda>_.
     go_get (\<lambda>r.
     go_bind (panic_on_error (go_snd (checkConfigMapExists env r configMapName))) (\<lambda>_.
     go_snd (ct_Complete env mgr)))))))"

end
