(* ===== verification/Frames.thy ===== *)
theory Frames imports Controller begin

text \<open>
  What the program can change, relative to what the libraries it calls change. \<open>go_keeps P m\<close> says that
  the computation \<open>m\<close> leaves the invariant \<open>P\<close> of its state true, also on an error or a panic. A
  \<open>steady_\<close> predicate says of an invariant of the world that every library operation of a group keeps it;
  the lemmas conclude that the program's own operations built on them keep it too. The \<open>quiet_\<close>
  predicates say the same of every value of an observation \<open>f\<close>: none of the operations changes it.
\<close>

section \<open>Invariants of a computation\<close>

definition go_keeps :: "('s \<Rightarrow> bool) \<Rightarrow> ('s, 'a) go \<Rightarrow> bool" where
  "go_keeps P m \<longleftrightarrow> (\<forall>s r s'. P s \<longrightarrow> m s = (r, s') \<longrightarrow> P s')"

lemma go_keepsD: "go_keeps P m \<Longrightarrow> m s = (r, s') \<Longrightarrow> P s \<Longrightarrow> P s'"
  by (simp add: go_keeps_def)

lemma go_fixes_keeps: "go_fixes f m \<Longrightarrow> go_keeps (Q \<circ> f) m"
  by (auto simp: go_keeps_def dest: go_fixesD)

lemma go_keeps_leaf: "go_keeps P (go_ret a)" "go_keeps P (go_fail e)" "go_keeps P (go_panic p)"
  by (auto simp: go_keeps_def go_inv)

lemma go_bind_steps:
  "go_bind m k s = (r, s') \<Longrightarrow>
     \<exists>res s1. m s = (res, s1) \<and> (s' = s1 \<or> (\<exists>a. k a s1 = (r, s')))"
  by (auto simp: go_bind_def split: prod.splits result.splits)

lemma go_catch_steps:
  "go_catch m h k s = (r, s') \<Longrightarrow>
     \<exists>res s1. m s = (res, s1) \<and> (s' = s1 \<or> (\<exists>a. k a s1 = (r, s')) \<or> (\<exists>e. h e s1 = (r, s')))"
  by (auto simp: go_catch_def split: prod.splits result.splits)

lemma go_keeps_bind:
  assumes "go_keeps P m" and "\<And>a. go_keeps P (k a)"
  shows "go_keeps P (go_bind m k)"
  unfolding go_keeps_def using assms
  by (auto dest!: go_bind_steps dest: go_keepsD)

lemma go_keeps_catch:
  assumes "go_keeps P m" and "\<And>e. go_keeps P (h e)" and "\<And>a. go_keeps P (k a)"
  shows "go_keeps P (go_catch m h k)"
  unfolding go_keeps_def using assms
  by (auto dest!: go_catch_steps; meson go_keepsD)

lemma go_keeps_get: "(\<And>p. go_keeps P (k p)) \<Longrightarrow> go_keeps P (go_get k)"
  by (auto simp: go_keeps_def go_get_def)

lemma go_keeps_if:
  "(b \<Longrightarrow> go_keeps P m) \<Longrightarrow> (\<not> b \<Longrightarrow> go_keeps P n) \<Longrightarrow> go_keeps P (if b then m else n)"
  by simp

lemma go_keeps_of: "go_keeps P (go_of x)"
  by (auto simp: go_keeps_def go_of_def go_inv split: sum.splits)

lemma go_keeps_wrap: "go_keeps P m \<Longrightarrow> go_keeps P (go_wrap pre m)"
  by (auto simp: go_keeps_def go_wrap_def split: prod.splits result.splits)

lemma go_keeps_option:
  "go_keeps P m \<Longrightarrow> (\<And>a. go_keeps P (n a)) \<Longrightarrow> go_keeps P (case x of None \<Rightarrow> m | Some a \<Rightarrow> n a)"
  by (cases x) simp_all

lemma go_keeps_prod: "(\<And>a b. go_keeps P (k a b)) \<Longrightarrow> go_keeps P (case x of (a, b) \<Rightarrow> k a b)"
  by (cases x) simp

lemma go_keeps_defer:
  assumes "go_keeps P d" and "go_keeps P m"
  shows "go_keeps P (go_defer d m)"
  unfolding go_keeps_def
proof clarify
  fix s r s'
  assume "P s" and run: "go_defer d m s = (r, s')"
  from run obtain s1 where m: "m s = (r, s1)" and d: "s' = snd (d s1)"
    by (auto simp: go_defer_def split: prod.splits)
  from go_keepsD [OF assms(2) m \<open>P s\<close>] have "P s1" .
  then show "P s'" unfolding d by (rule go_keepsD [OF assms(1) prod.collapse [symmetric]])
qed

lemma go_keeps_err: "go_keeps P (go_err x)"
  by (auto simp: go_keeps_def go_err_def go_inv split: option.splits)

lemma go_keeps_bind_Ok:
  assumes "go_keeps P m" and "\<And>s a s'. m s = (Ok a, s') \<Longrightarrow> go_keeps P (k a)"
  shows "go_keeps P (go_bind m k)"
  unfolding go_keeps_def
proof clarify
  fix s r s'
  assume run: "go_bind m k s = (r, s')" and "P s"
  obtain res s1 where m: "m s = (res, s1)" by (cases "m s")
  with go_keepsD [OF assms(1)] \<open>P s\<close> have s1: "P s1" by blast
  show "P s'"
  proof (cases res)
    case (Ok a)
    with run m have "k a s1 = (r, s')" by (simp add: go_bind_def)
    from go_keepsD [OF assms(2) this s1] m Ok show ?thesis by simp
  qed (use run m s1 in \<open>auto simp: go_bind_def\<close>)
qed

text \<open>An invariant of the world only.\<close>

lemma go_keeps_world: "go_keeps P m \<Longrightarrow> go_keeps (P \<circ> snd) (go_snd m)"
  by (auto simp: go_keeps_def go_inv)

lemma go_keeps_mid_world: "go_keeps (P \<circ> snd) m \<Longrightarrow> go_keeps ((P \<circ> snd) \<circ> snd) (go_mid m)"
  unfolding go_keeps_def go_mid_def by (fastforce split: prod.splits)

lemma go_keeps_local: "go_keeps (P \<circ> snd) m \<Longrightarrow> go_keeps P (go_local p m)"
  unfolding go_keeps_def by (fastforce simp: go_inv)

lemma go_keeps_upd_world: "go_keeps (P \<circ> snd) (go_upd g)"
  by (auto simp: go_keeps_def go_inv)

lemmas go_keeps_world_rules = go_keeps_leaf go_keeps_of go_keeps_bind go_keeps_catch go_keeps_wrap
  go_keeps_get go_keeps_if go_keeps_option go_keeps_prod go_keeps_defer go_keeps_err go_keeps_world
  go_keeps_mid_world go_keeps_local go_keeps_upd_world

text \<open>An unchanged observation is a family of invariants.\<close>

lemma go_fixes_iff: "go_fixes f m \<longleftrightarrow> (\<forall>c. go_keeps (\<lambda>s. f s = c) m)"
  by (auto simp: go_fixes_def go_keeps_def)

section \<open>Signing\<close>

definition steady_cosign :: "('w \<Rightarrow> bool) \<Rightarrow> ('h, 'w, 'z) cosign_env_scheme \<Rightarrow> bool" where
  "steady_cosign P env \<longleftrightarrow>
     (\<forall>h os p. go_keeps P (ce_SignMessage env h os p)) \<and>
     (\<forall>h os. go_keeps P (ce_PublicKey env h os)) \<and>
     (\<forall>r s h b. go_keeps P (ce_TLogUpload env r s h b))"

lemma steady_cosignD:
  assumes "steady_cosign P env"
  shows "go_keeps P (ce_SignMessage env h os p)" "go_keeps P (ce_PublicKey env h os)"
    "go_keeps P (ce_TLogUpload env r s hs b)"
  using assms by (simp_all add: steady_cosign_def)

lemma sv_call_steady: "(\<And>h. go_keeps P (g h)) \<Longrightarrow> go_keeps P (sv_call sv g)"
  unfolding sv_call_def by (intro go_keeps_world_rules)

lemma payload_Sign_steady:
  assumes "steady_cosign P env"
  shows "go_keeps P (payload_Sign env ps rd)"
  unfolding payload_Sign_def payload_signPayload_def payload_publicKey_def
  by (intro go_keeps_world_rules sv_call_steady steady_cosignD [OF assms])

lemma fulcio_Sign_steady:
  assumes "\<And>rd. go_keeps P (S rd)"
  shows "go_keeps P (fulcio_Sign env S c ch rd)"
  unfolding fulcio_Sign_def by (intro go_keeps_world_rules assms)

lemma rekor_Sign_steady:
  assumes "steady_cosign P env" and "\<And>rd. go_keeps P (S rd)"
  shows "go_keeps P (rekor_Sign env S rc rd)"
  unfolding rekor_Sign_def rekor_uploadToTlog_def
  by (intro go_keeps_world_rules assms(2) steady_cosignD [OF assms(1)])

definition steady_sign :: "('w \<Rightarrow> bool) \<Rightarrow> ('h, 'w, 'z) sign_env_scheme \<Rightarrow> bool" where
  "steady_sign P env \<longleftrightarrow>
     steady_cosign P env \<and>
     (\<forall>os. go_keeps P (rg_NewPuller env os)) \<and> (\<forall>os. go_keeps P (rg_NewPusher env os)) \<and>
     (\<forall>k. go_keeps P (sg_GetKeyPairSecret env k)) \<and>
     (\<forall>k p. go_keeps P (sg_LoadPrivateKey env k p)) \<and> (\<forall>u. go_keeps P (sg_kms_Get env u)) \<and>
     (\<forall>h. go_keeps P (sg_pkcs11_Certificate env h)) \<and> (\<forall>h. go_keeps P (go_do (sg_pkcs11_Close env h))) \<and>
     go_keeps P (sg_providers_Enabled env) \<and> (\<forall>a. go_keeps P (sg_providers_Provide env a)) \<and>
     go_keeps P (sg_GeneratePrivateKey env) \<and> (\<forall>ko s. go_keeps P (sg_fulcio_NewSigner env ko s)) \<and>
     (\<forall>sv. go_keeps P (sg_Close env sv)) \<and> (\<forall>r os. go_keeps P (sg_SignedEntity env r os)) \<and>
     (\<forall>u. go_keeps P (sg_rekor_NewClient env u)) \<and>
     (\<forall>se s dd t. go_keeps P (sg_AttachSignatureToEntity env se s dd t)) \<and>
     (\<forall>repo se os. go_keeps P (sg_WriteSignatures env repo se os))"

lemma steady_signD:
  assumes "steady_sign P env"
  shows "steady_cosign P env" "go_keeps P (rg_NewPuller env os)" "go_keeps P (rg_NewPusher env os)"
    "go_keeps P (sg_GetKeyPairSecret env k)" "go_keeps P (sg_LoadPrivateKey env k p)"
    "go_keeps P (sg_kms_Get env u)" "go_keeps P (sg_pkcs11_Certificate env h)"
    "go_keeps P (go_do (sg_pkcs11_Close env h))" "go_keeps P (sg_providers_Enabled env)"
    "go_keeps P (sg_providers_Provide env a)" "go_keeps P (sg_GeneratePrivateKey env)"
    "go_keeps P (sg_fulcio_NewSigner env ko s)" "go_keeps P (sg_Close env sv)"
    "go_keeps P (sg_SignedEntity env r os)" "go_keeps P (sg_rekor_NewClient env u)"
    "go_keeps P (sg_AttachSignatureToEntity env se s dd t)"
    "go_keeps P (sg_WriteSignatures env repo se os)"
  using assms by (simp_all add: steady_sign_def)

lemma remote_opts_steady:
  assumes "steady_sign P env"
  shows "go_keeps P (CosignRemoteAuthOptsWithKeyChain env kc)"
  unfolding CosignRemoteAuthOptsWithKeyChain_def GetRemoteOptsWithKeychain_def Let_def
  by (intro go_keeps_world_rules steady_signD [OF assms])

lemma cosignSeecretSigner_steady:
  assumes "steady_sign P env"
  shows "go_keeps P (cosignSeecretSigner env k)"
  unfolding cosignSeecretSigner_def by (intro go_keeps_world_rules steady_signD [OF assms])

lemma signerFromKeyRef_steady:
  assumes "steady_sign P env"
  shows "go_keeps P (signerFromKeyRef env k b)"
  unfolding signerFromKeyRef_def pkcs11_certSigner_def kmsSigner_def Let_def
  by (intro go_keeps_world_rules cosignSeecretSigner_steady [OF assms] steady_signD [OF assms]
      steady_cosignD [OF steady_signD(1) [OF assms]])

lemma keylessSigner_steady:
  assumes "steady_sign P env"
  shows "go_keeps P (keylessSigner env)"
  unfolding keylessSigner_def Let_def
  by (intro go_keeps_world_rules steady_signD [OF assms])

lemma SignerFromKeyOpts_steady:
  assumes "steady_sign P env"
  shows "go_keeps P (SignerFromKeyOpts env ko b)"
  unfolding SignerFromKeyOpts_def
  by (intro go_keeps_world_rules signerFromKeyRef_steady [OF assms] keylessSigner_steady [OF assms])

text \<open>The signer that \<open>signDigest\<close> composes is itself a computation, returned by another.\<close>

lemma digest_signer_returns:
  assumes "steady_sign P env" and "digest_signer env ko so sv w = (Ok s, w')"
  shows "go_keeps P (s rd)"
proof -
  note q = steady_signD(1) [OF assms(1)]
  from assms(2) obtain ps where s: "s = payload_Sign env ps \<or>
      s = fulcio_Sign env (payload_Sign env ps) (sv_Cert sv) (sv_Chain sv) \<or>
      (\<exists>rc. s = rekor_Sign env (payload_Sign env ps) rc \<or>
         s = rekor_Sign env (fulcio_Sign env (payload_Sign env ps) (sv_Cert sv) (sv_Chain sv)) rc)"
    by (auto simp: digest_signer_def payload_NewSigner_def Let_def go_inv split: if_splits option.splits)
  show ?thesis
    using s payload_Sign_steady [OF q] fulcio_Sign_steady [of P "payload_Sign env ps"]
      rekor_Sign_steady [OF q] by metis
qed

lemma digest_signer_steady:
  assumes "steady_sign P env"
  shows "go_keeps P (digest_signer env ko so sv)"
  unfolding digest_signer_def payload_NewSigner_def payload_newSigner_def Let_def
  by (simp, intro conjI impI go_keeps_world_rules steady_signD [OF assms])

lemma signDigest_steady:
  assumes "steady_sign P env"
  shows "go_keeps P (signDigest env d ko so dd sv se ro)"
  unfolding signDigest_def
  by (intro go_keeps_leaf go_keeps_of go_keeps_wrap go_keeps_prod go_keeps_bind_Ok
      [OF digest_signer_steady [OF assms]] go_keeps_bind digest_signer_returns [OF assms]
      steady_signD [OF assms])

lemma SignOci_steady:
  assumes "steady_sign P env"
  shows "go_keeps P (SignOci env img k cfg)"
  unfolding SignOci_def Let_def
  by (intro go_keeps_world_rules SignerFromKeyOpts_steady [OF assms] remote_opts_steady [OF assms]
      signDigest_steady [OF assms] steady_signD [OF assms])

section \<open>Attestation and SBOM\<close>

definition steady_attest :: "('w \<Rightarrow> bool) \<Rightarrow> ('h, 'w, 'z) attest_env_scheme \<Rightarrow> bool" where
  "steady_attest P env \<longleftrightarrow>
     steady_sign P env \<and> (\<forall>sv t p. go_keeps P (at_dsse_SignMessage env sv t p)) \<and>
     (\<forall>sv. go_keeps P (at_sv_Bytes env sv)) \<and>
     (\<forall>r p b. go_keeps P (at_TLogUploadDSSEEnvelope env r p b)) \<and>
     (\<forall>se s dd t. go_keeps P (at_AttachAttestationToEntity env se s dd t)) \<and>
     (\<forall>repo se os. go_keeps P (at_WriteAttestations env repo se os))"

lemma steady_attestD:
  assumes "steady_attest P env"
  shows "steady_sign P env" "go_keeps P (at_dsse_SignMessage env sv t p)"
    "go_keeps P (at_sv_Bytes env sv)" "go_keeps P (at_TLogUploadDSSEEnvelope env r p b)"
    "go_keeps P (at_AttachAttestationToEntity env se s dd ts)"
    "go_keeps P (at_WriteAttestations env repo se os)"
  using assms by (simp_all add: steady_attest_def)

lemma attest_tlog_steady:
  assumes "steady_attest P env"
  shows "go_keeps P (attest_tlog env c sv p)"
  unfolding attest_tlog_def attest_uploadToTlog_def Let_def
  by (intro go_keeps_world_rules steady_attestD [OF assms]
      steady_signD [OF steady_attestD(1) [OF assms]])

lemma AttestOci_steady:
  assumes "steady_attest P env"
  shows "go_keeps P (AttestOci env cfg img k pt p)"
  unfolding AttestOci_def Let_def
  by (intro go_keeps_world_rules attest_tlog_steady [OF assms] steady_attestD [OF assms]
      remote_opts_steady [OF steady_attestD(1) [OF assms]]
      SignerFromKeyOpts_steady [OF steady_attestD(1) [OF assms]]
      steady_signD [OF steady_attestD(1) [OF assms]])

definition steady_sbom :: "('w \<Rightarrow> bool) \<Rightarrow> ('h, 'w, 'z) sbom_env_scheme \<Rightarrow> bool" where
  "steady_sbom P env \<longleftrightarrow>
     steady_attest P env \<and> (\<forall>oci k. go_keeps P (sb_crane_Manifest env oci k)) \<and>
     (\<forall>p. go_keeps P (sb_Platform_String env p)) \<and>
     (\<forall>oci k. go_keeps P (sb_syft_GetSource env oci k)) \<and>
     (\<forall>s. go_keeps P (sb_syft_CreateSBOM env s))"

lemma steady_sbomD:
  assumes "steady_sbom P env"
  shows "steady_attest P env" "go_keeps P (sb_crane_Manifest env oci k)"
    "go_keeps P (sb_Platform_String env p)" "go_keeps P (sb_syft_GetSource env oci k)"
    "go_keeps P (sb_syft_CreateSBOM env s)"
  using assms by (simp_all add: steady_sbom_def)

lemma GenerateSBOMwithSyft_steady:
  assumes "steady_sbom P env"
  shows "go_keeps P (GenerateSBOMwithSyft env kc oci)"
  unfolding GenerateSBOMwithSyft_def by (intro go_keeps_world_rules steady_sbomD [OF assms])

lemma sbom_platform_steady:
  assumes "steady_sbom P env"
  shows "go_keeps P (sbom_platform env cfg k oci pt d)"
  unfolding sbom_platform_def Let_def
  by (intro go_keeps_world_rules GenerateSBOMwithSyft_steady [OF assms]
      AttestOci_steady [OF steady_sbomD(1) [OF assms]] steady_sbomD [OF assms])

lemma sbom_platforms_steady:
  assumes "steady_sbom P env"
  shows "go_keeps P (sbom_platforms env cfg k oci pt failed ds)"
  by (induction ds arbitrary: failed)
    (auto intro!: go_keeps_world_rules sbom_platform_steady [OF assms])

lemma GenerateSBOMforOCI_steady:
  assumes "steady_sbom P env"
  shows "go_keeps P (GenerateSBOMforOCI env cfg k oci pt)"
  unfolding GenerateSBOMforOCI_def GetManifest_def
  by (intro go_keeps_world_rules sbom_platforms_steady [OF assms]
      GenerateSBOMwithSyft_steady [OF assms] AttestOci_steady [OF steady_sbomD(1) [OF assms]]
      steady_sbomD [OF assms])

lemma dispatch_steady:
  assumes "steady_sbom P env"
  shows "go_keeps P (SignWithConfigOpts env img cfg)"
    "go_keeps P (AttestWithConfigOpts env cfg img pt p)"
    "go_keeps P (GenerateSBOMWithConfigOpts env img pt cfg)"
  unfolding dispatch_defs
  by (intro go_keeps_world_rules GenerateSBOMforOCI_steady [OF assms]
      AttestOci_steady [OF steady_sbomD(1) [OF assms]]
      SignOci_steady [OF steady_attestD(1) [OF steady_sbomD(1) [OF assms]]])+

section \<open>The clients\<close>

text \<open>A client all of whose calls keep the invariant; \<open>retry.OnError\<close> only runs its function.\<close>

definition steady_kube :: "('w \<Rightarrow> bool) \<Rightarrow> ('o, 'w) kube \<Rightarrow> bool" where
  "steady_kube P k \<longleftrightarrow>
     (\<forall>nn. go_keeps (P \<circ> snd) (cl_Get k nn)) \<and> (\<forall>base. go_keeps (P \<circ> snd) (cl_Patch k base)) \<and>
     (\<forall>n p m. go_keeps (P \<circ> snd) m \<longrightarrow> go_keeps (P \<circ> snd) (cl_OnError k n p m))"

lemma steady_kubeD:
  assumes "steady_kube P k"
  shows "go_keeps (P \<circ> snd) (cl_Get k nn)" "go_keeps (P \<circ> snd) (cl_Patch k base)"
    "go_keeps (P \<circ> snd) m \<Longrightarrow> go_keeps (P \<circ> snd) (cl_OnError k n p m)"
  using assms unfolding steady_kube_def by blast+

lemma patchMetadata_steady:
  assumes "steady_kube P k"
  shows "go_keeps (P \<circ> snd) (patchMetadata k key v gm sm)"
  unfolding patchMetadata_def patch_attempt_def Let_def
  by (intro go_keeps_world_rules steady_kubeD [OF assms])

lemma retry_loop_keeps:
  assumes "go_keeps Q m" and "\<And>r w. Q (r, w) \<Longrightarrow> Q (r, sleep w)"
  shows "go_keeps Q (retry_loop sleep n p m)"
proof -
  have "Q s'" if "retry_loop sleep n p m s = (r, s')" "Q s" for s r s'
    using that
  proof (induction n arbitrary: s)
    case (Suc n)
    obtain res o1 w1 where m: "m s = (res, (o1, w1))" by (cases "m s") auto
    from go_keepsD [OF assms(1) m Suc.prems(2)] have "Q (o1, w1)" .
    with Suc.prems(1) Suc.IH [of "(o1, sleep w1)"] m assms(2) show ?case
      by (cases res) (auto split: if_splits)
  qed simp
  then show ?thesis by (simp add: go_keeps_def)
qed

lemma store_kube_steady:
  assumes "\<And>nn r w. P w \<Longrightarrow> P (wr nn r w)"
  shows "steady_kube P (store_kube rd wr)"
proof -
  have "go_keeps (P \<circ> snd) (cl_Get (store_kube rd wr) nn)" for nn
    by (simp add: go_keeps_def store_get_def split: option.splits)
  moreover have "go_keeps (P \<circ> snd) (cl_Patch (store_kube rd wr) base)" for base
    using assms by (simp add: go_keeps_def store_patch_def)
  moreover have "go_keeps (P \<circ> snd) (cl_OnError (store_kube rd wr) n p m)"
    if "go_keeps (P \<circ> snd) m" for n p m
    using retry_loop_keeps [OF that, of "\<lambda>w. w"] by simp
  ultimately show ?thesis by (simp add: steady_kube_def)
qed

section \<open>Pods\<close>

definition steady_pods :: "('w \<Rightarrow> bool) \<Rightarrow> ('h, 'w, 'z) pod_env_scheme \<Rightarrow> bool" where
  "steady_pods P env \<longleftrightarrow> steady_sbom P env \<and> steady_kube P (pe_pods env)"

lemma steady_podsD:
  assumes "steady_pods P env"
  shows "steady_sbom P env" "steady_kube P (pe_pods env)"
  using assms by (simp_all add: steady_pods_def)

lemma patch_pod_steady:
  assumes "steady_pods P env"
  shows "go_keeps (P \<circ> snd) (patch_pod env key v)"
  unfolding go_keeps_def
proof clarify
  fix ps w r ps' w'
  assume "(P \<circ> snd) (ps, w)" and run: "patch_pod env key v (ps, w) = (r, (ps', w'))"
  moreover note patchMetadata_steady [OF steady_podsD(2) [OF assms], of key v m_annotations set_annotations]
  ultimately show "(P \<circ> snd) (ps', w')"
    by (auto simp: patch_pod_run PatchAnnotations_def split: option.splits prod.splits dest: go_keepsD)
qed

lemma with_pod_world: "(\<And>p. go_keeps P (k p)) \<Longrightarrow> go_keeps P (with_pod k)"
  unfolding with_pod_def by (intro go_keeps_world_rules)

lemmas pod_world_rules = go_keeps_world_rules with_pod_world

lemma pod_steps_steady:
  assumes "steady_pods P env"
  shows "go_keeps (P \<circ> snd) (handleArtifactInfo env)"
    "go_keeps (P \<circ> snd) (handleArtifactSigning env cfg)"
    "go_keeps (P \<circ> snd) (handleSBOMgeneration env cfg)"
    "go_keeps (P \<circ> snd) (updateFinalStatus env)" "go_keeps (P \<circ> snd) (markPodAsSkipped env)"
  unfolding handleArtifactInfo_def handleArtifactSigning_def handleSBOMgeneration_def
    updateFinalStatus_def markPodAsSkipped_def Let_def
  by (intro pod_world_rules patch_pod_steady [OF assms] dispatch_steady [OF steady_podsD(1) [OF assms]])+

lemma getPod_steady:
  assumes "steady_pods P env"
  shows "go_keeps P (getPod env ns n)"
  using steady_kubeD(1) [OF steady_podsD(2) [OF assms], of "(ns, n)"]
  unfolding go_keeps_def getPod_def by (force split: prod.splits result.splits)

lemma reconcilePod_steady:
  assumes "steady_pods P env"
  shows "go_keeps (P \<circ> snd) (reconcilePod env cfg ns)"
  unfolding reconcilePod_def handlePodReconciliation_def
  by (intro pod_world_rules patch_pod_steady [OF assms] pod_steps_steady [OF assms]
      getPod_steady [OF assms])

lemma each_pod_world:
  assumes "go_keeps (P \<circ> snd) m"
  shows "go_keeps (P \<circ> snd) (each_pod m)"
proof -
  have "P v'" if "each_pod m (ps, v) = (r, (ps', v'))" "P v" for ps v r ps' v'
    using that
  proof (induction ps arbitrary: v r ps' v')
    case (Cons p ps)
    from Cons.prems(1) obtain res p1 v1 where step: "m (p, v) = (res, (p1, v1))"
      and rest: "v' = v1 \<or> (\<exists>ps2. each_pod m (ps, v1) = (r, (ps2, v')))"
      unfolding each_pod_Cons_inv by (cases "m (p, v)"; cases "fst (m (p, v))") auto
    from go_keepsD [OF assms step] Cons.prems(2) have "P v1" by simp
    with rest Cons.IH show ?case by metis
  qed simp
  then show ?thesis by (simp add: go_keeps_def)
qed

lemma WorkflowStatus_Reconcile_steady:
  assumes "steady_pods P env"
  shows "go_keeps (P \<circ> snd) (WorkflowStatus_Reconcile env cfg ns)"
  unfolding WorkflowStatus_Reconcile_def
  by (intro go_keeps_world_rules each_pod_world reconcilePod_steady [OF assms])

lemma on_workflow_world: "go_keeps ((P \<circ> snd) \<circ> snd) (on_workflow m)"
  by (auto simp: go_keeps_def on_workflow_def split: prod.splits)

lemma handleProveneceAttachment_steady:
  assumes "steady_pods P env"
  shows "go_keeps ((P \<circ> snd) \<circ> snd) (handleProveneceAttachment env cfg subs)"
  unfolding handleProveneceAttachment_def
  by (intro go_keeps_world_rules on_workflow_world patch_pod_steady [OF assms]
      dispatch_steady [OF steady_podsD(1) [OF assms]])

lemma AttestArtifacts_steady:
  assumes "steady_pods P env"
  shows "go_keeps ((P \<circ> snd) \<circ> snd) (AttestArtifacts env cfg)"
  unfolding AttestArtifacts_def
  by (intro go_keeps_world_rules each_pod_world handleProveneceAttachment_steady [OF assms])

section \<open>Settings and keychains\<close>

definition steady_settings :: "('w \<Rightarrow> bool) \<Rightarrow> ('h, 'w, 'z) ctrl_env_scheme \<Rightarrow> bool" where
  "steady_settings P env \<longleftrightarrow>
     (\<forall>p. go_keeps P (ct_ReadFile env p)) \<and>
     (\<forall>nn. go_keeps (P \<circ> snd) (ct_ConfigMap_Get env nn)) \<and>
     (\<forall>c ns sel. go_keeps P (au_Secrets_List env c ns sel)) \<and>
     (\<forall>ss. go_keeps P (au_NewFromPullSecrets env ss))"

lemma steady_settingsD:
  assumes "steady_settings P env"
  shows "go_keeps P (ct_ReadFile env p)" "go_keeps (P \<circ> snd) (ct_ConfigMap_Get env nn)"
    "go_keeps P (au_Secrets_List env c ns sel)" "go_keeps P (au_NewFromPullSecrets env ss)"
  using assms unfolding steady_settings_def by blast+

lemma getNamespacedSecrets_steady:
  assumes "steady_settings P env"
  shows "go_keeps P (getNamespacedSecrets env c ns sel)"
  unfolding getNamespacedSecrets_def on_client_def
  by (intro go_keeps_world_rules steady_settingsD [OF assms])

lemma collect_secrets_steady:
  assumes "steady_settings P env"
  shows "go_keeps P (collect_secrets env c nss acc)"
  by (induction nss arbitrary: acc)
    (auto intro!: go_keeps_world_rules getNamespacedSecrets_steady [OF assms])

lemma GetAuthnKeychain_steady:
  assumes "steady_settings P env"
  shows "go_keeps P (GetAuthnKeychain env c ns wns)"
  unfolding GetAuthnKeychain_def getAuthFromSecrets_def Let_def
  by (intro go_keeps_world_rules collect_secrets_steady [OF assms] steady_settingsD [OF assms])

lemma settings_steady:
  assumes "steady_settings P env"
  shows "go_keeps P (getCurrentNamespace env)" "go_keeps P (getConfigMap env name ns)"
  unfolding getCurrentNamespace_def getConfigMap_def
  by (intro go_keeps_world_rules steady_settingsD [OF assms])+

section \<open>Observations that nothing changes\<close>

definition quiet_sbom :: "('w \<Rightarrow> 'b) \<Rightarrow> ('h, 'w, 'z) sbom_env_scheme \<Rightarrow> bool" where
  "quiet_sbom f env \<longleftrightarrow> (\<forall>c. steady_sbom (\<lambda>w. f w = c) env)"

definition quiet_kube :: "('w \<Rightarrow> 'b) \<Rightarrow> ('o, 'w) kube \<Rightarrow> bool" where
  "quiet_kube f k \<longleftrightarrow> (\<forall>c. steady_kube (\<lambda>w. f w = c) k)"

definition quiet_pods :: "('w \<Rightarrow> 'b) \<Rightarrow> ('h, 'w, 'z) pod_env_scheme \<Rightarrow> bool" where
  "quiet_pods f env \<longleftrightarrow> quiet_sbom f env \<and> quiet_kube f (pe_pods env)"

definition quiet_settings :: "('w \<Rightarrow> 'b) \<Rightarrow> ('h, 'w, 'z) ctrl_env_scheme \<Rightarrow> bool" where
  "quiet_settings f env \<longleftrightarrow> (\<forall>c. steady_settings (\<lambda>w. f w = c) env)"

lemma quiet_pods_iff: "quiet_pods f env \<longleftrightarrow> (\<forall>c. steady_pods (\<lambda>w. f w = c) env)"
  by (auto simp: quiet_pods_def quiet_sbom_def quiet_kube_def steady_pods_def)

lemma quiet_pods_steady: "quiet_pods f env \<Longrightarrow> steady_pods (\<lambda>w. f w = c) env"
  by (simp add: quiet_pods_iff)

lemma go_fixes_world_iff:
  "go_fixes (f \<circ> snd) m \<longleftrightarrow> (\<forall>c. go_keeps ((\<lambda>w. f w = c) \<circ> snd) m)"
  "go_fixes ((f \<circ> snd) \<circ> snd) m' \<longleftrightarrow> (\<forall>c. go_keeps (((\<lambda>w. f w = c) \<circ> snd) \<circ> snd) m')"
  by (simp_all add: go_fixes_iff o_def)

lemma WorkflowStatus_Reconcile_quiet:
  "quiet_pods f env \<Longrightarrow> go_fixes (f \<circ> snd) (WorkflowStatus_Reconcile env cfg ns)"
  by (simp add: go_fixes_world_iff WorkflowStatus_Reconcile_steady quiet_pods_steady)

lemma AttestArtifacts_quiet:
  "quiet_pods f env \<Longrightarrow> go_fixes ((f \<circ> snd) \<circ> snd) (AttestArtifacts env cfg)"
  unfolding go_fixes_world_iff(2) by (blast intro: AttestArtifacts_steady quiet_pods_steady)

lemma cl_Get_quiet: "quiet_kube f k \<Longrightarrow> go_fixes (f \<circ> snd) (cl_Get k nn)"
  by (simp add: go_fixes_world_iff steady_kubeD(1) quiet_kube_def)

lemma settings_quiet:
  assumes "quiet_settings f env"
  shows "go_fixes f (getCurrentNamespace env)" "go_fixes f (getConfigMap env name ns)"
    "go_fixes f (GetAuthnKeychain env c ns wns)"
  using assms by (simp_all add: go_fixes_iff quiet_settings_def settings_steady GetAuthnKeychain_steady)

end
