(* ===== verification/LabelMachine.thy ===== *)
theory LabelMachine imports Frames begin

text \<open>
  The status label of one workflow as a state machine. \<open>label_step\<close> is the abstract machine;
  \<open>controller_run\<close> is any history of reconciliations of the workflow, interleaved with whatever else
  happens in the world, as long as nobody else writes the label.

  \<open>label_store\<close> is what is asked of the API server's workflow client, for the stored label \<open>lab\<close> of
  the workflow \<open>req\<close>: reading does not change it, reading \<open>req\<close> returns it, a patch leaves it or sets
  it to the label of the object that is sent, and \<open>retry.OnError\<close> behaves as documented.
\<close>

section \<open>The abstract machine\<close>

definition label_done :: "string option \<Rightarrow> bool" where
  "label_done s \<longleftrightarrow> s = Some reconcileCompleted \<or> s = Some reconcileError"

inductive label_step :: "string option \<Rightarrow> string option \<Rightarrow> bool" where
  start: "\<not> label_done s \<Longrightarrow> label_step s (Some reconcileInProgrees)"
| complete: "\<not> label_done s \<Longrightarrow> label_step s (Some reconcileCompleted)"
| give_up: "\<not> label_done s \<Longrightarrow> label_step s (Some reconcileError)"

inductive_simps label_step_done [simp]: "label_step (Some reconcileCompleted) t"
inductive_cases label_stepE [elim!]: "label_step s t"

lemma label_step_from_done: "label_done s \<Longrightarrow> \<not> label_step s t"
  by auto

lemma label_steps_from_done: "label_step\<^sup>*\<^sup>* s t \<Longrightarrow> label_done s \<Longrightarrow> t = s"
  by (induction rule: rtranclp_induct) (auto dest: label_step_from_done)

lemma label_step_targets:
  "\<not> label_done s \<Longrightarrow>
     t \<in> {s, Some reconcileInProgrees, Some reconcileCompleted, Some reconcileError} \<Longrightarrow>
     label_step\<^sup>*\<^sup>* s t"
  by (auto intro: label_step.intros)

section \<open>The stored label\<close>

definition label_store ::
  "('h, 'w, 'z) ctrl_env_scheme \<Rightarrow> nsname \<Rightarrow> ('w \<Rightarrow> string option) \<Rightarrow> ('w \<Rightarrow> 'w) \<Rightarrow> bool" where
  "label_store env req lab sleep \<longleftrightarrow>
     retry_documented (ct_workflows env) sleep \<and> (\<forall>w. lab (sleep w) = lab w) \<and>
     (\<forall>nn. go_fixes (lab \<circ> snd) (cl_Get (ct_workflows env) nn)) \<and>
     (\<forall>s wflow w'. cl_Get (ct_workflows env) req s = (Ok (), (wflow, w')) \<longrightarrow>
        gm_lookup (m_labels wflow) workflowStatusLabel = lab w') \<and>
     (\<forall>base wflow w r s'. cl_Patch (ct_workflows env) base (wflow, w) = (r, s') \<longrightarrow>
        lab (snd s') = lab w \<or> lab (snd s') = gm_lookup (m_labels wflow) workflowStatusLabel)"

lemma label_storeD:
  assumes "label_store env req lab sleep"
  shows "retry_documented (ct_workflows env) sleep" "lab (sleep w) = lab w"
    "go_fixes (lab \<circ> snd) (cl_Get (ct_workflows env) nn)"
    "cl_Get (ct_workflows env) req s = (Ok (), (wflow, w')) \<Longrightarrow>
       gm_lookup (m_labels wflow) workflowStatusLabel = lab w'"
    "cl_Patch (ct_workflows env) base (wflow, w) = (r, s') \<Longrightarrow>
       lab (snd s') = lab w \<or> lab (snd s') = gm_lookup (m_labels wflow) workflowStatusLabel"
  using assms unfolding label_store_def by blast+

text \<open>An invariant of the stored label, as an invariant of the state of a computation.\<close>

definition lab_in :: "('w \<Rightarrow> string option) \<Rightarrow> string option set \<Rightarrow> 'o \<times> 'w \<Rightarrow> bool" where
  "lab_in lab S = (\<lambda>w. lab w \<in> S) \<circ> snd"

lemma lab_in_simp [simp]: "lab_in lab S (x, w) \<longleftrightarrow> lab w \<in> S"
  by (simp add: lab_in_def)

lemma go_fixes_lab_in:
  "go_fixes (lab \<circ> snd) m \<Longrightarrow> go_keeps (lab_in lab S) m"
  "go_fixes ((lab \<circ> snd) \<circ> snd) m' \<Longrightarrow> go_keeps (lab_in lab S \<circ> snd) m'"
  by (auto simp: go_keeps_def lab_in_def dest: go_fixesD)

lemma patch_attempt_lab:
  assumes "label_store env req lab sleep" and "Some v \<in> S"
  shows "go_keeps (lab_in lab S)
    (patch_attempt (ct_workflows env) workflowStatusLabel v m_labels set_labels)"
  unfolding go_keeps_def
proof clarify
  fix wflow w r wflow' w'
  assume S: "lab_in lab S (wflow, w)"
    and run: "patch_attempt (ct_workflows env) workflowStatusLabel v m_labels set_labels (wflow, w) =
      (r, (wflow', w'))"
  obtain res fresh w1 where get: "cl_Get (ct_workflows env) (nsname_of wflow) (wflow, w) = (res, (fresh, w1))"
    by (cases "cl_Get (ct_workflows env) (nsname_of wflow) (wflow, w)") auto
  have w1: "lab w1 \<in> S"
    using go_fixesD [OF label_storeD(3) [OF assms(1)] get] S by simp
  show "lab_in lab S (wflow', w')"
  proof (cases "w' = w1")
    case False
    with run get obtain base m where
      "cl_Patch (ct_workflows env) base (set_labels fresh (Some (m(workflowStatusLabel \<mapsto> v))), w1) =
        (r, (wflow', w'))"
      by (auto simp: patch_attempt_run split: result.splits option.splits if_splits)
    from label_storeD(5) [OF assms(1) this] w1 assms(2) show ?thesis
      by (auto simp: set_labels_def)
  qed (simp add: w1)
qed

lemma PatchLabels_lab:
  assumes "label_store env req lab sleep" and "Some v \<in> S"
  shows "go_keeps (lab_in lab S) (PatchLabels (ct_workflows env) workflowStatusLabel v)"
proof -
  have loop: "cl_OnError (ct_workflows env) n p m = retry_loop sleep n p m" for n p m
    using label_storeD(1) [OF assms(1)] unfolding retry_documented_def by blast
  show ?thesis
    unfolding PatchLabels_def patchMetadata_def loop
    by (intro go_keeps_catch go_keeps_leaf retry_loop_keeps patch_attempt_lab [OF assms])
      (auto simp: label_storeD(2) [OF assms(1)] intro!: go_keeps_leaf)
qed

lemma updateWorkflowStatus_lab:
  assumes "label_store env req lab sleep" and "Some v \<in> S"
  shows "go_keeps (lab_in lab S) (updateWorkflowStatus env v)"
  unfolding updateWorkflowStatus_def
  by (intro go_keeps_catch PatchLabels_lab [OF assms]) (auto intro!: go_keeps_leaf)

section \<open>One reconciliation\<close>

lemma secure_workflow_lab:
  assumes "label_store env req lab sleep" and "quiet_pods lab env"
    and "Some reconcileError \<in> S" and "Some reconcileCompleted \<in> S"
  shows "go_keeps (lab_in lab S) (secure_workflow env cfg)"
proof -
  note upd = updateWorkflowStatus_lab [OF assms(1)]
  note attest = go_fixes_lab_in(2) [OF AttestArtifacts_quiet [OF assms(2)]]
  have pods: "go_keeps (lab_in lab S \<circ> snd) (go_mid (WorkflowStatus_Reconcile env cfg ns))" for ns
    unfolding lab_in_def
    by (rule go_keeps_mid_world [OF go_fixes_lab_in(1)
          [OF WorkflowStatus_Reconcile_quiet [OF assms(2)], unfolded lab_in_def]])
  show ?thesis
    unfolding secure_workflow_def handle_pods_error_def
    by (intro go_keeps_get)
      (auto split: sum.splits
        intro!: go_keeps_leaf go_keeps_local go_keeps_catch go_keeps_world go_keeps_bind upd attest pods
          assms(3,4))
qed

lemma reconcile_workflow_lab:
  assumes "label_store env req lab sleep" and "quiet_pods lab env"
    and "gm_lookup (m_labels wflow) workflowStatusLabel = lab w"
    and "reconcile_workflow env cfg (wflow, w) = (r, (wflow', w'))"
  shows "label_step\<^sup>*\<^sup>* (lab w) (lab w')"
proof (cases "label_done (lab w)")
  case True
  with assms(3,4) show ?thesis
    by (auto simp: reconcile_workflow_def go_get_def go_ret_def label_done_def split: if_splits)
next
  case False
  let ?S = "{lab w, Some reconcileInProgrees, Some reconcileCompleted, Some reconcileError}"
  have "go_keeps (lab_in lab ?S) (go_bind (updateWorkflowStatus env reconcileInProgrees)
      (\<lambda>_. secure_workflow env cfg))"
    by (intro go_keeps_bind updateWorkflowStatus_lab [OF assms(1)]
        secure_workflow_lab [OF assms(1,2)]) auto
  note kept = go_keepsD [OF this, of "(wflow, w)" r "(wflow', w')"]
  have "lab w' \<in> ?S"
    using assms(3,4) kept
    by (auto simp: reconcile_workflow_def go_get_def go_ret_def Let_def split: if_splits option.splits)
  with False show ?thesis by (rule label_step_targets)
qed

text \<open>The parts of \<open>Reconcile\<close> before the workflow's labels are looked at only read: they keep what
  reading the settings and the workflow keeps.\<close>

definition read_only :: "('h, 'w, 'z) ctrl_env_scheme \<Rightarrow> nsname \<Rightarrow> 'w \<Rightarrow> 'w \<Rightarrow> bool" where
  "read_only env req w v \<longleftrightarrow>
     (\<forall>P. steady_settings P env \<longrightarrow> go_keeps (P \<circ> snd) (cl_Get (ct_workflows env) req) \<longrightarrow> P w \<longrightarrow> P v)"

lemma read_only_refl: "read_only env req w w"
  by (simp add: read_only_def)

lemma read_only_settings:
  assumes "read_only env req w v" and "m v = (r, v')" and "\<And>P. steady_settings P env \<Longrightarrow> go_keeps P m"
  shows "read_only env req w v'"
  using assms(1) go_keepsD [OF assms(3,2)] unfolding read_only_def by blast

lemma read_only_Get:
  assumes "read_only env req w v" and "cl_Get (ct_workflows env) req (o1, v) = (r, (o2, v'))"
  shows "read_only env req w v'"
  unfolding read_only_def
proof clarify
  fix P
  assume P: "steady_settings P env" "go_keeps (P \<circ> snd) (cl_Get (ct_workflows env) req)" "P w"
  with assms(1) have "P v" unfolding read_only_def by blast
  with go_keepsD [OF P(2) assms(2)] show "P v'" by simp
qed

lemma read_onlyD:
  assumes "read_only env req w v" and "quiet_settings f env"
    and "go_fixes (f \<circ> snd) (cl_Get (ct_workflows env) req)"
  shows "f v = f w"
  using assms unfolding read_only_def quiet_settings_def go_fixes_world_iff(1) by blast

text \<open>The configuration of a run: the defaults, the config map of the controller's namespace and the
  keychain for the workflow's namespace.\<close>

definition config_read ::
  "('h, 'w, 'z) ctrl_env_scheme \<Rightarrow> 'h reconciler \<Rightarrow> string \<Rightarrow> 'w \<Rightarrow> 'h config \<Rightarrow> bool" where
  "config_read env rc wfns w cfg \<longleftrightarrow>
     (\<exists>ns data kc w1 w2 v v'.
        getCurrentNamespace env w = (Ok ns, w1) \<and> getConfigMap env configMapName ns w1 = (Ok data, w2) \<and>
        GetAuthnKeychain env (r_InclusterClient rc) (r_Namespace rc) wfns v = (Ok kc, v') \<and>
        cfg = (config_New (ct_DefaultRekorURL env) data)\<lparr>cfg_AuthKeyChain := Some kc\<rparr>)"

lemma Reconcile_cases:
  assumes "Reconcile env rc req w = (r, w')"
  obtains "read_only env req w w'" and "\<forall>res. r = Ok res \<longrightarrow> res = no_requeue"
  | cfg wflow wflow' w1 w2 w3 where
      "read_only env req w w1" and "cl_Get (ct_workflows env) req (zero_workflow, w1) = (Ok (), (wflow, w2))"
      and "read_only env req w w2" and "config_read env rc (m_namespace wflow) w cfg"
      and "read_only env req w w3" and "reconcile_workflow env cfg (wflow, w3) = (r, (wflow', w'))"
proof -
  obtain rn wn where n: "getCurrentNamespace env w = (rn, wn)" by fastforce
  have wn: "read_only env req w wn" by (rule read_only_settings [OF read_only_refl n settings_steady(1)])
  show thesis
  proof (cases rn)
    case (Ok cns)
    obtain rm wm where m: "getConfigMap env configMapName cns wn = (rm, wm)" by fastforce
    have wm: "read_only env req w wm" by (rule read_only_settings [OF wn m settings_steady(2)])
    show thesis
    proof (cases rm)
      case data: (Ok data)
      obtain rg wflow w2 where g: "cl_Get (ct_workflows env) req (zero_workflow, wm) = (rg, (wflow, w2))"
        by (metis prod.exhaust)
      have w2: "read_only env req w w2" by (rule read_only_Get [OF wm g])
      show thesis
      proof (cases rg)
        case got: (Ok u)
        obtain rk w3 where k: "GetAuthnKeychain env (r_InclusterClient rc) (r_Namespace rc)
            (m_namespace wflow) w2 = (rk, w3)" by fastforce
        have w3: "read_only env req w w3" by (rule read_only_settings [OF w2 k GetAuthnKeychain_steady])
        show thesis
        proof (cases rk)
          case kc: (Ok kc)
          let ?cfg = "(config_New (ct_DefaultRekorURL env) data)\<lparr>cfg_AuthKeyChain := Some kc\<rparr>"
          obtain wflow' where rw: "reconcile_workflow env ?cfg (wflow, w3) = (r, (wflow', w'))"
            using assms(1) Ok data got kc n m g k
            by (auto simp: Reconcile_def go_bind_def go_local_def go_catch_def go_get_def go_snd_def Let_def
                split: prod.splits)
          have "config_read env rc (m_namespace wflow) w ?cfg"
            unfolding config_read_def using n m k Ok data kc by blast
          from that(2) [OF wm _ w2 this w3 rw] g got show thesis by simp
        qed (use assms(1) Ok data got n m g k w3 that(1) in
            \<open>auto simp: Reconcile_def go_bind_def go_local_def go_catch_def go_get_def go_snd_def Let_def\<close>)
      qed (use assms(1) Ok data n m g w2 that(1) in
          \<open>auto simp: Reconcile_def go_bind_def go_local_def go_catch_def go_ret_def go_fail_def Let_def
            split: if_splits\<close>)
    qed (use assms(1) Ok n m wm that(1) in \<open>auto simp: Reconcile_def go_bind_def\<close>)
  qed (use assms(1) n wn that(1) in \<open>auto simp: Reconcile_def go_bind_def\<close>)
qed

lemma read_only_lab:
  "label_store env req lab sleep \<Longrightarrow> quiet_settings lab env \<Longrightarrow> read_only env req w v \<Longrightarrow> lab v = lab w"
  by (rule read_onlyD [OF _ _ label_storeD(3)])

lemma Reconcile_lab:
  assumes "label_store env req lab sleep" and "quiet_pods lab env" and "quiet_settings lab env"
    and "Reconcile env rc req w = (r, w')"
  shows "label_step\<^sup>*\<^sup>* (lab w) (lab w')"
  using assms(4)
proof (cases rule: Reconcile_cases)
  case 1
  from read_only_lab [OF assms(1,3) 1(1)] show ?thesis by simp
next
  case (2 cfg wflow wflow' w1 w2 w3)
  note same = read_only_lab [OF assms(1,3) 2(3)] read_only_lab [OF assms(1,3) 2(5)]
  then have "gm_lookup (m_labels wflow) workflowStatusLabel = lab w3"
    using label_storeD(4) [OF assms(1) 2(2)] by simp
  from reconcile_workflow_lab [OF assms(1,2) this 2(6)] same show ?thesis by simp
qed

section \<open>Histories\<close>

text \<open>\<open>moves\<close> is what everybody else does to the world between two reconciliations.\<close>

inductive controller_run ::
  "('h, 'w, 'z) ctrl_env_scheme \<Rightarrow> 'h reconciler \<Rightarrow> nsname \<Rightarrow> ('w \<Rightarrow> 'w \<Rightarrow> bool) \<Rightarrow> 'w \<Rightarrow> 'w \<Rightarrow> bool"
  for env rc req moves where
  idle: "controller_run env rc req moves w w"
| visit: "controller_run env rc req moves w w1 \<Longrightarrow> Reconcile env rc req w1 = (res, w2) \<Longrightarrow>
    controller_run env rc req moves w w2"
| others: "controller_run env rc req moves w w1 \<Longrightarrow> moves w1 w2 \<Longrightarrow>
    controller_run env rc req moves w w2"

lemma controller_run_label:
  assumes "label_store env req lab sleep" and "quiet_pods lab env" and "quiet_settings lab env"
    and "\<And>w1 w2. moves w1 w2 \<Longrightarrow> lab w2 = lab w1"
    and "controller_run env rc req moves w w'"
  shows "label_step\<^sup>*\<^sup>* (lab w) (lab w')"
  using assms(5)
proof (induction rule: controller_run.induct)
  case (visit w w1 res w2)
  with Reconcile_lab [OF assms(1-3) visit.hyps(2)] show ?case by (metis rtranclp_trans)
next
  case (others w w1 w2)
  then show ?case by (simp add: assms(4))
qed simp

section \<open>What a completion rests on\<close>

text \<open>The lemma behind the safety properties: the label becomes \<open>Completed\<close> only on the path on which
  all pods were reconciled and attested. \<open>w1\<close> is the world in which the first pod is visited, \<open>w2\<close> the one
  after the last visit, \<open>w3\<close> the one after the last provenance; from there only the workflow's client was
  called.\<close>

definition secured ::
  "('h, 'w, 'z) ctrl_env_scheme \<Rightarrow> 'h config \<Rightarrow> workflow \<Rightarrow> 'w \<Rightarrow> podStatus list \<Rightarrow> podStatus list \<Rightarrow>
   'w \<Rightarrow> 'w \<Rightarrow> bool" where
  "secured env cfg wflow w1 pods pods' w2 w3 \<longleftrightarrow>
     GetPodInfo wflow = Inr pods \<and>
     WorkflowStatus_Reconcile env cfg (m_namespace wflow) (pods, w1) = (Ok (), (pods', w2)) \<and>
     (\<exists>pods3 wflow3. AttestArtifacts env cfg (pods', (wflow, w2)) = (Ok (), (pods3, (wflow3, w3))))"

definition labelled :: "('h, 'w, 'z) ctrl_env_scheme \<Rightarrow> 'w \<Rightarrow> 'w \<Rightarrow> bool" where
  "labelled env w w' \<longleftrightarrow> (\<forall>P. steady_kube P (ct_workflows env) \<longrightarrow> P w \<longrightarrow> P w')"

lemma updateWorkflowStatus_steady:
  assumes "steady_kube P (ct_workflows env)"
  shows "go_keeps (P \<circ> snd) (updateWorkflowStatus env v)"
  unfolding updateWorkflowStatus_def PatchLabels_def
  by (intro go_keeps_world_rules patchMetadata_steady [OF assms])

text \<open>Whatever the pods' operations and the workflow's client keep is still so at the end.\<close>

lemma secured_kept:
  assumes "secured env cfg wflow w1 pods pods' w2 w3" and "labelled env w3 w'"
    and "steady_pods P env" and "steady_kube P (ct_workflows env)" and "P w2"
  shows "P w'"
proof -
  from assms(1) obtain s where "AttestArtifacts env cfg (pods', (wflow, w2)) = (Ok (), s)" "snd (snd s) = w3"
    unfolding secured_def by fastforce
  with go_keepsD [OF AttestArtifacts_steady [OF assms(3)]] assms(5) have "P w3" by fastforce
  with assms(2,4) show ?thesis unfolding labelled_def by blast
qed

lemma secure_workflow_Completed:
  assumes "label_store env req lab sleep" and "quiet_pods lab env"
    and "secure_workflow env cfg (wflow, w) = (r, (wflow', w'))"
    and "lab w \<noteq> Some reconcileCompleted" and "lab w' = Some reconcileCompleted"
  shows "\<exists>pods pods' w2 w3. secured env cfg wflow w pods pods' w2 w3 \<and> labelled env w3 w'"
proof -
  let ?S = "- {Some reconcileCompleted}"
  have upd: "go_keeps (lab_in lab ?S) (updateWorkflowStatus env reconcileError)"
    by (intro updateWorkflowStatus_lab [OF assms(1)]) (simp add: controller_constants)
  note upd = this
  obtain pods where pods: "GetPodInfo wflow = Inr pods"
    using assms(3-5) by (cases "GetPodInfo wflow") (auto simp: secure_workflow_def go_get_def go_ret_def)
  let ?tail = "\<lambda>_. go_catch (AttestArtifacts env cfg)
      (\<lambda>err. go_snd (go_bind (updateWorkflowStatus env reconcileError) (\<lambda>_. go_ret no_requeue)))
      (\<lambda>_. go_snd (go_bind (updateWorkflowStatus env reconcileCompleted) (\<lambda>_. go_ret no_requeue)))"
  obtain pf where run: "go_catch (go_mid (WorkflowStatus_Reconcile env cfg (m_namespace wflow)))
      (\<lambda>err. go_snd (handle_pods_error env err)) ?tail (pods, (wflow, w)) = (r, (pf, (wflow', w')))"
    using assms(3) pods by (auto simp: secure_workflow_def go_get_def go_inv)
  obtain res pods' w2 where rec: "WorkflowStatus_Reconcile env cfg (m_namespace wflow) (pods, w) =
      (res, (pods', w2))" by (metis prod.exhaust)
  have w2: "lab w2 = lab w"
    using go_fixesD [OF WorkflowStatus_Reconcile_quiet [OF assms(2)] rec] by simp
  have handled: "go_keeps (lab_in lab ?S) (handle_pods_error env e)" for e
    unfolding handle_pods_error_def
    by (intro go_keeps_leaf go_keeps_bind go_keeps_if upd)
  obtain u where ok: "res = Ok u"
  proof (cases res)
    case (Fail e)
    with run rec have "handle_pods_error env e (wflow, w2) = (r, (wflow', w'))"
      by (auto simp: go_catch_def go_mid_def go_snd_def split: prod.splits)
    from go_keepsD [OF handled this] w2 assms(4,5) have False by simp
    then show thesis ..
  next
    case (Panic m)
    with run rec w2 assms(4,5) show thesis by (auto simp: go_catch_def go_mid_def)
  qed
  obtain res2 pods3 wflow3 w3 where att: "AttestArtifacts env cfg (pods', (wflow, w2)) =
      (res2, (pods3, (wflow3, w3)))" by (metis prod.exhaust)
  have w3: "lab w3 = lab w"
    using go_fixesD [OF AttestArtifacts_quiet [OF assms(2)] att] w2 by simp
  have upd_keep: "go_keeps (lab_in lab ?S)
      (go_bind (updateWorkflowStatus env reconcileError) (\<lambda>_. go_ret no_requeue))"
    by (intro go_keeps_bind upd go_keeps_leaf)
  obtain u2 where ok2: "res2 = Ok u2"
  proof (cases res2)
    case (Fail e)
    with run rec ok att have "go_bind (updateWorkflowStatus env reconcileError) (\<lambda>_. go_ret no_requeue)
        (wflow3, w3) = (r, (wflow', w'))"
      by (auto simp: go_catch_def go_mid_def go_snd_def split: prod.splits)
    from go_keepsD [OF upd_keep this] w3 assms(4,5) have False by simp
    then show thesis ..
  next
    case (Panic m)
    with run rec ok att w3 assms(4,5) show thesis by (auto simp: go_catch_def go_mid_def)
  qed
  have "go_bind (updateWorkflowStatus env reconcileCompleted) (\<lambda>_. go_ret no_requeue) (wflow3, w3) =
      (r, (wflow', w'))"
    using run rec ok att ok2 by (auto simp: go_catch_def go_mid_def go_snd_def split: prod.splits)
  then obtain r' wflow4 where "updateWorkflowStatus env reconcileCompleted (wflow3, w3) = (r', (wflow4, w'))"
    by (auto simp: go_bind_def go_ret_def split: prod.splits result.splits)
  from go_keepsD [OF updateWorkflowStatus_steady this] have "labelled env w3 w'"
    unfolding labelled_def by fastforce
  moreover have "secured env cfg wflow w pods pods' w2 w3"
    using pods rec att ok ok2 unfolding secured_def by simp
  ultimately show ?thesis by blast
qed

lemma reconcile_workflow_Completed:
  assumes "label_store env req lab sleep" and "quiet_pods lab env"
    and "reconcile_workflow env cfg (wflow, w) = (r, (wflow', w'))"
    and "lab w \<noteq> Some reconcileCompleted" and "lab w' = Some reconcileCompleted"
  obtains res wflow1 w1 pods pods' w2 w3 where
    "updateWorkflowStatus env reconcileInProgrees (wflow, w) = (Ok res, (wflow1, w1))"
    "secured env cfg wflow1 w1 pods pods' w2 w3" "labelled env w3 w'"
proof -
  let ?S = "- {Some reconcileCompleted}"
  obtain res wflow1 w1 where upd: "updateWorkflowStatus env reconcileInProgrees (wflow, w) =
      (res, (wflow1, w1))" by (metis prod.exhaust)
  have "go_keeps (lab_in lab ?S) (updateWorkflowStatus env reconcileInProgrees)"
    by (intro updateWorkflowStatus_lab [OF assms(1)]) (simp add: controller_constants)
  from go_keepsD [OF this upd] assms(4) have w1: "lab w1 \<noteq> Some reconcileCompleted" by simp
  have "go_bind (updateWorkflowStatus env reconcileInProgrees) (\<lambda>_. secure_workflow env cfg) (wflow, w) =
      (r, (wflow', w'))"
    using assms(3-5)
    by (auto simp: reconcile_workflow_def go_get_def go_ret_def Let_def split: if_splits option.splits)
  with upd w1 assms(5) obtain u where ok: "res = Ok u"
    and run: "secure_workflow env cfg (wflow1, w1) = (r, (wflow', w'))"
    by (cases res) (auto simp: go_bind_def)
  from secure_workflow_Completed [OF assms(1,2) run w1 assms(5)] upd ok that show thesis by blast
qed

text \<open>A run that starts in \<open>w\<close> has read its settings and its workflow, labelled the workflow as in
  progress, and now has it as \<open>wflow\<close> in the world \<open>w1\<close>.\<close>

definition picked_up ::
  "('h, 'w, 'z) ctrl_env_scheme \<Rightarrow> 'h reconciler \<Rightarrow> nsname \<Rightarrow> 'w \<Rightarrow> 'h config \<Rightarrow> workflow \<Rightarrow> 'w \<Rightarrow> bool" where
  "picked_up env rc req w cfg wflow w1 \<longleftrightarrow>
     (\<exists>stored v v1 v2 res.
        read_only env req w v \<and> cl_Get (ct_workflows env) req (zero_workflow, v) = (Ok (), (stored, v1)) \<and>
        config_read env rc (m_namespace stored) w cfg \<and> read_only env req w v2 \<and>
        updateWorkflowStatus env reconcileInProgrees (stored, v2) = (Ok res, (wflow, w1)))"

lemma Reconcile_Completed:
  assumes "label_store env req lab sleep" and "quiet_pods lab env" and "quiet_settings lab env"
    and "Reconcile env rc req w = (r, w')"
    and "lab w \<noteq> Some reconcileCompleted" and "lab w' = Some reconcileCompleted"
  obtains cfg wflow w1 pods pods' w2 w3 where
    "picked_up env rc req w cfg wflow w1" "secured env cfg wflow w1 pods pods' w2 w3" "labelled env w3 w'"
  using assms(4)
proof (cases rule: Reconcile_cases)
  case 1
  from read_only_lab [OF assms(1,3) 1(1)] assms(5,6) show ?thesis by simp
next
  case (2 cfg wflow wflow' v v1 v2)
  from read_only_lab [OF assms(1,3) 2(5)] assms(5) have "lab v2 \<noteq> Some reconcileCompleted" by simp
  then obtain res wflow1 w1 pods pods' w2 w3 where
    upd: "updateWorkflowStatus env reconcileInProgrees (wflow, v2) = (Ok res, (wflow1, w1))" and
    ended: "secured env cfg wflow1 w1 pods pods' w2 w3" "labelled env w3 w'"
    by (rule reconcile_workflow_Completed [OF assms(1,2) 2(6) _ assms(6)])
  have "picked_up env rc req w cfg wflow1 w1"
    unfolding picked_up_def using 2(1,2,4,5) upd by blast
  from that [OF this ended] show ?thesis .
qed

end
