(* ===== verification/SampleEnv.thy ===== *)
theory SampleEnv imports LabelMachine begin

text \<open>
  A concrete environment: a small API server, registry and key service, on which the witnesses of the
  theorems are evaluated. It models none of the repository's code; the documented behaviour that the
  theorems assume of the libraries holds on it (\<open>sample_oci\<close>, \<open>sample_pods_documented\<close>,
  \<open>sample_workflows_documented\<close>).
\<close>

text \<open>Library values: a static signature remembers what it was made of, and an attestation its envelope; an
  image with signatures or attestations is represented by the last one; the others are all alike.\<close>

datatype handle =
    Opaque
  | Signature bytes string

record sworld =
  sw_pods :: "nsname \<rightharpoonup> pod"
  sw_workflows :: "nsname \<rightharpoonup> workflow"
  sw_config :: gomap
  sw_keys :: "string \<rightharpoonup> secret"
  sw_published :: "string list"
  sw_signatures :: "(string \<times> handle) list"
  sw_attested :: "string list"
  sw_attestations :: "(string \<times> handle) list"
  sw_refuses :: bool

definition done_ok :: "('w \<Rightarrow> 'w) \<Rightarrow> ('w, unit) go" where
  "done_ok f = (\<lambda>w. (Ok (), f w))"

text \<open>References \<open>name@digest\<close> of one registry.\<close>

definition sample_parse :: "string \<Rightarrow> goerr + reference" where
  "sample_parse s =
     (let name = takeWhile (\<lambda>c. c \<noteq> CHR ''@'') s; rest = dropWhile (\<lambda>c. c \<noteq> CHR ''@'') s
      in if name = [] then Inl (errors_New ''parse'')
         else Inr \<lparr>ref_RegistryStr = ''r.io'', ref_RepositoryStr = name,
           ref_Repository = ''r.io/'' @ name, ref_Identifier = tl rest,
           ref_Digest = (if rest = [] then None else Some (tl rest))\<rparr>)"

definition sw_put_pod :: "nsname \<Rightarrow> pod \<Rightarrow> sworld \<Rightarrow> sworld" where
  "sw_put_pod nn p w = w\<lparr>sw_pods := (sw_pods w)(nn \<mapsto> p)\<rparr>"

definition sw_put_workflow :: "nsname \<Rightarrow> workflow \<Rightarrow> sworld \<Rightarrow> sworld" where
  "sw_put_workflow nn wflow w = w\<lparr>sw_workflows := (sw_workflows w)(nn \<mapsto> wflow)\<rparr>"

text \<open>A read finds an object only under its own name.\<close>

definition sw_read_pod :: "sworld \<Rightarrow> nsname \<Rightarrow> pod option" where
  "sw_read_pod w nn =
     (case sw_pods w nn of
        None \<Rightarrow> None
      | Some p \<Rightarrow> Some (p\<lparr>m_namespace := fst nn, m_name := snd nn\<rparr>))"

definition sw_read_workflow :: "sworld \<Rightarrow> nsname \<Rightarrow> workflow option" where
  "sw_read_workflow w nn =
     (case sw_workflows w nn of
        None \<Rightarrow> None
      | Some p \<Rightarrow> Some (p\<lparr>m_namespace := fst nn, m_name := snd nn\<rparr>))"

definition sample_pods :: "(pod, sworld) kube" where
  "sample_pods = store_kube sw_read_pod sw_put_pod"

definition sample_workflows :: "(workflow, sworld) kube" where
  "sample_workflows = store_kube sw_read_workflow sw_put_workflow"

definition write_registry :: "(sworld \<Rightarrow> sworld) \<Rightarrow> (sworld, unit) go" where
  "write_registry f =
     (\<lambda>w. if sw_refuses w then (Fail (errors_New ''UNAUTHORIZED''), w) else (Ok (), f w))"

definition publish :: "string \<Rightarrow> handle \<Rightarrow> sworld \<Rightarrow> sworld" where
  "publish repo se w =
     w\<lparr>sw_published := sw_published w @ [repo], sw_signatures := (repo, se) # sw_signatures w\<rparr>"

definition publish_attestation :: "string \<Rightarrow> handle \<Rightarrow> sworld \<Rightarrow> sworld" where
  "publish_attestation repo se w =
     w\<lparr>sw_attested := sw_attested w @ [repo], sw_attestations := (repo, se) # sw_attestations w\<rparr>"

definition sample_env :: "(handle, sworld) ctrl_env" where
  "sample_env =
     \<lparr>ce_WithContext = \<lparr>so_is_SignOption = True, so_is_PublicKeyOption = True, so_id = ''ctx''\<rparr>,
      ce_SignMessage = (\<lambda>h opts p. go_ret (CHR ''s'' # p)),
      ce_PublicKey = (\<lambda>h opts. go_ret Opaque),
      ce_static_NewSignature = (\<lambda>p b. Inr (Signature p b)),
      ce_mutate_WithCertChain = (\<lambda>s c ch. Inr s),
      ce_mutate_WithBundle = (\<lambda>s b. Inr s),
      ce_sig_Payload =
        (\<lambda>s. case s of Signature p b \<Rightarrow> Inr p | Opaque \<Rightarrow> Inl (errors_New ''none'')),
      ce_sig_Base64Signature =
        (\<lambda>s. case s of Signature p b \<Rightarrow> Inr b | Opaque \<Rightarrow> Inl (errors_New ''none'')),
      ce_sig_Cert = (\<lambda>s. Inr None),
      ce_MarshalCertificateToPEM = (\<lambda>h. Inr ''PEM''),
      ce_MarshalPublicKeyToPEM = (\<lambda>h. Inr ''PEM''),
      ce_TLogUpload = (\<lambda>r sig hash b. go_ret Opaque),
      ce_EntryToBundle = (\<lambda>e. Opaque),
      rg_ParseReference = sample_parse,
      rg_WithContext = Opaque,
      rg_WithAuthFromKeychain = (\<lambda>k. Opaque),
      rg_NewPuller = (\<lambda>opts. go_ret Opaque),
      rg_NewPusher = (\<lambda>opts. go_ret Opaque),
      rg_Reuse = (\<lambda>h. Opaque),
      rg_WithRemoteOptions = (\<lambda>opts. Opaque),
      sg_GetKeyPairSecret = (\<lambda>ref w.
        case sw_keys w ref of
          None \<Rightarrow> (Fail (GoErr ApiNotFound ''none''), w)
        | Some s \<Rightarrow> (Ok s, w)),
      sg_LoadPrivateKey = (\<lambda>key pass. go_ret Opaque),
      sg_kms_Get = (\<lambda>ref. go_ret Opaque),
      sg_as_pkcs11 = (\<lambda>h. None),
      sg_pkcs11_Certificate = (\<lambda>h. go_ret None),
      sg_pkcs11_Close = (\<lambda>h w. w),
      sg_cert_PublicKey = (\<lambda>h. Opaque),
      sg_EqualKeys = (\<lambda>a b. None),
      sg_providers_Enabled = go_ret False,
      sg_providers_Provide = (\<lambda>aud. go_ret ''token''),
      sg_GeneratePrivateKey = go_ret Opaque,
      sg_LoadECDSASignerVerifier = (\<lambda>k. Inr Opaque),
      sg_fulcio_NewSigner = (\<lambda>ko s. go_ret (Some ''cert'', Some ''chain'')),
      sg_Close = (\<lambda>sv. go_ret ()),
      sg_NewDupeDetector = (\<lambda>sv. Opaque),
      sg_SignedEntity = (\<lambda>ref opts. go_ret Opaque),
      sg_SignedUnknown = (\<lambda>ref opts. Opaque),
      sg_payload_MarshalJSON = (\<lambda>ref ident. Inr (ref_Repository ref)),
      sg_rekor_NewClient = (\<lambda>url. go_ret Opaque),
      sg_AttachSignatureToEntity = (\<lambda>se s dd ts. go_ret s),
      sg_WriteSignatures = (\<lambda>repo se opts. write_registry (publish repo se)),
      at_NewHash = (\<lambda>d. Inr d),
      at_GenerateStatement = (\<lambda>p t d r. Inr Opaque),
      at_json_Marshal = (\<lambda>h. Inr ''json''),
      at_IntotoPayloadType = ''in-toto'',
      at_DssePayloadType = ''dsse'',
      at_dsse_SignMessage = (\<lambda>sv t p. go_ret p),
      at_ParsePredicateType = (\<lambda>t. Inr t),
      at_sv_Bytes = (\<lambda>sv. go_ret ''PEM''),
      at_TLogUploadDSSEEnvelope = (\<lambda>r p b. go_ret Opaque),
      at_LogIndex = (\<lambda>e. Some 7),
      at_NewAttestation = (\<lambda>p opts. Inr (Signature p '''')),
      at_AttachAttestationToEntity = (\<lambda>se s dd ts. go_ret s),
      at_WriteAttestations = (\<lambda>repo se opts. write_registry (publish_attestation repo se)),
      sb_crane_Manifest = (\<lambda>oci k. go_ret oci),
      sb_json_Unmarshal_index = (\<lambda>b. Inr \<lparr>im_MediaType = ''list'', im_Manifests =
        [\<lparr>mf_Digest = ''d1'', mf_Platform = None\<rparr>, \<lparr>mf_Digest = ''d2'', mf_Platform = None\<rparr>]\<rparr>),
      sb_DockerManifestList = ''list'',
      sb_Platform_String = (\<lambda>p. go_ret ''linux''),
      sb_syft_GetSource = (\<lambda>oci k. go_ret Opaque),
      sb_syft_CreateSBOM = (\<lambda>src. go_ret Opaque),
      sb_cyclonedx_NewEncoder = Inr Opaque,
      sb_cyclonedx_Encode = (\<lambda>e s. Inr ''bom''),
      pv_json_Marshal_any = (\<lambda>m. Inr ''json''),
      pv_json_Marshal_artifact = (\<lambda>a. Inr (art_rest a)),
      pv_json_Marshal_parameter = (\<lambda>p. Inr (par_rest p)),
      pv_protojson_Unmarshal_struct = (\<lambda>b. Inr Opaque),
      pv_protojson_Marshal_provenance = (\<lambda>bd rd. Inr ''predicate''),
      pv_protojson_Marshal_statement = (\<lambda>st. Inr ''statement''),
      pv_timestamppb_New = (\<lambda>t. Opaque),
      pv_StatementInTotoV01 = ''v0.1'',
      pv_PredicateSLSAProvenance = ''v1'',
      pe_pods = sample_pods,
      pe_HasParameters =
        (\<lambda>outs. case outs of None \<Rightarrow> False | Some os \<Rightarrow> out_Parameters os \<noteq> []),
      pe_GetValue = (\<lambda>p. case par_Value p of None \<Rightarrow> '''' | Some v \<Rightarrow> v),
      pe_PredicateCycloneDX = ''cyclonedx'',
      pe_PredicateSLSA1 = ''slsaprovenance1'',
      au_DefaultKeychain = Opaque,
      au_GoogleKeychain = Opaque,
      au_EcrKeychain = Opaque,
      au_AzureAcrKeychain = Opaque,
      au_AlibabaAcrKeychain = Opaque,
      au_NewMultiKeychain = (\<lambda>ks. Opaque),
      au_Secrets_List = (\<lambda>c ns sel. go_ret []),
      au_NewFromPullSecrets = (\<lambda>ss. go_ret Opaque),
      au_ServiceAccount_ImagePullSecrets = (\<lambda>c ns sa. go_ret []),
      au_k8schain_New = (\<lambda>c ns sa ss b. go_ret Opaque),
      ct_workflows = sample_workflows,
      ct_ConfigMap_Get = (\<lambda>nn (cm, w). (Ok (), (cm\<lparr>cm_Data := sw_config w\<rparr>, w))),
      ct_ReadFile = (\<lambda>path. go_ret ''argo-slsa''),
      ct_DefaultRekorURL = ''rekor'',
      ct_InClusterConfig = go_ret Opaque,
      ct_NewForConfig = (\<lambda>c. go_ret Opaque),
      ct_ConfigMaps_Get = (\<lambda>c ns name. go_ret ()),
      ct_Complete = (\<lambda>m. go_ret ())\<rparr>"

section \<open>The documented behaviour\<close>

lemma sample_oci: "oci_documented sample_env"
  by (auto simp: oci_documented_def sample_env_def)

lemma sw_read_name:
  "sw_read_pod w nn = Some p \<Longrightarrow> nsname_of p = nn"
  "sw_read_workflow w nn = Some wflow \<Longrightarrow> nsname_of wflow = nn"
  by (auto simp: sw_read_pod_def sw_read_workflow_def nsname_of_def split: option.splits)

lemma sample_pods_documented: "pods_documented sample_env (\<lambda>w. w)"
  using store_kube_documented [OF sw_read_name(1)]
  by (simp add: pods_documented_def sample_env_def sample_pods_def store_kube_retry)

lemma sample_workflows_documented:
  "retry_documented (ct_workflows sample_env) (\<lambda>w. w)" "kube_documented (ct_workflows sample_env)"
  using store_kube_documented [OF sw_read_name(2)]
  by (simp_all add: sample_env_def sample_workflows_def store_kube_retry)

text \<open>The stored status label of the workflow \<open>ns/wfl\<close>.\<close>

definition sample_req :: nsname where "sample_req = (''ns'', ''wfl'')"

definition sample_label :: "sworld \<Rightarrow> string option" where
  "sample_label w =
     (case sw_workflows w sample_req of
        None \<Rightarrow> None
      | Some wflow \<Rightarrow> gm_lookup (m_labels wflow) workflowStatusLabel)"

text \<open>What the cluster's libraries write: the registry, and the pods.\<close>

lemma write_registry_steady: "(\<And>w. P w \<Longrightarrow> P (g w)) \<Longrightarrow> go_keeps P (write_registry g)"
  by (auto simp: go_keeps_def write_registry_def)

lemma sample_key_steady:
  "go_keeps P (\<lambda>w. case sw_keys w ref of None \<Rightarrow> (Fail e, w) | Some s \<Rightarrow> (Ok s, w))"
  by (auto simp: go_keeps_def split: option.splits)

lemma sample_steady_sbom:
  assumes "\<And>repo se w. P w \<Longrightarrow> P (publish repo se w)"
    and "\<And>repo se w. P w \<Longrightarrow> P (publish_attestation repo se w)"
  shows "steady_sbom P sample_env"
  unfolding steady_sbom_def steady_attest_def steady_sign_def steady_cosign_def sample_env_def
  by (simp add: go_keeps_leaf sample_key_steady write_registry_steady assms)

lemma sample_steady_pods:
  assumes "\<And>repo se w. P w \<Longrightarrow> P (publish repo se w)"
    and "\<And>repo se w. P w \<Longrightarrow> P (publish_attestation repo se w)"
    and "\<And>nn p w. P w \<Longrightarrow> P (sw_put_pod nn p w)"
  shows "steady_pods P sample_env"
  using sample_steady_sbom [OF assms(1,2)] store_kube_steady [where P = P and wr = sw_put_pod, OF assms(3)]
  by (simp add: steady_pods_def sample_env_def sample_pods_def)

lemma sample_steady_workflows:
  assumes "\<And>nn wflow w. P w \<Longrightarrow> P (sw_put_workflow nn wflow w)"
  shows "steady_kube P (ct_workflows sample_env)"
  using store_kube_steady [where P = P and wr = sw_put_workflow, OF assms] by (simp add: sample_env_def sample_workflows_def)

lemma sample_quiet_pods_gen:
  assumes "\<And>repo se w. f (publish repo se w) = f w" and "\<And>repo se w. f (publish_attestation repo se w) = f w"
    and "\<And>nn p w. f (sw_put_pod nn p w) = f w"
  shows "quiet_pods f sample_env"
  unfolding quiet_pods_iff by (intro allI sample_steady_pods) (simp_all add: assms)

lemma registry_writes [simp]:
  "sample_label (publish repo se w) = sample_label w"
  "sample_label (publish_attestation repo se w) = sample_label w"
  "sample_label (sw_put_pod nn p w) = sample_label w"
  "sw_read_workflow (publish repo se w) nn' = sw_read_workflow w nn'"
  "sw_read_workflow (publish_attestation repo se w) nn' = sw_read_workflow w nn'"
  "sw_read_workflow (sw_put_pod nn p w) nn' = sw_read_workflow w nn'"
  "sw_read_pod (publish repo se w) nn' = sw_read_pod w nn'"
  "sw_read_pod (publish_attestation repo se w) nn' = sw_read_pod w nn'"
  "sw_read_pod (sw_put_workflow nn wflow w) nn' = sw_read_pod w nn'"
  "sw_signatures (publish_attestation repo se w) = sw_signatures w"
  "sw_signatures (sw_put_pod nn p w) = sw_signatures w"
  "sw_signatures (sw_put_workflow nn wflow w) = sw_signatures w"
  "sw_attestations (publish repo se w) = sw_attestations w"
  "sw_attestations (sw_put_pod nn p w) = sw_attestations w"
  "sw_attestations (sw_put_workflow nn wflow w) = sw_attestations w"
  by (simp_all add: sample_label_def sw_read_workflow_def sw_read_pod_def publish_def
      publish_attestation_def sw_put_pod_def sw_put_workflow_def)

lemma sample_quiet_pods: "quiet_pods sample_label sample_env"
  by (rule sample_quiet_pods_gen) simp_all

lemma sample_quiet_settings: "quiet_settings f sample_env"
  by (auto simp: quiet_settings_def steady_settings_def sample_env_def go_keeps_leaf)
    (auto simp: go_keeps_def)

lemma sample_label_store: "label_store sample_env sample_req sample_label (\<lambda>w. w)"
proof -
  have "ct_workflows sample_env = store_kube sw_read_workflow sw_put_workflow"
    by (simp add: sample_env_def sample_workflows_def)
  then show ?thesis
    by (auto simp: label_store_def store_kube_retry store_get_def store_patch_def go_fixes_def
        sw_read_workflow_def sw_put_workflow_def sample_label_def nsname_of_def split: option.splits)
qed

section \<open>A small cluster\<close>

definition sample_node :: "string \<Rightarrow> node_phase \<Rightarrow> (string \<times> string) list \<Rightarrow> string \<times> node" where
  "sample_node i ph params =
     (''wfl-'' @ i,
      \<lparr>node_ID = ''wfl-'' @ i, node_DisplayName = ''step-'' @ i, node_Type = ''Pod'',
       node_TemplateName = ''t'', node_Phase = ph,
       node_Outputs = Some \<lparr>out_Parameters =
         map (\<lambda>(n, v). \<lparr>par_Name = n, par_Value = Some v, par_rest = []\<rparr>) params,
         out_Artifacts = []\<rparr>\<rparr>)"

definition sample_workflow :: "(string \<times> node) list \<Rightarrow> workflow" where
  "sample_workflow nodes =
     \<lparr>m_namespace = ''ns'', m_name = ''wfl'', m_uid = ''uid'',
      m_labels = Some [enableLabel \<mapsto> featureEnabled], m_annotations = None,
      wf_Spec = \<lparr>spec_parameters = [], spec_rest = []\<rparr>, wf_Nodes = nodes,
      wf_StartedAt = 1, wf_FinishedAt = 2, wf_Outputs = None\<rparr>"

definition sample_pod :: "string \<Rightarrow> pod" where
  "sample_pod n = \<lparr>m_namespace = ''ns'', m_name = n, m_uid = n, m_labels = None,
     m_annotations = None, pod_phase = PodSucceeded\<rparr>"

definition sample_world :: "workflow \<Rightarrow> bool \<Rightarrow> sworld" where
  "sample_world wflow refuses =
     \<lparr>sw_pods = [(''ns'', ''wfl-t-a'') \<mapsto> sample_pod ''wfl-t-a'',
                 (''ns'', ''wfl-t-b'') \<mapsto> sample_pod ''wfl-t-b''],
      sw_workflows = [sample_req \<mapsto> wflow], sw_config = Some Map.empty,
      sw_keys = [DefaultSecretKey \<mapsto>
        \<lparr>sec_Name = ''signing-secret'', sec_Data = [(cosignKey, ''k''), (cosignPassKey, ''p'')]\<rparr>],
      sw_published = [], sw_signatures = [], sw_attested = [], sw_attestations = [],
      sw_refuses = refuses\<rparr>"

definition sample_reconciler :: "handle reconciler" where
  "sample_reconciler = \<lparr>r_InclusterClient = Some Opaque, r_Namespace = ''argo-slsa''\<rparr>"

text \<open>Two pods, the first without an artifact and in the phase given, the second with an image.\<close>

definition two_pods :: "node_phase \<Rightarrow> workflow" where
  "two_pods ph = sample_workflow
     [sample_node ''a'' ph [], sample_node ''b'' NodeSucceeded [(''OCI'', ''img@sha256:aa'')]]"

text \<open>Argo's controller writes the nodes of the workflow's status and leaves its labels.\<close>

definition argo_progress :: "workflow \<Rightarrow> sworld \<Rightarrow> sworld" where
  "argo_progress new w =
     w\<lparr>sw_workflows := (sw_workflows w)(sample_req :=
       map_option (\<lambda>wflow. wflow\<lparr>wf_Nodes := wf_Nodes new\<rparr>) (sw_workflows w sample_req))\<rparr>"

definition sample_reconcile :: "sworld \<Rightarrow> ctrl_result result \<times> sworld" where
  "sample_reconcile = Reconcile sample_env sample_reconciler sample_req"

lemma argo_progress_keeps [simp]:
  "sample_label (argo_progress new w) = sample_label w"
  "sw_read_pod (argo_progress new w) = sw_read_pod w"
  by (cases "sw_workflows w sample_req")
    (simp_all add: sample_label_def argo_progress_def sw_read_pod_def fun_eq_iff)

text \<open>Two reconciliations with Argo's progress between them.\<close>

lemma sample_two_visits:
  "controller_run sample_env sample_reconciler sample_req (\<lambda>w1 w2. w2 = argo_progress new w1) w
     (snd (sample_reconcile (argo_progress new (snd (sample_reconcile w)))))"
proof -
  let ?run = "controller_run sample_env sample_reconciler sample_req (\<lambda>w1 w2. w2 = argo_progress new w1)"
  have visit: "?run a (snd (sample_reconcile b))" if "?run a b" for a b
    using controller_run.visit [OF that, of "fst (sample_reconcile b)" "snd (sample_reconcile b)"]
    by (simp add: sample_reconcile_def)
  show ?thesis
    by (intro visit controller_run.others [OF visit [OF controller_run.idle]] refl)
qed

text \<open>An annotation of a stored pod.\<close>

definition sample_annotation :: "string \<Rightarrow> string \<Rightarrow> sworld \<Rightarrow> string option" where
  "sample_annotation n key w =
     (case sw_pods w (''ns'', n) of None \<Rightarrow> None | Some p \<Rightarrow> gm_lookup (m_annotations p) key)"

end
