(* ===== verification/ControllerProperties.thy ===== *)
theory ControllerProperties imports SampleEnv begin

text \<open>
  Properties of one reconciliation of a workflow, and of histories of them.
\<close>

section \<open>Completion\<close>

text \<open>C1: A reconciliation that turns the stored status label of a workflow into \<open>Completed\<close> has
  reconciled every pod of that workflow. It read the workflow and the settings, labelled the workflow
  as in progress, found its pods, all of them of nodes that ran to their end, reconciled them with these
  settings, and every pod status it ended with is settled (reconciled, and marked as signed if it has
  an artifact); and the attestation step that followed returned no error. The hypotheses say how the API
  server treats the label, and that registries, key services and pods are not where the label is
  stored.\<close>

theorem completed_only_if_settled:
  assumes "label_store env req lab sleep" and "quiet_pods lab env" and "quiet_settings lab env"
    and "Reconcile env rc req w = (r, w')"
    and "lab w \<noteq> Some reconcileCompleted" and "lab w' = Some reconcileCompleted"
  shows "\<exists>cfg wflow w1 pods pods' w2 s.
    picked_up env rc req w cfg wflow w1 \<and> GetPodInfo wflow = Inr pods \<and>
    WorkflowStatus_Reconcile env cfg (m_namespace wflow) (pods, w1) = (Ok (), (pods', w2)) \<and>
    (\<forall>p \<in> set pods. terminated_phase (ps_status p)) \<and> (\<forall>p \<in> set pods'. settled p) \<and>
    AttestArtifacts env cfg (pods', (wflow, w2)) = (Ok (), s)"
proof -
  from assms obtain cfg wflow w1 pods pods' w2 s where
    up: "picked_up env rc req w cfg wflow w1" and
    info: "GetPodInfo wflow = Inr pods" and
    rec: "WorkflowStatus_Reconcile env cfg (m_namespace wflow) (pods, w1) = (Ok (), (pods', w2))" and
    att: "AttestArtifacts env cfg (pods', (wflow, w2)) = (Ok (), s)"
    by (rule Reconcile_Completed) (auto simp: secured_def)
  have fresh: "\<forall>p \<in> set pods. unvisited p"
    using info by (auto simp: GetPodInfo_def collect_pods_filter new_podStatus_unvisited Let_def
        split: if_splits)
  have held: "\<forall>p \<in> set pods'. ps_pod p \<noteq> None"
    using att AttestArtifacts_Ok_pods by blast
  have "\<forall>p \<in> set pods. terminated_phase (ps_status p)"
    by (rule WorkflowStatus_Reconcile_terminated [OF rec fresh held])
  with up info rec att WorkflowStatus_Reconcile_Ok [OF rec] show ?thesis by blast
qed

theorem completed_only_if_settled_witness:
  "\<exists>cfg wflow w1 pods pods' w2 s.
    picked_up sample_env sample_reconciler sample_req (sample_world (two_pods NodeSucceeded) False)
      cfg wflow w1 \<and>
    GetPodInfo wflow = Inr pods \<and>
    WorkflowStatus_Reconcile sample_env cfg (m_namespace wflow) (pods, w1) = (Ok (), (pods', w2)) \<and>
    (\<forall>p \<in> set pods. terminated_phase (ps_status p)) \<and> (\<forall>p \<in> set pods'. settled p) \<and>
    AttestArtifacts sample_env cfg (pods', (wflow, w2)) = (Ok (), s)"
proof -
  let ?w = "sample_world (two_pods NodeSucceeded) False"
  have labels: "sample_label ?w \<noteq> Some reconcileCompleted"
    "sample_label (snd (Reconcile sample_env sample_reconciler sample_req ?w)) = Some reconcileCompleted"
    by code_simp+
  show ?thesis
    by (rule completed_only_if_settled [OF sample_label_store sample_quiet_pods
          sample_quiet_settings prod.collapse [symmetric] labels])
qed

text \<open>C8: Over any history of reconciliations of a workflow, mixed with anything else that does not write
  its status label, the stored label moves along the abstract machine, and \<open>Completed\<close> and \<open>Error\<close>
  are final.\<close>

theorem label_history:
  assumes "label_store env req lab sleep" and "quiet_pods lab env" and "quiet_settings lab env"
    and "\<And>w1 w2. moves w1 w2 \<Longrightarrow> lab w2 = lab w1"
    and "controller_run env rc req moves w w'"
  shows "label_step\<^sup>*\<^sup>* (lab w) (lab w') \<and> (label_done (lab w) \<longrightarrow> lab w' = lab w)"
  using controller_run_label [where lab = lab, OF assms] label_steps_from_done by blast

theorem label_history_witness:
  "\<exists>w w'. controller_run sample_env sample_reconciler sample_req
       (\<lambda>w1 w2. w2 = argo_progress (two_pods NodeSucceeded) w1) w w' \<and>
     sample_label w = None \<and> sample_label w' = Some reconcileCompleted \<and>
     label_step\<^sup>*\<^sup>* (sample_label w) (sample_label w') \<and>
     (label_done (sample_label w) \<longrightarrow> sample_label w' = sample_label w)"
proof -
  let ?w = "sample_world (two_pods NodeRunning) False"
  let ?run = "controller_run sample_env sample_reconciler sample_req
       (\<lambda>w1 w2. w2 = argo_progress (two_pods NodeSucceeded) w1)"
  let ?w2 = "snd (sample_reconcile (argo_progress (two_pods NodeSucceeded) (snd (sample_reconcile ?w))))"
  have run: "?run ?w ?w2" by (rule sample_two_visits)
  have labels: "sample_label ?w = None" "sample_label ?w2 = Some reconcileCompleted"
    by code_simp+
  have "label_step\<^sup>*\<^sup>* (sample_label ?w) (sample_label ?w2) \<and>
      (label_done (sample_label ?w) \<longrightarrow> sample_label ?w2 = sample_label ?w)"
    by (rule label_history [OF sample_label_store sample_quiet_pods sample_quiet_settings _ run])
      simp
  with run labels show ?thesis by blast
qed

section \<open>Idle\<close>

text \<open>A workflow that the controller leaves alone: it is not enabled, or its status is final.\<close>

definition left_alone :: "workflow \<Rightarrow> bool" where
  "left_alone wflow \<longleftrightarrow>
     gm_index (m_labels wflow) enableLabel \<noteq> featureEnabled \<or>
     label_done (gm_lookup (m_labels wflow) workflowStatusLabel)"

lemma reconcile_workflow_left_alone:
  "left_alone wflow \<Longrightarrow> reconcile_workflow env cfg (wflow, w) = (Ok no_requeue, (wflow, w))"
  by (auto simp: left_alone_def label_done_def reconcile_workflow_def go_get_def go_ret_def Let_def
      split: option.splits)

text \<open>C21: Reconciling such a workflow has no effect beyond reading the settings, the workflow and the pull
  secrets: whatever these reads leave unchanged (the pods, the registry, the log), the whole
  reconciliation leaves unchanged, whatever it returns, and it never asks to be run again.\<close>

theorem left_alone_untouched:
  assumes "quiet_settings f env" and "go_fixes (f \<circ> snd) (cl_Get (ct_workflows env) req)"
    and "\<And>w1 w2 wflow. f w1 = f w \<Longrightarrow>
      cl_Get (ct_workflows env) req (zero_workflow, w1) = (Ok (), (wflow, w2)) \<Longrightarrow> left_alone wflow"
    and "Reconcile env rc req w = (r, w')"
  shows "f w' = f w \<and> (\<forall>res. r = Ok res \<longrightarrow> res = no_requeue)"
  using assms(4)
proof (cases rule: Reconcile_cases)
  case 1
  with read_onlyD [OF 1(1) assms(1,2)] show ?thesis by blast
next
  case (2 cfg wflow wflow' w1 w2 w3)
  note same = read_onlyD [OF 2(1) assms(1,2)] read_onlyD [OF 2(5) assms(1,2)]
  from 2(6) same(2) show ?thesis
    by (auto simp: reconcile_workflow_left_alone [OF assms(3) [OF same(1) 2(2)]])
qed

theorem left_alone_untouched_witness:
  "let w = sample_world (two_pods NodeSucceeded\<lparr>m_labels := None\<rparr>) False
   in snd (Reconcile sample_env sample_reconciler sample_req w) = w \<and>
      (\<forall>res. fst (Reconcile sample_env sample_reconciler sample_req w) = Ok res \<longrightarrow> res = no_requeue)"
proof -
  let ?w = "sample_world (two_pods NodeSucceeded\<lparr>m_labels := None\<rparr>) False"
  have get: "go_fixes ((\<lambda>w. w) \<circ> snd) (cl_Get (ct_workflows sample_env) sample_req)"
    by (auto simp: go_fixes_def sample_env_def sample_workflows_def store_get_def split: option.splits)
  have "left_alone wflow"
    if "cl_Get (ct_workflows sample_env) sample_req (zero_workflow, ?w) = (Ok (), (wflow, w2))" for wflow w2
    using that by (auto simp: sample_env_def sample_workflows_def store_get_def sw_read_workflow_def
        sample_world_def left_alone_def gm_index_def controller_constants)
  then show ?thesis
    using left_alone_untouched [OF sample_quiet_settings get _ prod.collapse [symmetric],
        of ?w sample_reconciler]
    by (simp add: Let_def)
qed

section \<open>Requeueing\<close>

lemma handle_pods_error_Ok:
  "handle_pods_error env e s = (Ok res, s') \<Longrightarrow>
     res = no_requeue \<or> res = requeue \<and> err_Error e = conflict_or_not_found"
  by (auto simp: handle_pods_error_def go_inv no_requeue_def requeueAfterSeconds_def split: if_splits)

text \<open>C22: The second half of a reconciliation asks to be run again in two cases only: the workflow has no
  pod nodes yet, or a pod's annotation met a conflict. In every other case in which it returns no
  error (pods still running, a failed signature, a completed workflow) it returns the empty result, so
  nothing but a later change of the workflow brings it back.\<close>

theorem requeue_reasons:
  assumes "secure_workflow env cfg (wflow, w) = (Ok res, s')"
  shows "res = no_requeue \<or>
    res = requeue \<and>
      ((\<exists>e. GetPodInfo wflow = Inl e) \<or>
       (\<exists>pods e s1. GetPodInfo wflow = Inr pods \<and>
          WorkflowStatus_Reconcile env cfg (m_namespace wflow) (pods, w) = (Fail e, s1) \<and>
          err_Error e = conflict_or_not_found))"
proof (cases "GetPodInfo wflow")
  case (Inl e)
  with assms show ?thesis by (auto simp: secure_workflow_def go_get_def go_inv)
next
  case (Inr pods)
  let ?rec = "WorkflowStatus_Reconcile env cfg (m_namespace wflow)"
  obtain r pods' w1 where rec: "?rec (pods, w) = (r, (pods', w1))" by (metis prod.exhaust)
  show ?thesis
  proof (cases r)
    case (Fail e)
    with assms Inr rec obtain s where "handle_pods_error env e s = (Ok res, s')"
      by (auto simp: secure_workflow_def go_get_def go_local_def go_catch_def go_mid_def go_snd_def
          split: prod.splits)
    with handle_pods_error_Ok Fail Inr rec show ?thesis by blast
  next
    case (Ok u)
    let ?tail = "go_catch (AttestArtifacts env cfg)
      (\<lambda>err. go_snd (go_bind (updateWorkflowStatus env reconcileError) (\<lambda>_. go_ret no_requeue)))
      (\<lambda>_. go_snd (go_bind (updateWorkflowStatus env reconcileCompleted) (\<lambda>_. go_ret no_requeue)))"
    have "\<exists>s1. ?tail (pods', (wflow, w1)) = (Ok res, s1)"
      using assms Inr rec Ok
      by (auto simp: secure_workflow_def go_get_def go_local_inv go_catch_ok go_mid_run)
    then show ?thesis by (auto simp: go_catch_Ok go_snd_inv go_bind_Ok go_ret_inv)
  next
    case (Panic m)
    with assms Inr rec show ?thesis
      by (auto simp: secure_workflow_def go_get_def go_local_inv go_catch_panic go_mid_run)
  qed
qed

theorem requeue_reasons_witness:
  "let empty_wf = sample_workflow []; w = sample_world empty_wf False;
       (r, s) = secure_workflow sample_env (config_New '''' Map.empty) (empty_wf, w)
   in r = Ok requeue \<and> (\<exists>e. GetPodInfo empty_wf = Inl e)"
proof -
  let ?wf = "sample_workflow []"
  obtain s where run: "secure_workflow sample_env (config_New '''' Map.empty)
      (?wf, sample_world ?wf False) = (Ok requeue, s)"
    by (auto simp: secure_workflow_def go_get_def go_ret_def GetPodInfo_def sample_workflow_def)
  from requeue_reasons [OF run] have "\<exists>e. GetPodInfo ?wf = Inl e"
    by (auto simp: requeue_def no_requeue_def GetPodInfo_def sample_workflow_def)
  with run show ?thesis by simp
qed

text \<open>C23: A completion that meets a conflict is lost. Everything was signed and attested, and only the
  label could not be written; the reconciliation reports success and does not ask to be run again
  (the result that \<open>updateWorkflowStatus\<close> returned for this case is dropped).\<close>

theorem completion_conflict_lost:
  assumes "GetPodInfo wflow = Inr pods"
    and "WorkflowStatus_Reconcile env cfg (m_namespace wflow) (pods, w) = (Ok u, (pods1, w1))"
    and "AttestArtifacts env cfg (pods1, (wflow, w1)) = (Ok u', (pods2, (wflow2, w2)))"
    and "PatchLabels (ct_workflows env) workflowStatusLabel reconcileCompleted (wflow2, w2) =
      (Fail e, (wflow3, w3))"
    and "err_Error e = conflict_or_not_found"
  shows "secure_workflow env cfg (wflow, w) = (Ok no_requeue, (wflow3, w3))"
  using assms
  by (simp add: secure_workflow_def updateWorkflowStatus_def go_get_def go_local_def go_catch_def
      go_mid_def go_snd_def go_bind_def go_ret_def)

text \<open>An environment in which every write of a workflow meets a conflict.\<close>

definition conflicting_env :: "(handle, sworld) ctrl_env" where
  "conflicting_env = sample_env\<lparr>ct_workflows :=
     sample_workflows\<lparr>cl_Patch := \<lambda>base. go_fail (GoErr ApiConflict ''conflict'')\<rparr>\<rparr>"

lemma split2: "fst x = a \<Longrightarrow> x = (a, (fst (snd x), snd (snd x)))"
  by (cases x) simp

lemma split3: "fst x = a \<Longrightarrow> x = (a, (fst (snd x), (fst (snd (snd x)), snd (snd (snd x)))))"
  by (cases x) simp

theorem completion_conflict_lost_witness:
  "\<exists>s. secure_workflow conflicting_env (config_New '''' Map.empty)
       (sample_workflow [sample_node ''a'' NodeError []],
        sample_world (sample_workflow [sample_node ''a'' NodeError []]) False) = (Ok no_requeue, s) \<and>
     sample_label (snd s) = None"
proof -
  let ?wf = "sample_workflow [sample_node ''a'' NodeError []]"
  let ?w = "sample_world ?wf False"
  let ?cfg = "config_New '''' Map.empty :: handle config"
  let ?pods = "projr (GetPodInfo ?wf)"
  let ?r1 = "WorkflowStatus_Reconcile conflicting_env ?cfg (m_namespace ?wf) (?pods, ?w)"
  let ?r2 = "AttestArtifacts conflicting_env ?cfg (fst (snd ?r1), (?wf, snd (snd ?r1)))"
  let ?s2 = "snd (snd ?r2)"
  let ?r3 = "PatchLabels (ct_workflows conflicting_env) workflowStatusLabel reconcileCompleted
    (fst ?s2, snd ?s2)"
  have info: "\<not> isl (GetPodInfo ?wf)" by code_simp
  have h: "fst ?r1 = Ok ()" "fst ?r2 = Ok ()"
    "fst ?r3 = Fail (errors_New conflict_or_not_found)" "sample_label (snd (snd ?r3)) = None"
    by code_simp+
  note run = completion_conflict_lost [OF sum.collapse(2) [OF info, symmetric] split2 [OF h(1)]
      split3 [OF h(2)] split2 [OF h(3)] err_Error_errors_New]
  show ?thesis
    by (rule exI, rule conjI, rule run) (simp only: snd_conv h(4))
qed

section \<open>Failures\<close>

text \<open>C26: The messages of the validation and the controller's switch on them agree. When the pods
  themselves were reconciled but the validation fails, it is about the first pod that is not settled:
  if that pod is not reconciled the controller waits without any effect; if its image was not signed
  the workflow is labelled \<open>Error\<close>.\<close>

theorem validation_error_handled:
  assumes "validateAllPodsReconciled pods = Some e"
  shows "\<exists>p. find (\<lambda>p. \<not> settled p) pods = Some p \<and>
    handle_pods_error env e =
      (if \<not> ps_reconciliation p then go_ret no_requeue
       else go_bind (updateWorkflowStatus env reconcileError) (\<lambda>_. go_ret no_requeue))"
proof -
  from assms obtain p where p: "find (\<lambda>p. \<not> settled p) pods = Some p" "e = unsettled_error p"
    by (auto simp: validate_find)
  have neq: "signing_error_prefix @ x \<noteq> not_all_reconciled" for x
    by (simp add: signing_error_prefix_def not_all_reconciled_def)
  show ?thesis
    using p neq HasPrefix_append
    by (auto simp: handle_pods_error_def unsettled_error_def no_requeue_def requeueAfterSeconds_def)
qed

definition running_pod :: podStatus where
  "running_pod = new_podStatus ''wfl'' (snd (sample_node ''a'' NodeRunning []))"

theorem validation_error_handled_witness:
  "\<exists>e. validateAllPodsReconciled [running_pod] = Some e \<and>
     handle_pods_error sample_env e = go_ret no_requeue"
proof -
  have e: "validateAllPodsReconciled [running_pod] = Some (errors_New not_all_reconciled)"
    by (simp add: running_pod_def new_podStatus_def)
  from validation_error_handled [OF e, of sample_env] e show ?thesis
    by (auto simp: running_pod_def new_podStatus_def settled_def)
qed



text \<open>C24: The outcome depends on the order in which Go's map iteration visits the nodes. Take a workflow
  with a pod node that is still running or pending and a pod node whose pod, after its visit, has an
  artifact that is not signed. Visited in the one order, the workflow is left as it is, to wait for the
  running pod; in the other order it is labelled \<open>Error\<close>, although the same visits have taken place with
  the same results. Further nodes may come after the two, as long as their visits end well.\<close>

theorem node_order_decides_status:
  assumes "node_Type x = ''Pod''" and "node_Phase x = NodeRunning \<or> node_Phase x = NodePending"
    and "node_Type y = ''Pod''"
    and "reconcilePod env cfg (m_namespace wflow) (new_podStatus (m_name wflow) y, w) = (Ok (), (q, w1))"
    and "ps_reconciliation q" and "ps_artifactsFound q" and "\<not> ps_signed q"
    and "each_pod (reconcilePod env cfg (m_namespace wflow)) (collect_pods (m_name wflow) rest, w1) =
      (Ok (), (qs, w2))"
  shows "secure_workflow env cfg (wflow\<lparr>wf_Nodes := (k, x) # (l, y) # rest\<rparr>, w) =
      (Ok no_requeue, (wflow\<lparr>wf_Nodes := (k, x) # (l, y) # rest\<rparr>, w2)) \<and>
    secure_workflow env cfg (wflow\<lparr>wf_Nodes := (l, y) # (k, x) # rest\<rparr>, w) =
      go_bind (updateWorkflowStatus env reconcileError) (\<lambda>_. go_ret no_requeue)
        (wflow\<lparr>wf_Nodes := (l, y) # (k, x) # rest\<rparr>, w2)"
proof -
  let ?p = "new_podStatus (m_name wflow) x"
  have still: "reconcilePod env cfg (m_namespace wflow) (?p, v) = (Ok (), (?p, v))" for v
    using assms(2) by (auto simp: reconcilePod_def new_podStatus_def isSkippedOrOmittedPod_def
        inKnownState_def go_get_def go_ret_def)
  have open_pod: "\<not> ps_reconciliation ?p" by (simp add: new_podStatus_def)
  let ?visit = "WorkflowStatus_Reconcile env cfg (m_namespace wflow)"
  have "?visit (?p # new_podStatus (m_name wflow) y # collect_pods (m_name wflow) rest, w) =
      (Fail (errors_New not_all_reconciled), (?p # q # qs, w2))"
    "?visit (new_podStatus (m_name wflow) y # ?p # collect_pods (m_name wflow) rest, w) =
      (Fail (errors_New (signing_error_prefix @ node_DisplayName (ps_node q))), (q # ?p # qs, w2))"
    using assms(4-8) still open_pod
    by (simp_all add: WorkflowStatus_Reconcile_def go_bind_def go_get_def go_err_def go_fail_def)
  with assms(1,3) show ?thesis
    by (simp add: secure_workflow_def GetPodInfo_def Let_def go_get_def go_local_def go_mid_def go_catch_def
        handle_pods_error_def go_snd_def go_ret_def HasPrefix_def no_requeue_def requeueAfterSeconds_def
        signing_error_prefix_def not_all_reconciled_def split: prod.splits)
qed

theorem node_order_decides_status_witness:
  "let running = sample_node ''a'' NodeRunning []; failing = sample_node ''b'' NodeSucceeded [(''OCI'', ''img@sha256:aa'')];
       wflow = sample_workflow [running, failing]; other = sample_workflow [failing, running];
       w = sample_world wflow True; cfg = config_New ''rekor'' Map.empty
   in \<exists>w2. secure_workflow sample_env cfg (wflow, w) = (Ok no_requeue, (wflow, w2)) \<and>
      secure_workflow sample_env cfg (other, w) =
        go_bind (updateWorkflowStatus sample_env reconcileError) (\<lambda>_. go_ret no_requeue) (other, w2)"
proof -
  let ?x = "sample_node ''a'' NodeRunning []"
  let ?y = "sample_node ''b'' NodeSucceeded [(''OCI'', ''img@sha256:aa'')]"
  let ?wf = "sample_workflow [?x, ?y]"
  let ?r = "reconcilePod sample_env (config_New ''rekor'' Map.empty) (m_namespace ?wf)
    (new_podStatus (m_name ?wf) (snd ?y), sample_world ?wf True)"
  have run: "fst ?r = Ok ()" "ps_reconciliation (fst (snd ?r))" "ps_artifactsFound (fst (snd ?r))"
    "\<not> ps_signed (fst (snd ?r))" by code_simp+
  have step: "?r = (Ok (), (fst (snd ?r), snd (snd ?r)))" using run(1) by (simp add: prod_eq_iff)
  have rest: "each_pod m (collect_pods n [], v) = (Ok (), ([], v))" for m n and v :: sworld by simp
  have nodes: "node_Type (snd ?x) = ''Pod''" "node_Phase (snd ?x) = NodeRunning \<or> node_Phase (snd ?x) = NodePending"
    "node_Type (snd ?y) = ''Pod''" by (simp_all add: sample_node_def)
  have orders: "?wf\<lparr>wf_Nodes := (fst ?x, snd ?x) # (fst ?y, snd ?y) # []\<rparr> = ?wf"
    "?wf\<lparr>wf_Nodes := (fst ?y, snd ?y) # (fst ?x, snd ?x) # []\<rparr> = sample_workflow [?y, ?x]"
    by (simp_all add: sample_workflow_def)
  show ?thesis
    using node_order_decides_status [OF nodes step run(2-4) rest, of "fst ?x" "fst ?y"]
    unfolding orders Let_def by blast
qed

end
