(* ===== verification/PodProperties.thy ===== *)
theory PodProperties imports SampleEnv "HOL-Library.Multiset" begin

text \<open>
  Properties of the reconciliation of one pod and of the pods of a workflow.
\<close>

section \<open>The stages of a pod\<close>

text \<open>The abstract state machine of the annotation \<open>argo.slsa.io/status\<close>.\<close>

datatype stage =
    Untouched
  | InProgress
  | Final string

definition stage_of :: "pod \<Rightarrow> stage" where
  "stage_of p =
     (case gm_lookup (m_annotations p) podStatusAnnotation of
        None \<Rightarrow> Untouched
      | Some s \<Rightarrow> if s = reconciliationInProgerss then InProgress else Final s)"

inductive stage_step :: "stage \<Rightarrow> stage \<Rightarrow> bool" where
  enter: "stage_step Untouched InProgress"
| skip: "s = Untouched \<or> s = InProgress \<Longrightarrow> stage_step s (Final reconciliationSkipped)"
| complete: "stage_step InProgress (Final reconciliationCompleted)"
| fail: "stage_step InProgress (Final reconciliationError)"

inductive_simps stage_step_Final [simp]: "stage_step (Final st) t"

lemma stage_of_Final:
  "(\<exists>st. stage_of p = Final st) \<longleftrightarrow>
     (\<exists>st. gm_lookup (m_annotations p) podStatusAnnotation = Some st \<and> st \<noteq> reconciliationInProgerss)"
  by (simp add: stage_of_def split: option.splits)

lemma stage_of_patched:
  "gm_lookup (m_annotations p) podStatusAnnotation = Some st \<Longrightarrow> st \<noteq> reconciliationInProgerss \<Longrightarrow>
     stage_of p = Final st"
  by (simp add: stage_of_def)

lemma verdict_final: "verdict ps \<noteq> reconciliationInProgerss"
  "verdict ps \<in> {reconciliationSkipped, reconciliationCompleted, reconciliationError}"
  by (simp_all add: verdict_def pod_constants)

lemma stage_steps_verdict:
  assumes "s = Untouched \<or> s = InProgress"
    and "v \<in> {reconciliationSkipped, reconciliationCompleted, reconciliationError}"
  shows "stage_step\<^sup>*\<^sup>* s (Final v)"
proof -
  have "stage_step\<^sup>*\<^sup>* s InProgress" using assms(1) by (auto intro: stage_step.intros)
  moreover have "stage_step InProgress (Final v)" using assms(2) by (auto intro: stage_step.intros)
  ultimately show ?thesis by (rule rtranclp.rtrancl_into_rtrancl)
qed

lemma currentRconsiliationStatus_open:
  assumes "\<not> (\<exists>st. stage_of p = Final st)"
  shows "ps_reconciliation (currentRconsiliationStatus p ps) = ps_reconciliation ps"
  using assms by (simp add: stage_of_Final currentRconsiliationStatus_def Let_def split: option.splits)

lemma handlePodReconciliation_Ok:
  assumes "pods_documented env sleep" and "handlePodReconciliation env cfg (ps, w) = (Ok u, (ps', w'))"
  shows "ps_reconciliation ps' \<and> (\<exists>p'. ps_pod ps' = Some p' \<and>
    stage_of p' = Final (if examined ps then verdict ps' else reconciliationSkipped))"
proof (cases "examined ps")
  case True
  with handlePodReconciliation_cases [OF assms(2)] obtain ps1 w1 where
    "updateFinalStatus env (ps1, w1) = (Ok u, (ps', w'))" by blast
  from updateFinalStatus_Ok [OF assms(1) this] True verdict_final show ?thesis
    by (auto intro!: stage_of_patched)
next
  case False
  with handlePodReconciliation_cases [OF assms(2)] have
    "markPodAsSkipped env (ps, w) = (Ok u, (ps', w'))" by blast
  from markPodAsSkipped_Ok [OF assms(1) this] False show ?thesis
    by (auto intro!: stage_of_patched simp: pod_constants)
qed

lemma reconcilePod_getPod:
  assumes "reconcilePod env cfg ns (ps, w) = (Ok u, s')" and "terminated_phase (ps_status ps)"
  shows "\<exists>p w1. getPod env ns (ps_podName ps) w = (Ok p, w1)"
  using assms
  by (auto simp: reconcilePod_def go_get_def isSkippedOrOmittedPod_def inKnownState_def
      terminated_phase_def go_inv)

text \<open>C6: Reconciling a pod that ran to its end implements the abstract machine. From the annotation of
  the pod as it was read to the annotation of the pod as the status holds it afterwards there is a path
  of steps, and it ends in a final stage; a pod whose stage was already final keeps it, and a pod that
  was examined (it succeeded, and its node did not fail with an error) gets the verdict that the
  status's own flags call for: \<open>Skipped\<close> without an artifact, \<open>Completed\<close> with a signed one, \<open>Error\<close>
  otherwise.\<close>

theorem reconcilePod_refines_stages:
  assumes "pods_documented env sleep" and "terminated_phase (ps_status ps)"
    and "reconcilePod env cfg ns (ps, w) = (Ok u, (ps', w'))" and "\<not> ps_reconciliation ps"
  shows "\<exists>p w1 p'. getPod env ns (ps_podName ps) w = (Ok p, w1) \<and> ps_pod ps' = Some p' \<and>
    ps_reconciliation ps' \<and> stage_step\<^sup>*\<^sup>* (stage_of p) (stage_of p') \<and>
    ((\<exists>st. stage_of p = Final st) \<and> p' = p \<or>
     stage_of p' = Final (if ps_status ps \<noteq> NodeError \<and> pod_phase p = PodSucceeded
       then verdict ps' else reconciliationSkipped))"
proof -
  from reconcilePod_getPod [OF assms(3,2)] obtain p w1 where
    get: "getPod env ns (ps_podName ps) w = (Ok p, w1)" by blast
  let ?cur = "currentRconsiliationStatus p ps"
  have ended: "ps_status ps \<in> {NodeSucceeded, NodeFailed, NodeError}"
    using assms(2) by (simp add: terminated_phase_def)
  note run = assms(3) [unfolded reconcilePod_terminated [OF ended get]]
  show ?thesis
  proof (cases "\<exists>st. stage_of p = Final st")
    case True
    then have "ps_reconciliation ?cur"
      by (auto simp: stage_of_Final intro: currentRconsiliationStatus_final)
    with run True get show ?thesis by auto
  next
    case False
    then have openp: "stage_of p = Untouched \<or> stage_of p = InProgress"
      by (cases "stage_of p") auto
    from False assms(4) have "\<not> ps_reconciliation ?cur"
      by (simp add: currentRconsiliationStatus_open)
    with run have "handlePodReconciliation env cfg (?cur, w1) = (Ok u, (ps', w'))" by simp
    from handlePodReconciliation_Ok [OF assms(1) this] obtain p' where p': "ps_pod ps' = Some p'"
      "ps_reconciliation ps'"
      "stage_of p' = Final (if examined ?cur then verdict ps' else reconciliationSkipped)" by blast
    have "stage_step\<^sup>*\<^sup>* (stage_of p) (stage_of p')"
      unfolding p'(3) using verdict_final(2) [of ps']
      by (intro stage_steps_verdict [OF openp]) (simp split: if_splits)
    with p' get show ?thesis by (auto simp: examined_def)
  qed
qed

text \<open>A pod status, and a world in which its pod carries the annotations given.\<close>

definition sample_status :: "node_phase \<Rightarrow> (string \<times> string) list \<Rightarrow> podStatus" where
  "sample_status ph params = new_podStatus ''wfl'' (snd (sample_node ''b'' ph params))"

definition annotated_world :: "gomap \<Rightarrow> bool \<Rightarrow> sworld" where
  "annotated_world anns refuses =
     sw_put_pod (''ns'', ''wfl-t-b'') ((sample_pod ''wfl-t-b'')\<lparr>m_annotations := anns\<rparr>)
       (sample_world (two_pods NodeSucceeded) refuses)"

definition default_config :: "handle config" where
  "default_config = config_New ''rekor'' Map.empty"

lemma sample_getPod:
  "getPod sample_env ''ns'' ''wfl-t-b'' (annotated_world anns refuses) =
     (Ok ((sample_pod ''wfl-t-b'')\<lparr>m_annotations := anns\<rparr>), annotated_world anns refuses)"
  by (simp add: getPod_def sample_env_def sample_pods_def store_get_def sw_read_pod_def
      annotated_world_def sw_put_pod_def sample_pod_def)

lemma sample_status_sel [simp]:
  "ps_podName (sample_status ph params) = ''wfl-t-b''" "ps_status (sample_status ph params) = ph"
  "\<not> ps_reconciliation (sample_status ph params)" "ps_pod (sample_status ph params) = None"
  "\<not> ps_artifactsFound (sample_status ph params)"
  by (simp_all add: sample_status_def sample_node_def new_podStatus_def formatPodName_def
      TrimPrefix_def HasPrefix_def)

lemma run_split: "fst x = a \<Longrightarrow> x = (a, (fst (snd x), snd (snd x)))"
  by (cases x) simp

theorem reconcilePod_refines_stages_witness:
  "let ps = sample_status NodeSucceeded [(''OCI'', ''img@sha256:aa'')];
       (r, (ps', w')) = reconcilePod sample_env default_config ''ns'' (ps, annotated_world None True)
   in r = Ok () \<and> (\<exists>p'. ps_pod ps' = Some p' \<and>
        stage_step\<^sup>*\<^sup>* Untouched (stage_of p') \<and> stage_of p' = Final reconciliationError)"
proof -
  let ?ps = "sample_status NodeSucceeded [(''OCI'', ''img@sha256:aa'')]"
  let ?r = "reconcilePod sample_env default_config ''ns'' (?ps, annotated_world None True)"
  have h: "fst ?r = Ok ()" "verdict (fst (snd ?r)) = reconciliationError" by code_simp+
  have "terminated_phase (ps_status ?ps)" by (simp add: terminated_phase_def)
  from reconcilePod_refines_stages [OF sample_pods_documented this run_split [OF h(1)]]
  obtain p w1 p' where
    "getPod sample_env ''ns'' ''wfl-t-b'' (annotated_world None True) = (Ok p, w1)"
    "ps_pod (fst (snd ?r)) = Some p'" "stage_step\<^sup>*\<^sup>* (stage_of p) (stage_of p')"
    "(\<exists>st. stage_of p = Final st) \<and> p' = p \<or>
     stage_of p' = Final (if pod_phase p = PodSucceeded then reconciliationError else reconciliationSkipped)"
    by (auto simp: h(2))
  with h(1) show ?thesis
    by (auto simp: sample_getPod stage_of_def sample_pod_def Let_def split_beta)
qed

text \<open>C13: A second visit trusts the record of the first. A pod whose status annotation is final is only
  read, whatever its other annotations are: no signing, no patch. Any value of the annotation
  \<open>argo.slsa.io/signed\<close>, the value \<open>Error\<close> included, then counts as signed, so the pod is settled.\<close>

theorem second_visit_forgets_signing_error:
  assumes "terminated_phase (ps_status ps)" and "getPod env ns (ps_podName ps) w = (Ok p, w1)"
    and "gm_lookup (m_annotations p) podStatusAnnotation = Some st" and "st \<noteq> reconciliationInProgerss"
    and "gm_lookup (m_annotations p) signedAnnotation = Some v"
  shows "\<exists>ps'. reconcilePod env cfg ns (ps, w) = (Ok (), (ps', w1)) \<and>
    ps_pod ps' = Some p \<and> ps_signed ps' \<and> settled ps'"
proof -
  let ?cur = "currentRconsiliationStatus p ps"
  have "ps_status ps \<in> {NodeSucceeded, NodeFailed, NodeError}"
    using assms(1) by (simp add: terminated_phase_def)
  from reconcilePod_terminated [OF this assms(2)]
  have "reconcilePod env cfg ns (ps, w) = (Ok (), (?cur, w1))"
    by (simp add: currentRconsiliationStatus_final [OF assms(3,4)])
  then show ?thesis
    using currentRconsiliationStatus_final [OF assms(3,4), of ps]
      currentRconsiliationStatus_signed [OF assms(5), of ps]
    by (simp add: settled_def)
qed

definition refused_annotations :: gomap where
  "refused_annotations = Some
     [podStatusAnnotation \<mapsto> reconciliationError, artifactsAnnotation \<mapsto> ''img@sha256:aa'',
      signedAnnotation \<mapsto> signingError]"

theorem second_visit_forgets_signing_error_witness:
  "\<exists>ps'. reconcilePod sample_env default_config ''ns''
       (sample_status NodeSucceeded [], annotated_world refused_annotations True) =
         (Ok (), (ps', annotated_world refused_annotations True)) \<and>
     ps_pod ps' = Some ((sample_pod ''wfl-t-b'')\<lparr>m_annotations := refused_annotations\<rparr>) \<and>
     ps_signed ps' \<and> settled ps'"
  by (rule second_visit_forgets_signing_error [where st = reconciliationError and v = signingError])
    (simp_all add: terminated_phase_def sample_getPod refused_annotations_def pod_constants sample_pod_def)

section \<open>Phases without a visit\<close>

text \<open>A pod whose node has not run to its end is not looked up, and nothing is written. A skipped or
  omitted node counts as reconciled, a pending or running one does not yet, and any other phase is an
  error that names the pod and the phase (with no space between the pod's name and the text).\<close>

theorem reconcilePod_not_ended:
  assumes "\<not> terminated_phase (ps_status ps)"
  shows "reconcilePod env cfg ns (ps, w) =
    (if ps_status ps = NodeSkipped \<or> ps_status ps = NodeOmitted
       then (Ok (), (ps\<lparr>ps_reconciliation := True\<rparr>, w))
     else if ps_status ps = NodeRunning \<or> ps_status ps = NodePending then (Ok (), (ps, w))
     else (Fail (errors_New (ps_podName ps @ ''is in an unknown node state: ''
            @ phase_string (ps_status ps))), (ps, w)))"
  using assms
  by (auto simp: reconcilePod_def isSkippedOrOmittedPod_def inKnownState_def terminated_phase_def
      go_get_def go_upd_def go_fail_def go_ret_def)

theorem reconcilePod_not_ended_witness:
  "let ps = sample_status (OtherPhase ''Daemoned'') []; w = annotated_world None False
   in reconcilePod sample_env default_config ''ns'' (ps, w) =
     (Fail (errors_New ''wfl-t-bis in an unknown node state: Daemoned''), (ps, w))"
  using reconcilePod_not_ended [of "sample_status (OtherPhase ''Daemoned'') []" sample_env
      default_config "''ns''" "annotated_world None False"]
  by (simp add: terminated_phase_def)

section \<open>Artifacts\<close>

text \<open>C20: A pod without the artifacts annotation is searched for an image in its output parameters. Every
  parameter of which the name is a prefix of \<open>OCI\<close> overwrites the outcome, so the last one decides: if
  its value is a reference with a digest it is the pod's artifact, else the pod has none, whatever the
  parameters before it were. The outcome is written to the status and then to the pod.\<close>

theorem artifact_scan:
  assumes "ps_pod ps = Some p" and "gm_lookup (m_annotations p) artifactsAnnotation = None"
    and "node_Outputs (ps_node ps) = Some outs" and "pe_HasParameters env (Some outs)"
  shows "handleArtifactInfo env (ps, w) =
    (let scanned = filter (\<lambda>q. par_Name q \<in> {'''', ''O'', ''OC'', ''OCI''}) (out_Parameters outs);
         found = (scanned \<noteq> [] \<and> fst (checkOCI env (pe_GetValue env (last scanned))));
         info = (if found then pe_GetValue env (last scanned) else artifactsNotFound)
     in patch_pod env artifactsAnnotation info
          (ps\<lparr>ps_artifactsFound := found, ps_artifactInfo := info\<rparr>, w))"
  using assms
  by (simp add: handleArtifactInfo_def with_pod_def go_get_def go_bind_def go_upd_def Let_def
      scan_parameters_last scanned_name_iff scan_outcome_def split: if_splits)

definition scanned_status :: podStatus where
  "scanned_status =
     (sample_status NodeSucceeded
        [(''OCI'', ''img@sha256:aa''), (''OCI-2'', ''img@sha256:bb''), (''O'', ''log'')])
     \<lparr>ps_pod := Some (sample_pod ''wfl-t-b'')\<rparr>"

theorem artifact_scan_witness:
  "let w = annotated_world None False
   in fst (checkOCI sample_env ''img@sha256:aa'') \<and>
   handleArtifactInfo sample_env (scanned_status, w) =
     patch_pod sample_env artifactsAnnotation artifactsNotFound
       (scanned_status\<lparr>ps_artifactsFound := False, ps_artifactInfo := artifactsNotFound\<rparr>, w)"
proof -
  let ?outs = "the (node_Outputs (ps_node scanned_status))"
  have h: "ps_pod scanned_status = Some (sample_pod ''wfl-t-b'')"
    "gm_lookup (m_annotations (sample_pod ''wfl-t-b'')) artifactsAnnotation = None"
    "node_Outputs (ps_node scanned_status) = Some ?outs" "pe_HasParameters sample_env (Some ?outs)"
    by (simp_all add: scanned_status_def sample_pod_def sample_status_def sample_node_def
        new_podStatus_def sample_env_def)
  have "map par_Name (out_Parameters ?outs) = [''OCI'', ''OCI-2'', ''O'']" by code_simp
  have "filter (\<lambda>q. par_Name q \<in> {'''', ''O'', ''OC'', ''OCI''}) (out_Parameters ?outs) =
      [\<lparr>par_Name = ''OCI'', par_Value = Some ''img@sha256:aa'', par_rest = []\<rparr>,
       \<lparr>par_Name = ''O'', par_Value = Some ''log'', par_rest = []\<rparr>]"
    "fst (checkOCI sample_env ''img@sha256:aa'')" "\<not> fst (checkOCI sample_env ''log'')"
    "pe_GetValue sample_env \<lparr>par_Name = ''O'', par_Value = Some ''log'', par_rest = []\<rparr> = ''log''"
    by code_simp+
  then show ?thesis
    by (simp add: artifact_scan [OF h] Let_def)
qed

text \<open>C15: The signing step. Without an artifact the pod is marked as skipped; with one and no signing
  annotation the image is signed, the flag is set exactly when signing succeeded, and the annotation
  records it; with the annotation only the flag is read back. An error of the signer is not an error of
  the step.\<close>

theorem signing_step:
  assumes "ps_pod ps = Some p"
    and "SignWithConfigOpts env (ps_artifactInfo ps) cfg w = (res, w1)" and "\<forall>msg. res \<noteq> Panic msg"
  shows "handleArtifactSigning env cfg (ps, w) =
    (if \<not> ps_artifactsFound ps then patch_pod env signedAnnotation signingSkipped (ps, w)
     else case gm_lookup (m_annotations p) signedAnnotation of
       Some v \<Rightarrow> (Ok (), (ps\<lparr>ps_signed := (v = signingCompleted)\<rparr>, w))
     | None \<Rightarrow> patch_pod env signedAnnotation
         (if res = Ok () then signingCompleted else signingError)
         (ps\<lparr>ps_signed := (res = Ok ())\<rparr>, w1))"
proof (cases "ps_artifactsFound ps")
  case True
  show ?thesis
    by (cases "gm_lookup (m_annotations p) signedAnnotation")
      (simp_all add: True handleArtifactSigning_absent [OF True assms(1) _ assms(2,3)]
        handleArtifactSigning_present [OF True assms(1)])
qed (simp add: handleArtifactSigning_def go_get_def)

theorem signing_step_witness:
  "let ps = (sample_status NodeSucceeded [])\<lparr>ps_pod := Some (sample_pod ''wfl-t-b''),
        ps_artifactsFound := True, ps_artifactInfo := ''img''\<rparr>; w = annotated_world None False;
       (res, w1) = SignWithConfigOpts sample_env ''img'' default_config w
   in res = Fail (errors_New ''digest not available in oci ref'') \<and>
      handleArtifactSigning sample_env default_config (ps, w) =
        patch_pod sample_env signedAnnotation signingError (ps\<lparr>ps_signed := False\<rparr>, w1)"
proof -
  let ?ps = "(sample_status NodeSucceeded [])\<lparr>ps_pod := Some (sample_pod ''wfl-t-b''),
        ps_artifactsFound := True, ps_artifactInfo := ''img''\<rparr>"
  let ?w = "annotated_world None False"
  let ?r = "SignWithConfigOpts sample_env ''img'' default_config ?w"
  have res: "fst ?r = Fail (errors_New ''digest not available in oci ref'')"
    by code_simp
  have pod: "ps_pod ?ps = Some (sample_pod ''wfl-t-b'')"
    "gm_lookup (m_annotations (sample_pod ''wfl-t-b'')) signedAnnotation = None"
    by (simp_all add: sample_pod_def)
  have run: "SignWithConfigOpts sample_env (ps_artifactInfo ?ps) default_config ?w = (fst ?r, snd ?r)"
    by simp
  from signing_step [OF pod(1) run] pod(2) res show ?thesis
    by (simp add: Let_def split_beta)
qed

section \<open>The pods of a workflow\<close>

text \<open>The pods of a workflow are its nodes of type \<open>Pod\<close>, one status each, and there is an error
  exactly when there are none. The order of the map iteration only permutes them.\<close>

theorem GetPodInfo_pods:
  "(case GetPodInfo wflow of
      Inl e \<Rightarrow> \<not> (\<exists>n \<in> snd ` set (wf_Nodes wflow). node_Type n = ''Pod'')
    | Inr pods \<Rightarrow> pods \<noteq> [] \<and> mset pods =
        image_mset (new_podStatus (m_name wflow))
          (filter_mset (\<lambda>n. node_Type n = ''Pod'') (mset (map snd (wf_Nodes wflow)))))"
  by (auto simp: GetPodInfo_def collect_pods_filter filter_empty_conv mset_filter Let_def)

text \<open>Reconciling the pods of a workflow changes neither their number nor their names, phases or
  nodes, on any outcome.\<close>

theorem pods_keep_identity:
  "map (\<lambda>p. (ps_podName p, ps_status p, ps_node p))
       (fst (snd (WorkflowStatus_Reconcile env cfg ns (pods, w)))) =
     map (\<lambda>p. (ps_podName p, ps_status p, ps_node p)) pods"
proof -
  obtain r pods' w' where "WorkflowStatus_Reconcile env cfg ns (pods, w) = (r, (pods', w'))"
    by (metis prod.exhaust)
  from WorkflowStatus_Reconcile_identity [OF this] this show ?thesis by simp
qed

lemma each_pod_append_Fail:
  assumes "each_pod m (ps1, v) = (Ok u, (ps1', v1))" and "m (p, v1) = (Fail e, (p', v2))"
  shows "each_pod m (ps1 @ p # ps2, v) = (Fail e, (ps1' @ p' # ps2, v2))"
  using assms
proof (induction ps1 arbitrary: v ps1')
  case (Cons q ps1)
  from Cons.prems(1) obtain q' v' ps1'' where "m (q, v) = (Ok (), (q', v'))"
    "each_pod m (ps1, v') = (Ok u, (ps1'', v1))" "ps1' = q' # ps1''"
    by (cases "m (q, v)"; cases "fst (m (q, v))") (auto split: prod.splits)
  with Cons.IH [of v' ps1''] Cons.prems(2) show ?case by simp
qed simp

text \<open>The first pod that cannot be reconciled ends the loop: its error is returned, the pods before it
  keep what was done, and the pods after it are not visited.\<close>

theorem pod_failure_stops:
  assumes "each_pod (reconcilePod env cfg ns) (before, w) = (Ok u, (before', w1))"
    and "reconcilePod env cfg ns (p, w1) = (Fail e, (p', w2))"
  shows "WorkflowStatus_Reconcile env cfg ns (before @ p # after, w) =
    (Fail e, (before' @ p' # after, w2))"
  using each_pod_append_Fail [OF assms]
  by (simp add: WorkflowStatus_Reconcile_def go_bind_def)

theorem pod_failure_stops_witness:
  "let a = sample_status NodeSkipped []; b = sample_status (OtherPhase ''?'') [];
       w = annotated_world None False
   in WorkflowStatus_Reconcile sample_env default_config ''ns'' ([a] @ b # [a], w) =
     (Fail (errors_New ''wfl-t-bis in an unknown node state: ?''),
      ([a\<lparr>ps_reconciliation := True\<rparr>] @ b # [a], w))"
proof -
  let ?a = "sample_status NodeSkipped []"
  let ?b = "sample_status (OtherPhase ''?'') []"
  let ?w = "annotated_world None False"
  have a: "reconcilePod sample_env default_config ''ns'' (?a, ?w) =
      (Ok (), (?a\<lparr>ps_reconciliation := True\<rparr>, ?w))"
    by (simp add: reconcilePod_def isSkippedOrOmittedPod_def go_get_def go_upd_def)
  have b: "reconcilePod sample_env default_config ''ns'' (?b, ?w) =
      (Fail (errors_New ''wfl-t-bis in an unknown node state: ?''), (?b, ?w))"
    by (simp add: reconcilePod_def isSkippedOrOmittedPod_def inKnownState_def go_get_def go_fail_def)
  have "each_pod (reconcilePod sample_env default_config ''ns'') ([?a], ?w) =
      (Ok (), ([?a\<lparr>ps_reconciliation := True\<rparr>], ?w))"
    by (simp add: a)
  from pod_failure_stops [OF this b, of "[?a]"] show ?thesis by (simp add: Let_def)
qed

text \<open>C16: After the loop, the reconciliation of the workflow's pods succeeds exactly when every pod is
  settled, and otherwise its error is that of the first pod that is not.\<close>

theorem reconcile_pods_result:
  assumes "each_pod (reconcilePod env cfg ns) (pods, w) = (Ok u, (pods', w'))"
  shows "WorkflowStatus_Reconcile env cfg ns (pods, w) =
    (case find (\<lambda>p. \<not> settled p) pods' of
       None \<Rightarrow> Ok ()
     | Some p \<Rightarrow> Fail (errors_New
         (if \<not> ps_reconciliation p then ''not all workflow pods have been reconciled''
          else ''error while signing artifacts found in '' @ node_DisplayName (ps_node p))),
     (pods', w'))"
  using assms
  by (simp add: WorkflowStatus_Reconcile_def go_bind_def go_get_def validate_find go_err_def
      go_ret_def go_fail_def unsettled_error_def not_all_reconciled_def signing_error_prefix_def
      split: option.splits)

theorem reconcile_pods_result_witness:
  "let p = sample_status NodeRunning []; w = annotated_world None False
   in WorkflowStatus_Reconcile sample_env default_config ''ns'' ([p], w) =
     (Fail (errors_New ''not all workflow pods have been reconciled''), ([p], w))"
proof -
  let ?p = "sample_status NodeRunning []"
  let ?w = "annotated_world None False"
  have "each_pod (reconcilePod sample_env default_config ''ns'') ([?p], ?w) = (Ok (), ([?p], ?w))"
    by (simp add: reconcilePod_def isSkippedOrOmittedPod_def inKnownState_def go_get_def go_ret_def)
  from reconcile_pods_result [OF this] show ?thesis by (simp add: settled_def Let_def)
qed

section \<open>Provenance\<close>

text \<open>The subjects of the provenance are the pods, in order, with an artifact that counts as signed
  and is a reference with a digest; each is named by registry and repository and carries the digest
  without its algorithm prefix.\<close>

theorem attest_subjects_of_pods:
  "attest_subjects env pods =
     [\<lparr>rd_Name = fst (snd oci), rd_Digest = [(''sha256'', TrimPrefix (snd (snd oci)) ''sha256:'')],
       rd_Content = '''', rd_MediaType = ''''\<rparr>.
      (p, oci) \<leftarrow> map (\<lambda>p. (p, checkOCI env (ps_artifactInfo p))) pods,
      ps_artifactsFound p \<and> ps_signed p \<and> fst oci]"
  by (induction pods) (auto split: prod.splits)

lemma on_workflow_fixes: "(\<And>p v v'. f (p, v') = f (p, v)) \<Longrightarrow> go_fixes f (on_workflow m)"
  by (auto simp: go_fixes_def on_workflow_def split: prod.splits)

text \<open>What the provenance step makes of the flag \<open>sbomAttached\<close>.\<close>

lemma provenance_step_sbom_flag:
  assumes "handleProveneceAttachment env cfg subjects (ps, (wflow, w)) = (r, (ps', v'))"
    and "ps_artifactsFound ps" and "ps_signed ps" and "ps_pod ps = Some p"
    and "gm_lookup (m_annotations p) provenanceAnnotation = None"
  shows "ps_sbomAttached ps' =
    (case fst (GenerateSlsaV1Provenance env subjects wflow) of
       Ok prov \<Rightarrow>
         (case fst (AttestWithConfigOpts env cfg (ps_artifactInfo ps) (pe_PredicateSLSA1 env) prov w) of
            Ok info \<Rightarrow> True | Fail e \<Rightarrow> False | Panic m \<Rightarrow> ps_sbomAttached ps)
     | Fail e \<Rightarrow> ps_sbomAttached ps
     | Panic m \<Rightarrow> ps_sbomAttached ps)"
proof -
  obtain rg wflow1 where g: "GenerateSlsaV1Provenance env subjects wflow = (rg, wflow1)" by fastforce
  have patched: "ps_sbomAttached (fst (snd (patch_pod env key info (q, v)))) = ps_sbomAttached q" for key info q v
    using patch_pod_fixes [of "\<lambda>(q, v). ps_sbomAttached q" env key info]
    by (auto dest: go_fixesD [OF _ prod.collapse [symmetric], where s = "(q, v)"] simp: split_beta)
  show ?thesis
  proof (cases rg)
    case (Ok prov)
    obtain ra w1 where a: "AttestWithConfigOpts env cfg (ps_artifactInfo ps) (pe_PredicateSLSA1 env) prov w =
        (ra, w1)" by fastforce
    have "ps' = fst (snd (handleProveneceAttachment env cfg subjects (ps, (wflow, w))))"
      by (simp add: assms(1))
    then show ?thesis
      using assms(2-5) g Ok a patched
      by (cases ra) (simp_all add: handleProveneceAttachment_def go_get_def go_bind_def go_wrap_def
          on_workflow_def go_catch_def go_snd_def go_ret_def go_upd_def go_mid_def split_beta)
  qed (use assms g in \<open>auto simp: handleProveneceAttachment_def go_get_def go_bind_def go_wrap_def
      on_workflow_def\<close>)
qed

text \<open>C30: The provenance step never records that a provenance was attached: the flag
  \<open>provenanceAttached\<close> keeps its value on every path, and so do the flags of the other steps but for
  \<open>sbomAttached\<close>. That one the step overwrites with its own outcome: when a provenance is owed (there is
  an artifact that counts as signed, and the pod has no record of a provenance) and was generated, it
  becomes true if attesting it succeeds and false if that fails; else it is left alone.\<close>

theorem provenance_flag_never_set:
  "let ps' = fst (snd (handleProveneceAttachment env cfg subjects (ps, (wflow, w))))
   in ps_provenanceAttached ps' = ps_provenanceAttached ps \<and> ps_signed ps' = ps_signed ps \<and>
      ps_artifactsFound ps' = ps_artifactsFound ps \<and> ps_artifactInfo ps' = ps_artifactInfo ps \<and>
      ps_sbomAttached ps' =
        (if ps_artifactsFound ps \<and> ps_signed ps \<and>
            (case ps_pod ps of None \<Rightarrow> False
             | Some p \<Rightarrow> gm_lookup (m_annotations p) provenanceAnnotation = None)
         then (case fst (GenerateSlsaV1Provenance env subjects wflow) of
                 Ok prov \<Rightarrow>
                   (case fst (AttestWithConfigOpts env cfg (ps_artifactInfo ps) (pe_PredicateSLSA1 env) prov w) of
                      Ok info \<Rightarrow> True | Fail e \<Rightarrow> False | Panic m \<Rightarrow> ps_sbomAttached ps)
               | Fail e \<Rightarrow> ps_sbomAttached ps
               | Panic m \<Rightarrow> ps_sbomAttached ps)
         else ps_sbomAttached ps)"
proof -
  let ?f = "\<lambda>(p :: podStatus, v). (ps_provenanceAttached p, ps_signed p, ps_artifactsFound p, ps_artifactInfo p)"
  obtain r ps' v' where run: "handleProveneceAttachment env cfg subjects (ps, (wflow, w)) = (r, (ps', v'))"
    by (metis prod.exhaust)
  have "go_fixes ?f (handleProveneceAttachment env cfg subjects)"
    unfolding handleProveneceAttachment_def
    by (intro go_fixes_rules on_workflow_fixes | simp)+
  from go_fixesD [OF this run] have kept: "?f (ps', v') = ?f (ps, (wflow, w))" .
  show ?thesis
  proof (cases "ps_artifactsFound ps \<and> ps_signed ps \<and> (case ps_pod ps of None \<Rightarrow> False
      | Some p \<Rightarrow> gm_lookup (m_annotations p) provenanceAnnotation = None)")
    case True
    then obtain p where p: "ps_artifactsFound ps" "ps_signed ps" "ps_pod ps = Some p"
      "gm_lookup (m_annotations p) provenanceAnnotation = None" by (auto split: option.splits)
    from provenance_step_sbom_flag [OF run p] kept p show ?thesis by (simp add: run Let_def)
  next
    case False
    with run have "ps_sbomAttached ps' = ps_sbomAttached ps"
      by (auto simp: handleProveneceAttachment_def go_get_def go_ret_def go_panic_def go_mid_def patch_pod_run
          split: if_splits option.splits prod.splits)
    with kept show ?thesis unfolding run Let_def fst_conv snd_conv if_not_P [OF False] by simp
  qed
qed

text \<open>A provenance that could not be attached is recorded on the pod as \<open>Error\<close> and not reported:
  the step goes on to write the annotation and returns what writing it returns.\<close>

theorem provenance_failure_recorded:
  assumes "ps_artifactsFound ps" and "ps_signed ps" and "ps_pod ps = Some p"
    and "gm_lookup (m_annotations p) provenanceAnnotation = None"
    and "GenerateSlsaV1Provenance env subjects wflow = (Ok prov, wflow1)"
    and "AttestWithConfigOpts env cfg (ps_artifactInfo ps) (pe_PredicateSLSA1 env) prov w = (Fail e, w1)"
  shows "handleProveneceAttachment env cfg subjects (ps, (wflow, w)) =
    (case patch_pod env provenanceAnnotation ''Error'' (ps\<lparr>ps_sbomAttached := False\<rparr>, w1) of
       (r, (ps', w')) \<Rightarrow> (r, (ps', (wflow1, w'))))"
  using assms
  by (simp add: handleProveneceAttachment_def go_get_def go_bind_def go_wrap_def on_workflow_def
      go_catch_def go_snd_def go_ret_def go_upd_def go_mid_def sbomError_def)

definition signed_status :: podStatus where
  "signed_status = (sample_status NodeSucceeded [])\<lparr>ps_pod := Some (sample_pod ''wfl-t-b''),
     ps_artifactsFound := True, ps_artifactInfo := ''img@sha256:aa'', ps_signed := True\<rparr>"

theorem provenance_failure_recorded_witness:
  "let w = annotated_world None True;
       (r, (wflow', w')) = (let (r, (ps', (wflow', w'))) =
          handleProveneceAttachment sample_env default_config [] (signed_status, (two_pods NodeSucceeded, w))
        in (r, (wflow', w')))
   in r = Ok () \<and> sample_annotation ''wfl-t-b'' provenanceAnnotation w' = Some ''Error''"
proof -
  let ?w = "annotated_world None True"
  let ?wf = "two_pods NodeSucceeded"
  let ?g = "GenerateSlsaV1Provenance sample_env [] ?wf"
  let ?a = "AttestWithConfigOpts sample_env default_config (ps_artifactInfo signed_status)
    (pe_PredicateSLSA1 sample_env) ''statement'' ?w"
  let ?p = "patch_pod sample_env provenanceAnnotation ''Error'' (signed_status\<lparr>ps_sbomAttached := False\<rparr>, snd ?a)"
  have g: "fst ?g = Ok ''statement''" by code_simp
  have a: "fst ?a = Fail (errors_New ''UNAUTHORIZED'')" by code_simp
  have p: "fst ?p = Ok () \<and> sample_annotation ''wfl-t-b'' provenanceAnnotation (snd (snd ?p)) = Some ''Error''"
    by code_simp
  have st: "ps_artifactsFound signed_status" "ps_signed signed_status"
    "ps_pod signed_status = Some (sample_pod ''wfl-t-b'')"
    "gm_lookup (m_annotations (sample_pod ''wfl-t-b'')) provenanceAnnotation = None"
    by (simp_all add: signed_status_def sample_pod_def)
  have run: "?g = (Ok ''statement'', snd ?g)" "?a = (Fail (errors_New ''UNAUTHORIZED''), snd ?a)"
    using g a by (simp_all add: prod_eq_iff)
  from provenance_failure_recorded [OF st run] p show ?thesis
    by (simp add: Let_def split_beta)
qed

end
