(* ===== verification/StatusProperties.thy ===== *)
theory StatusProperties imports SampleEnv begin

text \<open>
  Properties of \<open>pkg/statusupdater\<close>.
\<close>

section \<open>Success\<close>

text \<open>C17: When setting an annotation reports success, the object the caller holds carries the value, for
  any client and any retries that behave as documented, whoever else changes the object.\<close>

theorem PatchAnnotations_success:
  assumes "retry_documented k sleep" and "kube_documented k"
    and "PatchAnnotations k key v s = (Ok u, (r', w'))"
  shows "gm_lookup (m_annotations r') key = Some v"
  using assms by (rule annotations.patched)

lemma sample_patch_run:
  "PatchAnnotations sample_pods ''k'' ''v'' (sample_pod ''wfl-t-a'', sample_world (two_pods NodeSucceeded) False) =
     (Ok (), ((sample_pod ''wfl-t-a'')\<lparr>m_annotations := Some [''k'' \<mapsto> ''v'']\<rparr>,
        sw_put_pod (''ns'', ''wfl-t-a'') ((sample_pod ''wfl-t-a'')\<lparr>m_annotations := Some [''k'' \<mapsto> ''v'']\<rparr>)
          (sample_world (two_pods NodeSucceeded) False)))"
  by (simp add: PatchAnnotations_def patchMetadata_def go_catch_def sample_pods_def patch_attempt_run
      store_get_def sw_read_pod_def sample_world_def sample_pod_def nsname_of_def store_patch_def
      set_annotations_def go_ret_def numeral_3_eq_3)

theorem PatchAnnotations_success_witness:
  "\<exists>r w. PatchAnnotations sample_pods ''k'' ''v''
      (sample_pod ''wfl-t-a'', sample_world (two_pods NodeSucceeded) False) = (Ok (), (r, w)) \<and>
    gm_lookup (m_annotations r) ''k'' = Some ''v''"
proof -
  have doc: "retry_documented sample_pods (\<lambda>w. w)" "kube_documented sample_pods"
    using sample_pods_documented by (simp_all add: pods_documented_def sample_env_def)
  from PatchAnnotations_success [OF doc sample_patch_run] sample_patch_run show ?thesis by blast
qed

text \<open>C18: Against a server that stores what it is sent, setting a label reads the object afresh and
  changes nothing but that label of that object: the stored object is the one that was stored with the
  label set, every other object stays, and nothing is written when the label already has the value.\<close>

theorem PatchLabels_store:
  assumes "\<And>w nn r. rd w nn = Some r \<Longrightarrow> nsname_of r = nn"
    and "\<And>w nn r nn'. nsname_of r = nn \<Longrightarrow>
      rd (wr nn r w) nn' = (if nn' = nn then Some r else rd w nn')"
    and "rd w (nsname_of r) = Some cur"
  shows "\<exists>w'. let new = cur\<lparr>m_labels := Some ((case m_labels cur of None \<Rightarrow> Map.empty | Some m \<Rightarrow> m)(key \<mapsto> v))\<rparr>
    in PatchLabels (store_kube rd wr) key v (r, w) = (Ok (), (new, w')) \<and>
       (\<forall>nn. rd w' nn = (if nn = nsname_of r then Some new else rd w nn)) \<and>
       (gm_lookup (m_labels cur) key = Some v \<longrightarrow> w' = w)"
proof -
  have name: "nsname_of cur = nsname_of r" using assms(1,3) by blast
  let ?new = "with_label key v cur"
  let ?w = "if gm_lookup (m_labels cur) key = Some v then w else wr (nsname_of r) ?new w"
  have "rd ?w nn = (if nn = nsname_of r then Some ?new else rd w nn)" for nn
    using assms(2) [of ?new "nsname_of r" w nn] assms(3) name with_label_same [of cur key v] by auto
  with PatchLabels_store_run [of rd w r cur wr key v, OF assms(3) name] show ?thesis
    unfolding with_label_update [symmetric] Let_def by (intro exI [of _ ?w]) simp
qed

text \<open>A map of objects, each stored under its own name.\<close>

definition named_read :: "(nsname \<rightharpoonup> pod) \<Rightarrow> nsname \<Rightarrow> pod option" where
  "named_read w nn = (case w nn of None \<Rightarrow> None | Some p \<Rightarrow> if nsname_of p = nn then Some p else None)"

definition named_write :: "nsname \<Rightarrow> pod \<Rightarrow> (nsname \<rightharpoonup> pod) \<Rightarrow> (nsname \<rightharpoonup> pod)" where
  "named_write nn p w = w(nn \<mapsto> p)"

theorem PatchLabels_store_witness:
  "let p = sample_pod ''a''; w = [(''ns'', ''a'') \<mapsto> p, (''ns'', ''b'') \<mapsto> sample_pod ''b'']
   in \<exists>w'. PatchLabels (store_kube named_read named_write) ''k'' ''v'' (p, w) =
        (Ok (), (p\<lparr>m_labels := Some [''k'' \<mapsto> ''v'']\<rparr>, w')) \<and>
      named_read w' (''ns'', ''b'') = Some (sample_pod ''b'')"
proof -
  let ?p = "sample_pod ''a''"
  let ?w = "[(''ns'', ''a'') \<mapsto> ?p, (''ns'', ''b'') \<mapsto> sample_pod ''b'']"
  have h1: "nsname_of r = nn" if "named_read w nn = Some r" for w nn r
    using that by (auto simp: named_read_def split: option.splits if_splits)
  have h2: "named_read (named_write nn r w) nn' = (if nn' = nn then Some r else named_read w nn')"
    if "nsname_of r = nn" for w nn r nn'
    using that by (auto simp: named_read_def named_write_def)
  have h3: "named_read ?w (nsname_of ?p) = Some ?p"
    by (simp add: named_read_def nsname_of_def sample_pod_def)
  have new: "?p\<lparr>m_labels := Some ((case m_labels ?p of None \<Rightarrow> Map.empty | Some m \<Rightarrow> m)(''k'' \<mapsto> ''v''))\<rparr> =
      ?p\<lparr>m_labels := Some [''k'' \<mapsto> ''v'']\<rparr>" by (simp add: sample_pod_def)
  obtain w' where w': "PatchLabels (store_kube named_read named_write) ''k'' ''v'' (?p, ?w) =
      (Ok (), (?p\<lparr>m_labels := Some [''k'' \<mapsto> ''v'']\<rparr>, w'))"
    "\<forall>nn. named_read w' nn = (if nn = nsname_of ?p then Some (?p\<lparr>m_labels := Some [''k'' \<mapsto> ''v'']\<rparr>)
       else named_read ?w nn)"
    by (rule exE [OF PatchLabels_store [of named_read named_write ?w ?p ?p "''k''" "''v''",
            unfolded Let_def new]])
      (erule h1, erule h2, rule h3, blast)
  have "named_read w' (''ns'', ''b'') = Some (sample_pod ''b'')"
    using w'(2) by (simp add: nsname_of_def sample_pod_def named_read_def)
  with w'(1) show ?thesis unfolding Let_def by blast
qed

section \<open>Failure\<close>

text \<open>The states before the attempts of a run: each attempt but the last met a conflict, and the next
  one starts from what it left, after a sleep.\<close>

definition attempts ::
  "('w \<Rightarrow> 'w) \<Rightarrow> ('o \<times> 'w, unit) go \<Rightarrow> ('o \<times> 'w) list \<Rightarrow> bool" where
  "attempts sleep attempt ss \<longleftrightarrow>
     (\<forall>i. Suc i < length ss \<longrightarrow>
        (\<exists>e r w. attempt (ss ! i) = (Fail e, (r, w)) \<and> IsConflict e \<and> ss ! Suc i = (r, sleep w)))"

lemma retry_loop_attempts:
  assumes "retry_loop sleep n IsConflict f s = (res, s')" and "n \<noteq> 0"
  shows "\<exists>ss. ss \<noteq> [] \<and> length ss \<le> n \<and> hd ss = s \<and> attempts sleep f ss \<and> f (last ss) = (res, s') \<and>
    (length ss = n \<or> (\<forall>e. res = Fail e \<longrightarrow> \<not> IsConflict e))"
  using assms
proof (induction n arbitrary: s)
  case (Suc n)
  obtain res1 r w where run: "f s = (res1, (r, w))" by (metis prod.exhaust)
  show ?case
  proof (cases "\<exists>e. res1 = Fail e \<and> IsConflict e \<and> n \<noteq> 0")
    case True
    then obtain e where e: "res1 = Fail e" "IsConflict e" "n \<noteq> 0" by blast
    with Suc.prems(1) run have "retry_loop sleep n IsConflict f (r, sleep w) = (res, s')" by simp
    from Suc.IH [OF this e(3)] obtain ss where ss: "ss \<noteq> []" "length ss \<le> n" "hd ss = (r, sleep w)"
      "attempts sleep f ss" "f (last ss) = (res, s')"
      "length ss = n \<or> (\<forall>e. res = Fail e \<longrightarrow> \<not> IsConflict e)" by blast
    have "attempts sleep f (s # ss)"
      unfolding attempts_def
    proof (intro allI impI)
      fix i
      assume i: "Suc i < length (s # ss)"
      show "\<exists>e r w. f ((s # ss) ! i) = (Fail e, (r, w)) \<and> IsConflict e \<and> (s # ss) ! Suc i = (r, sleep w)"
      proof (cases i)
        case 0
        with run e ss(1,3) show ?thesis by (simp add: hd_conv_nth)
      next
        case (Suc m)
        with i ss(4) show ?thesis by (simp add: attempts_def)
      qed
    qed
    with ss show ?thesis by (intro exI [of _ "s # ss"]) auto
  next
    case False
    with Suc.prems(1) run have "res1 = res \<and> s' = (r, w)"
      by (cases res1) (auto split: if_splits)
    with run False show ?thesis
      by (intro exI [of _ "[s]"]) (auto simp: attempts_def)
  qed
qed simp

text \<open>The error a caller of the package sees.\<close>

definition reported :: "unit result \<Rightarrow> unit result" where
  "reported res =
     (case res of
        Fail e \<Rightarrow> Fail (if IsConflict e \<or> IsNotFound e then errors_New ''conflict or not found'' else e)
      | other \<Rightarrow> other)"

lemma patchMetadata_attempts:
  assumes "retry_documented k sleep"
  shows "\<exists>ss res s'. ss \<noteq> [] \<and> length ss \<le> 3 \<and> hd ss = s \<and>
    attempts sleep (patch_attempt k key v gm sm) ss \<and> patch_attempt k key v gm sm (last ss) = (res, s') \<and>
    (length ss = 3 \<or> (\<forall>e. res = Fail e \<longrightarrow> \<not> IsConflict e)) \<and>
    patchMetadata k key v gm sm s = (reported res, s')"
proof -
  have loop: "cl_OnError k 3 IsConflict m = retry_loop sleep 3 IsConflict m" for m
    using assms unfolding retry_documented_def by blast
  obtain res s' where run: "retry_loop sleep 3 IsConflict (patch_attempt k key v gm sm) s = (res, s')"
    by (metis prod.exhaust)
  from retry_loop_attempts [OF run] obtain ss where
    "ss \<noteq> []" "length ss \<le> 3" "hd ss = s" "attempts sleep (patch_attempt k key v gm sm) ss"
    "patch_attempt k key v gm sm (last ss) = (res, s')"
    "length ss = 3 \<or> (\<forall>e. res = Fail e \<longrightarrow> \<not> IsConflict e)" by auto
  moreover have "patchMetadata k key v gm sm s = (reported res, s')"
    using run by (cases res) (auto simp: patchMetadata_def loop go_catch_def go_ret_def go_fail_def
        reported_def conflict_or_not_found_def)
  ultimately show ?thesis by blast
qed

text \<open>C19: An attempt that meets a conflict is repeated, and no other one is, and there are at most three
  attempts: setting a label, or an annotation, makes one, two or three attempts, each of which but the
  last ended in a conflict; it stops after the third or after one that did not end in a conflict, and
  returns what the last one returned, a conflict and a missing
  object both as the error \<open>conflict or not found\<close>. The hypothesis is the documented behaviour of
  \<open>retry.OnError\<close>, with the package's three steps.\<close>

theorem retried_on_conflict:
  assumes "retry_documented k sleep"
  shows "(\<exists>ss res s'. length ss \<in> {1, 2, 3} \<and> hd ss = s \<and>
      attempts sleep (patch_attempt k key v m_labels set_labels) ss \<and>
      patch_attempt k key v m_labels set_labels (last ss) = (res, s') \<and>
      (length ss = 3 \<or> (\<forall>e. res = Fail e \<longrightarrow> \<not> IsConflict e)) \<and>
      PatchLabels k key v s = (reported res, s')) \<and>
    (\<exists>ss res s'. length ss \<in> {1, 2, 3} \<and> hd ss = s \<and>
      attempts sleep (patch_attempt k key v m_annotations set_annotations) ss \<and>
      patch_attempt k key v m_annotations set_annotations (last ss) = (res, s') \<and>
      (length ss = 3 \<or> (\<forall>e. res = Fail e \<longrightarrow> \<not> IsConflict e)) \<and>
      PatchAnnotations k key v s = (reported res, s'))"
proof -
  have len: "ss \<noteq> [] \<and> length ss \<le> 3 \<longrightarrow> length ss \<in> {1, 2, 3}" for ss :: "('a objmeta_scheme \<times> 'b) list"
    by (cases ss) (auto simp: le_Suc_eq numeral_2_eq_2 numeral_3_eq_3)
  from patchMetadata_attempts [OF assms, of s key v m_labels set_labels]
    patchMetadata_attempts [OF assms, of s key v m_annotations set_annotations] len
  show ?thesis unfolding PatchLabels_def PatchAnnotations_def by blast
qed

text \<open>A server on which every patch meets a conflict; the world counts the patches.\<close>

definition conflicting_pods :: "(pod, nat) kube" where
  "conflicting_pods =
     \<lparr>cl_Get = (\<lambda>nn (r, n). (Ok (), (sample_pod ''a'', n))),
      cl_Patch = (\<lambda>base (r, n). (Fail (GoErr ApiConflict ''the object has been modified''), (r, n + 1))),
      cl_DeepCopy = Some, cl_OnError = retry_loop (\<lambda>n. n)\<rparr>"

lemma conflicting_attempt:
  "patch_attempt conflicting_pods ''k'' ''v'' m_annotations set_annotations (r, n) =
     (Fail (GoErr ApiConflict ''the object has been modified''),
      (set_annotations (sample_pod ''a'') (Some [''k'' \<mapsto> ''v'']), n + 1))"
  by (simp add: patch_attempt_run conflicting_pods_def sample_pod_def)

theorem retried_on_conflict_witness:
  "\<exists>ss res s'. length ss = 3 \<and>
     attempts (\<lambda>n. n) (patch_attempt conflicting_pods ''k'' ''v'' m_annotations set_annotations) ss \<and>
     PatchAnnotations conflicting_pods ''k'' ''v'' (sample_pod ''a'', 0) = (reported res, s') \<and>
     reported res = Fail (errors_New ''conflict or not found'')"
proof -
  have "retry_documented conflicting_pods (\<lambda>n. n)"
    by (simp add: retry_documented_def conflicting_pods_def)
  from conjunct2 [OF retried_on_conflict [OF this, of "(sample_pod ''a'', 0)" "''k''" "''v''"]]
  obtain ss res s' where
    "attempts (\<lambda>n. n) (patch_attempt conflicting_pods ''k'' ''v'' m_annotations set_annotations) ss"
    "PatchAnnotations conflicting_pods ''k'' ''v'' (sample_pod ''a'', 0) = (reported res, s')" and
    last: "patch_attempt conflicting_pods ''k'' ''v'' m_annotations set_annotations (last ss) = (res, s')" and
    stop: "length ss = 3 \<or> (\<forall>e. res = Fail e \<longrightarrow> \<not> IsConflict e)" by blast
  moreover have "res = Fail (GoErr ApiConflict ''the object has been modified'')"
    using last by (cases "last ss") (simp add: conflicting_attempt)
  ultimately show ?thesis
    by (intro exI [of _ ss] exI [of _ res] exI [of _ s']) (simp add: reported_def IsConflict_def)
qed

text \<open>The API server's own conflict and not-found errors never reach the callers of the package:
  after the retries both are the one error \<open>conflict or not found\<close>, for labels and for annotations.\<close>

theorem updater_errors:
  "(case fst (PatchLabels k key v s) of Fail e \<Rightarrow> \<not> IsConflict e \<and> \<not> IsNotFound e | _ \<Rightarrow> True) \<and>
   (case fst (PatchAnnotations k key v s) of Fail e \<Rightarrow> \<not> IsConflict e \<and> \<not> IsNotFound e | _ \<Rightarrow> True)"
  using labels.error_normal [of k key v s] annotations.error_normal [of k key v s]
  by (cases "PatchLabels k key v s"; cases "PatchAnnotations k key v s")
    (auto split: result.splits)

end
