(* ===== verification/SigningProperties.thy ===== *)
theory SigningProperties imports SampleEnv begin

text \<open>
  Properties of signing, attesting, SBOM generation, the configuration and the keychain.
\<close>

section \<open>What is published\<close>

text \<open>The signer that \<open>signDigest\<close> composes, when it returns a signature: it is one of the key, over the
  payload that was given, and with a transparency log it is the signature that was uploaded.\<close>

lemma digest_signer_faithful:
  assumes "oci_documented env" and "digest_signer env ko so sv w = (Ok s, w1)"
    and "s (Inr p) w2 = (Ok (x, pub), w3)"
  shows "\<exists>sig. ce_sig_Payload env x = Inr p \<and> ce_sig_Base64Signature env x = Inr (b64_encode sig) \<and>
    signed_by env sv p sig \<and>
    (\<not> sgo_TlogUpload so \<or> (\<exists>rc rekorBytes w4 entry.
       sg_rekor_NewClient env (ko_RekorURL ko) w = (Ok rc, w1) \<and>
       ce_TLogUpload env rc sig p rekorBytes w4 = (Ok entry, w3)))"
proof -
  let ?ps = "\<lparr>ps_payloadSigner = sv, ps_payloadSignerOpts = [], ps_publicKeyProviderOpts = []\<rparr>"
  define S where "S = (case sv_Cert sv of None \<Rightarrow> payload_Sign env ?ps
      | Some c \<Rightarrow> fulcio_Sign env (payload_Sign env ?ps) (Some c) (sv_Chain sv))"
  have "faithful_signer env (ps_payloadSigner ?ps) S"
    unfolding S_def
    by (cases "sv_Cert sv")
      (simp_all only: option.case payload_signer.faithful_signer_axioms keyless_signer.faithful_signer_axioms)
  then have S: "faithful_signer env sv S" by simp
  from assms(2) consider
    "\<not> sgo_TlogUpload so" "s = S" | rc where "sgo_TlogUpload so" "s = rekor_Sign env S rc"
      "sg_rekor_NewClient env (ko_RekorURL ko) w = (Ok rc, w1)"
    by (auto simp: digest_signer_def payload_NewSigner_def payload_newSigner_def S_def Let_def go_inv
        cong: option.case_cong split: if_splits)
  then show ?thesis
  proof cases
    case 1
    with faithful_signer.faithful [OF S assms(1)] assms(3) show ?thesis by blast
  next
    case 2
    with faithful_signer.rekor_uploads [OF S assms(1), of rc p w2 x pub w3] assms(3) show ?thesis
      by blast
  qed
qed

lemma SignOci_Ok:
  assumes "SignOci env img keyRef cfg w = (Ok u, w')"
  shows "\<exists>ref digest sv se opts w1 w2 w3 w4.
    SignerFromKeyOpts env (SignOci_keyopts (SignOci_options keyRef cfg)) False w = (Ok sv, w1) \<and>
    CosignRemoteAuthOptsWithKeyChain env (cfg_AuthKeyChain cfg) w1 = (Ok opts, w2) \<and>
    rg_ParseReference env img = Inr ref \<and> ref_Digest ref = Some digest \<and>
    signDigest env ref (SignOci_keyopts (SignOci_options keyRef cfg)) (SignOci_options keyRef cfg)
      (sg_NewDupeDetector env sv) sv se opts w3 = (Ok u, w4) \<and> w' = snd (sg_Close env sv w4)"
  using assms by (auto simp: SignOci_def Let_def go_inv split: if_splits)

lemma signDigest_Ok:
  assumes "signDigest env digest ko so dd sv se opts w = (Ok u, w')"
  shows "\<exists>payload s x pub newSE w1 w2 w3.
    sg_payload_MarshalJSON env digest (sgo_SignContainerIdentity so) = Inr payload \<and>
    digest_signer env ko so sv w = (Ok s, w1) \<and> s (Inr payload) w1 = (Ok (x, pub), w2) \<and>
    sg_AttachSignatureToEntity env se x dd (sgo_RecordCreationTimestamp so) w2 = (Ok newSE, w3) \<and>
    sg_WriteSignatures env (ref_Repository digest) newSE opts w3 = (Ok u, w')"
  using assms by (auto simp: signDigest_def go_inv)

lemma SignOci_options_sel [simp]:
  "sgo_SignContainerIdentity (SignOci_options k cfg) = ''''"
  "\<not> sgo_RecordCreationTimestamp (SignOci_options k cfg)"
  by (simp_all add: SignOci_options_def zero_sign_options_def)

text \<open>C11: When signing an image succeeds, the reference that was given has a digest, and what is attached
  and then written to that reference's repository is a signature over the payload made for that
  reference, by the signer that was obtained for the key, with the client options made for the
  configured keychain. With transparency configured this very signature was uploaded to the log of the
  configured URL before it was attached. The signer is closed last. The hypothesis is the documented
  behaviour of cosign's signature values.\<close>

theorem signed_image_published:
  assumes "oci_documented env" and "SignOci env img keyRef cfg w = (Ok u, w')"
  shows "\<exists>ref digest sv opts payload x sig se newSE w1 w2 w3 w4 w5 w6.
    SignerFromKeyOpts env (SignOci_keyopts (SignOci_options keyRef cfg)) False w = (Ok sv, w1) \<and>
    CosignRemoteAuthOptsWithKeyChain env (cfg_AuthKeyChain cfg) w1 = (Ok opts, w2) \<and>
    rg_ParseReference env img = Inr ref \<and> ref_Digest ref = Some digest \<and>
    sg_payload_MarshalJSON env ref '''' = Inr payload \<and>
    ce_sig_Payload env x = Inr payload \<and> ce_sig_Base64Signature env x = Inr (b64_encode sig) \<and>
    signed_by env sv payload sig \<and>
    (\<not> cfg_Transparency cfg \<or> (\<exists>rc rekorBytes w0 wc entry.
       sg_rekor_NewClient env (cfg_TransparencyURL cfg) w3 = (Ok rc, wc) \<and>
       ce_TLogUpload env rc sig payload rekorBytes w0 = (Ok entry, w4))) \<and>
    sg_AttachSignatureToEntity env se x (sg_NewDupeDetector env sv) False w4 = (Ok newSE, w5) \<and>
    sg_WriteSignatures env (ref_Repository ref) newSE opts w5 = (Ok (), w6) \<and>
    w' = snd (sg_Close env sv w6)"
proof -
  let ?so = "SignOci_options keyRef cfg"
  from SignOci_Ok [OF assms(2)] obtain ref digest sv se opts w1 w2 w3 w6 where
    prep: "SignerFromKeyOpts env (SignOci_keyopts ?so) False w = (Ok sv, w1)"
      "CosignRemoteAuthOptsWithKeyChain env (cfg_AuthKeyChain cfg) w1 = (Ok opts, w2)"
      "rg_ParseReference env img = Inr ref" "ref_Digest ref = Some digest" and
    run: "signDigest env ref (SignOci_keyopts ?so) ?so (sg_NewDupeDetector env sv) sv se opts w3 = (Ok u, w6)" and
    closed: "w' = snd (sg_Close env sv w6)" by blast
  from signDigest_Ok [OF run] obtain payload s x pub newSE wc w4 w5 where
    payload: "sg_payload_MarshalJSON env ref '''' = Inr payload" and
    signer: "digest_signer env (SignOci_keyopts ?so) ?so sv w3 = (Ok s, wc)"
      "s (Inr payload) wc = (Ok (x, pub), w4)" and
    att: "sg_AttachSignatureToEntity env se x (sg_NewDupeDetector env sv) False w4 = (Ok newSE, w5)"
      "sg_WriteSignatures env (ref_Repository ref) newSE opts w5 = (Ok (), w6)" by auto
  from digest_signer_faithful [OF assms(1) signer] obtain sig where
    sig: "ce_sig_Payload env x = Inr payload" "ce_sig_Base64Signature env x = Inr (b64_encode sig)"
      "signed_by env sv payload sig" and
    log: "\<not> cfg_Transparency cfg \<or> (\<exists>rc rekorBytes w0 entry.
       sg_rekor_NewClient env (cfg_TransparencyURL cfg) w3 = (Ok rc, wc) \<and>
       ce_TLogUpload env rc sig payload rekorBytes w0 = (Ok entry, w4))"
    unfolding SignOci_keyopts_used by blast
  then have "\<not> cfg_Transparency cfg \<or> (\<exists>rc rekorBytes w0 wc entry.
       sg_rekor_NewClient env (cfg_TransparencyURL cfg) w3 = (Ok rc, wc) \<and>
       ce_TLogUpload env rc sig payload rekorBytes w0 = (Ok entry, w4))" by blast
  then show ?thesis
    by (intro exI conjI) (rule prep payload sig att closed | assumption)+
qed

theorem signed_image_published_witness:
  "\<exists>ref sv payload x sig w6.
    rg_ParseReference sample_env ''img@sha256:aa'' = Inr ref \<and>
    sg_payload_MarshalJSON sample_env ref '''' = Inr payload \<and>
    ce_sig_Base64Signature sample_env x = Inr (b64_encode sig) \<and> signed_by sample_env sv payload sig \<and>
    (\<exists>rc rekorBytes w0 entry w4. ce_TLogUpload sample_env rc sig payload rekorBytes w0 = (Ok entry, w4)) \<and>
    sw_published (snd (sg_Close sample_env sv w6)) = [''r.io/img'']"
proof -
  let ?cfg = "(config_New ''rekor'' Map.empty)\<lparr>cfg_Transparency := True\<rparr> :: handle config"
  let ?r = "SignOci sample_env ''img@sha256:aa'' DefaultSecretKey ?cfg
      (sample_world (two_pods NodeSucceeded) False)"
  have r: "fst ?r = Ok ()" "sw_published (snd ?r) = [''r.io/img'']" by code_simp+
  then have "?r = (Ok (), snd ?r)" by (simp add: prod_eq_iff)
  note published = signed_image_published [OF sample_oci this]
  have "(\<not> cfg_Transparency ?cfg \<or> P) = P" for P by simp
  from published [unfolded this] r(2) show ?thesis by (elim exE conjE) (simp only:, blast)
qed

section \<open>Digests\<close>

text \<open>An image reference without a digest is never signed and never attested: signing does not succeed,
  and attesting returns an error before it has any effect.\<close>

theorem digest_required:
  assumes "rg_ParseReference env img = Inr ref" and "ref_Digest ref = None"
  shows "SignOci env img keyRef cfg w \<noteq> (Ok (), w') \<and>
    AttestOci env cfg img keyRef pt p w = (Fail (errors_New ''digest not awailable in oci ref''), w)"
proof
  show "SignOci env img keyRef cfg w \<noteq> (Ok (), w')"
    using SignOci_Ok [of env img keyRef cfg w "()" w'] assms by auto
  show "AttestOci env cfg img keyRef pt p w = (Fail (errors_New ''digest not awailable in oci ref''), w)"
    using assms by (simp add: AttestOci_def Let_def go_bind_def go_wrap_def go_of_def go_ret_def go_fail_def)
qed

theorem digest_required_witness:
  "let cfg = config_New ''rekor'' Map.empty; w = sample_world (two_pods NodeSucceeded) False
   in SignOci sample_env ''img'' ''k'' cfg w \<noteq> (Ok (), w) \<and>
      AttestOci sample_env cfg ''img'' ''k'' ''t'' ''p'' w =
        (Fail (errors_New ''digest not awailable in oci ref''), w)"
proof -
  have "rg_ParseReference sample_env ''img'' = Inr \<lparr>ref_RegistryStr = ''r.io'',
      ref_RepositoryStr = ''img'', ref_Repository = ''r.io/img'', ref_Identifier = tl [], ref_Digest = None\<rparr>"
    by (simp add: sample_env_def sample_parse_def Let_def)
  from digest_required [OF this] show ?thesis by (simp add: Let_def)
qed

section \<open>Keys\<close>

lemma kms_ignored_cosign [simp]:
  "payload_Sign (env\<lparr>sg_kms_Get := g\<rparr>) = payload_Sign env"
  "fulcio_Sign (env\<lparr>sg_kms_Get := g\<rparr>) = fulcio_Sign env"
  "rekor_Sign (env\<lparr>sg_kms_Get := g\<rparr>) = rekor_Sign env"
  by (simp_all add: fun_eq_iff payload_Sign_def payload_signPayload_def payload_publicKey_def
      fulcio_Sign_def rekor_Sign_def rekor_uploadToTlog_def cong: option.case_cong)

lemma kms_ignored_keys [simp]:
  "SignerFromKeyOpts (env\<lparr>sg_kms_Get := g\<rparr>) ko False = SignerFromKeyOpts env ko False"
  "CosignRemoteAuthOptsWithKeyChain (env\<lparr>sg_kms_Get := g\<rparr>) = CosignRemoteAuthOptsWithKeyChain env"
  by (simp_all add: fun_eq_iff SignerFromKeyOpts_def signerFromKeyRef_def cosignSeecretSigner_def
      pkcs11_certSigner_def keylessSigner_def CosignRemoteAuthOptsWithKeyChain_def
      GetRemoteOptsWithKeychain_def Let_def cong: option.case_cong if_cong)

lemma kms_ignored_operations [simp]:
  "SignOci (env1\<lparr>sg_kms_Get := g\<rparr>) = SignOci env1"
  "AttestOci (env2\<lparr>sg_kms_Get := g\<rparr>) = AttestOci env2"
  by (simp_all add: fun_eq_iff SignOci_def signDigest_def digest_signer_def payload_NewSigner_def AttestOci_def
      attest_tlog_def attest_uploadToTlog_def attest_payload_def Let_def
      cong: option.case_cong sum.case_cong if_cong)

lemma kms_ignored_sbom [simp]:
  "GenerateSBOMwithSyft (env\<lparr>sg_kms_Get := g\<rparr>) = GenerateSBOMwithSyft env"
  "sbom_platform (env\<lparr>sg_kms_Get := g\<rparr>) = sbom_platform env"
  by (simp_all add: fun_eq_iff GenerateSBOMwithSyft_def sbom_platform_def)

lemma kms_ignored_platforms [simp]:
  "sbom_platforms (env\<lparr>sg_kms_Get := g\<rparr>) cfg k oci pt failed ds = sbom_platforms env cfg k oci pt failed ds"
  by (induction ds arbitrary: failed) simp_all

lemma kms_ignored_GenerateSBOMforOCI [simp]:
  "GenerateSBOMforOCI (env\<lparr>sg_kms_Get := g\<rparr>) = GenerateSBOMforOCI env"
  by (simp add: fun_eq_iff GenerateSBOMforOCI_def GetManifest_def checkIfMultiMlatformImage_def
      cong: option.case_cong sum.case_cong if_cong)

text \<open>The error with which a signer reports that the secret of its key could not be read.\<close>

definition secret_error :: "goerr \<Rightarrow> goerr" where
  "secret_error e =
     WrapErr ''failed to createte keyed signer '' (WrapErr ''failed to create signer from secret '' e)"

text \<open>C31: The key management service is never asked for a key, by any of the three operations and for any
  configuration, the one that selects it included: what the operations do does not depend on the
  library's function that obtains a key from it. With the KMS signer the URL of the key is the key
  reference of all three operations, and if it is not empty it is given to the function that reads the
  cosign key pair from a Kubernetes secret: when that function fails on the URL, signing fails with its
  error before anything else has happened, and so does attesting an image that has a digest, after the
  options of the registry client were made.\<close>

theorem kms_never_used:
  "SignWithConfigOpts (env\<lparr>sg_kms_Get := g\<rparr>) img cfg = SignWithConfigOpts env img cfg \<and>
   AttestWithConfigOpts (env\<lparr>sg_kms_Get := g\<rparr>) cfg img pt p = AttestWithConfigOpts env cfg img pt p \<and>
   GenerateSBOMWithConfigOpts (env\<lparr>sg_kms_Get := g\<rparr>) img pt cfg = GenerateSBOMWithConfigOpts env img pt cfg \<and>
   (cfg_SignerType cfg = KmsSigner \<longrightarrow>
      SignWithConfigOpts env img cfg = SignOci env img (cfg_KmsURL cfg) cfg \<and>
      AttestWithConfigOpts env cfg img pt p = AttestOci env cfg img (cfg_KmsURL cfg) pt p \<and>
      GenerateSBOMWithConfigOpts env img pt cfg = GenerateSBOMforOCI env cfg (cfg_KmsURL cfg) img pt) \<and>
   (cfg_SignerType cfg = KmsSigner \<and> cfg_KmsURL cfg \<noteq> '''' \<longrightarrow>
      (\<forall>w e w'. sg_GetKeyPairSecret env (cfg_KmsURL cfg) w = (Fail e, w') \<longrightarrow>
         SignWithConfigOpts env img cfg w = (Fail (WrapErr ''getting signer: '' (secret_error e)), w')) \<and>
      (\<forall>ref d opts w w1 e w'.
         rg_ParseReference env img = Inr ref \<longrightarrow> ref_Digest ref = Some d \<longrightarrow>
         CosignRemoteAuthOptsWithKeyChain env (cfg_AuthKeyChain cfg) w = (Ok opts, w1) \<longrightarrow>
         sg_GetKeyPairSecret env (cfg_KmsURL cfg) w1 = (Fail e, w') \<longrightarrow>
         AttestWithConfigOpts env cfg img pt p w =
           (Fail (WrapErr ''getting signer: '' (secret_error e)), w')))"
proof -
  have kms: "SignWithConfigOpts env img cfg = SignOci env img (cfg_KmsURL cfg) cfg"
    "AttestWithConfigOpts env cfg img pt p = AttestOci env cfg img (cfg_KmsURL cfg) pt p"
    "GenerateSBOMWithConfigOpts env img pt cfg = GenerateSBOMforOCI env cfg (cfg_KmsURL cfg) img pt"
    if "cfg_SignerType cfg = KmsSigner"
    using that by (simp_all add: dispatch_defs config_constants)
  have signer: "SignerFromKeyOpts env ko False w = (Fail (secret_error e), w')"
    if "ko_KeyRef ko \<noteq> ''''" "sg_GetKeyPairSecret env (ko_KeyRef ko) w = (Fail e, w')" for ko w e w'
    using that by (simp add: SignerFromKeyOpts_def signerFromKeyRef_def cosignSeecretSigner_def
        secret_error_def go_wrap_def go_bind_def)
  have "SignOci env img (cfg_KmsURL cfg) cfg w = (Fail (WrapErr ''getting signer: '' (secret_error e)), w')"
    if "cfg_KmsURL cfg \<noteq> ''''" "sg_GetKeyPairSecret env (cfg_KmsURL cfg) w = (Fail e, w')" for w e w'
    using signer [of "SignOci_keyopts (SignOci_options (cfg_KmsURL cfg) cfg)"] that
    by (simp add: SignOci_def go_wrap_def go_bind_def Let_def)
  moreover have "AttestOci env cfg img (cfg_KmsURL cfg) pt p w =
      (Fail (WrapErr ''getting signer: '' (secret_error e)), w')"
    if "cfg_KmsURL cfg \<noteq> ''''" "rg_ParseReference env img = Inr ref" "ref_Digest ref = Some d"
      "CosignRemoteAuthOptsWithKeyChain env (cfg_AuthKeyChain cfg) w = (Ok opts, w1)"
      "sg_GetKeyPairSecret env (cfg_KmsURL cfg) w1 = (Fail e, w')" for ref d opts w w1 e w'
    using signer [of "ac_KeyOpts (AttestOci_command (AttestOci_options (cfg_KmsURL cfg) pt cfg))"] that
    by (simp add: AttestOci_def go_wrap_def go_bind_def go_of_def go_ret_def Let_def)
  ultimately show ?thesis using kms by (simp add: dispatch_defs)
qed

text \<open>A cluster whose key secret has gone.\<close>

definition secretless_env :: "(handle, sworld) ctrl_env" where
  "secretless_env = sample_env\<lparr>sg_GetKeyPairSecret := (\<lambda>url. go_fail (errors_New ''secret not found''))\<rparr>"

definition kms_config :: "handle config" where
  "kms_config = config_New ''rekor'' [signerKey \<mapsto> ''kms'', kmsURLKey \<mapsto> ''awskms:///k'']"

theorem kms_never_used_witness:
  "fst (SignWithConfigOpts secretless_env ''img@sha256:aa'' kms_config (sample_world (two_pods NodeSucceeded) False)) =
     Fail (WrapErr ''getting signer: '' (secret_error (errors_New ''secret not found'')))"
proof -
  let ?w = "sample_world (two_pods NodeSucceeded) False"
  have "cfg_SignerType kms_config = KmsSigner" "cfg_KmsURL kms_config \<noteq> ''''"
    by (simp_all add: kms_config_def config_New_def config_constants Let_def)
  moreover have "sg_GetKeyPairSecret secretless_env url ?w = (Fail (errors_New ''secret not found''), ?w)" for url
    by (simp add: secretless_env_def go_fail_def)
  ultimately have "SignWithConfigOpts secretless_env ''img@sha256:aa'' kms_config ?w =
      (Fail (WrapErr ''getting signer: '' (secret_error (errors_New ''secret not found''))), ?w)"
    using kms_never_used [where env = secretless_env and cfg = kms_config and img = "''img@sha256:aa''"] by blast
  then show ?thesis by simp
qed

text \<open>With the KMS signer and an empty URL, signing, attesting and SBOM generation all behave as with
  the keyless signer.\<close>

theorem kms_empty_url_is_keyless:
  assumes "cfg_SignerType cfg = KmsSigner" and "cfg_KmsURL cfg = ''''"
  shows "SignWithConfigOpts env img cfg = SignWithConfigOpts env img (cfg\<lparr>cfg_SignerType := FulcioSigner\<rparr>) \<and>
    AttestWithConfigOpts env cfg img pt p = AttestWithConfigOpts env (cfg\<lparr>cfg_SignerType := FulcioSigner\<rparr>) img pt p \<and>
    GenerateSBOMWithConfigOpts env img pt cfg =
      GenerateSBOMWithConfigOpts env img pt (cfg\<lparr>cfg_SignerType := FulcioSigner\<rparr>)"
  using signing.kms_empty_url [OF assms] attesting.kms_empty_url [OF assms]
    sbom_generation.kms_empty_url [OF assms]
  by blast

theorem kms_empty_url_is_keyless_witness:
  "let cfg = config_New ''rekor'' [signerKey \<mapsto> ''kms''] :: handle config
   in SignWithConfigOpts sample_env ''img'' cfg = SignWithConfigOpts sample_env ''img'' (cfg\<lparr>cfg_SignerType := FulcioSigner\<rparr>)"
proof -
  let ?cfg = "config_New ''rekor'' [signerKey \<mapsto> ''kms''] :: handle config"
  have "cfg_SignerType ?cfg = KmsSigner" "cfg_KmsURL ?cfg = ''''"
    by (simp_all add: config_New_def config_constants Let_def)
  from kms_empty_url_is_keyless [OF this, of sample_env] show ?thesis by (simp add: Let_def)
qed

text \<open>A signer type that is none of the three does nothing: all three operations return an error and
  leave the world as it was.\<close>

theorem unknown_signer_no_effect:
  assumes "cfg_SignerType cfg \<notin> {''cosign'', ''kms'', ''fulcio''}"
  shows "SignWithConfigOpts env img cfg w = (Fail (errors_New ''error occured while signing''), w) \<and>
    AttestWithConfigOpts env cfg img pt p w = (Fail (errors_New ''error occured while attesting''), w) \<and>
    GenerateSBOMWithConfigOpts env img pt cfg w =
      (Fail (errors_New ''error occured while generating SBOM''), w)"
  using assms by (simp add: dispatch_defs config_constants go_fail_def)

theorem unknown_signer_no_effect_witness:
  "let cfg = config_New ''rekor'' [signerKey \<mapsto> ''gpg''] :: handle config;
       w = sample_world (two_pods NodeSucceeded) False
   in SignWithConfigOpts sample_env ''img'' cfg w = (Fail (errors_New ''error occured while signing''), w)"
proof -
  have "cfg_SignerType (config_New ''rekor'' [signerKey \<mapsto> ''gpg''] :: handle config)
      \<notin> {''cosign'', ''kms'', ''fulcio''}"
    by (simp add: config_New_def config_constants Let_def)
  from unknown_signer_no_effect [OF this, of sample_env "''img''" "sample_world (two_pods NodeSucceeded) False"] show ?thesis by (simp add: Let_def)
qed

text \<open>The signer that signing obtained is closed on every outcome, and closing it is the last effect.\<close>

theorem signer_closed:
  assumes "SignerFromKeyOpts env (SignOci_keyopts (SignOci_options keyRef cfg)) False w = (Ok sv, w1)"
  shows "\<exists>w2. snd (SignOci env img keyRef cfg w) = snd (sg_Close env sv w2)"
  using assms
  by (auto simp: SignOci_def Let_def go_bind_def go_wrap_def go_defer_def split: prod.splits)

text \<open>An environment in which closing a signer is visible.\<close>

definition closing_env :: "(handle, sworld) ctrl_env" where
  "closing_env = sample_env\<lparr>sg_Close := \<lambda>sv w. (Ok (), w\<lparr>sw_refuses := True\<rparr>)\<rparr>"

theorem signer_closed_witness:
  "let w = sample_world (two_pods NodeSucceeded) False
   in sw_refuses (snd (SignOci closing_env ''img'' DefaultSecretKey (config_New ''rekor'' Map.empty) w))"
proof -
  let ?w = "sample_world (two_pods NodeSucceeded) False"
  let ?cfg = "config_New ''rekor'' Map.empty :: handle config"
  let ?s = "SignerFromKeyOpts closing_env (SignOci_keyopts (SignOci_options DefaultSecretKey ?cfg)) False ?w"
  have "fst ?s = Ok \<lparr>sv_SignerVerifier = Some Opaque, sv_Cert = None, sv_Chain = None\<rparr>" by code_simp
  then have "?s = (Ok \<lparr>sv_SignerVerifier = Some Opaque, sv_Cert = None, sv_Chain = None\<rparr>, snd ?s)"
    by (simp add: prod_eq_iff)
  from signer_closed [OF this, of "''img''"] show ?thesis
    by (auto simp: closing_env_def)
qed

section \<open>Configuration and keychain\<close>

definition any_case_true :: "string \<Rightarrow> bool" where
  "any_case_true s \<longleftrightarrow>
     (\<exists>a b c d. s = [a, b, c, d] \<and> a \<in> {CHR ''t'', CHR ''T''} \<and> b \<in> {CHR ''r'', CHR ''R''} \<and>
        c \<in> {CHR ''u'', CHR ''U''} \<and> d \<in> {CHR ''e'', CHR ''E''})"

text \<open>The settings. A missing key gives the default (the secret's key pair, no KMS URL, no
  transparency, the default log, no SBOM); the two switches are on for exactly the capitalisations of
  \<open>true\<close>, and an empty log URL counts as missing.\<close>

theorem config_New_settings:
  "let cfg = config_New url data
   in cfg_SignerType cfg = (case data ''artifacts.signer'' of None \<Rightarrow> ''cosign'' | Some s \<Rightarrow> s) \<and>
      cfg_KmsURL cfg = (case data ''kms.kmsref'' of None \<Rightarrow> '''' | Some s \<Rightarrow> s) \<and>
      cfg_Transparency cfg =
        (case data ''signer.transparency.enabled'' of None \<Rightarrow> False | Some s \<Rightarrow> any_case_true s) \<and>
      cfg_TransparencyURL cfg =
        (case data ''signer.transparency.url'' of None \<Rightarrow> url | Some s \<Rightarrow> if s = '''' then url else s) \<and>
      cfg_SbomGeneration cfg =
        (case data ''sbom.generation.enabled'' of None \<Rightarrow> False | Some s \<Rightarrow> any_case_true s) \<and>
      cfg_AuthKeyChain cfg = None"
  unfolding any_case_true_def ToLower_true [symmetric]
  by (simp add: config_New_def config_constants Let_def split: option.split)

text \<open>What a namespace contributes to the pull secrets.\<close>

fun listed :: "'a list result \<Rightarrow> 'a list" where
  "listed (Ok ss) = ss"
| "listed (Fail e) = []"
| "listed (Panic m) = []"

text \<open>C32: The keychain consists of the five providers' keychains and, last, one made of the pull secrets of
  the controller's namespace followed by those of the workflow's, if there are any and a keychain can be
  made of them; if not, of the five alone. A namespace whose secrets cannot be listed counts as having
  none, and no failure is returned. (A listing panics when there is no client.)\<close>

theorem keychain_of_namespaces:
  assumes "getNamespacedSecrets env c ns ociSecretSelector w = (r1, w1)" and "\<And>m. r1 \<noteq> Panic m"
    and "getNamespacedSecrets env c wns ociSecretSelector w1 = (r2, w2)" and "\<And>m. r2 \<noteq> Panic m"
  shows "GetAuthnKeychain env c ns wns w =
    (let base = [au_DefaultKeychain env, au_GoogleKeychain env, au_EcrKeychain env,
                 au_AzureAcrKeychain env, au_AlibabaAcrKeychain env];
         secrets = listed r1 @ listed r2
     in if secrets = [] then (Ok (au_NewMultiKeychain env base), w2)
        else (case au_NewFromPullSecrets env secrets w2 of
                (Ok a, w') \<Rightarrow> (Ok (au_NewMultiKeychain env (base @ [a])), w')
              | (Fail e, w') \<Rightarrow> (Ok (au_NewMultiKeychain env base), w')
              | (Panic m, w') \<Rightarrow> (Panic m, w')))"
proof -
  have "collect_secrets env c [ns, wns] [] w = (Ok (listed r1 @ listed r2), w2)"
  proof -
    from assms(2,4) have "(\<exists>ss. r1 = Ok ss) \<or> (\<exists>e. r1 = Fail e)" "(\<exists>ss. r2 = Ok ss) \<or> (\<exists>e. r2 = Fail e)"
      by (cases r1; cases r2; blast)+
    with assms(1,3) show ?thesis by (auto simp: go_catch_def go_ret_def)
  qed
  then show ?thesis
    by (simp add: GetAuthnKeychain_def getAuthFromSecrets_def go_catch_def go_bind_def go_ret_def
        go_fail_def Let_def del: collect_secrets.simps split: prod.split result.split)
qed

text \<open>A cluster in which the secrets of the controller's namespace cannot be listed and the workflow's
  namespace has one.\<close>

definition pull_secret :: secret where "pull_secret = \<lparr>sec_Name = ''pull'', sec_Data = []\<rparr>"

definition pull_secrets_env :: "(handle, sworld) ctrl_env" where
  "pull_secrets_env = sample_env\<lparr>
     au_Secrets_List := (\<lambda>c ns sel. if ns = ''ns'' then go_ret [pull_secret] else go_fail (errors_New ''forbidden'')),
     au_NewFromPullSecrets := (\<lambda>ss. go_ret (if ss = [pull_secret] then Signature ''pull'' '''' else Opaque)),
     au_NewMultiKeychain := last\<rparr>"

theorem keychain_of_namespaces_witness:
  "let w = sample_world (two_pods NodeSucceeded) False
   in GetAuthnKeychain pull_secrets_env (Some Opaque) ''argo-slsa'' ''ns'' w = (Ok (Signature ''pull'' ''''), w)"
proof -
  let ?w = "sample_world (two_pods NodeSucceeded) False"
  let ?list = "\<lambda>ns. getNamespacedSecrets pull_secrets_env (Some Opaque) ns ociSecretSelector ?w"
  obtain e where r1: "?list ''argo-slsa'' = (Fail e, ?w)"
    by (simp add: getNamespacedSecrets_def on_client_def pull_secrets_env_def go_wrap_def go_fail_def)
  have r2: "?list ''ns'' = (Ok [pull_secret], ?w)"
    by (simp add: getNamespacedSecrets_def on_client_def pull_secrets_env_def go_wrap_def go_ret_def)
  from keychain_of_namespaces [OF r1 _ r2] show ?thesis
    by (simp add: Let_def pull_secrets_env_def go_ret_def)
qed

section \<open>SBOM\<close>

text \<open>What one pass over the platforms returns: every platform was tried, in order, and the flag says
  whether one of them failed.\<close>

lemma sbom_platforms_Ok:
  assumes "sbom_platforms env cfg keyRef oci pt failed ds w = (Ok f, w')"
  shows "\<exists>fs ws. length fs = length ds \<and> f = (failed \<or> True \<in> set fs) \<and>
    length ws = length ds \<and> last (w # ws) = w' \<and>
    (\<forall>i < length ds. sbom_platform env cfg keyRef oci pt (ds ! i) ((w # ws) ! i) = (Ok (fs ! i), ws ! i))"
  using assms
proof (induction ds arbitrary: failed w)
  case Nil
  then show ?case by (simp add: go_ret_def)
next
  case (Cons d ds)
  then obtain b w1 where b: "sbom_platform env cfg keyRef oci pt d w = (Ok b, w1)"
    and rest: "sbom_platforms env cfg keyRef oci pt (failed \<or> b) ds w1 = (Ok f, w')"
    by (auto simp: go_bind_Ok)
  from Cons.IH [OF rest] obtain fs ws where fs: "length fs = length ds" "f = ((failed \<or> b) \<or> True \<in> set fs)"
    "length ws = length ds" "last (w1 # ws) = w'"
    "\<forall>i < length ds. sbom_platform env cfg keyRef oci pt (ds ! i) ((w1 # ws) ! i) = (Ok (fs ! i), ws ! i)"
    by blast
  have "sbom_platform env cfg keyRef oci pt ((d # ds) ! i) ((w # w1 # ws) ! i) =
      (Ok ((b # fs) ! i), (w1 # ws) ! i)"
    if "i < length (d # ds)" for i
    using that b fs(5) by (cases i) auto
  with fs(1-4) show ?case by (intro exI [of _ "b # fs"] exI [of _ "w1 # ws"]) auto
qed

lemma sbom_platforms_no_Fail:
  assumes "\<And>p w e w'. sb_Platform_String env p w \<noteq> (Fail e, w')"
  shows "sbom_platforms env cfg keyRef oci pt failed ds w \<noteq> (Fail e, w')"
proof (induction ds arbitrary: failed w)
  case (Cons d ds)
  have "sbom_platform env cfg keyRef oci pt d w \<noteq> (Fail e, w')" for w
    using assms
    by (auto simp: sbom_platform_def go_catch_def go_bind_def go_ret_def go_of_def go_fail_def Let_def
        split: sum.splits prod.splits result.splits)
  with Cons.IH show ?case by (auto simp: go_bind_Fail)
qed (simp add: go_ret_def)

text \<open>C27: For an image whose manifest is a Docker manifest list the SBOM step tries every platform of the
  list, in order and each in the world the one before has left, also after one has failed, and unless a
  panic ends it, it succeeds exactly when none of them failed. The hypothesis on \<open>Platform.String\<close> is
  its type: it returns no error.\<close>

theorem sbom_all_platforms:
  assumes "\<And>p w e w'. sb_Platform_String env p w \<noteq> (Fail e, w')"
    and "sb_crane_Manifest env oci (cfg_AuthKeyChain cfg) w = (Ok manifest, w1)"
    and "sb_json_Unmarshal_index env manifest = Inr im"
    and "im_MediaType im = sb_DockerManifestList env"
    and "GenerateSBOMforOCI env cfg keyRef oci pt w = (r, w')" and "\<And>m. r \<noteq> Panic m"
  shows "\<exists>fs ws. length fs = length (im_Manifests im) \<and> length ws = length fs \<and>
    (\<forall>i < length fs.
       sbom_platform env cfg keyRef oci pt (im_Manifests im ! i) ((w1 # ws) ! i) = (Ok (fs ! i), ws ! i)) \<and>
    last (w1 # ws) = w' \<and>
    r = (if True \<in> set fs then Fail (errors_New ''failed to generate SBOM for all platforms'') else Ok ())"
proof -
  obtain rp w2 where ps: "sbom_platforms env cfg keyRef oci pt False (im_Manifests im) w1 = (rp, w2)"
    by fastforce
  have run: "GenerateSBOMforOCI env cfg keyRef oci pt w =
      go_bind (sbom_platforms env cfg keyRef oci pt False (im_Manifests im)) (\<lambda>failed.
        if failed then go_fail (errors_New ''failed to generate SBOM for all platforms'')
        else go_ret ()) w1"
    using assms(2-4)
    by (simp add: GenerateSBOMforOCI_def GetManifest_def checkIfMultiMlatformImage_def go_bind_def
        go_wrap_def go_of_def go_ret_def)
  show ?thesis
  proof (cases rp)
    case (Ok f)
    from sbom_platforms_Ok [OF ps [unfolded Ok]] obtain fs ws where "length fs = length (im_Manifests im)"
      "f = (True \<in> set fs)" "length ws = length (im_Manifests im)" "last (w1 # ws) = w2"
      "\<forall>i < length (im_Manifests im).
         sbom_platform env cfg keyRef oci pt (im_Manifests im ! i) ((w1 # ws) ! i) = (Ok (fs ! i), ws ! i)"
      by auto
    moreover have "r = (if f then Fail (errors_New ''failed to generate SBOM for all platforms'') else Ok ())"
      "w' = w2"
      using run ps Ok assms(5) by (auto simp: go_bind_def go_fail_def go_ret_def split: if_splits)
    ultimately show ?thesis by (intro exI [of _ fs] exI [of _ ws]) simp
  next
    case (Fail e)
    with ps sbom_platforms_no_Fail [OF assms(1)] show ?thesis by blast
  next
    case (Panic m)
    with run ps assms(5,6) show ?thesis by (auto simp: go_bind_def)
  qed
qed

theorem sbom_all_platforms_witness:
  "let w = sample_world (two_pods NodeSucceeded) True; cfg = config_New ''rekor'' Map.empty;
       r = fst (GenerateSBOMforOCI sample_env cfg DefaultSecretKey ''img@sha256:aa'' ''t'' w)
   in \<exists>fs. length fs = 2 \<and> True \<in> set fs \<and>
     r = Fail (errors_New ''failed to generate SBOM for all platforms'')"
proof -
  let ?w = "sample_world (two_pods NodeSucceeded) True"
  let ?cfg = "config_New ''rekor'' Map.empty :: handle config"
  let ?r = "GenerateSBOMforOCI sample_env ?cfg DefaultSecretKey ''img@sha256:aa'' ''t'' ?w"
  let ?im = "\<lparr>im_MediaType = ''list'', im_Manifests =
      [\<lparr>mf_Digest = ''d1'', mf_Platform = None\<rparr>, \<lparr>mf_Digest = ''d2'', mf_Platform = None\<rparr>]\<rparr> :: handle index_manifest"
  have failed: "fst ?r = Fail (errors_New ''failed to generate SBOM for all platforms'')" by code_simp
  have env: "sb_Platform_String sample_env p v \<noteq> (Fail e, v')"
    "sb_crane_Manifest sample_env oci kc v = (Ok oci, v)"
    "sb_json_Unmarshal_index sample_env b = Inr ?im" "im_MediaType ?im = sb_DockerManifestList sample_env"
    for p v e v' oci kc b
    by (simp_all add: sample_env_def go_ret_def)
  from sbom_all_platforms [OF env(1) env(2) env(3,4) prod.collapse [symmetric],
      of ?cfg DefaultSecretKey "''img@sha256:aa''" "''t''" ?w]
  show ?thesis using failed by (auto simp: Let_def numeral_2_eq_2 split: if_splits)
qed

section \<open>Attestation\<close>

lemma attest_payload_Inr:
  "attest_payload env pt hex repo predicate = Inr payload \<longleftrightarrow>
     (if HasPrefix pt ''slsa'' then payload = predicate
      else \<exists>sh. at_GenerateStatement env predicate pt hex repo = Inr sh \<and> at_json_Marshal env sh = Inr payload)"
  by (auto simp: attest_payload_def split: sum.splits)

lemma AttestOci_record [simp]:
  "\<not> ac_RecordCreationTimestamp (AttestOci_command (AttestOci_options k pt cfg))"
  by (simp add: AttestOci_command_def AttestOci_options_def)

text \<open>The options of the attestation that is made, and the upload to the log.\<close>

definition attestation_options ::
  "('h, 'w, 'z) attest_env_scheme \<Rightarrow> 'h signer_verifier \<Rightarrow> string \<Rightarrow> 'h static_option list \<Rightarrow>
   'h static_option list" where
  "attestation_options env sv ptype tlog =
     [WithLayerMediaType (at_DssePayloadType env)]
     @ (case sv_Cert sv of None \<Rightarrow> [] | Some ce \<Rightarrow> [WithCertChain ce (sv_Chain sv)])
     @ [WithAnnotations [(''predicateType'', ptype)]] @ tlog"

lemma AttestOci_Ok:
  assumes "AttestOci env cfg img keyRef pt predicate w = (Ok info, w')"
  shows "\<exists>ref digest sv payload envelope ptype tlogOpts tlogInfo att newSE ro w1 w2 w3 w4 w5 w6.
    rg_ParseReference env img = Inr ref \<and> ref_Digest ref = Some digest \<and>
    CosignRemoteAuthOptsWithKeyChain env (cfg_AuthKeyChain cfg) w = (Ok ro, w1) \<and>
    SignerFromKeyOpts env (ac_KeyOpts (AttestOci_command (AttestOci_options keyRef pt cfg))) False w1 =
      (Ok sv, w2) \<and>
    attest_payload env pt (case at_NewHash env (ref_Identifier ref) of Inl _ \<Rightarrow> '''' | Inr h \<Rightarrow> h)
      (ref_Repository ref) predicate = Inr payload \<and>
    at_dsse_SignMessage env sv (at_IntotoPayloadType env) payload w2 = (Ok envelope, w3) \<and>
    at_ParsePredicateType env pt = Inr ptype \<and>
    attest_tlog env (AttestOci_command (AttestOci_options keyRef pt cfg)) sv envelope w3 =
      (Ok (tlogOpts, tlogInfo), w4) \<and>
    at_NewAttestation env envelope (attestation_options env sv ptype tlogOpts) = Inr att \<and>
    at_AttachAttestationToEntity env (sg_SignedUnknown env ref ro) att (sg_NewDupeDetector env sv) False w4 =
      (Ok newSE, w5) \<and>
    at_WriteAttestations env (ref_Repository ref) newSE ro w5 = (Ok (), w6) \<and>
    w' = snd (sg_Close env sv w6) \<and> info = [''reference'', img, ''predicate type'', pt] @ tlogInfo"
  using assms
  by (auto simp: AttestOci_def attestation_options_def Let_def go_inv split: if_splits prod.splits)

lemma attest_tlog_Ok:
  assumes "attest_tlog env c sv envelope w = (Ok (opts, info), w')"
  shows "if ac_TlogUpload c then
      \<exists>rekorBytes rc entry i w1 w2. at_sv_Bytes env sv w = (Ok rekorBytes, w1) \<and>
        sg_rekor_NewClient env (ko_RekorURL (ac_KeyOpts c)) w1 = (Ok rc, w2) \<and>
        at_TLogUploadDSSEEnvelope env rc envelope rekorBytes w2 = (Ok entry, w') \<and>
        at_LogIndex env entry = Some i \<and> opts = [WithBundle (ce_EntryToBundle env entry)] \<and>
        info = [''tlog uploaded to'', ko_RekorURL (ac_KeyOpts c), ''tlog entry created with index'', fmt_d i]
    else opts = [] \<and> info = [] \<and> w' = w"
  using assms
  by (auto simp: attest_tlog_def attest_uploadToTlog_def Let_def go_inv split: if_splits option.splits) metis

text \<open>C12: When attesting an image succeeds, the bytes that were signed as a DSSE envelope are the predicate
  itself for the SLSA predicate types, which already are whole statements, and otherwise the statement
  generated around it for the image's digest and repository; they were signed by the signer obtained
  for the key. The signed envelope is made into an attestation, attached to the image and written to
  its repository, and the signer is closed last. With transparency the same envelope was uploaded to
  the log of the configured URL, the attestation carries the bundle of the log's entry, and the lines
  returned end with the URL and the index.\<close>

theorem attested_image_published:
  assumes "AttestOci env cfg img keyRef pt predicate w = (Ok info, w')"
  shows "\<exists>ref digest sv hex payload envelope ptype tlog lines att newSE ro w1 w2 w3 w4 w5 w6.
    rg_ParseReference env img = Inr ref \<and> ref_Digest ref = Some digest \<and>
    SignerFromKeyOpts env (ac_KeyOpts (AttestOci_command (AttestOci_options keyRef pt cfg))) False w1 =
      (Ok sv, w2) \<and>
    hex = (case at_NewHash env (ref_Identifier ref) of Inl _ \<Rightarrow> '''' | Inr h \<Rightarrow> h) \<and>
    (if HasPrefix pt ''slsa'' then payload = predicate
     else \<exists>sh. at_GenerateStatement env predicate pt hex (ref_Repository ref) = Inr sh \<and>
       at_json_Marshal env sh = Inr payload) \<and>
    at_dsse_SignMessage env sv (at_IntotoPayloadType env) payload w2 = (Ok envelope, w3) \<and>
    (if cfg_Transparency cfg then
       \<exists>rekorBytes rc entry i wa wb. at_sv_Bytes env sv w3 = (Ok rekorBytes, wa) \<and>
         sg_rekor_NewClient env (cfg_TransparencyURL cfg) wa = (Ok rc, wb) \<and>
         at_TLogUploadDSSEEnvelope env rc envelope rekorBytes wb = (Ok entry, w4) \<and>
         at_LogIndex env entry = Some i \<and> tlog = [WithBundle (ce_EntryToBundle env entry)] \<and>
         lines = [''tlog uploaded to'', cfg_TransparencyURL cfg, ''tlog entry created with index'', fmt_d i]
     else tlog = [] \<and> lines = [] \<and> w4 = w3) \<and>
    at_NewAttestation env envelope (attestation_options env sv ptype tlog) = Inr att \<and>
    at_AttachAttestationToEntity env (sg_SignedUnknown env ref ro) att (sg_NewDupeDetector env sv) False w4 =
      (Ok newSE, w5) \<and>
    at_WriteAttestations env (ref_Repository ref) newSE ro w5 = (Ok (), w6) \<and>
    w' = snd (sg_Close env sv w6) \<and> info = [''reference'', img, ''predicate type'', pt] @ lines"
proof -
  let ?c = "AttestOci_command (AttestOci_options keyRef pt cfg)"
  from AttestOci_Ok [OF assms] obtain ref digest sv payload envelope ptype tlog lines att newSE ro
    w1 w2 w3 w4 w5 w6 where
    facts: "rg_ParseReference env img = Inr ref" "ref_Digest ref = Some digest"
      "SignerFromKeyOpts env (ac_KeyOpts ?c) False w1 = (Ok sv, w2)"
      "at_dsse_SignMessage env sv (at_IntotoPayloadType env) payload w2 = (Ok envelope, w3)"
      "at_NewAttestation env envelope (attestation_options env sv ptype tlog) = Inr att"
      "at_AttachAttestationToEntity env (sg_SignedUnknown env ref ro) att (sg_NewDupeDetector env sv) False w4 =
        (Ok newSE, w5)"
      "at_WriteAttestations env (ref_Repository ref) newSE ro w5 = (Ok (), w6)"
      "w' = snd (sg_Close env sv w6)" "info = [''reference'', img, ''predicate type'', pt] @ lines" and
    payload: "attest_payload env pt (case at_NewHash env (ref_Identifier ref) of Inl _ \<Rightarrow> '''' | Inr h \<Rightarrow> h)
      (ref_Repository ref) predicate = Inr payload" and
    log: "attest_tlog env ?c sv envelope w3 = (Ok (tlog, lines), w4)" by blast
  have uploaded: "if cfg_Transparency cfg then
       \<exists>rekorBytes rc entry i wa wb. at_sv_Bytes env sv w3 = (Ok rekorBytes, wa) \<and>
         sg_rekor_NewClient env (cfg_TransparencyURL cfg) wa = (Ok rc, wb) \<and>
         at_TLogUploadDSSEEnvelope env rc envelope rekorBytes wb = (Ok entry, w4) \<and>
         at_LogIndex env entry = Some i \<and> tlog = [WithBundle (ce_EntryToBundle env entry)] \<and>
         lines = [''tlog uploaded to'', cfg_TransparencyURL cfg, ''tlog entry created with index'', fmt_d i]
     else tlog = [] \<and> lines = [] \<and> w4 = w3"
    using attest_tlog_Ok [OF log] unfolding AttestOci_command_used .
  show ?thesis
    by (intro exI conjI) (rule facts refl payload [unfolded attest_payload_Inr] uploaded)+
qed

text \<open>With transparency: the statement is written as it is, and the log's index is reported.\<close>

theorem attested_image_published_witness:
  "let cfg = (config_New ''rekor'' Map.empty)\<lparr>cfg_Transparency := True\<rparr>;
       (r, w') = AttestOci sample_env cfg ''img@sha256:aa'' DefaultSecretKey ''slsaprovenance1'' ''statement''
         (sample_world (two_pods NodeSucceeded) False)
   in sw_attested w' = [''r.io/img''] \<and>
      (\<exists>envelope sv w2 w3 i. r = Ok [''reference'', ''img@sha256:aa'', ''predicate type'', ''slsaprovenance1'',
           ''tlog uploaded to'', ''rekor'', ''tlog entry created with index'', fmt_d i] \<and>
         at_dsse_SignMessage sample_env sv (at_IntotoPayloadType sample_env) ''statement'' w2 = (Ok envelope, w3))"
proof -
  let ?cfg = "(config_New ''rekor'' Map.empty)\<lparr>cfg_Transparency := True\<rparr> :: handle config"
  let ?r = "AttestOci sample_env ?cfg ''img@sha256:aa''
       DefaultSecretKey ''slsaprovenance1'' ''statement'' (sample_world (two_pods NodeSucceeded) False)"
  have h: "case fst ?r of Ok x \<Rightarrow> True | Fail e \<Rightarrow> False | Panic m \<Rightarrow> False"
    "sw_attested (snd ?r) = [''r.io/img'']" by code_simp+
  then obtain info where "fst ?r = Ok info" by (auto split: result.splits)
  then have run: "?r = (Ok info, snd ?r)" by (simp add: prod_eq_iff)
  have cfg: "cfg_Transparency ?cfg" "cfg_TransparencyURL ?cfg = ''rekor''"
    by (simp_all add: config_New_def Let_def)
  have slsa: "HasPrefix ''slsaprovenance1'' ''slsa''" by code_simp
  from attested_image_published [OF run, unfolded if_P [OF cfg(1)] if_P [OF slsa] cfg(2)] run h(2)
  show ?thesis unfolding Let_def split_beta by (elim exE conjE) auto
qed

section \<open>Provenance\<close>

text \<open>C28: Generating the provenance deletes from the workflow in memory, and from nothing else of it, the
  labels and annotations that start with \<open>argo.slsa.io/\<close>, the enabling label excepted. It does so
  unless the first stage, the run details, fails: also when a later stage fails.\<close>

theorem provenance_strips_workflow:
  "let wflow' = snd (GenerateSlsaV1Provenance env subjects wflow);
       kept = (\<lambda>m key. if HasPrefix key ''argo.slsa.io/'' \<and> key \<noteq> ''argo.slsa.io/enable'' then None
                      else gm_lookup m key)
   in (case ConstrunctWorkflowRunDetails env wflow of
         Inl e \<Rightarrow> wflow' = wflow
       | Inr d \<Rightarrow>
           gm_lookup (m_labels wflow') = kept (m_labels wflow) \<and>
           gm_lookup (m_annotations wflow') = kept (m_annotations wflow)) \<and>
      wflow'\<lparr>m_labels := m_labels wflow, m_annotations := m_annotations wflow\<rparr> = wflow"
proof (cases "ConstrunctWorkflowRunDetails env wflow")
  case (Inl e)
  then show ?thesis
    by (simp add: GenerateSlsaV1Provenance_def go_bind_def go_of_def go_fail_def Let_def)
next
  case (Inr d)
  obtain r wflow' where build: "ConstrunctWorkflowBuildDefinition env wflow = (r, wflow')" by fastforce
  note stripped = ConstrunctWorkflowBuildDefinition_state [OF build]
  have "snd (GenerateSlsaV1Provenance env subjects wflow) = strip_slsa_info wflow"
    using build stripped Inr
    by (cases r) (auto simp: GenerateSlsaV1Provenance_def go_bind_def go_of_def go_fail_def go_ret_def
        split: sum.splits)
  moreover have "(strip_slsa_info wflow)\<lparr>m_labels := m_labels wflow, m_annotations := m_annotations wflow\<rparr> = wflow"
    by (simp add: strip_slsa_info_def)
  ultimately show ?thesis
    by (simp add: Inr Let_def fun_eq_iff removeArgoSlsaInfo_lookup slsa_info_key_def slsa_prefix_def
        slsa_enable_def)
qed

text \<open>A generation whose last stage, the marshalling of the statement, fails.\<close>

definition unmarshalled_env :: "(handle, sworld) ctrl_env" where
  "unmarshalled_env = sample_env\<lparr>pv_protojson_Marshal_statement := (\<lambda>st. Inl (errors_New ''invalid UTF-8''))\<rparr>"

theorem provenance_strips_workflow_witness:
  "let wflow = (two_pods NodeSucceeded)\<lparr>m_labels := Some
         [''argo.slsa.io/enable'' \<mapsto> ''true'', ''argo.slsa.io/status'' \<mapsto> ''In-Progress'', ''app'' \<mapsto> ''x'']\<rparr>;
       (r, wflow') = GenerateSlsaV1Provenance unmarshalled_env [] wflow
   in r = Fail (errors_New ''invalid UTF-8'') \<and>
      gm_lookup (m_labels wflow') ''argo.slsa.io/status'' = None \<and>
      gm_lookup (m_labels wflow') ''argo.slsa.io/enable'' = Some ''true'' \<and>
      gm_lookup (m_labels wflow') ''app'' = Some ''x''"
proof -
  let ?wf = "(two_pods NodeSucceeded)\<lparr>m_labels := Some
         [''argo.slsa.io/enable'' \<mapsto> ''true'', ''argo.slsa.io/status'' \<mapsto> ''In-Progress'', ''app'' \<mapsto> ''x'']\<rparr>"
  let ?r = "GenerateSlsaV1Provenance unmarshalled_env [] ?wf"
  have r: "fst ?r = Fail (errors_New ''invalid UTF-8'')" by code_simp
  obtain d where "ConstrunctWorkflowRunDetails unmarshalled_env ?wf = Inr d"
  proof -
    have "isl (ConstrunctWorkflowRunDetails unmarshalled_env ?wf) = False" by code_simp
    with that show thesis by (cases "ConstrunctWorkflowRunDetails unmarshalled_env ?wf") auto
  qed
  with provenance_strips_workflow [of unmarshalled_env "[]" ?wf]
  have "gm_lookup (m_labels (snd ?r)) key =
      (if HasPrefix key ''argo.slsa.io/'' \<and> key \<noteq> ''argo.slsa.io/enable'' then None
       else gm_lookup (m_labels ?wf) key)" for key
    by (simp add: Let_def)
  with r show ?thesis by (simp add: Let_def split_beta HasPrefix_def)
qed

lemma ConstrunctWorkflowBuildDefinition_strip:
  "fst (ConstrunctWorkflowBuildDefinition env (strip_slsa_info wflow)) =
     fst (ConstrunctWorkflowBuildDefinition env wflow)"
  by (simp add: ConstrunctWorkflowBuildDefinition_def GetInternalParams_run go_bind_def go_of_def
      go_ret_def go_fail_def GetExternalParams_def GetResolvedDependencies_def split: sum.splits)

text \<open>C29: Every pod of a workflow gets the same provenance document: generating it again from the workflow
  that the first generation left in memory gives the same result, document or error.\<close>

theorem provenance_repeatable:
  "let (r, wflow') = GenerateSlsaV1Provenance env subjects wflow
   in fst (GenerateSlsaV1Provenance env subjects wflow') = r"
proof -
  obtain r wflow' where run: "GenerateSlsaV1Provenance env subjects wflow = (r, wflow')" by fastforce
  have details: "ConstrunctWorkflowRunDetails env (strip_slsa_info wflow) =
      ConstrunctWorkflowRunDetails env wflow"
    unfolding ConstrunctWorkflowRunDetails_def
    by (simp only: GetByproducts_def GetMetadata_def strip_slsa_info_sel)
  obtain rb wb where bd: "ConstrunctWorkflowBuildDefinition env wflow = (rb, wb)" by fastforce
  obtain rb' wb' where bd': "ConstrunctWorkflowBuildDefinition env (strip_slsa_info wflow) = (rb', wb')"
    by fastforce
  have rb': "rb' = rb" using ConstrunctWorkflowBuildDefinition_strip [of env wflow] bd bd' by simp
  have "fst (GenerateSlsaV1Provenance env subjects (strip_slsa_info wflow)) =
      fst (GenerateSlsaV1Provenance env subjects wflow)"
    using bd bd' details rb'
    by (cases rb) (simp_all add: GenerateSlsaV1Provenance_def go_bind_def go_of_def go_ret_def go_fail_def
        split: sum.splits)
  with GenerateSlsaV1Provenance_state [OF run] run show ?thesis by auto
qed

lemma foldl_params_find:
  "foldl (\<lambda>m p. m(par_Name p \<mapsto> f p)) m ps key =
     (case find (\<lambda>p. par_Name p = key) (rev ps) of None \<Rightarrow> m key | Some p \<Rightarrow> Some (f p))"
  by (induction ps rule: rev_induct) auto

text \<open>The external parameters of the provenance: of several parameters of one name the last one counts,
  and the entry \<open>runSpec\<close> is always the whole spec, so a parameter of that name is lost.\<close>

theorem external_params:
  "GetExternalParams wflow key =
     (if key = ''runSpec'' then Some (AnySpec (wf_Spec wflow))
      else map_option (\<lambda>p. AnyStringPtr (par_Value p))
        (find (\<lambda>p. par_Name p = key) (rev (spec_parameters (wf_Spec wflow)))))"
  by (simp add: GetExternalParams_def foldl_params_find split: option.splits)

text \<open>The byproducts of the provenance are the workflow's output artifacts and then its output
  parameters, in order, each under its prefixed name with the JSON of the whole entry; the generation
  fails exactly when one of them cannot be marshalled.\<close>

theorem byproducts_of_outputs:
  "(case GetByproducts env wflow of
      Inr bps \<Rightarrow> (case wf_Outputs wflow of
          None \<Rightarrow> bps = []
        | Some outs \<Rightarrow>
            map rd_Name bps = map (\<lambda>a. ''workflow-artifact/'' @ art_Name a) (out_Artifacts outs) @
              map (\<lambda>p. ''workflow-parameter/'' @ par_Name p) (out_Parameters outs) \<and>
            map (\<lambda>bp. Inr (rd_Content bp)) bps = map (pv_json_Marshal_artifact env) (out_Artifacts outs) @
              map (pv_json_Marshal_parameter env) (out_Parameters outs))
    | Inl e \<Rightarrow> (\<exists>outs. wf_Outputs wflow = Some outs \<and>
        ((\<exists>a \<in> set (out_Artifacts outs). isl (pv_json_Marshal_artifact env a)) \<or>
         (\<exists>p \<in> set (out_Parameters outs). isl (pv_json_Marshal_parameter env p)))))"
proof (cases "wf_Outputs wflow")
  case None
  then show ?thesis by (simp add: GetByproducts_def)
next
  case (Some outs)
  let ?arts = "byproducts_of (pv_json_Marshal_artifact env) (\<lambda>key. ''workflow-artifact/'' @ art_Name key)
    (out_Artifacts outs) []"
  show ?thesis
  proof (cases ?arts)
    case (Inl e)
    then have "\<exists>e. ?arts = Inl e" by blast
    then have "\<exists>a \<in> set (out_Artifacts outs). isl (pv_json_Marshal_artifact env a)"
      unfolding byproducts_of_Inl by (force simp: isl_def)
    with Inl Some show ?thesis by (simp add: GetByproducts_def)
  next
    case (Inr bps1)
    let ?params = "byproducts_of (pv_json_Marshal_parameter env)
      (\<lambda>key. ''workflow-parameter/'' @ par_Name key) (out_Parameters outs) bps1"
    show ?thesis
    proof (cases ?params)
      case (Inl e)
      then have "\<exists>e. ?params = Inl e" by blast
      then have "\<exists>p \<in> set (out_Parameters outs). isl (pv_json_Marshal_parameter env p)"
        unfolding byproducts_of_Inl by (force simp: isl_def)
      with Inl Inr Some show ?thesis by (simp add: GetByproducts_def)
    next
      case params: (Inr bps)
      have run: "GetByproducts env wflow = Inr bps"
        using Some Inr params by (simp add: GetByproducts_def)
      from byproducts_of_Inr [OF Inr, unfolded append_Nil] have arts:
        "map rd_Name bps1 = map (\<lambda>a. ''workflow-artifact/'' @ art_Name a) (out_Artifacts outs)"
        "map (\<lambda>bp. Inr (rd_Content bp)) bps1 = map (pv_json_Marshal_artifact env) (out_Artifacts outs)"
        by blast+
      from byproducts_of_Inr [OF params] obtain ys where
        "bps = bps1 @ ys"
        "map rd_Name ys = map (\<lambda>p. ''workflow-parameter/'' @ par_Name p) (out_Parameters outs)"
        "map (\<lambda>bp. Inr (rd_Content bp)) ys = map (pv_json_Marshal_parameter env) (out_Parameters outs)"
        by blast
      with arts show ?thesis by (simp only: run Some sum.case option.case map_append simp_thms)
    qed
  qed
qed

end
