(* ===== verification/ErrorSets.thy ===== *)
theory ErrorSets imports WorkflowPods begin

text \<open>
  Which errors a computation can return. \<open>go_fails_in E m\<close>: every error \<open>m\<close> returns, from any state,
  is in \<open>E\<close>. The rules follow the structure of the code; a handler that swallows an error hides the
  computation it guards, so the errors of signing and attesting do not show in the steps of a pod.

  Against an API server of the kind \<open>store_kube\<close> the reconciliation of a pod that has ended returns
  no other error than that the pod is missing.
\<close>

definition go_fails_in :: "goerr set \<Rightarrow> ('s, 'a) go \<Rightarrow> bool" where
  "go_fails_in E m \<longleftrightarrow> (\<forall>s e s'. m s = (Fail e, s') \<longrightarrow> e \<in> E)"

named_theorems go_fails_rules \<open>composition rules for the errors of a computation\<close>

lemma go_fails_inD: "go_fails_in E m \<Longrightarrow> m s = (Fail e, s') \<Longrightarrow> e \<in> E"
  by (auto simp: go_fails_in_def)

lemma go_fails_leaf [go_fails_rules]:
  "go_fails_in E (go_ret a)" "go_fails_in E (go_panic p)" "go_fails_in E (go_upd f)"
  by (simp_all add: go_fails_in_def go_inv)

lemma go_fails_fail: "e \<in> E \<Longrightarrow> go_fails_in E (go_fail e)"
  by (simp add: go_fails_in_def go_inv)

lemma go_fails_bind [go_fails_rules]:
  "go_fails_in E m \<Longrightarrow> (\<And>a. go_fails_in E (k a)) \<Longrightarrow> go_fails_in E (go_bind m k)"
  unfolding go_fails_in_def go_bind_Fail by blast

lemma go_fails_catch [go_fails_rules]:
  "(\<And>e. go_fails_in E (h e)) \<Longrightarrow> (\<And>a. go_fails_in E (k a)) \<Longrightarrow> go_fails_in E (go_catch m h k)"
  by (auto simp: go_fails_in_def go_catch_def split: prod.splits result.splits)

lemma go_fails_get [go_fails_rules]: "(\<And>p. go_fails_in E (k p)) \<Longrightarrow> go_fails_in E (go_get k)"
  by (auto simp: go_fails_in_def go_get_def)

lemma go_fails_snd [go_fails_rules]: "go_fails_in E m \<Longrightarrow> go_fails_in E (go_snd m)"
  by (auto simp: go_fails_in_def go_inv)

lemma go_fails_if [go_fails_rules]:
  "(b \<Longrightarrow> go_fails_in E m) \<Longrightarrow> (\<not> b \<Longrightarrow> go_fails_in E n) \<Longrightarrow> go_fails_in E (if b then m else n)"
  by simp

lemma go_fails_option [go_fails_rules]:
  "go_fails_in E m \<Longrightarrow> (\<And>a. go_fails_in E (n a)) \<Longrightarrow>
   go_fails_in E (case x of None \<Rightarrow> m | Some a \<Rightarrow> n a)"
  by (cases x) simp_all

lemma go_fails_prod [go_fails_rules]:
  "(\<And>a b. go_fails_in E (k a b)) \<Longrightarrow> go_fails_in E (case x of (a, b) \<Rightarrow> k a b)"
  by (cases x) simp

lemma go_fails_with_pod [go_fails_rules]:
  "(\<And>p. go_fails_in E (k p)) \<Longrightarrow> go_fails_in E (with_pod k)"
  unfolding with_pod_def by (intro go_fails_rules)

lemma go_fails_patch_pod:
  assumes "go_fails_in E (PatchAnnotations (pe_pods env) key info)"
  shows "go_fails_in E (patch_pod env key info)"
  unfolding go_fails_in_def
proof clarify
  fix ps w e ps' w'
  assume "patch_pod env key info (ps, w) = (Fail e, (ps', w'))"
  then obtain p s1 where "PatchAnnotations (pe_pods env) key info (p, w) = (Fail e, s1)"
    by (auto simp: patch_pod_run split: option.splits prod.splits)
  then show "e \<in> E" by (rule go_fails_inD [OF assms])
qed

section \<open>The steps of a pod\<close>

lemma pod_steps_fail:
  assumes "\<And>key info. go_fails_in E (PatchAnnotations (pe_pods env) key info)"
  shows "go_fails_in E (handleArtifactInfo env)" "go_fails_in E (handleArtifactSigning env cfg)"
    "go_fails_in E (markPodAsSkipped env)" "go_fails_in E (updateFinalStatus env)"
proof -
  note patch = go_fails_patch_pod [OF assms]
  show "go_fails_in E (handleArtifactInfo env)"
    unfolding handleArtifactInfo_def Let_def by (intro go_fails_rules patch)
  show "go_fails_in E (handleArtifactSigning env cfg)"
    unfolding handleArtifactSigning_def by (intro go_fails_rules patch)
  show "go_fails_in E (markPodAsSkipped env)"
    unfolding markPodAsSkipped_def by (intro go_fails_rules patch)
  show "go_fails_in E (updateFinalStatus env)"
    unfolding updateFinalStatus_def by (intro go_fails_rules patch)
qed

lemma handlePodReconciliation_fails:
  assumes "\<And>key info. go_fails_in E (PatchAnnotations (pe_pods env) key info)"
  shows "go_fails_in E (handlePodReconciliation env cfg)"
  unfolding handlePodReconciliation_def
  by (intro go_fails_rules pod_steps_fail [OF assms] go_fails_patch_pod [OF assms])

text \<open>Phases after which the node does not change any more.\<close>

definition ended_phase :: "node_phase \<Rightarrow> bool" where
  "ended_phase ph \<longleftrightarrow> terminated_phase ph \<or> ph = NodeSkipped \<or> ph = NodeOmitted"

lemma reconcilePod_fails:
  assumes "\<And>key info. go_fails_in E (PatchAnnotations (pe_pods env) key info)"
    and "\<And>name. go_fails_in E (getPod env ns name)"
    and "ended_phase (ps_status ps)" and "reconcilePod env cfg ns (ps, w) = (Fail e, s')"
  shows "e \<in> E"
proof -
  have "inKnownState ps \<or> isSkippedOrOmittedPod ps"
    using assms(3) by (auto simp: ended_phase_def terminated_phase_def inKnownState_def isSkippedOrOmittedPod_def)
  moreover have "go_fails_in E (go_bind (go_snd (getPod env ns (ps_podName ps))) (\<lambda>pod.
      go_bind (go_upd (currentRconsiliationStatus pod)) (\<lambda>_. go_get (\<lambda>ps.
        if ps_reconciliation ps then go_ret () else handlePodReconciliation env cfg))))"
    by (intro go_fails_rules assms(2) handlePodReconciliation_fails [OF assms(1)])
  ultimately show ?thesis
    using assms(4)
    by (auto simp: reconcilePod_def go_get_inv go_upd_inv go_ret_inv split: if_splits dest: go_fails_inD)
qed

lemma each_pod_Fail:
  assumes "each_pod m (ps, v) = (Fail e, s')"
  shows "\<exists>p v1 s1. p \<in> set ps \<and> m (p, v1) = (Fail e, s1)"
  using assms
proof (induction ps arbitrary: v s')
  case (Cons p ps)
  obtain res p1 v1 where step: "m (p, v) = (res, (p1, v1))" by (metis prod.exhaust)
  show ?case
  proof (cases res)
    case (Ok u)
    with Cons.prems step obtain s1 where "each_pod m (ps, v1) = (Fail e, s1)"
      by (auto split: prod.splits)
    from Cons.IH [OF this] show ?thesis by auto
  next
    case (Fail e1)
    with Cons.prems step show ?thesis by auto
  next
    case (Panic msg)
    with Cons.prems step show ?thesis by simp
  qed
qed simp

section \<open>An API server that only misses objects\<close>

text \<open>The errors of a client of the kind \<open>store_kube\<close>, before and after \<open>pkg/statusupdater\<close>.\<close>

definition missing_errors :: "goerr set" where
  "missing_errors = {GoErr ApiNotFound ''not found'', errors_New conflict_or_not_found}"

lemma store_PatchAnnotations_fails:
  "go_fails_in missing_errors (PatchAnnotations (store_kube rd wr) key info)"
proof -
  have attempt: "e = GoErr ApiNotFound ''not found''"
    if "patch_attempt (store_kube rd wr) key info m_annotations set_annotations s = (Fail e, s')" for s e s'
    using that
    by (cases s) (auto simp: patch_attempt_run store_get_def store_patch_def split: option.splits if_splits)
  show ?thesis
    unfolding go_fails_in_def
  proof (intro allI impI)
    fix s e s'
    assume "PatchAnnotations (store_kube rd wr) key info s = (Fail e, s')"
    then obtain e0 where "retry_loop (\<lambda>w. w) 3 IsConflict
        (patch_attempt (store_kube rd wr) key info m_annotations set_annotations) s = (Fail e0, s')"
      and e: "e = (if IsConflict e0 \<or> IsNotFound e0 then errors_New conflict_or_not_found else e0)"
      by (auto simp: PatchAnnotations_def patchMetadata_Fail)
    from retry_loop_Fail [OF this(1)] attempt have "e0 = GoErr ApiNotFound ''not found''" by blast
    with e show "e \<in> missing_errors" by (auto simp: missing_errors_def)
  qed
qed

lemma store_getPod_fails:
  assumes "pe_pods env = store_kube rd wr"
  shows "go_fails_in missing_errors (getPod env ns name)"
  using assms
  by (auto simp: go_fails_in_def getPod_def store_get_def missing_errors_def split: option.splits)

lemma store_reconcilePod_fails:
  assumes "pe_pods env = store_kube rd wr" and "ended_phase (ps_status ps)"
    and "reconcilePod env cfg ns (ps, w) = (Fail e, s')"
  shows "e \<in> missing_errors"
  by (rule reconcilePod_fails [OF _ store_getPod_fails [OF assms(1)] assms(2,3)])
    (simp add: assms(1) store_PatchAnnotations_fails)

end
