(* ===== verification/ProgressProperties.thy ===== *)
theory ProgressProperties imports PodProperties ErrorSets LabelMachine begin

text \<open>
  Progress. Against an API server that stores what it is sent, a workflow whose pods have all ended
  is never left without a verdict by a reconciliation that does not ask to be run again; and over any
  infinite history the status label of a workflow changes at most twice.
\<close>

section \<open>No silent stall\<close>

lemma store_updateWorkflowStatus:
  assumes "ct_workflows env = store_kube rd wr" and "named_store rd wr"
    and "nsname_of wflow = req" and "rd w req = Some cur"
  obtains w' where "updateWorkflowStatus env v (wflow, w) =
      (Ok no_requeue, (with_label workflowStatusLabel v cur, w'))"
    and "rd w' req = Some (with_label workflowStatusLabel v cur)"
proof -
  let ?new = "with_label workflowStatusLabel v cur"
  let ?w = "if gm_lookup (m_labels cur) workflowStatusLabel = Some v then w else wr req ?new w"
  have name: "nsname_of cur = req" using named_storeD(1) [OF assms(2,4)] .
  have run: "PatchLabels (store_kube rd wr) workflowStatusLabel v (wflow, w) = (Ok (), (?new, ?w))"
    using PatchLabels_store_run [of rd w wflow cur wr] assms(3,4) name by simp
  show thesis
  proof (rule that [of ?w])
    show "updateWorkflowStatus env v (wflow, w) = (Ok no_requeue, (?new, ?w))"
      by (simp add: updateWorkflowStatus_def assms(1) go_catch_def go_ret_def run)
    show "rd ?w req = Some ?new"
      using named_storeD(2) [OF assms(2), of ?new req] name assms(4)
        with_label_same [of cur workflowStatusLabel v] by auto
  qed
qed

text \<open>A workflow that is stored with a verdict.\<close>

definition has_verdict :: "('w \<Rightarrow> nsname \<Rightarrow> workflow option) \<Rightarrow> nsname \<Rightarrow> 'w \<Rightarrow> bool" where
  "has_verdict rd req w \<longleftrightarrow>
     (case rd w req of None \<Rightarrow> False
      | Some wflow \<Rightarrow> label_done (gm_lookup (m_labels wflow) workflowStatusLabel))"

lemma store_verdict:
  assumes "ct_workflows env = store_kube rd wr" and "named_store rd wr"
    and "nsname_of wflow = req" and "rd w req = Some cur"
    and "v = reconcileError \<or> v = reconcileCompleted"
    and "go_bind (updateWorkflowStatus env v) (\<lambda>_. go_ret no_requeue) (wflow, w) = (r, (wflow', w'))"
  shows "has_verdict rd req w'"
proof -
  obtain w1 where upd: "updateWorkflowStatus env v (wflow, w) =
      (Ok no_requeue, (with_label workflowStatusLabel v cur, w1))"
    and read: "rd w1 req = Some (with_label workflowStatusLabel v cur)"
    by (rule store_updateWorkflowStatus [OF assms(1-4)])
  from upd assms(6) have "w' = w1" by (simp add: go_bind_def go_ret_def)
  with read assms(5) show ?thesis by (auto simp: has_verdict_def label_done_def)
qed

subsection \<open>Pods that have ended\<close>

lemma reconcilePod_ended:
  assumes "pods_documented env sleep" and "ended_phase (ps_status ps)"
    and "reconcilePod env cfg ns (ps, w) = (Ok u, (ps', w'))"
  shows "ps_reconciliation ps'"
proof (cases "isSkippedOrOmittedPod ps")
  case True
  with assms(3) show ?thesis by (auto simp: reconcilePod_def go_inv)
next
  case False
  then have "inKnownState ps" "ps_status ps \<noteq> NodeRunning" "ps_status ps \<noteq> NodePending"
    using assms(2) by (auto simp: ended_phase_def terminated_phase_def inKnownState_def isSkippedOrOmittedPod_def)
  with False assms(3) obtain pod ps1 w1 where run: "(if ps_reconciliation ps1 then go_ret ()
      else handlePodReconciliation env cfg) (ps1, w1) = (Ok u, (ps', w'))"
    by (auto simp: reconcilePod_def go_inv)
  show ?thesis
    using run handlePodReconciliation_Ok [OF assms(1)]
    by (cases "ps_reconciliation ps1") (auto simp: go_inv)
qed

lemma WorkflowStatus_Reconcile_ended_Fail:
  assumes "pe_pods env = store_kube rdp wrp" and "pods_documented env sleep"
    and "\<forall>p \<in> set pods. ended_phase (ps_status p)"
    and "WorkflowStatus_Reconcile env cfg ns (pods, w) = (Fail e, s')"
  shows "e \<in> missing_errors \<or> HasPrefix (err_Error e) signing_error_prefix"
proof -
  obtain r s1 where run: "each_pod (reconcilePod env cfg ns) (pods, w) = (r, s1)"
    by (metis prod.exhaust)
  show ?thesis
  proof (cases r)
    case (Fail e1)
    with run assms(4) have "e1 = e" by (cases s') (auto simp: WorkflowStatus_Reconcile_def go_bind_def)
    with run Fail have "each_pod (reconcilePod env cfg ns) (pods, w) = (Fail e, s1)" by simp
    from each_pod_Fail [OF this] obtain p v1 s2 where "p \<in> set pods"
      and "reconcilePod env cfg ns (p, v1) = (Fail e, s2)" by blast
    with assms(3) store_reconcilePod_fails [OF assms(1)] show ?thesis by blast
  next
    case (Ok u)
    obtain pods' w1 where s1: "s1 = (pods', w1)" by (cases s1)
    with run Ok have ok: "each_pod (reconcilePod env cfg ns) (pods, w) = (Ok u, (pods', w1))" by simp
    have "ps_reconciliation p" if p: "p \<in> set pods'" for p
    proof -
      from each_pod_Ok [OF ok] p obtain q v1 v2 where "q \<in> set pods"
        and "reconcilePod env cfg ns (q, v1) = (Ok (), (p, v2))"
        by (force simp: list_all2_conv_all_nth in_set_conv_nth)
      with assms(3) reconcilePod_ended [OF assms(2)] show ?thesis by blast
    qed
    moreover have "validateAllPodsReconciled pods' = Some e"
      using assms(4) ok
      by (auto simp: WorkflowStatus_Reconcile_def go_bind_def go_get_def go_err_def go_fail_def go_ret_def
          split: option.splits)
    ultimately show ?thesis
      by (auto simp: validate_find find_Some_iff unsettled_error_def)
  next
    case (Panic m)
    with run assms(4) show ?thesis by (auto simp: WorkflowStatus_Reconcile_def go_bind_def)
  qed
qed

subsection \<open>The workflow in memory keeps its name\<close>

lemma strip_slsa_info_name [simp]: "nsname_of (strip_slsa_info wflow) = nsname_of wflow"
  by (simp add: nsname_of_def)

lemma GenerateSlsaV1Provenance_name:
  "go_keeps (\<lambda>wflow. nsname_of wflow = n) (GenerateSlsaV1Provenance env sub)"
  unfolding go_keeps_def using GenerateSlsaV1Provenance_state strip_slsa_info_name by metis

lemma middle_keeps:
  "go_keeps ((P \<circ> fst) \<circ> snd) (go_mid m)" "go_keeps ((P \<circ> fst) \<circ> snd) (go_snd (go_snd m'))"
  "go_keeps P n \<Longrightarrow> go_keeps ((P \<circ> fst) \<circ> snd) (on_workflow n)"
  by (auto simp: go_keeps_def go_mid_def go_snd_def on_workflow_def split: prod.splits)

lemma AttestArtifacts_name:
  "go_fixes ((nsname_of \<circ> fst) \<circ> snd) (AttestArtifacts env cfg)"
proof -
  let ?P = "\<lambda>n. (\<lambda>wflow. nsname_of wflow = n) \<circ> fst"
  have "go_keeps (?P n \<circ> snd) (handleProveneceAttachment env cfg subs)" for n subs
    unfolding handleProveneceAttachment_def
    by (intro go_keeps_world_rules middle_keeps GenerateSlsaV1Provenance_name)
  then have "go_keeps (?P n \<circ> snd) (AttestArtifacts env cfg)" for n
    unfolding AttestArtifacts_def by (intro go_keeps_world_rules each_pod_world)
  then show ?thesis by (simp add: go_fixes_iff o_def)
qed

subsection \<open>One reconciliation\<close>

lemma handle_pods_error_verdict:
  assumes "ct_workflows env = store_kube rd wr" and "named_store rd wr"
    and "nsname_of wflow = req" and "rd w req = Some cur"
    and "e \<in> missing_errors \<or> HasPrefix (err_Error e) signing_error_prefix"
    and "handle_pods_error env e (wflow, w) = (Ok no_requeue, (wflow', w'))"
  shows "has_verdict rd req w'"
proof (cases "HasPrefix (err_Error e) signing_error_prefix")
  case True
  then have "err_Error e \<noteq> not_all_reconciled"
    by (auto simp: HasPrefix_def not_all_reconciled_def signing_error_prefix_def)
  with True assms(6) have "go_bind (updateWorkflowStatus env reconcileError) (\<lambda>_. go_ret no_requeue)
      (wflow, w) = (Ok no_requeue, (wflow', w'))"
    by (simp add: handle_pods_error_def)
  with store_verdict [OF assms(1-4), of reconcileError] show ?thesis by simp
next
  case False
  with assms(5) consider "e = GoErr ApiNotFound ''not found''" | "e = errors_New conflict_or_not_found"
    by (auto simp: missing_errors_def)
  then have "handle_pods_error env e = go_fail e \<or> handle_pods_error env e = go_ret requeue"
    by cases (simp_all add: handle_pods_error_def HasPrefix_def not_all_reconciled_def
        conflict_or_not_found_def signing_error_prefix_def)
  with assms(6) show ?thesis by (auto simp: go_inv no_requeue_def requeue_def)
qed

lemma GetPodInfo_ended:
  assumes "\<forall>n \<in> snd ` set (wf_Nodes wflow). node_Type n = ''Pod'' \<longrightarrow> ended_phase (node_Phase n)"
    and "GetPodInfo wflow = Inr pods"
  shows "\<forall>p \<in> set pods. ended_phase (ps_status p)"
  using assms
  by (fastforce simp: GetPodInfo_def collect_pods_filter new_podStatus_def Let_def split: if_splits)

lemma secure_workflow_verdict:
  assumes "ct_workflows env = store_kube rd wr" and "named_store rd wr"
    and "pe_pods env = store_kube rdp wrp" and "pods_documented env sleep"
    and "quiet_pods (\<lambda>w. rd w req) env"
    and "nsname_of wflow = req" and "rd w req = Some cur"
    and "\<forall>n \<in> snd ` set (wf_Nodes wflow). node_Type n = ''Pod'' \<longrightarrow> ended_phase (node_Phase n)"
    and "secure_workflow env cfg (wflow, w) = (Ok no_requeue, (wflow', w'))"
  shows "has_verdict rd req w'"
proof (cases "GetPodInfo wflow")
  case (Inl e)
  with assms(9) show ?thesis
    by (auto simp: secure_workflow_def go_inv no_requeue_def requeue_def)
next
  case (Inr pods)
  obtain r pods1 w1 where rec: "WorkflowStatus_Reconcile env cfg (m_namespace wflow) (pods, w) = (r, (pods1, w1))"
    by (metis prod.exhaust)
  have w1: "rd w1 req = Some cur"
    using go_fixesD [OF WorkflowStatus_Reconcile_quiet [OF assms(5)] rec] assms(7) by simp
  show ?thesis
  proof (cases r)
    case (Fail e)
    with rec have e: "e \<in> missing_errors \<or> HasPrefix (err_Error e) signing_error_prefix"
      using WorkflowStatus_Reconcile_ended_Fail [OF assms(3,4) GetPodInfo_ended [OF assms(8) Inr]] by blast
    have "handle_pods_error env e (wflow, w1) = (Ok no_requeue, (wflow', w'))"
      using assms(9) Inr rec Fail
      by (auto simp: secure_workflow_def go_get_def go_local_def go_catch_def go_mid_def go_snd_def
          split: prod.splits)
    from handle_pods_error_verdict [OF assms(1,2,6) w1 e this] show ?thesis .
  next
    case (Ok u)
    obtain r2 pods2 wflow2 w2 where att:
      "AttestArtifacts env cfg (pods1, (wflow, w1)) = (r2, (pods2, (wflow2, w2)))" by (metis prod.exhaust)
    have name: "nsname_of wflow2 = req" and w2: "rd w2 req = Some cur"
      using go_fixesD [OF AttestArtifacts_name att] go_fixesD [OF AttestArtifacts_quiet [OF assms(5)] att]
        assms(6) w1 by simp_all
    show ?thesis
    proof (cases r2)
      case (Fail e)
      with assms(9) Inr rec Ok att have "go_bind (updateWorkflowStatus env reconcileError)
          (\<lambda>_. go_ret no_requeue) (wflow2, w2) = (Ok no_requeue, (wflow', w'))"
        by (auto simp: secure_workflow_def go_get_def go_local_def go_catch_def go_mid_def go_snd_def
            split: prod.splits)
      from store_verdict [OF assms(1,2) name w2 _ this] show ?thesis by simp
    next
      case ok2: (Ok u2)
      with assms(9) Inr rec Ok att have "go_bind (updateWorkflowStatus env reconcileCompleted)
          (\<lambda>_. go_ret no_requeue) (wflow2, w2) = (Ok no_requeue, (wflow', w'))"
        by (auto simp: secure_workflow_def go_get_def go_local_def go_catch_def go_mid_def go_snd_def
            split: prod.splits)
      from store_verdict [OF assms(1,2) name w2 _ this] show ?thesis by simp
    next
      case (Panic m)
      with assms(9) Inr rec Ok att show ?thesis
        by (simp add: secure_workflow_def go_get_def go_local_def go_catch_def go_mid_def)
    qed
  next
    case (Panic m)
    with assms(9) Inr rec show ?thesis
      by (simp add: secure_workflow_def go_get_def go_local_def go_catch_def go_mid_def)
  qed
qed

lemma reconcile_workflow_verdict:
  assumes "ct_workflows env = store_kube rd wr" and "named_store rd wr"
    and "pe_pods env = store_kube rdp wrp" and "pods_documented env sleep"
    and "quiet_pods (\<lambda>w. rd w req) env" and "rd w req = Some wflow"
    and "gm_index (m_labels wflow) enableLabel = featureEnabled"
    and "\<forall>n \<in> snd ` set (wf_Nodes wflow). node_Type n = ''Pod'' \<longrightarrow> ended_phase (node_Phase n)"
    and "reconcile_workflow env cfg (wflow, w) = (Ok no_requeue, (wflow', w'))"
  shows "has_verdict rd req w'"
proof (cases "label_done (gm_lookup (m_labels wflow) workflowStatusLabel)")
  case True
  with assms(7,9) have "w' = w"
    by (auto simp: reconcile_workflow_def label_done_def go_inv)
  with True assms(6) show ?thesis by (simp add: has_verdict_def)
next
  case False
  have name: "nsname_of wflow = req" using named_storeD(1) [OF assms(2,6)] .
  let ?wf1 = "with_label workflowStatusLabel reconcileInProgrees wflow"
  obtain w1 where upd: "updateWorkflowStatus env reconcileInProgrees (wflow, w) = (Ok no_requeue, (?wf1, w1))"
    and w1: "rd w1 req = Some ?wf1"
    using store_updateWorkflowStatus [OF assms(1,2) name assms(6)] by metis
  have "secure_workflow env cfg (?wf1, w1) = (Ok no_requeue, (wflow', w'))"
    using False assms(7,9) upd
    by (auto simp: reconcile_workflow_def label_done_def go_get_def go_bind_def split: option.splits if_splits)
  moreover have "wf_Nodes ?wf1 = wf_Nodes wflow" by (simp add: with_label_update)
  ultimately show ?thesis
    using secure_workflow_verdict [OF assms(1-5) _ w1, of ?wf1 cfg wflow' w'] assms(8) name by simp
qed

lemma Reconcile_found:
  assumes "Reconcile env rc req w = (Ok res, w')" and "ct_workflows env = store_kube rd wr"
    and "quiet_settings (\<lambda>w. rd w req) env" and "rd w req = Some wflow"
  obtains cfg w1 wflow' where "rd w1 req = Some wflow" and "read_only env req w w1"
    and "reconcile_workflow env cfg (wflow, w1) = (Ok res, (wflow', w'))"
proof -
  note fixed = settings_quiet [OF assms(3)]
  from assms(1) obtain ns wa data wb where a: "getCurrentNamespace env w = (Ok ns, wa)"
    and b: "getConfigMap env configMapName ns wa = (Ok data, wb)"
    and rest: "\<exists>wflow'. go_catch (cl_Get (ct_workflows env) req)
      (\<lambda>err. if IsNotFound err then go_ret no_requeue else go_fail err)
      (\<lambda>_. go_get (\<lambda>wflow. go_bind (go_snd (GetAuthnKeychain env (r_InclusterClient rc) (r_Namespace rc)
         (m_namespace wflow))) (\<lambda>keychain. reconcile_workflow env
           ((config_New (ct_DefaultRekorURL env) data)\<lparr>cfg_AuthKeyChain := Some keychain\<rparr>))))
      (zero_workflow, wb) = (Ok res, (wflow', w'))"
    by (auto simp: Reconcile_def go_inv Let_def)
  have wb: "rd wb req = Some wflow"
    using go_fixesD [OF fixed(1) a] go_fixesD [OF fixed(2) b] assms(4) by simp
  have get: "cl_Get (ct_workflows env) req (zero_workflow, wb) = (Ok (), (wflow, wb))"
    using wb by (simp add: assms(2) store_get_def)
  from rest obtain kc wc wflow' where c: "GetAuthnKeychain env (r_InclusterClient rc) (r_Namespace rc)
      (m_namespace wflow) wb = (Ok kc, wc)"
    and d: "reconcile_workflow env ((config_New (ct_DefaultRekorURL env) data)
      \<lparr>cfg_AuthKeyChain := Some kc\<rparr>) (wflow, wc) = (Ok res, (wflow', w'))"
    by (auto simp: go_catch_def get go_inv)
  have "rd wc req = Some wflow" using go_fixesD [OF fixed(3) c] wb by simp
  moreover have "read_only env req w wc"
    by (rule read_only_settings [OF read_only_settings [OF read_only_settings [OF read_only_refl a
            settings_steady(1)] b settings_steady(2)] c GetAuthnKeychain_steady])
  ultimately show thesis using that d by blast
qed

text \<open>C9: Liveness of one reconciliation. Against an API server that stores what it is sent, an enabled
  workflow whose pod nodes have all ended is, after a reconciliation that returns no error and does not
  ask to be run again, stored with a verdict: its status label is \<open>Completed\<close> or \<open>Error\<close>. No
  outcome of registries, keys, signatures, attestations or missing pods leaves it waiting for an event
  that does not come. The hypotheses on \<open>rd\<close> say that nothing but the workflow's client touches the
  stored workflow while the reconciliation runs.\<close>

theorem no_silent_stall:
  assumes "ct_workflows env = store_kube rd wr" and "named_store rd wr"
    and "pe_pods env = store_kube rdp wrp" and "\<And>w nn p. rdp w nn = Some p \<Longrightarrow> nsname_of p = nn"
    and "quiet_pods (\<lambda>w. rd w req) env" and "quiet_settings (\<lambda>w. rd w req) env"
    and "rd w req = Some wflow" and "gm_index (m_labels wflow) enableLabel = featureEnabled"
    and "\<forall>n \<in> snd ` set (wf_Nodes wflow). node_Type n = ''Pod'' \<longrightarrow> ended_phase (node_Phase n)"
    and "Reconcile env rc req w = (Ok no_requeue, w')"
  shows "has_verdict rd req w'"
proof -
  have pods: "pods_documented env (\<lambda>w. w)"
    using store_kube_documented [OF assms(4)] by (simp add: pods_documented_def assms(3) store_kube_retry)
  obtain cfg w1 wflow' where w1: "rd w1 req = Some wflow"
    and run: "reconcile_workflow env cfg (wflow, w1) = (Ok no_requeue, (wflow', w'))"
    by (rule Reconcile_found [OF assms(10,1,6,7)])
  show ?thesis
    by (rule reconcile_workflow_verdict [OF assms(1-3) pods assms(5) w1 assms(8,9) run])
qed

text \<open>The sample cluster keeps the objects of its workflows under their own names.\<close>

lemma sample_named_store: "named_store sw_read_workflow sw_put_workflow"
  unfolding named_store_def
proof (intro conjI allI impI)
  fix w nn and r :: workflow and nn'
  assume "nsname_of r = nn"
  then show "sw_read_workflow (sw_put_workflow nn r w) nn' =
      (if nn' = nn then Some r else sw_read_workflow w nn')"
    by (auto simp: sw_read_workflow_def sw_put_workflow_def nsname_of_def)
qed (rule sw_read_name(2))

lemma sample_quiet_pods_read: "quiet_pods (\<lambda>w. sw_read_workflow w nn) sample_env"
  by (rule sample_quiet_pods_gen) simp_all

text \<open>A pod whose node failed and one whose image the registry refuses: the verdict is \<open>Error\<close>.\<close>

theorem no_silent_stall_witness:
  "let w = sample_world (two_pods NodeFailed) True;
       (r, w') = Reconcile sample_env sample_reconciler sample_req w
   in r = Ok no_requeue \<and> has_verdict sw_read_workflow sample_req w' \<and>
      sample_label w' = Some reconcileError"
proof -
  let ?w = "sample_world (two_pods NodeFailed) True"
  let ?r = "Reconcile sample_env sample_reconciler sample_req ?w"
  have run: "fst ?r = Ok no_requeue" "sample_label (snd ?r) = Some reconcileError" by code_simp+
  have stores: "ct_workflows sample_env = store_kube sw_read_workflow sw_put_workflow"
    "pe_pods sample_env = store_kube sw_read_pod sw_put_pod"
    by (simp_all add: sample_env_def sample_workflows_def sample_pods_def)
  have read: "sw_read_workflow ?w sample_req = Some (two_pods NodeFailed)"
    by (simp add: sw_read_workflow_def sample_world_def sample_req_def two_pods_def sample_workflow_def)
  have wflow: "gm_index (m_labels (two_pods NodeFailed)) enableLabel = featureEnabled"
    "\<forall>n \<in> snd ` set (wf_Nodes (two_pods NodeFailed)). node_Type n = ''Pod'' \<longrightarrow> ended_phase (node_Phase n)"
    by (simp_all add: two_pods_def sample_workflow_def sample_node_def gm_index_def ended_phase_def
        terminated_phase_def)
  have "?r = (Ok no_requeue, snd ?r)" using run(1) by (simp add: prod_eq_iff)
  from no_silent_stall [OF stores(1) sample_named_store stores(2) sw_read_name(1)
      sample_quiet_pods_read sample_quiet_settings read wflow this] run
  show ?thesis by (simp add: Let_def split_beta)
qed

section \<open>The label settles\<close>

definition label_rank :: "string option \<Rightarrow> nat" where
  "label_rank s = (if label_done s then 0 else if s = Some reconcileInProgrees then 1 else 2)"

lemma label_rank_simps:
  "label_rank (Some reconcileCompleted) = 0" "label_rank (Some reconcileError) = 0"
  "label_rank (Some reconcileInProgrees) = 1"
  by (simp_all add: label_rank_def label_done_def controller_constants)

lemma label_rank_open: "\<not> label_done s \<Longrightarrow> label_rank s = (if s = Some reconcileInProgrees then 1 else 2)"
  by (simp add: label_rank_def)

lemma label_step_rank: "label_step s t \<Longrightarrow> t = s \<or> label_rank t < label_rank s"
  by (induction rule: label_step.induct) (auto simp: label_rank_simps label_rank_open)

lemma label_steps_rank: "label_step\<^sup>*\<^sup>* s t \<Longrightarrow> t = s \<or> label_rank t < label_rank s"
proof (induction rule: rtranclp_induct)
  case (step t u)
  from label_step_rank [OF step.hyps(2)] step.IH show ?case by (metis less_trans)
qed simp

text \<open>A sequence in which every change lowers a rank.\<close>

lemma ranked_changes:
  fixes rank :: "'a \<Rightarrow> nat"
  assumes "\<And>n. c (Suc n) = c n \<or> rank (c (Suc n)) < rank (c n)"
  shows "card {n. n < k \<and> c (Suc n) \<noteq> c n} + rank (c k) \<le> rank (c 0)"
proof (induction k)
  case (Suc k)
  let ?A = "{n. n < k \<and> c (Suc n) \<noteq> c n}"
  show ?case
  proof (cases "c (Suc k) = c k")
    case True
    then have "{n. n < Suc k \<and> c (Suc n) \<noteq> c n} = ?A" by (auto simp: less_Suc_eq)
    with Suc True show ?thesis by simp
  next
    case False
    then have "{n. n < Suc k \<and> c (Suc n) \<noteq> c n} = insert k ?A" by (auto simp: less_Suc_eq)
    moreover have "card (insert k ?A) = Suc (card ?A)" by (rule card_insert_disjoint) auto
    ultimately have "card {n. n < Suc k \<and> c (Suc n) \<noteq> c n} = Suc (card ?A)" by simp
    moreover have "rank (c (Suc k)) < rank (c k)" using False assms [of k] by simp
    ultimately show ?thesis using Suc by linarith
  qed
qed simp

lemma ranked_settles:
  fixes rank :: "'a \<Rightarrow> nat"
  assumes "\<And>n. c (Suc n) = c n \<or> rank (c (Suc n)) < rank (c n)"
  shows "\<exists>N. \<forall>n \<ge> N. c n = c N"
proof -
  obtain N where least: "\<And>m. rank (c N) \<le> rank (c m)"
    using ex_has_least_nat [of "\<lambda>_. True" _ "\<lambda>n. rank (c n)"] by blast
  have "c (N + d) = c N" for d
  proof (induction d)
    case (Suc d)
    with assms [of "N + d"] least [of "Suc (N + d)"] show ?case by auto
  qed simp
  then show ?thesis by (metis le_iff_add)
qed

text \<open>C10: Termination of the protocol on the status label: over any infinite history of
  reconciliations, mixed with anything else that does not write the label, the stored label changes at
  most twice and from some point on stays what it is.\<close>

theorem label_settles:
  assumes "label_store env req lab sleep" and "quiet_pods lab env" and "quiet_settings lab env"
    and "\<And>w1 w2. moves w1 w2 \<Longrightarrow> lab w2 = lab w1"
    and "\<And>n. controller_run env rc req moves (ws n) (ws (Suc n))"
  shows "(\<forall>k. card {n. n < k \<and> lab (ws (Suc n)) \<noteq> lab (ws n)} \<le> 2) \<and>
    (\<exists>N. \<forall>n \<ge> N. lab (ws n) = lab (ws N))"
proof -
  have step: "lab (ws (Suc n)) = lab (ws n) \<or> label_rank (lab (ws (Suc n))) < label_rank (lab (ws n))" for n
    by (rule label_steps_rank [OF controller_run_label [OF assms]])
  have "label_rank (lab (ws 0)) \<le> 2" by (simp add: label_rank_def)
  moreover have "card {n. n < k \<and> lab (ws (Suc n)) \<noteq> lab (ws n)} + label_rank (lab (ws k)) \<le>
      label_rank (lab (ws 0))" for k
    by (rule ranked_changes [where c = "\<lambda>n. lab (ws n)" and rank = label_rank, OF step])
  ultimately have "card {n. n < k \<and> lab (ws (Suc n)) \<noteq> lab (ws n)} \<le> 2" for k
    using add_leD1 order_trans by blast
  moreover have "\<exists>N. \<forall>n \<ge> N. lab (ws n) = lab (ws N)"
    by (rule ranked_settles [where c = "\<lambda>n. lab (ws n)" and rank = label_rank, OF step])
  ultimately show ?thesis by blast
qed

text \<open>A history in which Argo's controller finishes the workflow before the second visit.\<close>

definition sample_history :: "nat \<Rightarrow> sworld" where
  "sample_history n =
     (if n = 0 then sample_world (two_pods NodeRunning) False
      else if n = 1 then snd (sample_reconcile (sample_world (two_pods NodeRunning) False))
      else snd (sample_reconcile (argo_progress (two_pods NodeSucceeded)
        (snd (sample_reconcile (sample_world (two_pods NodeRunning) False))))))"

theorem label_settles_witness:
  "(\<forall>k. card {n. n < k \<and> sample_label (sample_history (Suc n)) \<noteq> sample_label (sample_history n)} \<le> 2) \<and>
   (\<exists>N. \<forall>n \<ge> N. sample_label (sample_history n) = sample_label (sample_history N)) \<and>
   sample_label (sample_history 0) = None \<and>
   sample_label (sample_history 1) = Some reconcileInProgrees \<and>
   sample_label (sample_history 2) = Some reconcileCompleted"
proof -
  let ?moves = "\<lambda>w1 w2. w2 = argo_progress (two_pods NodeSucceeded) w1"
  let ?run = "controller_run sample_env sample_reconciler sample_req ?moves"
  have visit: "?run a (snd (sample_reconcile b))" if "?run a b" for a b
    using controller_run.visit [OF that, of "fst (sample_reconcile b)" "snd (sample_reconcile b)"]
    by (simp add: sample_reconcile_def)
  have run: "?run (sample_history n) (sample_history (Suc n))" for n
  proof (cases "n \<le> 1")
    case True
    then consider "n = 0" | "n = 1" by linarith
    then show ?thesis
    proof cases
      case 2
      have "?run a (snd (sample_reconcile (argo_progress (two_pods NodeSucceeded) a)))" for a
        by (intro visit controller_run.others [OF controller_run.idle]) simp
      with 2 show ?thesis by (simp add: sample_history_def)
    qed (simp add: sample_history_def visit controller_run.idle)
  next
    case False
    then show ?thesis by (simp add: sample_history_def controller_run.idle)
  qed
  have argo: "sample_label w2 = sample_label w1" if "?moves w1 w2" for w1 w2
    using that by (cases "sw_workflows w1 sample_req") (simp_all add: sample_label_def argo_progress_def)
  have labels: "sample_label (sample_history 0) = None"
    "sample_label (sample_history 1) = Some reconcileInProgrees"
    "sample_label (sample_history 2) = Some reconcileCompleted"
    by code_simp+
  note settles = label_settles [where ws = sample_history and moves = ?moves, OF sample_label_store
      sample_quiet_pods sample_quiet_settings argo run]
  from settles labels show ?thesis by blast
qed

end
