(* ===== verification/LocalSigners.thy ===== *)
theory LocalSigners imports Attest begin

text \<open>
  Two more providers under \<open>pkg/signer/internal/pkg/cosign\<close>: the ephemeral signer, which signs with a
  key it has just generated (\<open>ephemeral/signer.go\<close>), and the DSSE attestor, which signs a payload as a
  DSSE envelope (\<open>payload/attestor.go\<close>). The ephemeral signer keeps the contract \<open>faithful_signer\<close>
  of the other signers, but not \<open>cosign_signer\<close>: it asks for the public key before it reads.
\<close>

section \<open>The ephemeral signer\<close>

definition ephemeral_Sign ::
  "('h, 'w, 'z) cosign_env_scheme \<Rightarrow> 'h \<Rightarrow> reader \<Rightarrow> ('w, 'h \<times> 'h) go" where
  "ephemeral_Sign env signer payload =
     go_bind (go_wrap ''retrieving the static public key somehow failed: '' (ce_PublicKey env signer []))
       (\<lambda>pub.
     go_bind (go_of payload) (\<lambda>payloadBytes.
     go_bind (ce_SignMessage env signer [] payloadBytes) (\<lambda>sig.
     go_bind (go_of (ce_static_NewSignature env payloadBytes (b64_encode sig))) (\<lambda>ociSig.
     go_ret (ociSig, pub)))))"

text \<open>\<open>NewSigner\<close> returns the signer of a fresh key.\<close>

definition ephemeral_NewSigner ::
  "('h, 'w, 'z) sign_env_scheme \<Rightarrow> ('w, 'h) go" where
  "ephemeral_NewSigner env =
     go_bind (go_wrap ''generating cert: '' (sg_GeneratePrivateKey env)) (\<lambda>priv.
     go_wrap ''creating a SignerVerifier from ephemeral key: ''
       (go_of (sg_LoadECDSASignerVerifier env priv)))"

text \<open>A bare signer as a \<open>SignerVerifier\<close>.\<close>

definition bare_signer :: "'h \<Rightarrow> 'h signer_verifier" where
  "bare_signer h = \<lparr>sv_SignerVerifier = Some h, sv_Cert = None, sv_Chain = None\<rparr>"

lemma sv_SignerVerifier_bare [simp]: "sv_SignerVerifier (bare_signer h) = Some h"
  by (simp add: bare_signer_def)

interpretation ephemeral_signer: faithful_signer env "bare_signer signer" "ephemeral_Sign env signer"
  for env :: "('h, 'w, 'z) cosign_env_scheme" and signer :: 'h
proof unfold_locales
  show "ephemeral_Sign env signer (Inl e) w \<noteq> (Ok x, w')" for e w x w'
    by (auto simp: ephemeral_Sign_def go_inv)
next
  fix p w s pk w'
  assume doc: "oci_documented env" and run: "ephemeral_Sign env signer (Inr p) w = (Ok (s, pk), w')"
  from run obtain sig w1 w2 where sig: "ce_SignMessage env signer [] p w1 = (Ok sig, w2)"
    and s: "ce_static_NewSignature env p (b64_encode sig) = Inr s"
    by (auto simp: ephemeral_Sign_def go_inv)
  have "signed_by env (bare_signer signer) p sig"
    using sig unfolding signed_by_def by auto
  moreover have "ce_sig_Payload env s = Inr p \<and> ce_sig_Base64Signature env s = Inr (b64_encode sig)"
    using doc s unfolding oci_documented_def by blast
  ultimately show "ce_sig_Payload env s = Inr p \<and>
      (\<exists>sig. ce_sig_Base64Signature env s = Inr (b64_encode sig) \<and> signed_by env (bare_signer signer) p sig)"
    by blast
qed

section \<open>The DSSE attestor\<close>

text \<open>The third-party struct \<open>dsse.Envelope\<close>, with the one field of its signatures that is set.\<close>

record envelope =
  dv_PayloadType :: string
  dv_Payload :: string
  dv_Signatures :: "string list"

record ('h, 'w) dsse_env = "('h, 'w) attest_env" +
  da_PAE :: "string \<Rightarrow> bytes \<Rightarrow> bytes"
  da_json_Marshal_envelope :: "envelope \<Rightarrow> goerr + bytes"

record 'h payload_attestor =
  pa_signer :: "'h payload_signer"
  pa_payloadType :: string

definition dsse_envelope :: "string \<Rightarrow> bytes \<Rightarrow> bytes \<Rightarrow> envelope" where
  "dsse_envelope payloadType pb sig =
     \<lparr>dv_PayloadType = payloadType, dv_Payload = b64_encode pb, dv_Signatures = [b64_encode sig]\<rparr>"

definition DSSEAttest ::
  "('h, 'w, 'z) dsse_env_scheme \<Rightarrow> 'h payload_attestor \<Rightarrow> reader \<Rightarrow> ('w, 'h \<times> 'h) go" where
  "DSSEAttest env pa payload =
     go_bind (go_of payload) (\<lambda>p.
     let pb = da_PAE env (pa_payloadType pa) p
     in go_bind (payload_signPayload env (pa_signer pa) pb) (\<lambda>sig.
        go_bind (payload_publicKey env (pa_signer pa)) (\<lambda>pk.
        go_bind (go_of (da_json_Marshal_envelope env (dsse_envelope (pa_payloadType pa) pb sig)))
          (\<lambda>envelopeJSON.
        go_bind (go_of (at_NewAttestation env envelopeJSON
          [WithLayerMediaType (at_DssePayloadType env)])) (\<lambda>att.
        go_ret (att, pk))))))"

definition NewDSSEAttestor ::
  "string \<Rightarrow> 'h signer_verifier \<Rightarrow> sigopt list \<Rightarrow> ('w, 'h payload_attestor) go" where
  "NewDSSEAttestor payloadType s opts =
     go_bind (payload_newSigner s opts) (\<lambda>signer.
     go_ret \<lparr>pa_signer = signer, pa_payloadType = payloadType\<rparr>)"

section \<open>Lemmas\<close>

lemma payload_signPayload_signed:
  "payload_signPayload env ps p w = (Ok sig, w') \<Longrightarrow> signed_by env (ps_payloadSigner ps) p sig"
  unfolding signed_by_def payload_signPayload_def sv_call_def
  by (auto simp: go_inv split: option.splits)

lemma DSSEAttest_Ok:
  assumes "DSSEAttest env pa (Inr p) w = (Ok (att, pk), w')"
  shows "\<exists>sig json w1.
    payload_signPayload env (pa_signer pa) (da_PAE env (pa_payloadType pa) p) w = (Ok sig, w1) \<and>
    payload_publicKey env (pa_signer pa) w1 = (Ok pk, w') \<and>
    da_json_Marshal_envelope env
      (dsse_envelope (pa_payloadType pa) (da_PAE env (pa_payloadType pa) p) sig) = Inr json \<and>
    at_NewAttestation env json [WithLayerMediaType (at_DssePayloadType env)] = Inr att"
  using assms by (auto simp: DSSEAttest_def Let_def go_inv)

end
