(* ===== verification/Strconv.thy ===== *)
theory Strconv imports GoCore "HOL-Library.Word" begin

text \<open>
  The parts of Go's \<open>strings\<close> and \<open>strconv\<close> that the helpers use: \<open>Split\<close> at a single character,
  \<open>ParseInt\<close> in base ten and at 64 bits, and \<open>Atoi\<close>. \<open>ParseInt\<close> returns a value also beside an error:
  zero for a syntax error, the nearest bound for a value out of range. The quoting of the input in an
  error message is the parameter \<open>quote\<close>.
\<close>

section \<open>Splitting\<close>

fun Split :: "string \<Rightarrow> char \<Rightarrow> string list" where
  "Split [] sep = [[]]"
| "Split (c # s) sep =
     (if c = sep then [] # Split s sep
      else (case Split s sep of [] \<Rightarrow> [[c]] | p # ps \<Rightarrow> (c # p) # ps))"

fun Join :: "string list \<Rightarrow> char \<Rightarrow> string" where
  "Join [] sep = []"
| "Join [p] sep = p"
| "Join (p # q # ps) sep = p @ sep # Join (q # ps) sep"

lemma Split_nonempty [simp]: "Split s sep \<noteq> []"
  by (cases s) (auto split: list.splits)

lemma Join_Cons: "Join ((c # p) # ps) sep = c # Join (p # ps) sep"
  by (cases ps) simp_all

lemma Join_Split: "Join (Split s sep) sep = s"
proof (induction s)
  case (Cons c s)
  then show ?case
    by (cases "Split s sep") (auto simp: Join_Cons)
qed simp

lemma Split_parts: "p \<in> set (Split s sep) \<Longrightarrow> sep \<notin> set p"
  by (induction s arbitrary: p) (auto split: if_splits list.splits)

lemma Split_single: "sep \<notin> set s \<Longrightarrow> Split s sep = [s]"
  by (induction s) auto

lemma Split_append: "sep \<notin> set p \<Longrightarrow> Split (p @ sep # s) sep = p # Split s sep"
  by (induction p) auto

lemma Split_Join: "ps \<noteq> [] \<Longrightarrow> \<forall>p \<in> set ps. sep \<notin> set p \<Longrightarrow> Split (Join ps sep) sep = ps"
  by (induction ps sep rule: Join.induct) (simp_all add: Split_append Split_single)

section \<open>Integers\<close>

definition digit_value :: "char \<Rightarrow> nat option" where
  "digit_value c = (let n = of_char c :: nat in if 48 \<le> n \<and> n \<le> 57 then Some (n - 48) else None)"

datatype num_error =
    ErrSyntax
  | ErrRange

definition max_uint64 :: nat where "max_uint64 = 2 ^ 64 - 1"

text \<open>The loop of \<open>ParseUint\<close>, which stops at the first character that is not a digit and at the
  first digit that overflows.\<close>

fun parse_uint_loop :: "nat \<Rightarrow> string \<Rightarrow> nat \<times> num_error option" where
  "parse_uint_loop n [] = (n, None)"
| "parse_uint_loop n (c # s) =
     (case digit_value c of
        None \<Rightarrow> (0, Some ErrSyntax)
      | Some d \<Rightarrow>
          if n * 10 + d > max_uint64 then (max_uint64, Some ErrRange)
          else parse_uint_loop (n * 10 + d) s)"

definition parse_uint :: "string \<Rightarrow> nat \<times> num_error option" where
  "parse_uint s = (if s = [] then (0, Some ErrSyntax) else parse_uint_loop 0 s)"

text \<open>The value and the kind of error of \<open>ParseInt(s, 10, 64)\<close>.\<close>

definition parse_int :: "string \<Rightarrow> 64 word \<times> num_error option" where
  "parse_int s =
     (if s = [] then (0, Some ErrSyntax)
      else
        let neg = (hd s = CHR ''-'');
            digits = (if hd s = CHR ''+'' \<or> hd s = CHR ''-'' then tl s else s)
        in (case parse_uint digits of
              (un, Some ErrSyntax) \<Rightarrow> (0, Some ErrSyntax)
            | (un, e) \<Rightarrow>
                if \<not> neg \<and> un \<ge> 2 ^ 63 then (word_of_int (2 ^ 63 - 1), Some ErrRange)
                else if neg \<and> un > 2 ^ 63 then (word_of_int (- (2 ^ 63)), Some ErrRange)
                else (word_of_int (if neg then - int un else int un), None)))"

definition num_error_text :: "num_error \<Rightarrow> string" where
  "num_error_text e =
     (case e of ErrSyntax \<Rightarrow> ''invalid syntax'' | ErrRange \<Rightarrow> ''value out of range'')"

text \<open>A \<open>strconv.NumError\<close>.\<close>

definition NumError :: "(string \<Rightarrow> string) \<Rightarrow> string \<Rightarrow> string \<Rightarrow> num_error \<Rightarrow> goerr" where
  "NumError quote fn s e =
     errors_New (''strconv.'' @ fn @ '': parsing '' @ quote s @ '': '' @ num_error_text e)"

definition ParseInt :: "(string \<Rightarrow> string) \<Rightarrow> string \<Rightarrow> 64 word \<times> goerr option" where
  "ParseInt quote s =
     (case parse_int s of (v, e) \<Rightarrow> (v, map_option (NumError quote ''ParseInt'' s) e))"

definition Atoi :: "(string \<Rightarrow> string) \<Rightarrow> string \<Rightarrow> 64 word \<times> goerr option" where
  "Atoi quote s = (case parse_int s of (v, e) \<Rightarrow> (v, map_option (NumError quote ''Atoi'' s) e))"

section \<open>Round trip with decimal output\<close>

definition digits_value :: "nat \<Rightarrow> string \<Rightarrow> nat" where
  "digits_value n s = foldl (\<lambda>n c. n * 10 + the (digit_value c)) n s"

lemma digit_value_char [simp]: "d < 10 \<Longrightarrow> digit_value (char_of (48 + d)) = Some d"
  by (simp add: digit_value_def)

lemma digits_value_mono: "n \<le> digits_value n s"
proof (induction s rule: rev_induct)
  case (snoc c s)
  then show ?case by (simp add: digits_value_def)
qed (simp add: digits_value_def)

lemma parse_uint_loop_value:
  assumes "\<forall>c \<in> set s. digit_value c \<noteq> None" and "digits_value n s \<le> max_uint64"
  shows "parse_uint_loop n s = (digits_value n s, None)"
  using assms
proof (induction s arbitrary: n)
  case (Cons c s)
  then obtain d where d: "digit_value c = Some d" by auto
  have step: "digits_value n (c # s) = digits_value (n * 10 + d) s"
    by (simp add: digits_value_def d)
  with digits_value_mono [of "n * 10 + d" s] Cons.prems(2) have "n * 10 + d \<le> max_uint64" by simp
  with Cons d step show ?case by simp
qed (simp add: digits_value_def)

lemma nat_digits_digits: "c \<in> set (nat_digits n) \<Longrightarrow> digit_value c \<noteq> None"
proof (induction n arbitrary: c rule: nat_digits.induct)
  case (1 n)
  then show ?case
    by (subst (asm) (2) nat_digits.simps) (auto split: if_splits)
qed

lemma digits_value_nat_digits: "digits_value 0 (nat_digits n) = n"
proof (induction n rule: nat_digits.induct)
  case (1 n)
  show ?case
  proof (cases "n < 10")
    case True
    then show ?thesis by (subst nat_digits.simps) (simp add: digits_value_def)
  next
    case False
    with 1 have "digits_value 0 (nat_digits (n div 10)) = n div 10" by simp
    then show ?thesis
      using False by (subst nat_digits.simps) (simp add: digits_value_def)
  qed
qed

lemma parse_uint_nat_digits: "n \<le> max_uint64 \<Longrightarrow> parse_uint (nat_digits n) = (n, None)"
  using nat_digits_digits [of _ n]
  by (simp add: parse_uint_def nat_digits_nonempty parse_uint_loop_value digits_value_nat_digits)

lemma nat_digits_no_sign: "hd (nat_digits n) \<noteq> CHR ''-''" "hd (nat_digits n) \<noteq> CHR ''+''"
proof -
  have "digit_value (hd (nat_digits n)) \<noteq> None"
    by (rule nat_digits_digits [of _ n]) (simp add: nat_digits_nonempty)
  then show "hd (nat_digits n) \<noteq> CHR ''-''" "hd (nat_digits n) \<noteq> CHR ''+''"
    by (auto simp: digit_value_def)
qed

lemma parse_int_fmt_d:
  assumes "- (2 ^ 63) \<le> i" and "i < 2 ^ 63"
  shows "parse_int (fmt_d i) = (word_of_int i, None)"
proof (cases "i < 0")
  case True
  then have "nat (- i) \<le> max_uint64" "nat (- i) \<le> 2 ^ 63" using assms
    by (simp_all add: max_uint64_def nat_le_iff)
  with True show ?thesis
    by (simp add: parse_int_def fmt_d_def parse_uint_nat_digits Let_def split: option.splits)
next
  case False
  then have "nat i \<le> max_uint64" "nat i < 2 ^ 63" using assms
    by (simp_all add: max_uint64_def nat_le_iff nat_less_iff)
  with False show ?thesis
    by (simp add: parse_int_def fmt_d_def parse_uint_nat_digits nat_digits_no_sign
        nat_digits_nonempty Let_def)
qed

text \<open>What does not fit is an error of range.\<close>

lemma parse_uint_loop_overflow:
  assumes "\<forall>c \<in> set s. digit_value c \<noteq> None" and "n \<le> max_uint64" and "max_uint64 < digits_value n s"
  shows "parse_uint_loop n s = (max_uint64, Some ErrRange)"
  using assms
proof (induction s arbitrary: n)
  case (Cons c s)
  then obtain d where d: "digit_value c = Some d" by auto
  have "digits_value n (c # s) = digits_value (n * 10 + d) s"
    by (simp add: digits_value_def d)
  with Cons d show ?case by simp
qed (simp add: digits_value_def)

lemma parse_uint_nat_digits_overflow:
  "max_uint64 < n \<Longrightarrow> parse_uint (nat_digits n) = (max_uint64, Some ErrRange)"
  using nat_digits_digits [of _ n]
  by (simp add: parse_uint_def nat_digits_nonempty parse_uint_loop_overflow digits_value_nat_digits)

lemma parse_int_fmt_d_range:
  assumes "i < - (2 ^ 63) \<or> 2 ^ 63 \<le> i"
  shows "snd (parse_int (fmt_d i)) = Some ErrRange"
proof (cases "i < 0")
  case True
  with assms have big: "2 ^ 63 < nat (- i)" by (simp add: zless_nat_eq_int_zless)
  have "parse_uint (nat_digits (nat (- i))) = (nat (- i), None) \<or>
      parse_uint (nat_digits (nat (- i))) = (max_uint64, Some ErrRange)"
    using parse_uint_nat_digits [of "nat (- i)"] parse_uint_nat_digits_overflow [of "nat (- i)"]
    by (cases "nat (- i) \<le> max_uint64") simp_all
  with True big show ?thesis
    by (auto simp: parse_int_def fmt_d_def Let_def max_uint64_def)
next
  case False
  with assms have big: "2 ^ 63 \<le> nat i" by (simp add: le_nat_iff)
  have "parse_uint (nat_digits (nat i)) = (nat i, None) \<or>
      parse_uint (nat_digits (nat i)) = (max_uint64, Some ErrRange)"
    using parse_uint_nat_digits [of "nat i"] parse_uint_nat_digits_overflow [of "nat i"]
    by (cases "nat i \<le> max_uint64") simp_all
  with False big show ?thesis
    by (auto simp: parse_int_def fmt_d_def nat_digits_no_sign nat_digits_nonempty Let_def max_uint64_def)
qed

end
