(* ===== verification/Tsa.thy ===== *)
theory Tsa imports CosignSigner Strconv begin

text \<open>
  The timestamp authority under \<open>cosign/tsa\<close>: the signer wrapper that has a signature timestamped
  (\<open>tsa/signer.go\<close>), the HTTP client (\<open>tsa/client/client.go\<close>) and the in-process authority that the
  repository offers for tests (\<open>tsa/mock/mock_tsa_client.go\<close>).

  A client is the function \<open>GetTimestampResponse\<close>; the locale \<open>timestamp_authority\<close> is what the
  wrapper relies on, and both clients provide it. The HTTP stack, the TLS and X.509 parsers and the
  RFC 3161 library are parameters; times are in nanoseconds.
\<close>

section \<open>Requests\<close>

datatype hash_alg =
    SHA256
  | OtherHash nat

record request_options =
  ro_Hash :: hash_alg
  ro_Certificates :: bool
  ro_Nonce :: int
  ro_TSAPolicyOID :: "64 word list"

record ('h, 'w) tsa_env = "('h, 'w) cosign_env" +
  ts_sig_Signature :: "'h \<Rightarrow> goerr + bytes"
  ts_GenerateSerialNumber :: "('w, int) go"
  ts_CreateRequest :: "bytes \<Rightarrow> request_options \<Rightarrow> goerr + bytes"
  ts_ParseResponse :: "bytes \<Rightarrow> goerr + 'h"
  ts_TimestampToRFC3161Timestamp :: "bytes \<Rightarrow> 'h"
  ts_mutate_WithRFC3161Timestamp :: "'h \<Rightarrow> 'h \<Rightarrow> goerr + 'h"
  ts_Quote :: "string \<Rightarrow> string"

text \<open>The components of a policy; a part that is not a number counts with the value \<open>Atoi\<close> returns
  beside its error.\<close>

definition policy_oid :: "(string \<Rightarrow> string) \<Rightarrow> string \<Rightarrow> 64 word list" where
  "policy_oid quote policyStr = map (\<lambda>v. fst (Atoi quote v)) (Split policyStr CHR ''.'')"

definition createTimestampAuthorityRequest ::
  "('h, 'w, 'z) tsa_env_scheme \<Rightarrow> bytes \<Rightarrow> hash_alg \<Rightarrow> string \<Rightarrow> ('w, bytes) go" where
  "createTimestampAuthorityRequest env artifactBytes hash policyStr =
     go_bind (ts_GenerateSerialNumber env) (\<lambda>nonce.
     let reqOpts = \<lparr>ro_Hash = hash, ro_Certificates = True, ro_Nonce = nonce,
           ro_TSAPolicyOID = (if policyStr \<noteq> [] then policy_oid (ts_Quote env) policyStr else [])\<rparr>
     in go_of (ts_CreateRequest env artifactBytes reqOpts))"

section \<open>The signer wrapper\<close>

definition GetTimestampedSignature ::
  "('h, 'w, 'z) tsa_env_scheme \<Rightarrow> bytes \<Rightarrow> (bytes \<Rightarrow> ('w, bytes) go) \<Rightarrow> ('w, bytes) go" where
  "GetTimestampedSignature env sigBytes GetTimestampResponse =
     go_bind (go_wrap ''error creating timestamp request: ''
       (createTimestampAuthorityRequest env sigBytes SHA256 '''')) (\<lambda>requestBytes.
     GetTimestampResponse requestBytes)"

definition tsa_Sign ::
  "('h, 'w, 'z) tsa_env_scheme \<Rightarrow> (reader \<Rightarrow> ('w, 'h \<times> 'h) go) \<Rightarrow> (bytes \<Rightarrow> ('w, bytes) go) \<Rightarrow>
   reader \<Rightarrow> ('w, 'h \<times> 'h) go" where
  "tsa_Sign env inner_Sign GetTimestampResponse payload =
     go_bind (inner_Sign payload) (\<lambda>(sig, pub).
     go_bind (go_of (ts_sig_Signature env sig)) (\<lambda>rawSig.
     go_bind (GetTimestampedSignature env rawSig GetTimestampResponse) (\<lambda>responseBytes.
     go_bind (go_of (ts_mutate_WithRFC3161Timestamp env sig
       (ts_TimestampToRFC3161Timestamp env responseBytes))) (\<lambda>newSig.
     go_ret (newSig, pub)))))"

definition tsa_NewSigner ::
  "('h, 'w, 'z) tsa_env_scheme \<Rightarrow> ('h, 'w) cosign_signer \<Rightarrow> (bytes \<Rightarrow> ('w, bytes) go) \<Rightarrow>
   ('h, 'w) cosign_signer" where
  "tsa_NewSigner env inner GetTimestampResponse = tsa_Sign env inner GetTimestampResponse"

section \<open>The HTTP client\<close>

record tsa_client =
  tc_URL :: string
  tc_CACert :: string
  tc_Cert :: string
  tc_Key :: string
  tc_ServerName :: string
  tc_Timeout :: int

definition Second :: int where "Second = 1000000000"
definition defaultTimeout :: int where "defaultTimeout = 10 * Second"

record 'h transport =
  tr_ProxyFromEnvironment :: bool
  tr_CipherSuites :: "nat list"
  tr_MinVersion :: nat
  tr_SessionTicketsDisabled :: bool
  tr_RootCAs :: "'h option"
  tr_Certificates :: "'h list"
  tr_ServerName :: string
  tr_DialTimeout :: int
  tr_DialKeepAlive :: int
  tr_DialDualStack :: bool
  tr_MaxIdleConns :: int
  tr_IdleConnTimeout :: int
  tr_TLSHandshakeTimeout :: int
  tr_ExpectContinueTimeout :: int

text \<open>The three suites and the version of TLS 1.3, as Go numbers them.\<close>

definition tls13_suites :: "nat list" where "tls13_suites = [0x1301, 0x1302, 0x1303]"
definition VersionTLS13 :: nat where "VersionTLS13 = 0x0304"

definition base_transport :: "int \<Rightarrow> 'h transport" where
  "base_transport timeout =
     \<lparr>tr_ProxyFromEnvironment = True,
      tr_CipherSuites = tls13_suites, tr_MinVersion = VersionTLS13, tr_SessionTicketsDisabled = True,
      tr_RootCAs = None, tr_Certificates = [], tr_ServerName = '''',
      tr_DialTimeout = timeout, tr_DialKeepAlive = 30 * Second, tr_DialDualStack = True,
      tr_MaxIdleConns = 100, tr_IdleConnTimeout = 90 * Second, tr_TLSHandshakeTimeout = 10 * Second,
      tr_ExpectContinueTimeout = 1 * Second\<rparr>"

record 'h http_client =
  hc_Timeout :: int
  hc_Transport :: "'h transport option"

record http_request =
  rq_Method :: string
  rq_URL :: string
  rq_Body :: bytes
  rq_Header :: "(string \<times> string) list"

text \<open>\<open>ht_ParseURL\<close> is the one way in which \<open>http.NewRequest\<close> can fail here; \<open>ht_AppendCertsFromPEM\<close>
  the pool that a new one becomes, \<open>None\<close> when no certificate was added.\<close>

record ('h, 'w) http_env = "('h, 'w) tsa_env" +
  ht_Open :: "string \<Rightarrow> ('w, 'h) go"
  ht_CloseFile :: "'h \<Rightarrow> ('w, unit) go"
  ht_ReadFile :: "'h \<Rightarrow> ('w, bytes) go"
  ht_AppendCertsFromPEM :: "bytes \<Rightarrow> 'h option"
  ht_LoadX509KeyPair :: "string \<Rightarrow> string \<Rightarrow> ('w, 'h) go"
  ht_ParseURL :: "string \<Rightarrow> goerr option"
  ht_Do :: "'h http_client \<Rightarrow> http_request \<Rightarrow> ('w, int \<times> 'h) go"
  ht_ReadBody :: "'h \<Rightarrow> ('w, bytes) go"

text \<open>The second half of \<open>getHTTPTransport\<close>: the client certificate and the server's name.\<close>

definition client_certificate ::
  "('h, 'w, 'z) http_env_scheme \<Rightarrow> string \<Rightarrow> string \<Rightarrow> string \<Rightarrow> 'h transport \<Rightarrow>
   ('w, 'h transport) go" where
  "client_certificate env certFilename keyFilename serverName tr =
     go_bind
       (if certFilename \<noteq> [] \<and> keyFilename \<noteq> [] then
          go_bind (go_wrap (''unable to read CA certs from cert '' @ certFilename @ '', key '' @
              keyFilename @ '': '') (ht_LoadX509KeyPair env certFilename keyFilename))
            (\<lambda>cert. go_ret (tr\<lparr>tr_Certificates := [cert]\<rparr>))
        else go_ret tr) (\<lambda>tr.
     go_ret (if serverName \<noteq> [] then tr\<lparr>tr_ServerName := serverName\<rparr> else tr))"

text \<open>The file of CA certificates is closed when the whole function returns.\<close>

definition getHTTPTransport ::
  "('h, 'w, 'z) http_env_scheme \<Rightarrow> string \<Rightarrow> string \<Rightarrow> string \<Rightarrow> string \<Rightarrow> int \<Rightarrow>
   ('w, 'h transport) go" where
  "getHTTPTransport env cacertFilename certFilename keyFilename serverName timeout =
     (let tr = base_transport (if timeout = 0 then defaultTimeout else timeout);
          rest = client_certificate env certFilename keyFilename serverName
      in if cacertFilename \<noteq> [] then
           go_bind (ht_Open env cacertFilename) (\<lambda>f.
           go_defer (ht_CloseFile env f) (
           go_bind (go_wrap (''unable to read CA certs from '' @ cacertFilename @ '': '')
             (ht_ReadFile env f)) (\<lambda>caCertBytes.
           case ht_AppendCertsFromPEM env caCertBytes of
             None \<Rightarrow> go_fail (errors_New (''no valid CA certs found in '' @ cacertFilename))
           | Some pool \<Rightarrow> rest (tr\<lparr>tr_RootCAs := Some pool\<rparr>))))
         else rest tr)"

definition NewRequest ::
  "('h, 'w, 'z) http_env_scheme \<Rightarrow> string \<Rightarrow> string \<Rightarrow> bytes \<Rightarrow> goerr + http_request" where
  "NewRequest env meth url body =
     (case ht_ParseURL env url of
        Some err \<Rightarrow> Inl err
      | None \<Rightarrow> Inr \<lparr>rq_Method = meth, rq_URL = url, rq_Body = body, rq_Header = []\<rparr>)"

definition GetTimestampResponse ::
  "('h, 'w, 'z) http_env_scheme \<Rightarrow> tsa_client \<Rightarrow> bytes \<Rightarrow> ('w, bytes) go" where
  "GetTimestampResponse env t tsq =
     go_bind
       (if tc_CACert t \<noteq> [] \<or> tc_Cert t \<noteq> [] then
          go_bind (getHTTPTransport env (tc_CACert t) (tc_Cert t) (tc_Key t) (tc_ServerName t) (tc_Timeout t))
            (\<lambda>tr. go_ret \<lparr>hc_Timeout = tc_Timeout t, hc_Transport = Some tr\<rparr>)
        else go_ret \<lparr>hc_Timeout = tc_Timeout t, hc_Transport = None\<rparr>) (\<lambda>client.
     go_bind (go_wrap ''error creating HTTP request: '' (go_of (NewRequest env ''POST'' (tc_URL t) tsq)))
       (\<lambda>req.
     let req = req\<lparr>rq_Header := rq_Header req @ [(''Content-Type'', ''application/timestamp-query'')]\<rparr>
     in go_bind (go_wrap ''error making request to timestamp authority: '' (ht_Do env client req))
          (\<lambda>(statusCode, body).
        if statusCode \<noteq> 200 \<and> statusCode \<noteq> 201
        then go_fail (errors_New (''request to timestamp authority failed with status code '' @ fmt_d statusCode))
        else
          go_bind (go_wrap ''error reading timestamp response: '' (ht_ReadBody env body)) (\<lambda>resp.
          go_bind (go_of (ts_ParseResponse env resp)) (\<lambda>ts. go_ret resp)))))"

definition NewTSAClient :: "string \<Rightarrow> tsa_client" where
  "NewTSAClient url =
     \<lparr>tc_URL = url, tc_CACert = '''', tc_Cert = '''', tc_Key = '''', tc_ServerName = '''',
      tc_Timeout = defaultTimeout\<rparr>"

definition NewTSAClientMTLS ::
  "string \<Rightarrow> string \<Rightarrow> string \<Rightarrow> string \<Rightarrow> string \<Rightarrow> tsa_client" where
  "NewTSAClientMTLS url cacert cert key serverName =
     \<lparr>tc_URL = url, tc_CACert = cacert, tc_Cert = cert, tc_Key = key, tc_ServerName = serverName,
      tc_Timeout = defaultTimeout\<rparr>"

section \<open>The in-process authority\<close>

text \<open>Times in seconds; zero is Go's zero time.\<close>

record 'h mock_client =
  mc_Signer :: 'h
  mc_CertChain :: "'h list"
  mc_Time :: int
  mc_Message :: bytes

record 'h mock_options =
  mo_Time :: int
  mo_Message :: bytes
  mo_Signer :: "'h option"

record timestamp =
  tst_HashAlgorithm :: hash_alg
  tst_HashedMessage :: bytes
  tst_Time :: int
  tst_Nonce :: int
  tst_Policy :: "int list"
  tst_Ordering :: bool
  tst_Accuracy :: int
  tst_Qualified :: bool
  tst_AddTSACertificate :: bool

record ('h, 'w) mock_env = "('h, 'w) tsa_env" +
  mk_NewECDSASignerVerifier :: "('w, 'h) go"
  mk_NewTimestampingCertWithChain :: "'h \<Rightarrow> ('w, 'h list) go"
  mk_ParseRequest :: "bytes \<Rightarrow> goerr + hash_alg \<times> bytes"
  mk_hash :: "hash_alg \<Rightarrow> bytes \<Rightarrow> bytes"
  mk_time_Now :: "('w, int) go"
  mk_CreateResponseWithOpts :: "timestamp \<Rightarrow> 'h \<Rightarrow> 'h \<Rightarrow> hash_alg \<Rightarrow> ('w, bytes) go"

definition mock_NewTSAClient ::
  "('h, 'w, 'z) mock_env_scheme \<Rightarrow> 'h mock_options \<Rightarrow> ('w, 'h mock_client) go" where
  "mock_NewTSAClient env opts =
     go_bind (case mo_Signer opts of None \<Rightarrow> mk_NewECDSASignerVerifier env | Some sv \<Rightarrow> go_ret sv) (\<lambda>sv.
     go_bind (go_wrap ''generating timestamping cert chain: '' (mk_NewTimestampingCertWithChain env sv))
       (\<lambda>certChain.
     go_ret \<lparr>mc_Signer = sv, mc_CertChain = certChain, mc_Time = mo_Time opts,
       mc_Message = mo_Message opts\<rparr>))"

text \<open>A nil request stands for the message of the client; indexing an empty chain panics.\<close>

definition mock_GetTimestampResponse ::
  "('h, 'w, 'z) mock_env_scheme \<Rightarrow> 'h mock_client \<Rightarrow> bytes option \<Rightarrow> ('w, bytes) go" where
  "mock_GetTimestampResponse env c tsq =
     go_bind (case tsq of
         Some b \<Rightarrow> go_of (mk_ParseRequest env b)
       | None \<Rightarrow> go_ret (SHA256, mk_hash env SHA256 (mc_Message c))) (\<lambda>(hashAlg, hashedMessage).
     go_bind (ts_GenerateSerialNumber env) (\<lambda>nonce.
     go_bind (if mc_Time c = 0 then mk_time_Now env else go_ret (mc_Time c)) (\<lambda>time.
     let tsStruct = \<lparr>tst_HashAlgorithm = hashAlg, tst_HashedMessage = hashedMessage, tst_Time = time,
           tst_Nonce = nonce, tst_Policy = [1, 3, 6, 1, 4, 1, 57264, 2], tst_Ordering = False,
           tst_Accuracy = Second, tst_Qualified = False, tst_AddTSACertificate = True\<rparr>
     in case mc_CertChain c of
          [] \<Rightarrow> go_panic ''index out of range [0] with length 0''
        | cert # rest \<Rightarrow> mk_CreateResponseWithOpts env tsStruct cert (mc_Signer c) SHA256)))"

section \<open>The contract of a client\<close>

text \<open>What the documentation of the libraries says: the timestamp is kept beside the payload and the
  signature, and the raw signature is the decoded one.\<close>

definition rfc3161_documented :: "('h, 'w, 'z) tsa_env_scheme \<Rightarrow> bool" where
  "rfc3161_documented env \<longleftrightarrow>
     (\<forall>s b s'. ts_mutate_WithRFC3161Timestamp env s b = Inr s' \<longrightarrow>
        ce_sig_Payload env s' = ce_sig_Payload env s \<and>
        ce_sig_Base64Signature env s' = ce_sig_Base64Signature env s) \<and>
     (\<forall>s b. ce_sig_Base64Signature env s = Inr b \<longrightarrow> ts_sig_Signature env s = b64_decode b)"

text \<open>A response is one the library can parse, as long as what \<open>legal\<close> says of the provider holds.\<close>

locale timestamp_authority =
  fixes env :: "('h, 'w, 'z) tsa_env_scheme"
    and GetResponse :: "bytes \<Rightarrow> ('w, bytes) go"
    and legal :: bool
  assumes parseable:
    "legal \<Longrightarrow> GetResponse tsq w = (Ok resp, w') \<Longrightarrow> \<exists>ts. ts_ParseResponse env resp = Inr ts"

text \<open>A signer and an authority together.\<close>

locale timestamping = faithful_signer env sv Sign + timestamp_authority env GetResponse legal
  for env :: "('h, 'w, 'z) tsa_env_scheme" and sv :: "'h signer_verifier"
    and Sign :: "reader \<Rightarrow> ('w, 'h \<times> 'h) go" and GetResponse :: "bytes \<Rightarrow> ('w, bytes) go"
    and legal :: bool
begin

lemma timestamps_signature:
  assumes doc: "oci_documented env" "rfc3161_documented env"
    and run: "tsa_Sign env Sign GetResponse (Inr p) w = (Ok (s, pk), w')"
  shows "\<exists>s0 sig nonce req resp w1 w2.
    Sign (Inr p) w = (Ok (s0, pk), w1) \<and> signed_by env sv p sig \<and>
    ce_sig_Payload env s = Inr p \<and> ce_sig_Base64Signature env s = Inr (b64_encode sig) \<and>
    ts_GenerateSerialNumber env w1 = (Ok nonce, w2) \<and>
    ts_CreateRequest env sig \<lparr>ro_Hash = SHA256, ro_Certificates = True, ro_Nonce = nonce,
      ro_TSAPolicyOID = []\<rparr> = Inr req \<and>
    GetResponse req w2 = (Ok resp, w') \<and>
    ts_mutate_WithRFC3161Timestamp env s0 (ts_TimestampToRFC3161Timestamp env resp) = Inr s \<and>
    (legal \<longrightarrow> (\<exists>ts. ts_ParseResponse env resp = Inr ts))"
proof -
  from run obtain s0 w1 raw nonce w2 req resp where
    inner: "Sign (Inr p) w = (Ok (s0, pk), w1)" and raw: "ts_sig_Signature env s0 = Inr raw" and
    req: "ts_GenerateSerialNumber env w1 = (Ok nonce, w2)"
      "ts_CreateRequest env raw \<lparr>ro_Hash = SHA256, ro_Certificates = True, ro_Nonce = nonce,
         ro_TSAPolicyOID = []\<rparr> = Inr req"
      "GetResponse req w2 = (Ok resp, w')" and
    s: "ts_mutate_WithRFC3161Timestamp env s0 (ts_TimestampToRFC3161Timestamp env resp) = Inr s"
    by (auto simp: tsa_Sign_def GetTimestampedSignature_def createTimestampAuthorityRequest_def
        Let_def go_inv)
  from faithful [OF doc(1) inner] obtain sig where
    sig: "ce_sig_Payload env s0 = Inr p" "ce_sig_Base64Signature env s0 = Inr (b64_encode sig)"
      "signed_by env sv p sig" by blast
  have raw_sig: "raw = sig"
    using doc(2) sig(2) raw by (simp add: rfc3161_documented_def)
  have kept: "ce_sig_Payload env s = Inr p" "ce_sig_Base64Signature env s = Inr (b64_encode sig)"
    using doc(2) s sig unfolding rfc3161_documented_def by auto
  have "legal \<longrightarrow> (\<exists>ts. ts_ParseResponse env resp = Inr ts)"
    using parseable [OF _ req(3)] by blast
  with inner sig(3) req [unfolded raw_sig] s kept show ?thesis by blast
qed

lemma wrapped_by_tsa: "rfc3161_documented env \<Longrightarrow> faithful_signer env sv (tsa_Sign env Sign GetResponse)"
proof unfold_locales
  show "tsa_Sign env Sign GetResponse (Inl e) w \<noteq> (Ok x, w')" for e w x w'
    by (auto simp: tsa_Sign_def go_inv unreadable_not_signed)
next
  fix p w s pk w'
  assume doc: "rfc3161_documented env" "oci_documented env"
    and run: "tsa_Sign env Sign GetResponse (Inr p) w = (Ok (s, pk), w')"
  from timestamps_signature [OF doc(2,1) run] show "ce_sig_Payload env s = Inr p \<and>
      (\<exists>sig. ce_sig_Base64Signature env s = Inr (b64_encode sig) \<and> signed_by env sv p sig)"
    by blast
qed

end

definition timestamp_query :: "tsa_client \<Rightarrow> bytes \<Rightarrow> http_request" where
  "timestamp_query t tsq =
     \<lparr>rq_Method = ''POST'', rq_URL = tc_URL t, rq_Body = tsq,
      rq_Header = [(''Content-Type'', ''application/timestamp-query'')]\<rparr>"

text \<open>The HTTP client that is used: without a transport of its own unless a CA certificate or a client
  certificate is configured.\<close>

definition client_made ::
  "('h, 'w, 'z) http_env_scheme \<Rightarrow> tsa_client \<Rightarrow> 'w \<Rightarrow> 'h http_client \<Rightarrow> 'w \<Rightarrow> bool" where
  "client_made env t w client w' \<longleftrightarrow>
     (if tc_CACert t = [] \<and> tc_Cert t = []
      then client = \<lparr>hc_Timeout = tc_Timeout t, hc_Transport = None\<rparr> \<and> w' = w
      else \<exists>tr. getHTTPTransport env (tc_CACert t) (tc_Cert t) (tc_Key t) (tc_ServerName t) (tc_Timeout t) w =
          (Ok tr, w') \<and> client = \<lparr>hc_Timeout = tc_Timeout t, hc_Transport = Some tr\<rparr>)"

lemma NewRequest_Inr:
  "NewRequest env meth url body = Inr req \<longleftrightarrow>
     ht_ParseURL env url = None \<and> req = \<lparr>rq_Method = meth, rq_URL = url, rq_Body = body, rq_Header = []\<rparr>"
  by (auto simp: NewRequest_def split: option.splits)

text \<open>The exchange with the authority.\<close>

lemma GetTimestampResponse_Ok:
  "GetTimestampResponse env t tsq w = (Ok resp, w') \<longleftrightarrow>
     (\<exists>client code body w1 w2. client_made env t w client w1 \<and> ht_ParseURL env (tc_URL t) = None \<and>
        ht_Do env client (timestamp_query t tsq) w1 = (Ok (code, body), w2) \<and> code \<in> {200, 201} \<and>
        ht_ReadBody env body w2 = (Ok resp, w') \<and> (\<exists>ts. ts_ParseResponse env resp = Inr ts))"
proof -
  define pick where "pick =
    (if tc_CACert t \<noteq> [] \<or> tc_Cert t \<noteq> [] then
       go_bind (getHTTPTransport env (tc_CACert t) (tc_Cert t) (tc_Key t) (tc_ServerName t) (tc_Timeout t))
         (\<lambda>tr. go_ret \<lparr>hc_Timeout = tc_Timeout t, hc_Transport = Some tr\<rparr>)
     else go_ret \<lparr>hc_Timeout = tc_Timeout t, hc_Transport = None\<rparr>)"
  have pick: "pick w = (Ok client, w1) \<longleftrightarrow> client_made env t w client w1" for client w1
    by (auto simp: pick_def client_made_def go_inv)
  have answer: "(if code \<noteq> 200 \<and> code \<noteq> 201 then go_fail e else m) v = (Ok resp, w') \<longleftrightarrow>
      code \<in> {200, 201} \<and> m v = (Ok resp, w')" for code :: int and e m v
    by (auto simp: go_inv)
  show ?thesis
    unfolding GetTimestampResponse_def pick_def [symmetric]
    by (auto simp: Let_def go_inv pick NewRequest_Inr answer timestamp_query_def split: prod.split
        simp del: insert_iff) blast+
qed

interpretation http_authority: timestamp_authority env "GetTimestampResponse env t" True
  for env :: "('h, 'w, 'z) http_env_scheme" and t
  by unfold_locales (auto simp: GetTimestampResponse_Ok)

interpretation http_timestamping: timestamping env "ps_payloadSigner ps" "payload_Sign env ps"
    "GetTimestampResponse env t" True
  for env :: "('h, 'w, 'z) http_env_scheme" and ps :: "'h payload_signer" and t
  by unfold_locales

text \<open>The documented behaviour behind the in-process authority: what is created can be parsed, and a
  request carries the hash of its message.\<close>

definition mock_documented :: "('h, 'w, 'z) mock_env_scheme \<Rightarrow> bool" where
  "mock_documented env \<longleftrightarrow>
     (\<forall>tst cert s alg w resp w'. mk_CreateResponseWithOpts env tst cert s alg w = (Ok resp, w') \<longrightarrow>
        (\<exists>ts. ts_ParseResponse env resp = Inr ts)) \<and>
     (\<forall>b opts req. ts_CreateRequest env b opts = Inr req \<longrightarrow>
        mk_ParseRequest env req = Inr (ro_Hash opts, mk_hash env (ro_Hash opts) b))"

lemma mock_GetTimestampResponse_Ok:
  assumes "mock_GetTimestampResponse env c (Some b) w = (Ok resp, w')"
  shows "\<exists>alg msg tst cert w1. mk_ParseRequest env b = Inr (alg, msg) \<and>
    tst_HashAlgorithm tst = alg \<and> tst_HashedMessage tst = msg \<and>
    (mc_Time c \<noteq> 0 \<longrightarrow> tst_Time tst = mc_Time c) \<and> mc_CertChain c \<noteq> [] \<and> cert = hd (mc_CertChain c) \<and>
    mk_CreateResponseWithOpts env tst cert (mc_Signer c) SHA256 w1 = (Ok resp, w')"
proof (cases "mc_CertChain c")
  case Nil
  with assms show ?thesis by (auto simp: mock_GetTimestampResponse_def Let_def go_inv)
next
  case (Cons cert rest)
  with assms obtain alg msg nonce time w1 where "mk_ParseRequest env b = Inr (alg, msg)"
    "mc_Time c \<noteq> 0 \<longrightarrow> time = mc_Time c"
    "mk_CreateResponseWithOpts env \<lparr>tst_HashAlgorithm = alg, tst_HashedMessage = msg, tst_Time = time,
       tst_Nonce = nonce, tst_Policy = [1, 3, 6, 1, 4, 1, 57264, 2], tst_Ordering = False,
       tst_Accuracy = Second, tst_Qualified = False, tst_AddTSACertificate = True\<rparr>
       cert (mc_Signer c) SHA256 w1 = (Ok resp, w')"
    by (auto simp: mock_GetTimestampResponse_def Let_def go_inv split: if_splits)
  with Cons show ?thesis by (intro exI conjI) simp_all
qed

interpretation mock_authority: timestamp_authority env "\<lambda>b. mock_GetTimestampResponse env c (Some b)"
    "mock_documented env"
  for env :: "('h, 'w, 'z) mock_env_scheme" and c
proof unfold_locales
  fix tsq w resp w'
  assume doc: "mock_documented env" and run: "mock_GetTimestampResponse env c (Some tsq) w = (Ok resp, w')"
  from mock_GetTimestampResponse_Ok [OF run] obtain tst cert w1 where
    "mk_CreateResponseWithOpts env tst cert (mc_Signer c) SHA256 w1 = (Ok resp, w')" by blast
  with doc show "\<exists>ts. ts_ParseResponse env resp = Inr ts" unfolding mock_documented_def by blast
qed

interpretation mock_timestamping: timestamping env "ps_payloadSigner ps" "payload_Sign env ps"
    "\<lambda>b. mock_GetTimestampResponse env c (Some b)" "mock_documented env"
  for env :: "('h, 'w, 'z) mock_env_scheme" and ps :: "'h payload_signer" and c
  by unfold_locales

end
