(* ===== verification/AuthorityProperties.thy ===== *)
theory AuthorityProperties imports SampleEnv LocalSigners Tsa begin

text \<open>
  Properties of the timestamp authority's wrapper and clients, and of the DSSE attestor. The sample
  environments extend the one of \<open>SampleEnv\<close> by small total functions.
\<close>

section \<open>Sample environments\<close>

text \<open>A request is the artifact after the mark \<open>#\<close>, which stands for its hash; a response is its
  request after the mark \<open>ts:\<close>, and the body of an HTTP answer carries the request.\<close>

definition sample_cosign :: "(handle, sworld) cosign_env" where
  "sample_cosign = cosign_env.truncate sample_env"

definition marked :: "bytes \<Rightarrow> goerr + handle" where
  "marked resp = (if HasPrefix resp ''ts:'' then Inr Opaque else Inl (errors_New ''asn1''))"

definition sample_tsa :: "(handle, sworld) tsa_env" where
  "sample_tsa = cosign_env.extend sample_cosign (tsa_env.fields
     (\<lambda>s. case s of Signature p b \<Rightarrow> b64_decode b | Opaque \<Rightarrow> Inl (errors_New ''none''))
     (go_ret 42) (\<lambda>b opts. if ro_Hash opts = SHA256 then Inr (CHR ''#'' # b) else Inl (errors_New ''hash''))
     marked (\<lambda>resp. Opaque) (\<lambda>s ts. Inr s) (\<lambda>s. s))"

definition sample_http :: "(handle, sworld) http_env" where
  "sample_http = tsa_env.extend sample_tsa (http_env.fields
     (\<lambda>path. go_ret Opaque) (\<lambda>f. go_ret ()) (\<lambda>f. go_ret ''PEM'') (\<lambda>pem. Some Opaque)
     (\<lambda>c k. go_ret Opaque) (\<lambda>url. if url = [] then Some (errors_New ''empty url'') else None)
     (\<lambda>client req. go_ret (201, Signature (rq_Body req) ''''))
     (\<lambda>body. case body of Signature q b \<Rightarrow> go_ret (''ts:'' @ q) | Opaque \<Rightarrow> go_ret []))"

definition sample_mock :: "(handle, sworld) mock_env" where
  "sample_mock = tsa_env.extend sample_tsa (mock_env.fields
     (go_ret Opaque) (\<lambda>sv. go_ret [Opaque]) (\<lambda>req. Inr (SHA256, req)) (\<lambda>alg b. CHR ''#'' # b) (go_ret 1700000000)
     (\<lambda>tst cert sv alg. go_ret (''ts:'' @ tst_HashedMessage tst)))"

lemma sample_cosign_sel [simp]:
  "ce_SignMessage sample_cosign = ce_SignMessage sample_env"
  "ce_PublicKey sample_cosign = ce_PublicKey sample_env"
  "ce_WithContext sample_cosign = ce_WithContext sample_env"
  "ce_static_NewSignature sample_cosign = ce_static_NewSignature sample_env"
  "ce_mutate_WithCertChain sample_cosign = ce_mutate_WithCertChain sample_env"
  "ce_mutate_WithBundle sample_cosign = ce_mutate_WithBundle sample_env"
  "ce_sig_Payload sample_cosign = ce_sig_Payload sample_env"
  "ce_sig_Base64Signature sample_cosign = ce_sig_Base64Signature sample_env"
  by (simp_all add: sample_cosign_def cosign_env.defs)

lemma sample_tsa_documented: "oci_documented sample_tsa" "rfc3161_documented sample_tsa"
  using sample_oci
  by (auto simp: oci_documented_def rfc3161_documented_def sample_tsa_def sample_cosign_def sample_env_def
      cosign_env.defs tsa_env.defs split: handle.splits)

lemma sample_http_documented: "oci_documented sample_http" "rfc3161_documented sample_http"
  using sample_tsa_documented
  by (simp_all add: oci_documented_def rfc3161_documented_def sample_http_def tsa_env.defs)

lemma sample_mock_documented:
  "oci_documented sample_mock" "rfc3161_documented sample_mock" "mock_documented sample_mock"
proof -
  show "oci_documented sample_mock" "rfc3161_documented sample_mock"
    using sample_tsa_documented
    by (simp_all add: oci_documented_def rfc3161_documented_def sample_mock_def tsa_env.defs)
  show "mock_documented sample_mock"
    by (auto simp: mock_documented_def sample_mock_def sample_tsa_def marked_def go_ret_def HasPrefix_def
        mock_env.defs tsa_env.defs cosign_env.defs split: if_splits)
qed

definition sample_payload_signer :: "handle payload_signer" where
  "sample_payload_signer =
     \<lparr>ps_payloadSigner = bare_signer Opaque, ps_payloadSignerOpts = [], ps_publicKeyProviderOpts = []\<rparr>"

section \<open>Timestamps\<close>

text \<open>C34: When signing with a timestamp succeeds. It succeeds exactly when the payload signer signed the
  payload, a nonce was drawn, a request was made with it for the SHA-256 hash of the raw signature (not
  of its base64 text), that request was sent in one POST to the configured authority, the answer had
  status 200 or 201 and could be parsed as a timestamp response, and could be attached: the result is
  then the payload signer's own signature, unchanged, with the answer attached to it. As these
  conditions are also enough, nothing else is: that the nonce and the hash in the answer are those of
  the request is not checked.\<close>

theorem timestamped_signature:
  assumes "oci_documented env" and "rfc3161_documented env"
  shows "tsa_Sign env (payload_Sign env ps) (GetTimestampResponse env t) (Inr p) w = (Ok (s, pk), w') \<longleftrightarrow>
    (\<exists>s0 sig nonce req client code body resp w1 w2 w3 w4.
       payload_Sign env ps (Inr p) w = (Ok (s0, pk), w1) \<and> signed_by env (ps_payloadSigner ps) p sig \<and>
       ce_sig_Payload env s = Inr p \<and> ce_sig_Base64Signature env s = Inr (b64_encode sig) \<and>
       ts_GenerateSerialNumber env w1 = (Ok nonce, w2) \<and>
       ts_CreateRequest env sig \<lparr>ro_Hash = SHA256, ro_Certificates = True, ro_Nonce = nonce,
         ro_TSAPolicyOID = []\<rparr> = Inr req \<and>
       client_made env t w2 client w3 \<and> ht_ParseURL env (tc_URL t) = None \<and>
       ht_Do env client (timestamp_query t req) w3 = (Ok (code, body), w4) \<and> code \<in> {200, 201} \<and>
       ht_ReadBody env body w4 = (Ok resp, w') \<and> (\<exists>ts. ts_ParseResponse env resp = Inr ts) \<and>
       ts_mutate_WithRFC3161Timestamp env s0 (ts_TimestampToRFC3161Timestamp env resp) = Inr s)"
    (is "?run \<longleftrightarrow> ?parts")
proof
  assume ?run
  from http_timestamping.timestamps_signature [OF assms this] show ?parts
    unfolding GetTimestampResponse_Ok by (elim exE conjE) (intro exI conjI)
next
  assume ?parts
  then obtain s0 sig nonce req resp w1 w2 where
    signed: "payload_Sign env ps (Inr p) w = (Ok (s0, pk), w1)"
      "ce_sig_Base64Signature env s = Inr (b64_encode sig)" and
    req: "ts_GenerateSerialNumber env w1 = (Ok nonce, w2)"
      "ts_CreateRequest env sig \<lparr>ro_Hash = SHA256, ro_Certificates = True, ro_Nonce = nonce,
         ro_TSAPolicyOID = []\<rparr> = Inr req" and
    resp: "GetTimestampResponse env t req w2 = (Ok resp, w')" and
    attached: "ts_mutate_WithRFC3161Timestamp env s0 (ts_TimestampToRFC3161Timestamp env resp) = Inr s"
    unfolding GetTimestampResponse_Ok by blast
  have "ts_sig_Signature env s0 = Inr sig"
    using assms(2) signed(2) attached by (simp add: rfc3161_documented_def)
  with signed req resp attached show ?run
    by (auto simp: tsa_Sign_def GetTimestampedSignature_def createTimestampAuthorityRequest_def
        Let_def go_inv)
qed

definition sample_sign_http :: "sworld \<Rightarrow> (handle \<times> handle) result \<times> sworld" where
  "sample_sign_http = tsa_Sign sample_http (payload_Sign sample_http sample_payload_signer)
     (GetTimestampResponse sample_http (NewTSAClient ''https://tsa'')) (Inr ''img'')"

theorem timestamped_signature_witness:
  "let w = sample_world (two_pods NodeSucceeded) False
   in \<exists>s pk w' sig. sample_sign_http w = (Ok (s, pk), w') \<and>
      ce_sig_Base64Signature sample_http s = Inr (b64_encode sig) \<and>
      signed_by sample_http (bare_signer Opaque) ''img'' sig"
proof -
  let ?w = "sample_world (two_pods NodeSucceeded) False"
  let ?r = "sample_sign_http ?w"
  have ok: "case fst ?r of Ok x \<Rightarrow> True | Fail e \<Rightarrow> False | Panic m \<Rightarrow> False" by code_simp
  then obtain s pk where "fst ?r = Ok (s, pk)" by (auto split: result.splits)
  then have run: "?r = (Ok (s, pk), snd ?r)" by (simp add: prod_eq_iff)
  from timestamped_signature [OF sample_http_documented, THEN iffD1, OF run [unfolded sample_sign_http_def]]
  obtain sig where "signed_by sample_http (ps_payloadSigner sample_payload_signer) ''img'' sig"
    "ce_sig_Base64Signature sample_http s = Inr (b64_encode sig)" by blast
  with run show ?thesis
    unfolding Let_def by (intro exI [of _ s] exI [of _ pk] exI [of _ "snd ?r"] exI [of _ sig])
      (simp add: sample_payload_signer_def)
qed

text \<open>C35: With the in-process authority, the response attached to the payload signer's signature is the one
  the authority makes of a timestamp over the SHA-256 hash of that raw signature: the request made from
  the signature is parsed back to it. The time is the one the authority was made with, when it was
  made with one.\<close>

theorem mock_timestamp_covers_signature:
  assumes "oci_documented env" and "rfc3161_documented env" and "mock_documented env"
    and "tsa_Sign env (payload_Sign env ps) (\<lambda>b. mock_GetTimestampResponse env c (Some b)) (Inr p) w =
      (Ok (s, pk), w')"
  shows "\<exists>s0 sig tst resp w1 w2. payload_Sign env ps (Inr p) w = (Ok (s0, pk), w1) \<and>
    signed_by env (ps_payloadSigner ps) p sig \<and>
    ce_sig_Payload env s = Inr p \<and> ce_sig_Base64Signature env s = Inr (b64_encode sig) \<and>
    tst_HashAlgorithm tst = SHA256 \<and> tst_HashedMessage tst = mk_hash env SHA256 sig \<and>
    (mc_Time c \<noteq> 0 \<longrightarrow> tst_Time tst = mc_Time c) \<and>
    mk_CreateResponseWithOpts env tst (hd (mc_CertChain c)) (mc_Signer c) SHA256 w2 = (Ok resp, w') \<and>
    (\<exists>ts. ts_ParseResponse env resp = Inr ts) \<and>
    ts_mutate_WithRFC3161Timestamp env s0 (ts_TimestampToRFC3161Timestamp env resp) = Inr s"
proof -
  from mock_timestamping.timestamps_signature [OF assms(1,2,4)] obtain s0 sig nonce req resp w1 w2 where
    signed: "payload_Sign env ps (Inr p) w = (Ok (s0, pk), w1)" "signed_by env (ps_payloadSigner ps) p sig"
      "ce_sig_Payload env s = Inr p" "ce_sig_Base64Signature env s = Inr (b64_encode sig)" and
    req: "ts_CreateRequest env sig \<lparr>ro_Hash = SHA256, ro_Certificates = True, ro_Nonce = nonce,
      ro_TSAPolicyOID = []\<rparr> = Inr req" and
    resp: "mock_GetTimestampResponse env c (Some req) w2 = (Ok resp, w')" and
    attached: "ts_mutate_WithRFC3161Timestamp env s0 (ts_TimestampToRFC3161Timestamp env resp) = Inr s" and
    parsed: "mock_documented env \<longrightarrow> (\<exists>ts. ts_ParseResponse env resp = Inr ts)"
    by blast
  from mock_GetTimestampResponse_Ok [OF resp] obtain alg msg tst w3 where
    tst: "mk_ParseRequest env req = Inr (alg, msg)" "tst_HashAlgorithm tst = alg" "tst_HashedMessage tst = msg"
      "mc_Time c \<noteq> 0 \<longrightarrow> tst_Time tst = mc_Time c"
      "mk_CreateResponseWithOpts env tst (hd (mc_CertChain c)) (mc_Signer c) SHA256 w3 = (Ok resp, w')"
    by blast
  have "mk_ParseRequest env req = Inr (SHA256, mk_hash env SHA256 sig)"
    using assms(3) req unfolding mock_documented_def by fastforce
  with tst have "tst_HashAlgorithm tst = SHA256" "tst_HashedMessage tst = mk_hash env SHA256 sig"
    by simp_all
  with signed tst(4,5) parsed assms(3) attached show ?thesis by blast
qed

theorem mock_timestamp_covers_signature_witness:
  "let c = \<lparr>mc_Signer = Opaque, mc_CertChain = [Opaque], mc_Time = 5, mc_Message = ''''\<rparr>;
       w = sample_world (two_pods NodeSucceeded) False
   in \<exists>s0 s pk sig tst resp w2 w'. tsa_Sign sample_mock (payload_Sign sample_mock sample_payload_signer)
          (\<lambda>b. mock_GetTimestampResponse sample_mock c (Some b)) (Inr ''img'') w = (Ok (s, pk), w') \<and>
        signed_by sample_mock (bare_signer Opaque) ''img'' sig \<and>
        tst_HashedMessage tst = mk_hash sample_mock SHA256 sig \<and> tst_Time tst = 5 \<and>
        mk_CreateResponseWithOpts sample_mock tst Opaque Opaque SHA256 w2 = (Ok resp, w') \<and>
        ts_mutate_WithRFC3161Timestamp sample_mock s0 (ts_TimestampToRFC3161Timestamp sample_mock resp) = Inr s"
proof -
  let ?c = "\<lparr>mc_Signer = Opaque, mc_CertChain = [Opaque], mc_Time = 5, mc_Message = ''''\<rparr>"
  let ?r = "tsa_Sign sample_mock (payload_Sign sample_mock sample_payload_signer)
    (\<lambda>b. mock_GetTimestampResponse sample_mock ?c (Some b)) (Inr ''img'')
    (sample_world (two_pods NodeSucceeded) False)"
  have "case fst ?r of Ok x \<Rightarrow> True | Fail e \<Rightarrow> False | Panic m \<Rightarrow> False" by code_simp
  then obtain s pk where ok: "fst ?r = Ok (s, pk)" by (auto split: result.splits)
  then have run: "?r = (Ok (s, pk), snd ?r)" by (simp add: prod_eq_iff)
  have c: "mc_Time ?c = 5" "hd (mc_CertChain ?c) = Opaque" "mc_Signer ?c = Opaque" by simp_all
  have ps: "ps_payloadSigner sample_payload_signer = bare_signer Opaque"
    by (simp add: sample_payload_signer_def)
  from mock_timestamp_covers_signature [OF sample_mock_documented run, unfolded c ps] run show ?thesis
    unfolding Let_def by fastforce
qed

section \<open>The transport\<close>

lemma client_certificate_Ok:
  assumes "client_certificate env cert key name tr w = (Ok tr', w')"
  shows "\<exists>c. tr' = tr\<lparr>tr_Certificates := if cert \<noteq> [] \<and> key \<noteq> [] then [c] else tr_Certificates tr,
    tr_ServerName := if name \<noteq> [] then name else tr_ServerName tr\<rparr>"
  using assms by (auto simp: client_certificate_def go_inv split: if_splits)

text \<open>C36: The transport the HTTP client makes for itself never speaks less than TLS 1.3. It trusts a
  pool of its own exactly when a file of CA certificates is configured (then that file was opened and
  read, and the pool is what it held), and presents a client certificate exactly when both a certificate and a key are
  configured: a certificate without a key is dropped without an error.\<close>

theorem http_transport:
  assumes "getHTTPTransport env cacert cert key name timeout w = (Ok tr, w')"
  shows "tr_MinVersion tr = VersionTLS13 \<and> tr_CipherSuites tr = tls13_suites \<and>
    tr_SessionTicketsDisabled tr \<and>
    (tr_RootCAs tr \<noteq> None \<longleftrightarrow> cacert \<noteq> []) \<and>
    (cacert \<noteq> [] \<longrightarrow> (\<exists>f pem w1 w2. ht_Open env cacert w = (Ok f, w1) \<and>
       ht_ReadFile env f w1 = (Ok pem, w2) \<and> ht_AppendCertsFromPEM env pem = tr_RootCAs tr)) \<and>
    (tr_Certificates tr \<noteq> [] \<longleftrightarrow> cert \<noteq> [] \<and> key \<noteq> []) \<and>
    tr_ServerName tr = name \<and>
    tr_DialTimeout tr = (if timeout = 0 then defaultTimeout else timeout)"
proof -
  let ?tr = "base_transport (if timeout = 0 then defaultTimeout else timeout)"
  show ?thesis
  proof (cases "cacert = []")
    case True
    with assms have "client_certificate env cert key name ?tr w = (Ok tr, w')"
      by (simp add: getHTTPTransport_def Let_def)
    from client_certificate_Ok [OF this] True show ?thesis
      by (auto simp: base_transport_def)
  next
    case False
    with assms obtain f pem pool w1 w2 w3 where
      read: "ht_Open env cacert w = (Ok f, w1)" "ht_ReadFile env f w1 = (Ok pem, w2)" "ht_AppendCertsFromPEM env pem = Some pool" and
      run: "client_certificate env cert key name (?tr\<lparr>tr_RootCAs := Some pool\<rparr>) w2 = (Ok tr, w3)"
      by (auto simp: getHTTPTransport_def Let_def go_inv split: option.splits)
    have pool: "tr_MinVersion (?tr\<lparr>tr_RootCAs := Some pool\<rparr>) = VersionTLS13"
      "tr_Certificates (?tr\<lparr>tr_RootCAs := Some pool\<rparr>) = []" "tr_ServerName (?tr\<lparr>tr_RootCAs := Some pool\<rparr>) = []"
      by (simp_all add: base_transport_def)
    from client_certificate_Ok [OF run] obtain c where tr: "tr = ?tr\<lparr>tr_RootCAs := Some pool,
        tr_Certificates := if cert \<noteq> [] \<and> key \<noteq> [] then [c] else [], tr_ServerName := name\<rparr>"
      unfolding pool by (cases "name = []") auto
    from read have "\<exists>f pem w1 w2. ht_Open env cacert w = (Ok f, w1) \<and> ht_ReadFile env f w1 = (Ok pem, w2) \<and>
        ht_AppendCertsFromPEM env pem = Some pool" by blast
    with tr False show ?thesis by (simp add: base_transport_def)
  qed
qed

text \<open>A certificate without its key: the server is not told who calls.\<close>

theorem http_transport_witness:
  "let w = sample_world (two_pods NodeSucceeded) False
   in \<exists>tr. fst (getHTTPTransport sample_http ''ca.pem'' ''cert.pem'' '''' ''tsa'' 0 w) = Ok tr \<and>
      tr_MinVersion tr = VersionTLS13 \<and> tr_RootCAs tr \<noteq> None \<and> tr_Certificates tr = [] \<and>
      tr_ServerName tr = ''tsa'' \<and> tr_DialTimeout tr = 10000000000"
proof -
  let ?r = "getHTTPTransport sample_http ''ca.pem'' ''cert.pem'' '''' ''tsa'' 0
    (sample_world (two_pods NodeSucceeded) False)"
  have "case fst ?r of Ok x \<Rightarrow> True | Fail e \<Rightarrow> False | Panic m \<Rightarrow> False" by code_simp
  then obtain tr where ok: "fst ?r = Ok tr" by (auto split: result.splits)
  then have run: "?r = (Ok tr, snd ?r)" by (simp add: prod_eq_iff)
  from http_transport [OF run] ok show ?thesis
    by (simp add: Let_def defaultTimeout_def Second_def)
qed

section \<open>DSSE\<close>

text \<open>C37: The envelope of the DSSE attestor holds the pre-authentication encoding of the payload, not
  the payload: base64 decoding its \<open>payload\<close> field gives the encoding itself, and its signature field
  decodes to a signature over that encoding. A verifier that follows the protocol encodes what it
  decodes, and since the encoding is longer than what it encodes, what it checks the signature
  against is never the message that was signed.\<close>

theorem dsse_signs_encoding:
  assumes "DSSEAttest env pa (Inr p) w = (Ok (att, pk), w')"
    and "\<And>t b. length b < length (da_PAE env t b)"
  shows "\<exists>sig e json. signed_by env (ps_payloadSigner (pa_signer pa)) (da_PAE env (pa_payloadType pa) p) sig \<and>
    da_json_Marshal_envelope env e = Inr json \<and>
    at_NewAttestation env json [WithLayerMediaType (at_DssePayloadType env)] = Inr att \<and>
    dv_PayloadType e = pa_payloadType pa \<and>
    map b64_decode (dv_Signatures e) = [Inr sig] \<and>
    b64_decode (dv_Payload e) = Inr (da_PAE env (pa_payloadType pa) p) \<and>
    (\<forall>body. b64_decode (dv_Payload e) = Inr body \<longrightarrow>
       da_PAE env (dv_PayloadType e) body \<noteq> da_PAE env (pa_payloadType pa) p)"
proof -
  let ?pae = "da_PAE env (pa_payloadType pa) p"
  from DSSEAttest_Ok [OF assms(1)] obtain sig json w1 where
    sig: "payload_signPayload env (pa_signer pa) ?pae w = (Ok sig, w1)" and
    json: "da_json_Marshal_envelope env (dsse_envelope (pa_payloadType pa) ?pae sig) = Inr json"
      "at_NewAttestation env json [WithLayerMediaType (at_DssePayloadType env)] = Inr att"
    by blast
  have "signed_by env (ps_payloadSigner (pa_signer pa)) ?pae sig"
    using payload_signPayload_signed [OF sig] .
  moreover have "da_PAE env t ?pae \<noteq> ?pae" for t
    using assms(2) [of ?pae t] by (metis less_irrefl)
  ultimately show ?thesis
    using json
    by (intro exI [of _ sig] exI [of _ "dsse_envelope (pa_payloadType pa) ?pae sig"] exI [of _ json])
      (simp add: dsse_envelope_def)
qed

definition sample_dsse :: "(handle, sworld) dsse_env" where
  "sample_dsse = attest_env.extend (attest_env.truncate sample_env) (dsse_env.fields
     (\<lambda>t b. ''DSSEv1 '' @ fmt_d (int (length t)) @ '' '' @ t @ '' '' @ fmt_d (int (length b)) @ '' '' @ b)
     (\<lambda>e. Inr (dv_Payload e)))"

theorem dsse_signs_encoding_witness:
  "let pa = \<lparr>pa_signer = sample_payload_signer, pa_payloadType = ''t''\<rparr>;
       (r, w') = DSSEAttest sample_dsse pa (Inr ''body'') (sample_world (two_pods NodeSucceeded) False)
   in \<exists>att sig (e :: envelope). r = Ok att \<and>
      signed_by sample_dsse (bare_signer Opaque) ''DSSEv1 1 t 4 body'' sig \<and>
      b64_decode (dv_Payload e) = Inr ''DSSEv1 1 t 4 body'' \<and>
      da_PAE sample_dsse (dv_PayloadType e) ''DSSEv1 1 t 4 body'' \<noteq> ''DSSEv1 1 t 4 body''"
proof -
  let ?pa = "\<lparr>pa_signer = sample_payload_signer, pa_payloadType = ''t''\<rparr>"
  let ?r = "DSSEAttest sample_dsse ?pa (Inr ''body'') (sample_world (two_pods NodeSucceeded) False)"
  have longer: "length b < length (da_PAE sample_dsse t b)" for t b
    by (simp add: sample_dsse_def attest_env.defs dsse_env.defs)
  have pae: "da_PAE sample_dsse ''t'' ''body'' = ''DSSEv1 1 t 4 body''" by code_simp
  have "case fst ?r of Ok x \<Rightarrow> True | Fail e \<Rightarrow> False | Panic m \<Rightarrow> False" by code_simp
  then obtain att pk where ok: "fst ?r = Ok (att, pk)" by (auto split: result.splits)
  then have run: "?r = (Ok (att, pk), snd ?r)" by (simp add: prod_eq_iff)
  from dsse_signs_encoding [OF run longer] obtain sig and e :: envelope where
    e: "signed_by sample_dsse (ps_payloadSigner (pa_signer ?pa)) (da_PAE sample_dsse (pa_payloadType ?pa) ''body'') sig"
    "b64_decode (dv_Payload e) = Inr (da_PAE sample_dsse (pa_payloadType ?pa) ''body'')"
    "\<forall>body. b64_decode (dv_Payload e) = Inr body \<longrightarrow>
       da_PAE sample_dsse (dv_PayloadType e) body \<noteq> da_PAE sample_dsse (pa_payloadType ?pa) ''body''"
    by (elim exE conjE) (rule that)
  have t: "pa_payloadType ?pa = ''t''" "pa_signer ?pa = sample_payload_signer" by simp_all
  have "signed_by sample_dsse (ps_payloadSigner sample_payload_signer) ''DSSEv1 1 t 4 body'' sig"
    "b64_decode (dv_Payload e) = Inr ''DSSEv1 1 t 4 body''"
    "da_PAE sample_dsse (dv_PayloadType e) ''DSSEv1 1 t 4 body'' \<noteq> ''DSSEv1 1 t 4 body''"
    using e unfolding t pae by blast+
  with ok show ?thesis
    unfolding Let_def split_beta
    by (intro exI [of _ "(att, pk)"] exI [of _ sig] exI [of _ e]) (simp add: sample_payload_signer_def)
qed

end
