(* ===== verification/FulcioRoots.thy ===== *)
theory FulcioRoots imports GoCore begin

text \<open>
  The package \<open>fulcio/fulcioroots\<close>: the root and intermediate certificate pools, initialised once per
  process under a \<open>sync.Once\<close>, and \<open>SplitPEMCertificateChain\<close> of \<open>tsa/utils.go\<close>, which sorts the same
  kind of PEM bundle differently.

  The package's variables are the record \<open>pools\<close>, the first component of the state. A certificate has
  the fields the source reads; a pool is the list of its certificates, to which \<open>AddCert\<close> adds one
  that is not there yet. The environment, the file system, the PEM parser and sigstore's own
  \<open>fulcioroots\<close> are parameters.
\<close>

record x509_cert =
  xc_Raw :: bytes
  xc_RawSubject :: bytes
  xc_RawIssuer :: bytes
  xc_IsCA :: bool

definition self_signed :: "x509_cert \<Rightarrow> bool" where
  "self_signed cert \<longleftrightarrow> xc_RawSubject cert = xc_RawIssuer cert"

section \<open>Splitting a chain\<close>

fun split_certs ::
  "x509_cert list \<Rightarrow> x509_cert list \<times> x509_cert list \<times> x509_cert list" where
  "split_certs [] = ([], [], [])"
| "split_certs (cert # certs) =
     (case split_certs certs of
        (leaves, intermediates, roots) \<Rightarrow>
          if \<not> xc_IsCA cert then (cert # leaves, intermediates, roots)
          else if xc_RawSubject cert = xc_RawIssuer cert
          then (leaves, intermediates, cert # roots)
          else (leaves, cert # intermediates, roots))"

definition SplitPEMCertificateChain ::
  "(bytes \<Rightarrow> goerr + x509_cert list) \<Rightarrow> bytes \<Rightarrow>
   goerr + x509_cert list \<times> x509_cert list \<times> x509_cert list" where
  "SplitPEMCertificateChain UnmarshalCertificatesFromPEM pem =
     (case UnmarshalCertificatesFromPEM pem of
        Inl err \<Rightarrow> Inl err
      | Inr certs \<Rightarrow> Inr (split_certs certs))"

lemma split_certs_filter:
  "split_certs certs =
     (filter (\<lambda>c. \<not> xc_IsCA c) certs, filter (\<lambda>c. xc_IsCA c \<and> \<not> self_signed c) certs,
      filter (\<lambda>c. xc_IsCA c \<and> self_signed c) certs)"
  by (induction certs) (simp_all add: self_signed_def)

section \<open>The pools\<close>

type_synonym certpool = "x509_cert list"

definition AddCert :: "certpool \<Rightarrow> x509_cert \<Rightarrow> certpool" where
  "AddCert pool cert = (if xc_Raw cert \<in> xc_Raw ` set pool then pool else pool @ [cert])"

record pools =
  fr_once :: bool
  fr_roots :: "certpool option"
  fr_intermediates :: "certpool option"
  fr_singletonRootErr :: "goerr option"

definition fresh_pools :: pools where
  "fresh_pools = \<lparr>fr_once = False, fr_roots = None, fr_intermediates = None, fr_singletonRootErr = None\<rparr>"

record 'w roots_env =
  fe_Getenv :: "string \<Rightarrow> ('w, string) go"
  fe_ReadFile :: "string \<Rightarrow> ('w, bytes) go"
  fe_UnmarshalCertificatesFromPEM :: "bytes \<Rightarrow> goerr + x509_cert list"
  fe_fulcioroots_Get :: "('w, certpool option) go"
  fe_fulcioroots_GetIntermediates :: "('w, certpool option) go"

text \<open>The loop over the certificates of the file: self-signed ones go to the root pool, the others to
  the intermediate pool, which is made when the first one comes.\<close>

fun sort_certs ::
  "certpool \<Rightarrow> certpool option \<Rightarrow> x509_cert list \<Rightarrow> certpool \<times> certpool option" where
  "sort_certs rootPool intermediatePool [] = (rootPool, intermediatePool)"
| "sort_certs rootPool intermediatePool (cert # certs) =
     (if xc_RawSubject cert = xc_RawIssuer cert
      then sort_certs (AddCert rootPool cert) intermediatePool certs
      else sort_certs rootPool
        (Some (AddCert (case intermediatePool of None \<Rightarrow> [] | Some pool \<Rightarrow> pool) cert)) certs)"

definition initRoots :: "('w, 'z) roots_env_scheme \<Rightarrow> ('w, certpool option \<times> certpool option) go" where
  "initRoots env =
     go_bind (fe_Getenv env ''SIGSTORE_ROOT_FILE'') (\<lambda>rootEnv.
       if rootEnv \<noteq> [] then
         go_bind (go_wrap ''error reading root PEM file: '' (fe_ReadFile env rootEnv)) (\<lambda>raw.
         go_bind (go_wrap ''error unmarshalling certificates: ''
           (go_of (fe_UnmarshalCertificatesFromPEM env raw))) (\<lambda>certs.
         case sort_certs [] None certs of
           (rootPool, intermediatePool) \<Rightarrow> go_ret (Some rootPool, intermediatePool)))
       else
         go_bind (fe_fulcioroots_Get env) (\<lambda>rootPool.
         go_bind (fe_fulcioroots_GetIntermediates env) (\<lambda>intermediatePool.
         go_ret (rootPool, intermediatePool))))"

text \<open>\<open>roots, intermediates, singletonRootErr = initRoots()\<close>\<close>

definition assign_roots :: "('w, 'z) roots_env_scheme \<Rightarrow> (pools \<times> 'w, unit) go" where
  "assign_roots env =
     go_catch (go_snd (initRoots env))
       (\<lambda>err. go_upd (\<lambda>p. p\<lparr>fr_roots := None, fr_intermediates := None, fr_singletonRootErr := Some err\<rparr>))
       (\<lambda>(rs, is). go_upd (\<lambda>p. p\<lparr>fr_roots := rs, fr_intermediates := is, fr_singletonRootErr := None\<rparr>))"

text \<open>\<open>sync.Once.Do\<close>: the function runs on the first call only, and counts as run also after a panic.\<close>

definition once_Do :: "(pools \<times> 'w, unit) go \<Rightarrow> (pools \<times> 'w, unit) go" where
  "once_Do f =
     go_get (\<lambda>p. if fr_once p then go_ret ()
       else go_defer (go_upd (\<lambda>p. p\<lparr>fr_once := True\<rparr>)) f)"

definition roots_Get ::
  "('w, 'z) roots_env_scheme \<Rightarrow> (pools \<times> 'w, certpool option \<times> goerr option) go" where
  "roots_Get env =
     go_bind (once_Do (assign_roots env))
       (\<lambda>_. go_get (\<lambda>p. go_ret (fr_roots p, fr_singletonRootErr p)))"

definition roots_GetIntermediates ::
  "('w, 'z) roots_env_scheme \<Rightarrow> (pools \<times> 'w, certpool option \<times> goerr option) go" where
  "roots_GetIntermediates env =
     go_bind (once_Do (assign_roots env))
       (\<lambda>_. go_get (\<lambda>p. go_ret (fr_intermediates p, fr_singletonRootErr p)))"

definition roots_ReInit :: "('w, 'z) roots_env_scheme \<Rightarrow> (pools \<times> 'w, goerr option) go" where
  "roots_ReInit env =
     go_bind (assign_roots env) (\<lambda>_. go_get (\<lambda>p. go_ret (fr_singletonRootErr p)))"

section \<open>Lemmas\<close>

lemma set_AddCert: "xc_Raw ` set (AddCert pool cert) = insert (xc_Raw cert) (xc_Raw ` set pool)"
  by (auto simp: AddCert_def)

lemma AddCert_distinct: "distinct (map xc_Raw pool) \<Longrightarrow> distinct (map xc_Raw (AddCert pool cert))"
  by (auto simp: AddCert_def)

lemma AddCert_subset: "set (AddCert pool cert) \<subseteq> insert cert (set pool)"
  by (auto simp: AddCert_def)

definition pool_certs :: "certpool option \<Rightarrow> x509_cert list" where
  "pool_certs pool = (case pool of None \<Rightarrow> [] | Some certs \<Rightarrow> certs)"

lemma pool_certs_simps [simp]: "pool_certs None = []" "pool_certs (Some certs) = certs"
  by (simp_all add: pool_certs_def)

lemma sort_certs_Cons:
  "sort_certs rs is (cert # certs) =
     (if self_signed cert then sort_certs (AddCert rs cert) is certs
      else sort_certs rs (Some (AddCert (pool_certs is) cert)) certs)"
  by (simp add: self_signed_def pool_certs_def)

lemma sort_certs_raw:
  assumes "sort_certs rs is certs = (rs', is')"
  shows "xc_Raw ` set rs' = xc_Raw ` set rs \<union> xc_Raw ` {c \<in> set certs. self_signed c}"
    "xc_Raw ` set (pool_certs is') =
      xc_Raw ` set (pool_certs is) \<union> xc_Raw ` {c \<in> set certs. \<not> self_signed c}"
  using assms
proof (induction certs arbitrary: rs "is")
  case (Cons cert certs)
  have split: "{c. (c = cert \<or> c \<in> set certs) \<and> P c} =
      (if P cert then insert cert {c \<in> set certs. P c} else {c \<in> set certs. P c})" for P
    by auto
  {
    case 1
    with Cons.IH(1) show ?case
      by (cases "self_signed cert") (simp_all add: sort_certs_Cons split set_AddCert del: sort_certs.simps)
  next
    case 2
    with Cons.IH(2) show ?case
      by (cases "self_signed cert") (simp_all add: sort_certs_Cons split set_AddCert del: sort_certs.simps)
  }
qed simp_all

lemma sort_certs_nil:
  assumes "sort_certs rs is certs = (rs', is')"
  shows "is' = None \<longleftrightarrow> is = None \<and> (\<forall>c \<in> set certs. self_signed c)"
  using assms
proof (induction certs arbitrary: rs "is")
  case (Cons cert certs)
  then show ?case
    by (cases "self_signed cert") (simp_all add: sort_certs_Cons del: sort_certs.simps)
qed simp

lemma sort_certs_kinds:
  assumes "sort_certs rs is certs = (rs', is')"
  shows "set rs' \<subseteq> set rs \<union> {c \<in> set certs. self_signed c}"
    "set (pool_certs is') \<subseteq> set (pool_certs is) \<union> {c \<in> set certs. \<not> self_signed c}"
  using assms
proof (induction certs arbitrary: rs "is")
  case (Cons cert certs)
  {
    case 1
    with Cons.IH(1) [of "AddCert rs cert" "is"] Cons.IH(1) [of rs "Some (AddCert (pool_certs is) cert)"]
      AddCert_subset [of rs cert]
    show ?case
      by (cases "self_signed cert") (auto simp: sort_certs_Cons simp del: sort_certs.simps)
  next
    case 2
    with Cons.IH(2) [of "AddCert rs cert" "is"] Cons.IH(2) [of rs "Some (AddCert (pool_certs is) cert)"]
      AddCert_subset [of "pool_certs is" cert]
    show ?case
      by (cases "self_signed cert") (auto simp: sort_certs_Cons simp del: sort_certs.simps)
  }
qed simp_all

lemma sort_certs_distinct:
  assumes "sort_certs rs is certs = (rs', is')"
  shows "distinct (map xc_Raw rs) \<Longrightarrow> distinct (map xc_Raw (pool_certs is)) \<Longrightarrow>
    distinct (map xc_Raw rs') \<and> distinct (map xc_Raw (pool_certs is'))"
  using assms
proof (induction certs arbitrary: rs "is")
  case (Cons cert certs)
  show ?case
  proof (cases "self_signed cert")
    case True
    with Cons.prems Cons.IH [of "AddCert rs cert" "is"] show ?thesis
      by (simp add: sort_certs_Cons AddCert_distinct del: sort_certs.simps)
  next
    case False
    with Cons.prems Cons.IH [of rs "Some (AddCert (pool_certs is) cert)"] show ?thesis
      by (simp add: sort_certs_Cons AddCert_distinct del: sort_certs.simps)
  qed
qed simp

lemma assign_roots_run:
  "assign_roots env (p, w) =
     (case initRoots env w of
        (Ok (rs, is), w') \<Rightarrow>
          (Ok (), (p\<lparr>fr_roots := rs, fr_intermediates := is, fr_singletonRootErr := None\<rparr>, w'))
      | (Fail e, w') \<Rightarrow>
          (Ok (), (p\<lparr>fr_roots := None, fr_intermediates := None, fr_singletonRootErr := Some e\<rparr>, w'))
      | (Panic m, w') \<Rightarrow> (Panic m, (p, w')))"
  by (auto simp: assign_roots_def go_catch_def go_snd_def go_upd_def split: prod.splits result.splits)

lemma once_Do_done: "fr_once p \<Longrightarrow> once_Do f (p, w) = (Ok (), (p, w))"
  by (simp add: once_Do_def go_run)

lemma once_Do_first:
  "\<not> fr_once p \<Longrightarrow> once_Do f (p, w) =
     (case f (p, w) of (r, (p', w')) \<Rightarrow> (r, (p'\<lparr>fr_once := True\<rparr>, w')))"
  by (auto simp: once_Do_def go_get_def go_defer_def go_upd_def split: prod.splits)

end
