(* ===== verification/Helpers.thy ===== *)
theory Helpers imports Strconv begin

text \<open>
  Small packages under \<open>pkg/signer/internal/pkg\<close>: the payload size check (\<open>cosign/payload/size\<close>), the
  clock that honours \<open>SOURCE_DATE_EPOCH\<close> (\<open>now\<close>), the artifact type of an attachment (\<open>oci/remote\<close>),
  and \<open>FileExists\<close> and the hashing reader (\<open>cosign/common.go\<close>).

  Sizes are \<open>64 word\<close>, as is the number of seconds. The environment, the file system, the clock, the
  reader that is wrapped and the hash function are parameters.
\<close>

section \<open>The size check\<close>

record max_layer_size_exceeded =
  ml_value :: "64 word"
  ml_maximum :: "64 word"

definition NewMaxLayerSizeExceeded :: "64 word \<Rightarrow> 64 word \<Rightarrow> max_layer_size_exceeded" where
  "NewMaxLayerSizeExceeded value maximum = \<lparr>ml_value = value, ml_maximum = maximum\<rparr>"

definition MaxLayerSizeExceeded_Error :: "max_layer_size_exceeded \<Rightarrow> string" where
  "MaxLayerSizeExceeded_Error e =
     ''size of layer ('' @ nat_digits (unat (ml_value e)) @ '') exceeded the limit ('' @
       nat_digits (unat (ml_maximum e)) @ '')''"

definition defaultMaxSize :: "64 word" where "defaultMaxSize = 134217728"

text \<open>The value of the environment variable, \<open>None\<close> when it is not set, and the third-party
  \<open>humanize.ParseBytes\<close> are arguments.\<close>

definition CheckSize ::
  "string option \<Rightarrow> (string \<Rightarrow> goerr + 64 word) \<Rightarrow> 64 word \<Rightarrow> max_layer_size_exceeded option" where
  "CheckSize lookupEnv ParseBytes layerSize =
     (let maxSize =
        (case lookupEnv of
           None \<Rightarrow> defaultMaxSize
         | Some maxSizeOverride \<Rightarrow>
             (case ParseBytes maxSizeOverride of Inl err \<Rightarrow> defaultMaxSize | Inr m \<Rightarrow> m))
      in if layerSize > maxSize then Some (NewMaxLayerSizeExceeded layerSize maxSize) else None)"

section \<open>The clock\<close>

record ('t, 'w) now_env =
  nw_Getenv :: "string \<Rightarrow> ('w, string) go"
  nw_time_Now :: "('w, 't) go"
  nw_time_Unix :: "64 word \<Rightarrow> 't"
  nw_Quote :: "string \<Rightarrow> string"

definition source_date_message :: string where
  "source_date_message =
     ''SOURCE_DATE_EPOCH should be the number of seconds since January 1st 1970, 00:00 UTC, got: ''"

text \<open>\<open>Now\<close> returns a time in every case, beside the error.\<close>

definition Now :: "('t, 'w) now_env \<Rightarrow> ('w, 't \<times> goerr option) go" where
  "Now env =
     go_bind (nw_Getenv env ''SOURCE_DATE_EPOCH'') (\<lambda>epoch.
       if epoch = [] then go_bind (nw_time_Now env) (\<lambda>t. go_ret (t, None))
       else
         (case ParseInt (nw_Quote env) epoch of
            (seconds, Some err) \<Rightarrow>
              go_bind (nw_time_Now env) (\<lambda>t. go_ret (t, Some (WrapErr source_date_message err)))
          | (seconds, None) \<Rightarrow> go_ret (nw_time_Unix env seconds, None)))"

section \<open>Attachments and files\<close>

definition ArtifactType :: "string \<Rightarrow> string" where
  "ArtifactType attName = ''application/vnd.dev.cosign.artifact.'' @ attName @ ''.v1+json''"

text \<open>\<open>os.Stat\<close> as an argument: whether the file is a directory.\<close>

definition FileExists :: "(string \<Rightarrow> ('w, bool) go) \<Rightarrow> string \<Rightarrow> ('w, bool) go" where
  "FileExists Stat filename =
     go_catch (Stat filename)
       (\<lambda>err. if err_As err = FsErrNotExist then go_ret False else go_fail err)
       (\<lambda>isDir. go_ret (\<not> isDir))"

section \<open>The hashing reader\<close>

text \<open>A \<open>hash.Hash\<close> is the bytes written to it since its last reset, with the hash function and its two
  constants; a reader is its state, with the function that reads up to \<open>n\<close> bytes. \<open>io.TeeReader\<close>
  writes what was read to the hash, also when the read returns an error beside the bytes.\<close>

record hash_function =
  hf_digest :: "bytes \<Rightarrow> bytes"
  hf_Size :: int
  hf_BlockSize :: int

record 'r hash_reader =
  hr_reader :: 'r
  hr_hashed :: bytes

definition NewHashReader :: "'r \<Rightarrow> bytes \<Rightarrow> 'r hash_reader" where
  "NewHashReader r hashed = \<lparr>hr_reader = r, hr_hashed = hashed\<rparr>"

definition HashReader_Read ::
  "('r \<Rightarrow> nat \<Rightarrow> (bytes \<times> goerr option) \<times> 'r) \<Rightarrow> nat \<Rightarrow> 'r hash_reader \<Rightarrow>
   (bytes \<times> goerr option) \<times> 'r hash_reader" where
  "HashReader_Read read n h =
     (case read (hr_reader h) n of
        ((p, err), r) \<Rightarrow> ((p, err), h\<lparr>hr_reader := r, hr_hashed := hr_hashed h @ p\<rparr>))"

definition HashReader_Sum :: "hash_function \<Rightarrow> bytes \<Rightarrow> 'r hash_reader \<Rightarrow> bytes" where
  "HashReader_Sum f p h = p @ hf_digest f (hr_hashed h)"

definition HashReader_Reset :: "'r hash_reader \<Rightarrow> 'r hash_reader" where
  "HashReader_Reset h = h\<lparr>hr_hashed := []\<rparr>"

definition HashReader_Size :: "hash_function \<Rightarrow> 'r hash_reader \<Rightarrow> int" where
  "HashReader_Size f h = hf_Size f"

definition HashReader_BlockSize :: "hash_function \<Rightarrow> 'r hash_reader \<Rightarrow> int" where
  "HashReader_BlockSize f h = hf_BlockSize f"

definition HashReader_Write :: "bytes \<Rightarrow> 'r hash_reader \<Rightarrow> (nat \<times> goerr option) \<times> 'r hash_reader" where
  "HashReader_Write p h = ((0, Some (errors_New ''not implemented'')), h)"

subsection \<open>Histories\<close>

text \<open>What a user can do with a hashing reader, and the bytes a history delivered since the hash was
  last reset.\<close>

datatype hr_op =
    Read nat
  | Reset
  | Write bytes

fun hr_run ::
  "('r \<Rightarrow> nat \<Rightarrow> (bytes \<times> goerr option) \<times> 'r) \<Rightarrow> hr_op list \<Rightarrow> 'r hash_reader \<Rightarrow>
   bytes list \<times> 'r hash_reader" where
  "hr_run read [] h = ([], h)"
| "hr_run read (Read n # ops) h =
     (case HashReader_Read read n h of
        ((p, err), h1) \<Rightarrow> (case hr_run read ops h1 of (ps, h2) \<Rightarrow> (p # ps, h2)))"
| "hr_run read (Reset # ops) h =
     (case hr_run read ops (HashReader_Reset h) of (ps, h2) \<Rightarrow> ([] # ps, h2))"
| "hr_run read (Write p # ops) h =
     (case HashReader_Write p h of
        (_, h1) \<Rightarrow> (case hr_run read ops h1 of (ps, h2) \<Rightarrow> ([] # ps, h2)))"

fun since_reset :: "bytes \<Rightarrow> hr_op list \<Rightarrow> bytes list \<Rightarrow> bytes" where
  "since_reset acc (Reset # ops) (p # ps) = since_reset [] ops ps"
| "since_reset acc (_ # ops) (p # ps) = since_reset (acc @ p) ops ps"
| "since_reset acc _ _ = acc"

lemma hr_run_hashed:
  "hr_run read ops h = (ps, h') \<Longrightarrow> hr_hashed h' = since_reset (hr_hashed h) ops ps"
proof (induction ops arbitrary: h ps)
  case (Cons op ops)
  show ?case
  proof (cases op)
    case (Read n)
    obtain p err r where read: "read (hr_reader h) n = ((p, err), r)" by (metis prod.exhaust)
    with Cons Read show ?thesis by (auto simp: HashReader_Read_def split: prod.splits)
  next
    case Reset
    with Cons show ?thesis by (auto simp: HashReader_Reset_def split: prod.splits)
  next
    case (Write p)
    with Cons show ?thesis by (auto simp: HashReader_Write_def split: prod.splits)
  qed
qed simp

text \<open>The bytes the user gets are those the wrapped reader delivers.\<close>

fun raw_run ::
  "('r \<Rightarrow> nat \<Rightarrow> (bytes \<times> goerr option) \<times> 'r) \<Rightarrow> hr_op list \<Rightarrow> 'r \<Rightarrow> bytes list \<times> 'r" where
  "raw_run read [] r = ([], r)"
| "raw_run read (Read n # ops) r =
     (case read r n of ((p, err), r1) \<Rightarrow> (case raw_run read ops r1 of (ps, r2) \<Rightarrow> (p # ps, r2)))"
| "raw_run read (_ # ops) r = (case raw_run read ops r of (ps, r2) \<Rightarrow> ([] # ps, r2))"

lemma hr_run_raw:
  "hr_run read ops h = (ps, h') \<Longrightarrow> raw_run read ops (hr_reader h) = (ps, hr_reader h')"
proof (induction ops arbitrary: h ps)
  case (Cons op ops)
  show ?case
  proof (cases op)
    case (Read n)
    obtain p err r where read: "read (hr_reader h) n = ((p, err), r)" by (metis prod.exhaust)
    with Cons.prems Read show ?thesis
      by (auto simp: HashReader_Read_def split: prod.splits dest!: Cons.IH)
  next
    case Reset
    with Cons.prems show ?thesis
      by (auto simp: HashReader_Reset_def split: prod.splits dest!: Cons.IH)
  next
    case (Write p)
    with Cons.prems show ?thesis
      by (auto simp: HashReader_Write_def split: prod.splits dest!: Cons.IH)
  qed
qed simp

end
