(* ===== verification/Manager.thy ===== *)
theory Manager imports Controller begin

text \<open>
  The process: \<open>cmd/main.go\<close>. The flags, the options the manager is made with, the controller's set-up
  and the two checks, in the order of the code, up to the blocking call that runs the manager.

  A run of \<open>main\<close> ends by returning or by \<open>os.Exit\<close>; \<open>Exited n\<close> is the second, after which nothing
  of the program runs. \<open>controller-runtime\<close>, the flag parser and the signal handler are parameters.
  The options of the logger are left out.
\<close>

datatype process_end =
    Returned
  | Exited int

record cmd_flags =
  fl_metricsAddr :: string
  fl_probeAddr :: string
  fl_enableLeaderElection :: bool
  fl_secureMetrics :: bool
  fl_enableHTTP2 :: bool

definition default_flags :: cmd_flags where
  "default_flags = \<lparr>fl_metricsAddr = '':8080'', fl_probeAddr = '':8081'',
     fl_enableLeaderElection = False, fl_secureMetrics = False, fl_enableHTTP2 = False\<rparr>"

text \<open>The part of a TLS configuration that is written here.\<close>

record tls_config =
  tls_NextProtos :: "string list"

type_synonym tls_option = "tls_config \<Rightarrow> tls_config"

definition disableHTTP2 :: tls_option where
  "disableHTTP2 c = c\<lparr>tls_NextProtos := [''http/1.1'']\<rparr>"

definition tls_options :: "cmd_flags \<Rightarrow> tls_option list" where
  "tls_options fl = (if \<not> fl_enableHTTP2 fl then [disableHTTP2] else [])"

record 'h manager_options =
  mg_Scheme :: 'h
  mg_Metrics_BindAddress :: string
  mg_Metrics_SecureServing :: bool
  mg_Metrics_TLSOpts :: "tls_option list"
  mg_WebhookServer :: 'h
  mg_HealthProbeBindAddress :: string
  mg_LeaderElection :: bool
  mg_LeaderElectionID :: string

text \<open>\<open>mn_GetConfigOrDie\<close> ends the process when it returns \<open>None\<close>.\<close>

record ('h, 'w) main_env = "('h, 'w) ctrl_env" +
  mn_clientgoscheme_AddToScheme :: "('w, unit) go"
  mn_wfv1alpha1_AddToScheme :: "('w, unit) go"
  mn_scheme :: 'h
  mn_flag_Parse :: "cmd_flags \<Rightarrow> ('w, cmd_flags) go"
  mn_webhook_NewServer :: "tls_option list \<Rightarrow> 'h"
  mn_GetConfigOrDie :: "('w, 'h option) go"
  mn_NewManager :: "'h \<Rightarrow> 'h manager_options \<Rightarrow> ('w, 'h) go"
  mn_AddHealthzCheck :: "'h \<Rightarrow> string \<Rightarrow> ('w, unit) go"
  mn_AddReadyzCheck :: "'h \<Rightarrow> string \<Rightarrow> ('w, unit) go"
  mn_Start :: "'h \<Rightarrow> ('w, unit) go"

text \<open>\<open>init\<close>; \<open>utilruntime.Must\<close> panics on an error.\<close>

definition main_init :: "('h, 'w, 'z) main_env_scheme \<Rightarrow> ('w, unit) go" where
  "main_init env =
     go_bind (panic_on_error (mn_clientgoscheme_AddToScheme env))
       (\<lambda>_. panic_on_error (mn_wfv1alpha1_AddToScheme env))"

definition manager_options_of :: "('h, 'w, 'z) main_env_scheme \<Rightarrow> cmd_flags \<Rightarrow> 'h manager_options" where
  "manager_options_of env fl =
     (let tlsOpts = tls_options fl
      in \<lparr>mg_Scheme = mn_scheme env, mg_Metrics_BindAddress = fl_metricsAddr fl,
          mg_Metrics_SecureServing = fl_secureMetrics fl, mg_Metrics_TLSOpts = tlsOpts,
          mg_WebhookServer = mn_webhook_NewServer env tlsOpts,
          mg_HealthProbeBindAddress = fl_probeAddr fl, mg_LeaderElection = fl_enableLeaderElection fl,
          mg_LeaderElectionID = ''ea2e965f.argo.slsa.io''\<rparr>)"

text \<open>\<open>if err := m; err != nil { os.Exit(1) }\<close>\<close>

definition exit_on_error :: "('w, 'a) go \<Rightarrow> ('a \<Rightarrow> ('w, process_end) go) \<Rightarrow> ('w, process_end) go" where
  "exit_on_error m k = go_catch m (\<lambda>err. go_ret (Exited 1)) k"

definition zero_reconciler :: "'h reconciler" where
  "zero_reconciler = \<lparr>r_InclusterClient = None, r_Namespace = ''''\<rparr>"

text \<open>The reconciler is made and handed to the manager; what remains of it is the manager's.\<close>

definition setup_controller ::
  "('h, 'w, 'z) main_env_scheme \<Rightarrow> 'h \<Rightarrow> ('w, unit) go" where
  "setup_controller env mgr = go_local zero_reconciler (SetupWithManager env mgr)"

definition main_run :: "('h, 'w, 'z) main_env_scheme \<Rightarrow> 'h \<Rightarrow> ('w, process_end) go" where
  "main_run env mgr =
     exit_on_error (setup_controller env mgr) (\<lambda>_.
     exit_on_error (mn_AddHealthzCheck env mgr ''healthz'') (\<lambda>_.
     exit_on_error (mn_AddReadyzCheck env mgr ''readyz'') (\<lambda>_.
     exit_on_error (mn_Start env mgr) (\<lambda>_. go_ret Returned))))"

definition main :: "('h, 'w, 'z) main_env_scheme \<Rightarrow> ('w, process_end) go" where
  "main env =
     go_bind (mn_flag_Parse env default_flags) (\<lambda>fl.
     go_bind (mn_GetConfigOrDie env) (\<lambda>config.
       case config of
         None \<Rightarrow> go_ret (Exited 1)
       | Some cfg \<Rightarrow>
           exit_on_error (mn_NewManager env cfg (manager_options_of env fl)) (main_run env)))"

section \<open>Lemmas\<close>

lemma exit_on_error_Returned [go_inv]:
  "exit_on_error m k s = (Ok Returned, s') \<longleftrightarrow> (\<exists>a s1. m s = (Ok a, s1) \<and> k a s1 = (Ok Returned, s'))"
  by (auto simp: exit_on_error_def go_inv)

lemma exit_on_error_Exited [go_inv]:
  "exit_on_error m k s = (Ok (Exited n), s') \<longleftrightarrow>
     (\<exists>e. m s = (Fail e, s') \<and> n = 1) \<or> (\<exists>a s1. m s = (Ok a, s1) \<and> k a s1 = (Ok (Exited n), s'))"
  by (auto simp: exit_on_error_def go_inv)

lemma panic_on_error_Ok [go_inv]: "panic_on_error m s = (Ok a, s') \<longleftrightarrow> m s = (Ok a, s')"
  by (auto simp: panic_on_error_def go_inv)

lemma panic_on_error_Fail [simp]: "panic_on_error m s \<noteq> (Fail e, s')"
  by (auto simp: panic_on_error_def go_catch_def go_panic_def go_ret_def split: prod.splits result.splits)

text \<open>Setting up ends well only when the cluster was reached, the namespace and the config map were
  there, and the manager took the controller.\<close>

lemma SetupWithManager_Ok:
  assumes "SetupWithManager env mgr (rc, w) = (Ok u, (rc', w'))"
  shows "\<exists>config client w1 w2 ns w3 w4.
    ct_InClusterConfig env w = (Ok config, w1) \<and> ct_NewForConfig env config w1 = (Ok client, w2) \<and>
    getCurrentNamespace env w2 = (Ok ns, w3) \<and>
    ct_ConfigMaps_Get env client ns configMapName w3 = (Ok (), w4) \<and>
    ct_Complete env mgr w4 = (Ok (), w') \<and>
    rc' = rc\<lparr>r_InclusterClient := Some client, r_Namespace := ns\<rparr>"
  using assms
  by (auto simp: SetupWithManager_def clientWithInClusterConfig_def checkConfigMapExists_def
      on_client_def go_inv)

text \<open>Setting up fails only in its last call; every other error is a panic.\<close>

lemma SetupWithManager_Fail:
  assumes "SetupWithManager env mgr (rc, w) = (Fail e, s')"
  shows "\<exists>w1. ct_Complete env mgr w1 = (Fail e, snd s')"
  using assms
  by (auto simp: SetupWithManager_def go_bind_Fail go_inv)

end
