(* ===== verification/ProcessProperties.thy ===== *)
theory ProcessProperties imports FulcioRoots Helpers Manager SampleEnv begin

text \<open>
  Properties of what a process sets up once: the Fulcio root pools, the clock, the hashing reader and
  \<open>main\<close>.
\<close>

section \<open>Root pools\<close>

text \<open>The calls that make or read the pools, and a history of them with the results the callers see; a
  panic is taken to be recovered by the caller. The result of \<open>ReInit\<close> has no pool.\<close>

datatype pool_op =
    GetRoots
  | GetIntermediateRoots
  | ReInitRoots

fun pool_call ::
  "('w, 'z) roots_env_scheme \<Rightarrow> pool_op \<Rightarrow> (pools \<times> 'w, certpool option \<times> goerr option) go" where
  "pool_call env GetRoots = roots_Get env"
| "pool_call env GetIntermediateRoots = roots_GetIntermediates env"
| "pool_call env ReInitRoots = go_bind (roots_ReInit env) (\<lambda>err. go_ret (None, err))"

fun pool_history ::
  "('w, 'z) roots_env_scheme \<Rightarrow> pool_op list \<Rightarrow> pools \<times> 'w \<Rightarrow>
   (certpool option \<times> goerr option) result list \<times> pools \<times> 'w" where
  "pool_history env [] s = ([], s)"
| "pool_history env (op # ops) s =
     (case pool_call env op s of
        (r, s1) \<Rightarrow> (case pool_history env ops s1 of (rs, s2) \<Rightarrow> (r # rs, s2)))"

text \<open>What a caller sees of the package's variables, and what a run of \<open>initRoots\<close> makes of them.\<close>

fun pool_view :: "pools \<Rightarrow> pool_op \<Rightarrow> certpool option \<times> goerr option" where
  "pool_view p GetRoots = (fr_roots p, fr_singletonRootErr p)"
| "pool_view p GetIntermediateRoots = (fr_intermediates p, fr_singletonRootErr p)"
| "pool_view p ReInitRoots = (None, fr_singletonRootErr p)"

fun pools_made :: "(certpool option \<times> certpool option) result \<Rightarrow> pools \<Rightarrow> pools" where
  "pools_made (Ok (rs, ins)) p = p\<lparr>fr_roots := rs, fr_intermediates := ins, fr_singletonRootErr := None\<rparr>"
| "pools_made (Fail e) p = p\<lparr>fr_roots := None, fr_intermediates := None, fr_singletonRootErr := Some e\<rparr>"
| "pools_made (Panic m) p = p"

text \<open>One call, of which \<open>runs\<close> says whether it runs \<open>initRoots\<close>.\<close>

definition pool_step ::
  "('w, 'z) roots_env_scheme \<Rightarrow> bool \<Rightarrow> pool_op \<Rightarrow> pools \<times> 'w \<Rightarrow>
   (certpool option \<times> goerr option) result \<Rightarrow> pools \<times> 'w \<Rightarrow> bool" where
  "pool_step env runs op s res s' \<longleftrightarrow>
     (case (s, s') of ((p, w), (p', w')) \<Rightarrow>
        if runs then
          (\<exists>r. initRoots env w = (r, w') \<and>
             p' = (pools_made r p)\<lparr>fr_once := fr_once p \<or> op \<noteq> ReInitRoots\<rparr> \<and>
             res = (case r of Ok x \<Rightarrow> Ok (pool_view p' op) | Fail e \<Rightarrow> Ok (pool_view p' op) | Panic m \<Rightarrow> Panic m))
        else p' = p \<and> w' = w \<and> res = Ok (pool_view p op))"

lemma pool_call_step:
  assumes "pool_call env op (p, w) = (res, s')"
  shows "pool_step env (op = ReInitRoots \<or> \<not> fr_once p) op (p, w) res s'"
proof -
  obtain r w1 where run: "initRoots env w = (r, w1)" by fastforce
  have assign: "assign_roots env (p, w) =
      (case r of Panic m \<Rightarrow> (Panic m, (p, w1)) | _ \<Rightarrow> (Ok (), (pools_made r p, w1)))"
    using run by (cases r) (auto simp: assign_roots_run)
  show ?thesis
  proof (cases "op = ReInitRoots")
    case True
    have "(pools_made r p)\<lparr>fr_once := fr_once p\<rparr> = pools_made r p" by (cases r) auto
    with assms run assign True show ?thesis
      by (cases r) (auto simp: pool_step_def roots_ReInit_def go_bind_def go_get_def go_ret_def)
  next
    case False
    show ?thesis
    proof (cases "fr_once p")
      case True
      with assms False show ?thesis
        by (cases op) (auto simp: pool_step_def roots_Get_def roots_GetIntermediates_def go_bind_def
            once_Do_done go_get_def go_ret_def)
    next
      case new: False
      with assms run False once_Do_first [OF new, of "assign_roots env" w, unfolded assign] show ?thesis
        by (cases op; cases r) (auto simp: pool_step_def roots_Get_def roots_GetIntermediates_def go_bind_def
            go_get_def go_ret_def)
    qed
  qed
qed

lemma pool_history_steps:
  assumes "pool_history env ops s = (rs, s')"
  shows "\<exists>ss. length rs = length ops \<and> length ss = Suc (length ops) \<and> ss ! 0 = s \<and> ss ! length ops = s' \<and>
    (\<forall>i < length ops. pool_step env (ops ! i = ReInitRoots \<or> \<not> fr_once (fst (ss ! i))) (ops ! i)
       (ss ! i) (rs ! i) (ss ! Suc i))"
  using assms
proof (induction ops arbitrary: s rs)
  case Nil
  then show ?case by (intro exI [of _ "[s]"]) auto
next
  case (Cons op ops)
  obtain r s1 where call: "pool_call env op s = (r, s1)" by (metis prod.exhaust)
  with Cons.prems obtain rs1 where rest: "pool_history env ops s1 = (rs1, s')" and rs: "rs = r # rs1"
    by (auto split: prod.splits)
  have first: "pool_step env (op = ReInitRoots \<or> \<not> fr_once (fst s)) op s r s1"
    using pool_call_step [of env op "fst s" "snd s" r s1] call by simp
  from Cons.IH [OF rest] obtain ss where ss: "length rs1 = length ops" "length ss = Suc (length ops)"
    "ss ! 0 = s1" "ss ! length ops = s'"
    "\<forall>i < length ops. pool_step env (ops ! i = ReInitRoots \<or> \<not> fr_once (fst (ss ! i))) (ops ! i)
       (ss ! i) (rs1 ! i) (ss ! Suc i)" by blast
  show ?case
  proof (rule exI [of _ "s # ss"], intro conjI allI impI)
    fix i
    assume "i < length (op # ops)"
    then show "pool_step env ((op # ops) ! i = ReInitRoots \<or> \<not> fr_once (fst ((s # ss) ! i))) ((op # ops) ! i)
        ((s # ss) ! i) (rs ! i) ((s # ss) ! Suc i)"
      using first ss(3,5) rs by (cases i) auto
  qed (use ss rs in simp_all)
qed

lemma pool_step_once:
  "pool_step env (op = ReInitRoots \<or> \<not> fr_once (fst s)) op s res s' \<Longrightarrow>
     fr_once (fst s') \<longleftrightarrow> fr_once (fst s) \<or> op \<noteq> ReInitRoots"
  by (auto simp: pool_step_def split: prod.splits if_splits)

text \<open>C38: When the root pools are made. Over any history of calls in one process, \<open>initRoots\<close> runs in
  every call of \<open>ReInit\<close> and in the first call of \<open>Get\<close> or \<open>GetIntermediates\<close>, whichever comes first,
  and in no other call: all others leave the pools as they are and touch no file, environment or
  network. A call of \<open>ReInit\<close> does not count as the first one, so the first reader makes the pools again
  even after it. A call that runs \<open>initRoots\<close> stores what it made, or its error and no pools;
  when it panics its caller sees the panic and the pools stay what they were. Every call that does
  not panic returns the stored error and, from the readers, the stored pool, so after a first run that
  panicked readers get a nil pool and no error.\<close>

theorem root_pools_history:
  assumes "pool_history env ops (fresh_pools, w) = (rs, s')"
  shows "\<exists>ss. length rs = length ops \<and> length ss = Suc (length ops) \<and>
    ss ! 0 = (fresh_pools, w) \<and> ss ! length ops = s' \<and>
    (\<forall>i < length ops. pool_step env (ops ! i = ReInitRoots \<or> (\<forall>j < i. ops ! j = ReInitRoots)) (ops ! i)
       (ss ! i) (rs ! i) (ss ! Suc i))"
proof -
  from pool_history_steps [OF assms] obtain ss where ss: "length rs = length ops"
    "length ss = Suc (length ops)" "ss ! 0 = (fresh_pools, w)" "ss ! length ops = s'" and
    step: "\<And>i. i < length ops \<Longrightarrow> pool_step env (ops ! i = ReInitRoots \<or> \<not> fr_once (fst (ss ! i))) (ops ! i)
       (ss ! i) (rs ! i) (ss ! Suc i)" by blast
  have "fr_once (fst (ss ! i)) \<longleftrightarrow> (\<exists>j < i. ops ! j \<noteq> ReInitRoots)" if "i \<le> length ops" for i
    using that
  proof (induction i)
    case 0
    then show ?case by (simp add: ss(3) fresh_pools_def)
  next
    case (Suc i)
    with pool_step_once [OF step [of i]] show ?case by (auto simp: less_Suc_eq)
  qed
  with step ss show ?thesis by (intro exI [of _ ss]) auto
qed

text \<open>A root file whose first version cannot be read; the world counts the reads.\<close>

definition late_roots :: "nat roots_env" where
  "late_roots =
     \<lparr>fe_Getenv = (\<lambda>v. go_ret ''/roots.pem''),
      fe_ReadFile = (\<lambda>p n. (if n = 0 then Fail (errors_New ''no such file'') else Ok ''PEM'', Suc n)),
      fe_UnmarshalCertificatesFromPEM = (\<lambda>pem. Inr []),
      fe_fulcioroots_Get = go_ret None, fe_fulcioroots_GetIntermediates = go_ret None\<rparr>"

theorem root_pools_history_witness:
  "let (rs, (p, n)) = pool_history late_roots [ReInitRoots, GetRoots, GetIntermediateRoots, GetRoots]
         (fresh_pools, 0)
   in n = 2 \<and> rs ! 1 = Ok (Some [], None) \<and> rs ! 2 = Ok (None, None) \<and> rs ! 3 = Ok (Some [], None)"
proof -
  let ?ops = "[ReInitRoots, GetRoots, GetIntermediateRoots, GetRoots]"
  obtain rs s' where h: "pool_history late_roots ?ops (fresh_pools, 0) = (rs, s')" by (metis prod.exhaust)
  have init: "initRoots late_roots n = (if n = 0
      then Fail (WrapErr ''error reading root PEM file: '' (errors_New ''no such file''))
      else Ok (Some [], None), Suc n)" for n
    by (simp add: initRoots_def late_roots_def go_bind_def go_wrap_def go_of_def go_ret_def)
  let ?runs = "\<lambda>i. ?ops ! i = ReInitRoots \<or> (\<forall>j < i. ?ops ! j = ReInitRoots)"
  from root_pools_history [OF h] obtain ss where
    ss: "ss ! 0 = (fresh_pools, 0)" "ss ! 4 = s'" and
    steps: "\<And>i. i < 4 \<Longrightarrow> pool_step late_roots (?runs i) (?ops ! i) (ss ! i) (rs ! i) (ss ! Suc i)"
    by (auto simp: numeral_eq_Suc)
  have runs: "?runs 0" "?runs 1" "\<not> ?runs 2" "\<not> ?runs 3"
    by (auto intro: exI [of _ 1])
  have step: "pool_step late_roots True ReInitRoots (ss ! 0) (rs ! 0) (ss ! 1)"
    "pool_step late_roots True GetRoots (ss ! 1) (rs ! 1) (ss ! 2)"
    "pool_step late_roots False GetIntermediateRoots (ss ! 2) (rs ! 2) (ss ! 3)"
    "pool_step late_roots False GetRoots (ss ! 3) (rs ! 3) (ss ! 4)"
    using steps [of 0] steps [of 1] steps [of 2] steps [of 3]
    unfolding Eq_TrueI [OF runs(1)] Eq_TrueI [OF runs(2)] Eq_FalseI [OF runs(3)] Eq_FalseI [OF runs(4)]
    by (simp_all add: eval_nat_numeral)
  have 1: "snd (ss ! 1) = 1" using step(1) by (auto simp: pool_step_def ss(1) init)
  have 2: "snd (ss ! 2) = 2" "fr_roots (fst (ss ! 2)) = Some []" "fr_intermediates (fst (ss ! 2)) = None"
    "fr_singletonRootErr (fst (ss ! 2)) = None" "rs ! 1 = Ok (Some [], None)"
    using step(2) 1 by (auto simp: pool_step_def init split: prod.splits)
  have 3: "ss ! 3 = ss ! 2" "rs ! 2 = Ok (None, None)"
    using step(3) 2 by (auto simp: pool_step_def split: prod.splits)
  have 4: "ss ! 4 = ss ! 3" "rs ! 3 = Ok (Some [], None)"
    using step(4) 2 3 by (auto simp: pool_step_def split: prod.splits)
  show ?thesis unfolding h using 2 3 4 ss(2) by (simp add: Let_def split_beta)
qed

text \<open>A root file given by the environment replaces sigstore's pools altogether. Every certificate
  of the file is in exactly the pool its issuer puts it in, self-signed ones in the root pool and all
  others, leaves included, in the intermediate pool; no pool holds a certificate twice or one that is
  not in the file; and the intermediate pool is nil exactly when all of them are self-signed.\<close>

theorem roots_from_file:
  assumes "fe_Getenv env ''SIGSTORE_ROOT_FILE'' w = (Ok path, w1)" and "path \<noteq> ''''"
    and "fe_ReadFile env path w1 = (Ok raw, w2)"
    and "fe_UnmarshalCertificatesFromPEM env raw = Inr certs"
  shows "\<exists>rs ins. initRoots env w = (Ok (Some rs, ins), w2) \<and>
    xc_Raw ` set rs = xc_Raw ` {c \<in> set certs. self_signed c} \<and>
    xc_Raw ` set (pool_certs ins) = xc_Raw ` {c \<in> set certs. \<not> self_signed c} \<and>
    set rs \<union> set (pool_certs ins) \<subseteq> set certs \<and>
    distinct (map xc_Raw rs) \<and> distinct (map xc_Raw (pool_certs ins)) \<and>
    (ins = None \<longleftrightarrow> (\<forall>c \<in> set certs. self_signed c))"
proof -
  obtain rs ins where sorted: "sort_certs [] None certs = (rs, ins)" by (metis prod.exhaust)
  have "initRoots env w = (Ok (Some rs, ins), w2)"
    using assms sorted by (simp add: initRoots_def go_bind_def go_wrap_def go_of_def go_ret_def)
  with sort_certs_raw [OF sorted] sort_certs_nil [OF sorted] sort_certs_kinds [OF sorted]
    sort_certs_distinct [OF sorted]
  show ?thesis by (intro exI [of _ rs] exI [of _ ins]) auto
qed

definition sample_chain :: "x509_cert list" where
  "sample_chain =
     [\<lparr>xc_Raw = ''leaf'', xc_RawSubject = ''L'', xc_RawIssuer = ''I'', xc_IsCA = False\<rparr>,
      \<lparr>xc_Raw = ''root'', xc_RawSubject = ''R'', xc_RawIssuer = ''R'', xc_IsCA = True\<rparr>,
      \<lparr>xc_Raw = ''root'', xc_RawSubject = ''R'', xc_RawIssuer = ''R'', xc_IsCA = True\<rparr>]"

definition sample_roots :: "unit roots_env" where
  "sample_roots =
     \<lparr>fe_Getenv = (\<lambda>v. go_ret ''/roots.pem''), fe_ReadFile = (\<lambda>p. go_ret ''PEM''),
      fe_UnmarshalCertificatesFromPEM = (\<lambda>pem. Inr sample_chain),
      fe_fulcioroots_Get = go_ret None, fe_fulcioroots_GetIntermediates = go_ret None\<rparr>"

text \<open>The leaf of the file ends up in the intermediate pool, the root once in the root pool.\<close>

theorem roots_from_file_witness:
  "\<exists>rs ins. initRoots sample_roots () = (Ok (Some rs, ins), ()) \<and>
    xc_Raw ` set rs = {''root''} \<and> distinct (map xc_Raw rs) \<and>
    xc_Raw ` set (pool_certs ins) = {''leaf''} \<and> ins \<noteq> None"
proof -
  have run: "fe_Getenv sample_roots ''SIGSTORE_ROOT_FILE'' () = (Ok ''/roots.pem'', ())"
    "fe_ReadFile sample_roots ''/roots.pem'' () = (Ok ''PEM'', ())"
    "fe_UnmarshalCertificatesFromPEM sample_roots ''PEM'' = Inr sample_chain"
    by (simp_all add: sample_roots_def go_ret_def)
  have kinds: "{c \<in> set sample_chain. self_signed c} = {sample_chain ! 1}"
    "{c \<in> set sample_chain. \<not> self_signed c} = {sample_chain ! 0}"
    "\<not> (\<forall>c \<in> set sample_chain. self_signed c)"
    by (auto simp: sample_chain_def self_signed_def)
  have "''/roots.pem'' \<noteq> []" by simp
  from roots_from_file [OF run(1) this run(2,3), unfolded kinds] obtain rs ins where
    "initRoots sample_roots () = (Ok (Some rs, ins), ())" "xc_Raw ` set rs = xc_Raw ` {sample_chain ! 1}"
    "xc_Raw ` set (pool_certs ins) = xc_Raw ` {sample_chain ! 0}" "distinct (map xc_Raw rs)" "ins \<noteq> None"
    by (elim exE conjE) (rule that; simp add: kinds(3) del: not_None_eq)
  then show ?thesis
    by (intro exI [of _ rs] exI [of _ ins]) (simp add: sample_chain_def)
qed

section \<open>The clock\<close>

text \<open>C39: The clock and the printer of integers are inverse on 64 bits. When \<open>SOURCE_DATE_EPOCH\<close> is
  the decimal text of a number of seconds that fits an \<open>int64\<close>, negative ones included, \<open>Now\<close> is that
  second, with no error and without reading the clock; for any other integer it is the clock's time
  together with an error.\<close>

theorem source_date_epoch:
  assumes "nw_Getenv env ''SOURCE_DATE_EPOCH'' w = (Ok (fmt_d i), w1)"
  shows "if - (2 ^ 63) \<le> i \<and> i < 2 ^ 63
    then Now env w = (Ok (nw_time_Unix env (word_of_int i), None), w1) \<and> sint (word_of_int i :: 64 word) = i
    else \<exists>v. Now env w = go_bind (nw_time_Now env)
      (\<lambda>t. go_ret (t, Some (WrapErr source_date_message v))) w1"
proof -
  have nonempty: "fmt_d i \<noteq> []" by (simp add: fmt_d_def nat_digits_nonempty)
  show ?thesis
  proof (cases "- (2 ^ 63) \<le> i \<and> i < 2 ^ 63")
    case True
    then have "sint (word_of_int i :: 64 word) = i"
      by (simp add: sint_sbintrunc' signed_take_bit_int_eq_self)
    with True nonempty show ?thesis
      by (simp add: Now_def go_bind_def assms ParseInt_def parse_int_fmt_d go_ret_def)
  next
    case False
    then obtain v where "ParseInt (nw_Quote env) (fmt_d i) =
        (v, Some (NumError (nw_Quote env) ''ParseInt'' (fmt_d i) ErrRange))"
      using parse_int_fmt_d_range [of i] by (cases "parse_int (fmt_d i)") (auto simp: ParseInt_def)
    with False nonempty show ?thesis
      by (simp add: Now_def go_bind_def assms) blast
  qed
qed

definition sample_clock :: "int \<Rightarrow> (int, unit) now_env" where
  "sample_clock i =
     \<lparr>nw_Getenv = (\<lambda>v. go_ret (fmt_d i)), nw_time_Now = go_ret 1700000000, nw_time_Unix = sint,
      nw_Quote = (\<lambda>s. s)\<rparr>"

theorem source_date_epoch_witness:
  "Now (sample_clock (- 1)) () = (Ok (- 1, None), ()) \<and>
   (\<exists>e. Now (sample_clock (2 ^ 63)) () = (Ok (1700000000, Some e), ()))"
proof -
  have get: "nw_Getenv (sample_clock i) ''SOURCE_DATE_EPOCH'' () = (Ok (fmt_d i), ())" for i
    by (simp add: sample_clock_def go_ret_def)
  have "Now (sample_clock (- 1)) () = (Ok (- 1, None), ())"
    using source_date_epoch [OF get, of "- 1"] by (simp add: sample_clock_def)
  moreover have "\<exists>e. Now (sample_clock (2 ^ 63)) () = (Ok (1700000000, Some e), ())"
    using source_date_epoch [OF get, of "2 ^ 63"]
    by (auto simp: sample_clock_def go_bind_def go_ret_def)
  ultimately show ?thesis ..
qed

section \<open>The hashing reader\<close>

text \<open>Over any history of reads, resets and writes, a hashing reader delivers exactly what the
  reader it wraps delivers, and its sum is the hash of the bytes delivered since the last reset, or
  since it was made on top of what the hash had been given before; what is written to it never counts.\<close>

theorem hash_reader_history:
  assumes "hr_run read ops (NewHashReader r hashed) = (ps, h)"
  shows "raw_run read ops r = (ps, hr_reader h) \<and>
    HashReader_Sum f pre h = pre @ hf_digest f (since_reset hashed ops ps)"
  using hr_run_raw [OF assms] hr_run_hashed [OF assms]
  by (simp add: NewHashReader_def HashReader_Sum_def)

definition read_string :: "string \<Rightarrow> nat \<Rightarrow> (bytes \<times> goerr option) \<times> string" where
  "read_string s n =
     ((take n s, if s = [] then Some (errors_New ''EOF'') else None), drop n s)"

theorem hash_reader_history_witness:
  "let (ps, h) = hr_run read_string [Read 2, Write ''zz'', Reset, Read 3, Read 9] (NewHashReader ''abcdef'' ''0'')
   in ps = [''ab'', [], [], ''cde'', ''f''] \<and>
      HashReader_Sum \<lparr>hf_digest = rev, hf_Size = 1, hf_BlockSize = 1\<rparr> ''='' h = ''=fedc''"
proof -
  let ?ops = "[Read 2, Write ''zz'', Reset, Read 3, Read 9]"
  let ?r = "hr_run read_string ?ops (NewHashReader ''abcdef'' ''0'')"
  have ps: "fst ?r = [''ab'', [], [], ''cde'', ''f'']" by code_simp
  from hash_reader_history [OF prod.collapse [symmetric], of read_string ?ops "''abcdef''" "''0''"
      "\<lparr>hf_digest = rev, hf_Size = 1, hf_BlockSize = 1\<rparr>" "''=''"] ps
  show ?thesis by (simp add: Let_def split_beta)
qed

section \<open>The process\<close>

lemma main_run_Returned:
  assumes "main_run env mgr w = (Ok Returned, w')"
  shows "\<exists>rc w1 w2 w3. SetupWithManager env mgr (zero_reconciler, w) = (Ok (), (rc, w1)) \<and>
    mn_AddHealthzCheck env mgr ''healthz'' w1 = (Ok (), w2) \<and>
    mn_AddReadyzCheck env mgr ''readyz'' w2 = (Ok (), w3) \<and> mn_Start env mgr w3 = (Ok (), w')"
  using assms by (auto simp: main_run_def setup_controller_def go_inv)

text \<open>C40: The process returns from \<open>main\<close> only after the manager was made with the options of the
  flags, the cluster was reached, the controller's namespace was read and its config map was there,
  the controller and both checks were registered, in this order, and the manager ran and stopped
  without an error. The metrics server and the webhook server are given the same TLS options, and
  unless the flag enables HTTP/2 these restrict any TLS configuration to HTTP/1.1.\<close>

theorem main_returns_after_setup:
  assumes "main env w = (Ok Returned, w')"
  shows "\<exists>fl cfg mgr config client ns w1 w2 w3 w4 w5 w6 w7 w8 w9 w10.
    mn_flag_Parse env default_flags w = (Ok fl, w1) \<and> mn_GetConfigOrDie env w1 = (Ok (Some cfg), w2) \<and>
    mn_NewManager env cfg (manager_options_of env fl) w2 = (Ok mgr, w3) \<and>
    ct_InClusterConfig env w3 = (Ok config, w4) \<and> ct_NewForConfig env config w4 = (Ok client, w5) \<and>
    getCurrentNamespace env w5 = (Ok ns, w6) \<and>
    ct_ConfigMaps_Get env client ns configMapName w6 = (Ok (), w7) \<and>
    ct_Complete env mgr w7 = (Ok (), w8) \<and>
    mn_AddHealthzCheck env mgr ''healthz'' w8 = (Ok (), w9) \<and>
    mn_AddReadyzCheck env mgr ''readyz'' w9 = (Ok (), w10) \<and> mn_Start env mgr w10 = (Ok (), w') \<and>
    (\<exists>tlsOpts. mg_Metrics_TLSOpts (manager_options_of env fl) = tlsOpts \<and>
       mg_WebhookServer (manager_options_of env fl) = mn_webhook_NewServer env tlsOpts \<and>
       (\<forall>c. tls_NextProtos (fold (\<lambda>f. f) tlsOpts c) =
          (if fl_enableHTTP2 fl then tls_NextProtos c else [''http/1.1''])))"
proof -
  from assms obtain fl cfg mgr w1 w2 w3 where
    made: "mn_flag_Parse env default_flags w = (Ok fl, w1)" "mn_GetConfigOrDie env w1 = (Ok (Some cfg), w2)"
      "mn_NewManager env cfg (manager_options_of env fl) w2 = (Ok mgr, w3)" and
    run: "main_run env mgr w3 = (Ok Returned, w')"
    by (auto simp: main_def go_inv split: option.splits)
  from main_run_Returned [OF run] obtain rc w8 w9 w10 where
    ready: "SetupWithManager env mgr (zero_reconciler, w3) = (Ok (), (rc, w8))" and
    checks: "mn_AddHealthzCheck env mgr ''healthz'' w8 = (Ok (), w9)"
      "mn_AddReadyzCheck env mgr ''readyz'' w9 = (Ok (), w10)" "mn_Start env mgr w10 = (Ok (), w')"
    by blast
  from SetupWithManager_Ok [OF ready] obtain config client w4 w5 ns w6 w7 where
    cluster: "ct_InClusterConfig env w3 = (Ok config, w4)" "ct_NewForConfig env config w4 = (Ok client, w5)"
      "getCurrentNamespace env w5 = (Ok ns, w6)"
      "ct_ConfigMaps_Get env client ns configMapName w6 = (Ok (), w7)" "ct_Complete env mgr w7 = (Ok (), w8)"
    by blast
  have http: "mg_Metrics_TLSOpts (manager_options_of env fl) = tls_options fl"
    "mg_WebhookServer (manager_options_of env fl) = mn_webhook_NewServer env (tls_options fl)"
    "\<forall>c. tls_NextProtos (fold (\<lambda>f. f) (tls_options fl) c) =
      (if fl_enableHTTP2 fl then tls_NextProtos c else [''http/1.1''])"
    by (simp_all add: manager_options_of_def tls_options_def disableHTTP2_def Let_def)
  show ?thesis
    by (intro exI conjI) (rule made cluster checks http)+
qed

definition sample_main :: "(handle, sworld) main_env" where
  "sample_main = ctrl_env.extend sample_env (main_env.fields
     (go_ret ()) (go_ret ()) Opaque go_ret (\<lambda>opts. Opaque) (go_ret (Some Opaque)) (\<lambda>cfg opts. go_ret Opaque)
     (\<lambda>mgr name. go_ret ()) (\<lambda>mgr name. go_ret ()) (\<lambda>mgr. go_ret ()))"

theorem main_returns_after_setup_witness:
  "let w = sample_world (two_pods NodeSucceeded) False
   in \<exists>w' fl client ns w1 w2. main sample_main w = (Ok Returned, w') \<and>
      ct_ConfigMaps_Get sample_main client ns configMapName w1 = (Ok (), w2)"
proof -
  let ?r = "main sample_main (sample_world (two_pods NodeSucceeded) False)"
  have "fst ?r = Ok Returned" by code_simp
  then have run: "?r = (Ok Returned, snd ?r)" by (simp add: prod_eq_iff)
  from main_returns_after_setup [OF run] run show ?thesis unfolding Let_def by blast
qed

end
