(* ===== verification/PodFrames.thy ===== *)
theory PodFrames imports PodProperties begin

text \<open>
  The pods of one workflow against an API server of the kind \<open>store_kube\<close> whose stored pods are
  touched by nothing but the pods' client: a visit of one pod leaves every other stored pod alone, and a
  visit of a pod without annotations that ends well has signed its artifact.
\<close>

section \<open>Other pods\<close>

text \<open>The object stored under \<open>nn\<close> is \<open>x\<close>, and the pod in hand is another one.\<close>

definition elsewhere ::
  "('w \<Rightarrow> nsname \<Rightarrow> pod option) \<Rightarrow> nsname \<Rightarrow> pod option \<Rightarrow> podStatus \<times> 'w \<Rightarrow> bool" where
  "elsewhere rd nn x = (\<lambda>(ps, w). rd w nn = x \<and>
     (case ps_pod ps of None \<Rightarrow> True | Some p \<Rightarrow> nsname_of p \<noteq> nn))"

lemma elsewhere_simp [simp]:
  "elsewhere rd nn x (ps, w) \<longleftrightarrow> rd w nn = x \<and>
     (case ps_pod ps of None \<Rightarrow> True | Some p \<Rightarrow> nsname_of p \<noteq> nn)"
  by (simp add: elsewhere_def)

lemma store_PatchAnnotations_cases:
  assumes "named_store rd wr" and "PatchAnnotations (store_kube rd wr) key v (p, w) = (r, (p', w'))"
  shows "(case rd w (nsname_of p) of
      None \<Rightarrow> r = Fail (errors_New conflict_or_not_found) \<and> p' = p \<and> w' = w
    | Some cur \<Rightarrow> r = Ok () \<and> p' = with_annotation key v cur \<and>
        rd w' = (rd w)(nsname_of p \<mapsto> p'))"
proof (cases "rd w (nsname_of p)")
  case None
  with patchMetadata_store_missing [of rd w p wr key v m_annotations set_annotations] assms(2)
  show ?thesis by (simp add: PatchAnnotations_def)
next
  case (Some cur)
  have name: "nsname_of cur = nsname_of p" using named_storeD(1) [OF assms(1) Some] .
  from PatchAnnotations_store_run [of rd w p cur wr key v, OF Some name] assms(2)
  have run: "r = Ok ()" "p' = with_annotation key v cur"
    "w' = (if gm_lookup (m_annotations cur) key = Some v then w
       else wr (nsname_of p) (with_annotation key v cur) w)" by auto
  have "rd w' nn = ((rd w)(nsname_of p \<mapsto> p')) nn" for nn
    using named_storeD(2) [OF assms(1), of p' "nsname_of p" w nn] run name Some
      with_meta_same [OF lawful_annotations, of cur key v] by (auto split: if_splits)
  then have "rd w' = (rd w)(nsname_of p \<mapsto> p')" by blast
  with Some run show ?thesis by simp
qed

lemma patch_pod_elsewhere:
  assumes "pe_pods env = store_kube rd wr" and "named_store rd wr"
  shows "go_keeps (elsewhere rd nn x) (patch_pod env key v)"
  unfolding go_keeps_def
proof clarify
  fix ps w r ps' w'
  assume here: "elsewhere rd nn x (ps, w)" and run: "patch_pod env key v (ps, w) = (r, (ps', w'))"
  show "elsewhere rd nn x (ps', w')"
  proof (cases "ps_pod ps")
    case None
    with here run show ?thesis by (simp add: patch_pod_run)
  next
    case (Some p)
    with run obtain p' where patch: "PatchAnnotations (store_kube rd wr) key v (p, w) = (r, (p', w'))"
      and ps': "ps' = ps\<lparr>ps_pod := Some p'\<rparr>"
      by (auto simp: patch_pod_run assms(1) split: prod.splits)
    note stored = store_PatchAnnotations_cases [OF assms(2) patch]
    show ?thesis
    proof (cases "rd w (nsname_of p)")
      case None
      with stored here Some ps' show ?thesis by simp
    next
      case cur: (Some cur)
      with named_storeD(1) [OF assms(2)] have "nsname_of cur = nsname_of p" by blast
      with stored cur here Some ps' show ?thesis by auto
    qed
  qed
qed

lemma elsewhere_world:
  assumes "\<And>c. go_keeps (\<lambda>w. rd w = c) m"
  shows "go_keeps (elsewhere rd nn x) (go_snd m)"
  unfolding go_keeps_def
proof clarify
  fix ps w r ps' w'
  assume here: "elsewhere rd nn x (ps, w)" and run: "go_snd m (ps, w) = (r, (ps', w'))"
  from run have "m w = (r, w')" "ps' = ps" by (simp_all add: go_snd_inv)
  with go_keepsD [OF assms [of "rd w"]] here show "elsewhere rd nn x (ps', w')" by simp
qed

lemma elsewhere_upd:
  "(\<And>ps. ps_pod (f ps) = ps_pod ps) \<Longrightarrow> go_keeps (elsewhere rd nn x) (go_upd f)"
  by (auto simp: go_keeps_def go_upd_def)

lemma go_keeps_with_pod: "(\<And>p. go_keeps P (k p)) \<Longrightarrow> go_keeps P (with_pod k)"
  unfolding with_pod_def by (intro go_keeps_get go_keeps_option go_keeps_leaf)

lemmas pod_keeps_rules = go_keeps_leaf go_keeps_bind go_keeps_catch go_keeps_get go_keeps_if
  go_keeps_option go_keeps_prod go_keeps_with_pod

lemma handlePodReconciliation_elsewhere:
  assumes "pe_pods env = store_kube rd wr" and "named_store rd wr" and "quiet_sbom rd env"
  shows "go_keeps (elsewhere rd nn x) (handlePodReconciliation env cfg)"
  unfolding handlePodReconciliation_def markPodAsSkipped_def handleArtifactInfo_def
    handleArtifactSigning_def handleSBOMgeneration_def updateFinalStatus_def Let_def
  by (intro pod_keeps_rules patch_pod_elsewhere [OF assms(1,2)] elsewhere_world elsewhere_upd
      dispatch_steady [OF assms(3) [unfolded quiet_sbom_def, rule_format]]; simp)

lemma reconcilePod_other:
  assumes "pe_pods env = store_kube rd wr" and "named_store rd wr" and "quiet_sbom rd env"
    and "ps_pod ps = None" and "(ns, ps_podName ps) \<noteq> nn"
    and "reconcilePod env cfg ns (ps, w) = (r, (ps', w'))"
  shows "rd w' nn = rd w nn"
proof -
  let ?visit = "go_bind (go_snd (getPod env ns (ps_podName ps))) (\<lambda>pod.
    go_bind (go_upd (currentRconsiliationStatus pod)) (\<lambda>_. go_get (\<lambda>ps.
      if ps_reconciliation ps then go_ret () else handlePodReconciliation env cfg)))"
  consider "w' = w" | "?visit (ps, w) = (r, (ps', w'))"
    using assms(6) by (auto simp: reconcilePod_def go_inv split: if_splits)
  then show ?thesis
  proof cases
    case 2
    show ?thesis
    proof (cases "rd w (ns, ps_podName ps)")
      case None
      with 2 assms(1) show ?thesis
        by (auto simp: getPod_def store_get_def go_bind_def go_snd_def)
    next
      case (Some p)
      have get: "getPod env ns (ps_podName ps) w = (Ok p, w)"
        using Some by (simp add: getPod_def assms(1) store_get_def)
      let ?cur = "currentRconsiliationStatus p ps"
      have "(if ps_reconciliation ?cur then go_ret () else handlePodReconciliation env cfg) (?cur, w) =
          (r, (ps', w'))"
        using 2 get by (simp add: go_bind_def go_snd_def go_upd_def go_get_def)
      moreover have "elsewhere rd nn (rd w nn) (?cur, w)"
        using named_storeD(1) [OF assms(2) Some] assms(5) by simp
      moreover have "go_keeps (elsewhere rd nn (rd w nn))
          (if ps_reconciliation ?cur then go_ret () else handlePodReconciliation env cfg)"
        by (intro go_keeps_if go_keeps_leaf handlePodReconciliation_elsewhere [OF assms(1-3)])
      ultimately show ?thesis using go_keepsD by fastforce
    qed
  qed simp
qed

text \<open>Each element of a loop meets the part of the world that is its own as it was at the start, so what
  a visit from there brings about, and no visit of another element undoes, holds of every element at the
  end.\<close>

lemma each_pod_settles:
  assumes "each_pod m (ps, v) = (Ok u, (ps', v'))" and "distinct (map key ps)"
    and same: "\<And>p v r p1 v1. m (p, v) = (r, (p1, v1)) \<Longrightarrow> key p1 = key p"
    and "\<And>p v r p1 v1 k. p \<in> set ps \<Longrightarrow> m (p, v) = (r, (p1, v1)) \<Longrightarrow> k \<noteq> key p \<Longrightarrow> g v1 k = g v k"
    and "\<And>p v1 p' v2. p \<in> set ps \<Longrightarrow> m (p, v1) = (Ok (), (p', v2)) \<Longrightarrow> g v1 (key p) = g v (key p) \<Longrightarrow> Q p' v2"
    and "\<And>q p v r p1 v1. p \<in> set ps \<Longrightarrow> Q q v \<Longrightarrow> m (p, v) = (r, (p1, v1)) \<Longrightarrow> key p \<noteq> key q \<Longrightarrow> Q q v1"
    and "q \<in> set ps'"
  shows "Q q v'"
  using assms(1,2,4-7)
proof (induction ps arbitrary: v ps')
  case (Cons p ps)
  from Cons.prems(1) obtain p1 v1 ps2 where step: "m (p, v) = (Ok (), (p1, v1))"
    and rest: "each_pod m (ps, v1) = (Ok u, (ps2, v'))" and ps': "ps' = p1 # ps2"
    by (cases "m (p, v)"; cases "fst (m (p, v))") (auto split: prod.splits)
  have others: "key r \<noteq> key p" if "r \<in> set ps" for r
    using that Cons.prems(2) by (metis distinct.simps(2) image_eqI list.map(2) list.set_map)
  then have own: "g v1 (key r) = g v (key r)" if "r \<in> set ps" for r
    using that Cons.prems(3) [OF _ step] by simp
  from Cons.prems(6) ps' consider "q = p1" | "q \<in> set ps2" by auto
  then show ?case
  proof cases
    case 1
    have "Q p1 v1" using Cons.prems(4) [OF _ step] by simp
    then have "Q p1 v'"
    proof (rule each_pod_guarded [OF rest, where G = "\<lambda>p v. p \<in> set ps"])
      fix p v r p2 v2
      assume "Q p1 v" "p \<in> set ps" "m (p, v) = (r, (p2, v2))"
      then show "Q p1 v2" using Cons.prems(5) [of p p1 v r p2 v2] others [of p] same [OF step] by simp
    qed simp_all
    with 1 show ?thesis by simp
  next
    case 2
    show ?thesis
    proof (rule Cons.IH [OF rest _ _ _ _ 2])
      show "distinct (map key ps)" using Cons.prems(2) by simp
    next
      fix p v r p1 v1 k
      assume "p \<in> set ps" "m (p, v) = (r, (p1, v1))" "k \<noteq> key p"
      then show "g v1 k = g v k" using Cons.prems(3) [of p v r p1 v1 k] by simp
    next
      fix p va p' vb
      assume "p \<in> set ps" "m (p, va) = (Ok (), (p', vb))" "g va (key p) = g v1 (key p)"
      then show "Q p' vb" using Cons.prems(4) [of p va p' vb] own by simp
    next
      fix q p v r p1 v1
      assume "p \<in> set ps" "Q q v" "m (p, v) = (r, (p1, v1))" "key p \<noteq> key q"
      then show "Q q v1" using Cons.prems(5) [of p q v r p1 v1] by simp
    qed
  qed
qed simp

section \<open>A first visit\<close>

text \<open>The pod in hand is the stored one and has no signing annotation.\<close>

definition unsigned_here :: "('w \<Rightarrow> nsname \<Rightarrow> pod option) \<Rightarrow> podStatus \<times> 'w \<Rightarrow> bool" where
  "unsigned_here rd = (\<lambda>(ps, w). case ps_pod ps of None \<Rightarrow> False | Some p \<Rightarrow>
     rd w (nsname_of p) = Some p \<and> gm_lookup (m_annotations p) signedAnnotation = None)"

lemma unsigned_here_simp [simp]:
  "unsigned_here rd (ps, w) \<longleftrightarrow> (\<exists>p. ps_pod ps = Some p \<and> rd w (nsname_of p) = Some p \<and>
     gm_lookup (m_annotations p) signedAnnotation = None)"
  by (auto simp: unsigned_here_def split: option.splits)

lemma patch_pod_unsigned:
  assumes "pe_pods env = store_kube rd wr" and "named_store rd wr" and "key \<noteq> signedAnnotation"
  shows "go_keeps (unsigned_here rd) (patch_pod env key v)"
  unfolding go_keeps_def
proof clarify
  fix ps w r ps' w'
  assume "unsigned_here rd (ps, w)" and run: "patch_pod env key v (ps, w) = (r, (ps', w'))"
  then obtain p where p: "ps_pod ps = Some p" "rd w (nsname_of p) = Some p"
    "gm_lookup (m_annotations p) signedAnnotation = None" by auto
  from run p(1) obtain p' where patch: "PatchAnnotations (store_kube rd wr) key v (p, w) = (r, (p', w'))"
    and ps': "ps' = ps\<lparr>ps_pod := Some p'\<rparr>"
    by (auto simp: patch_pod_run assms(1) split: prod.splits)
  from store_PatchAnnotations_cases [OF assms(2) patch] p ps' assms(3) show "unsigned_here rd (ps', w')"
    by simp
qed

lemma handleArtifactInfo_unsigned:
  assumes "pe_pods env = store_kube rd wr" and "named_store rd wr"
  shows "go_keeps (unsigned_here rd) (handleArtifactInfo env)"
proof -
  have upd: "go_keeps (unsigned_here rd) (go_upd f)" if "\<And>ps. ps_pod (f ps) = ps_pod ps" for f
    using that by (auto simp: go_keeps_def go_upd_def)
  have key: "artifactsAnnotation \<noteq> signedAnnotation" by (simp add: pod_constants)
  show ?thesis
    unfolding handleArtifactInfo_def Let_def
    by (intro pod_keeps_rules patch_pod_unsigned [OF assms key] upd; simp)
qed

text \<open>What the steps after signing leave alone.\<close>

definition decided :: "podStatus \<times> 'v \<Rightarrow> bool \<times> string \<times> bool" where
  "decided = (\<lambda>(ps, v). (ps_artifactsFound ps, ps_artifactInfo ps, ps_signed ps))"

lemma decided_simp [simp]: "decided (ps, v) = (ps_artifactsFound ps, ps_artifactInfo ps, ps_signed ps)"
  by (simp add: decided_def)

lemma decided_fixes:
  "go_fixes decided (patch_pod env key v)" "go_fixes decided (handleSBOMgeneration env cfg)"
  "go_fixes decided (updateFinalStatus env)" "go_fixes decided (markPodAsSkipped env)"
  unfolding handleSBOMgeneration_def updateFinalStatus_def markPodAsSkipped_def
  by (intro go_fixes_rules | simp)+

text \<open>\<open>Q img e w\<close>, for some \<open>e\<close>, is what a successful signing of the image \<open>img\<close> brings about, and
  nothing undoes.\<close>

definition signing_brings ::
  "('h, 'w, 'z) pod_env_scheme \<Rightarrow> 'h config \<Rightarrow> (string \<Rightarrow> 'e \<Rightarrow> 'w \<Rightarrow> bool) \<Rightarrow> bool" where
  "signing_brings env cfg Q \<longleftrightarrow>
     (\<forall>img v v'. SignWithConfigOpts env img cfg v = (Ok (), v') \<longrightarrow> (\<exists>e. Q img e v')) \<and>
     (\<forall>img e. steady_pods (Q img e) env)"

lemma signing_bringsD:
  assumes "signing_brings env cfg Q"
  shows "SignWithConfigOpts env img cfg v = (Ok (), v') \<Longrightarrow> \<exists>e. Q img e v'" "steady_pods (Q img e) env"
  using assms unfolding signing_brings_def by blast+

lemma brought_kept:
  assumes "\<And>e. go_keeps (P e \<circ> snd) m" and "m (s, w) = (r, (s', w'))" and "\<exists>e. P e w"
  shows "\<exists>e. P e w'"
  using go_keepsD [OF assms(1,2)] assms(3) by auto

lemma handleArtifactSigning_signed:
  assumes "signing_brings env cfg Q" and "unsigned_here rd (ps, w)"
    and "handleArtifactSigning env cfg (ps, w) = (Ok u, (ps', w'))"
    and "ps_artifactsFound ps'" and "ps_signed ps'"
  shows "\<exists>e. Q (ps_artifactInfo ps') e w'"
proof -
  from assms(2) obtain p where p: "ps_pod ps = Some p" "gm_lookup (m_annotations p) signedAnnotation = None"
    by auto
  obtain res v where call: "SignWithConfigOpts env (ps_artifactInfo ps) cfg w = (res, v)"
    by (metis prod.exhaust)
  have found: "ps_artifactsFound ps"
  proof (rule ccontr)
    assume "\<not> ps_artifactsFound ps"
    with assms(3) have "patch_pod env signedAnnotation signingSkipped (ps, w) = (Ok u, (ps', w'))"
      by (simp add: handleArtifactSigning_def go_get_def)
    from go_fixesD [OF decided_fixes(1) this] assms(4) \<open>\<not> ps_artifactsFound ps\<close> show False by simp
  qed
  have "\<forall>msg. res \<noteq> Panic msg"
    using assms(3) found p call
    by (auto simp: handleArtifactSigning_def with_pod_def go_get_def go_bind_def go_catch_def go_snd_def)
  note run = assms(3) [unfolded handleArtifactSigning_absent [OF found p call this]]
  show ?thesis
  proof (cases "res = Ok ()")
    case True
    with run have ok: "patch_pod env signedAnnotation signingCompleted (ps\<lparr>ps_signed := True\<rparr>, v) =
        (Ok u, (ps', w'))" by simp
    have "\<exists>e. Q (ps_artifactInfo ps) e v" using signing_bringsD(1) [OF assms(1)] call True by simp
    from brought_kept [OF patch_pod_steady [OF signing_bringsD(2) [OF assms(1)]] ok this]
      go_fixesD [OF decided_fixes(1) ok] show ?thesis by simp
  next
    case False
    with run have "patch_pod env signedAnnotation signingError (ps\<lparr>ps_signed := False\<rparr>, v) =
        (Ok u, (ps', w'))" by simp
    from go_fixesD [OF decided_fixes(1) this] assms(5) show ?thesis by simp
  qed
qed

text \<open>What \<open>handlePodReconciliation\<close> does after the signing step.\<close>

definition finish :: "('h, 'w, 'z) pod_env_scheme \<Rightarrow> 'h config \<Rightarrow> (podStatus, 'w) go_method" where
  "finish env cfg =
     go_bind (if cfg_SbomGeneration cfg
              then go_catch (handleSBOMgeneration env cfg) (\<lambda>err. go_ret ()) go_ret else go_ret ())
       (\<lambda>_. updateFinalStatus env)"

lemma finish_decided: "go_fixes decided (finish env cfg)"
  unfolding finish_def by (intro go_fixes_rules decided_fixes)

lemma finish_steady: "steady_pods P env \<Longrightarrow> go_keeps (P \<circ> snd) (finish env cfg)"
  unfolding finish_def by (intro go_keeps_world_rules pod_steps_steady)

lemma handlePodReconciliation_signed:
  assumes "pe_pods env = store_kube rd wr" and "named_store rd wr" and "signing_brings env cfg Q"
    and "unsigned_here rd (ps, w)" and "\<not> ps_signed ps"
    and "handlePodReconciliation env cfg (ps, w) = (Ok u, (ps', w'))"
    and "ps_artifactsFound ps'" and "ps_signed ps'"
  shows "\<exists>e. Q (ps_artifactInfo ps') e w'"
proof -
  from assms(4) obtain p where p: "ps_pod ps = Some p" by auto
  have "\<not> markPodAsSkipped env (ps, w) = (Ok u, (ps', w'))"
    using go_fixesD [OF decided_fixes(4), of env "(ps, w)"] assms(5,8) by fastforce
  with assms(6) p obtain s1 s2 s3 where
    start: "patch_pod env podStatusAnnotation reconciliationInProgerss (ps, w) = (Ok (), s1)" and
    info: "handleArtifactInfo env s1 = (Ok (), s2)" and
    sign: "handleArtifactSigning env cfg s2 = (Ok (), s3)" and
    final: "finish env cfg s3 = (Ok u, (ps', w'))"
    by (auto simp: handlePodReconciliation_def finish_def go_get_def with_pod_def go_bind_Ok
        split: if_splits)
  have "podStatusAnnotation \<noteq> signedAnnotation" by (simp add: pod_constants)
  from go_keepsD [OF patch_pod_unsigned [OF assms(1,2) this] start assms(4)]
  have "unsigned_here rd s1" .
  from go_keepsD [OF handleArtifactInfo_unsigned [OF assms(1,2)] info this]
  have open_pod: "unsigned_here rd s2" .
  obtain ps2 w2 ps3 w3 where s: "s2 = (ps2, w2)" "s3 = (ps3, w3)" by fastforce
  have after: "ps_artifactsFound ps3" "ps_artifactInfo ps3 = ps_artifactInfo ps'" "ps_signed ps3"
    using go_fixesD [OF finish_decided final] s(2) assms(7,8) by auto
  have "\<exists>e. Q (ps_artifactInfo ps') e w3"
    using handleArtifactSigning_signed [OF assms(3) open_pod [unfolded s] sign [unfolded s] after(1,3)]
    by (simp add: after(2))
  then show ?thesis
    by (rule brought_kept [OF finish_steady [OF signing_bringsD(2) [OF assms(3)]] final [unfolded s(2)]])
qed

text \<open>A pod that carries no record of an earlier visit: its reconciliation is not final, and nothing was
  recorded about a signature.\<close>

definition unrecorded :: "pod \<Rightarrow> bool" where
  "unrecorded p \<longleftrightarrow>
     gm_lookup (m_annotations p) podStatusAnnotation \<in> {None, Some reconciliationInProgerss} \<and>
     gm_lookup (m_annotations p) signedAnnotation = None"

lemma currentRconsiliationStatus_unrecorded:
  assumes "unrecorded p"
  shows "ps_reconciliation (currentRconsiliationStatus p ps) = ps_reconciliation ps"
    "ps_signed (currentRconsiliationStatus p ps) = ps_signed ps"
  using assms by (auto simp: unrecorded_def currentRconsiliationStatus_def Let_def split: option.splits)

lemma reconcilePod_signed:
  assumes "pe_pods env = store_kube rd wr" and "named_store rd wr" and "signing_brings env cfg Q"
    and "reconcilePod env cfg ns (ps, w) = (Ok u, (ps', w'))"
    and "unvisited ps" and "\<not> ps_signed ps"
    and "\<And>p. rd w (ns, ps_podName ps) = Some p \<Longrightarrow> unrecorded p"
    and "settled ps'" and "ps_artifactsFound ps'"
  shows "\<exists>e. Q (ps_artifactInfo ps') e w'"
proof -
  have "terminated_phase (ps_status ps)"
  proof (rule ccontr)
    assume "\<not> terminated_phase (ps_status ps)"
    from reconcilePod_not_terminated [OF assms(4) this] assms(5,9) show False
      by (auto simp: unvisited_def)
  qed
  then have ended: "ps_status ps \<in> {NodeSucceeded, NodeFailed, NodeError}"
    and found: "\<exists>p w1. getPod env ns (ps_podName ps) w = (Ok p, w1)"
    using reconcilePod_getPod [OF assms(4)] by (auto simp: terminated_phase_def)
  then obtain p where p: "rd w (ns, ps_podName ps) = Some p"
    and get: "getPod env ns (ps_podName ps) w = (Ok p, w)"
    by (auto simp: getPod_def assms(1) store_get_def split: option.splits)
  let ?cur = "currentRconsiliationStatus p ps"
  have un: "unrecorded p" by (rule assms(7) [OF p])
  have "\<not> ps_reconciliation ?cur" "\<not> ps_signed ?cur"
    using currentRconsiliationStatus_unrecorded [OF un] assms(5,6) by (simp_all add: unvisited_def)
  with assms(4) have run: "handlePodReconciliation env cfg (?cur, w) = (Ok u, (ps', w'))"
    by (simp add: reconcilePod_terminated [OF ended get])
  have "unsigned_here rd (?cur, w)"
    using p un named_storeD(1) [OF assms(2) p] by (simp add: unrecorded_def)
  from handlePodReconciliation_signed [OF assms(1-3) this \<open>\<not> ps_signed ?cur\<close> run] assms(8,9)
  show ?thesis by (simp add: settled_def)
qed

section \<open>All pods\<close>

lemma WorkflowStatus_Reconcile_signed:
  assumes "pe_pods env = store_kube rd wr" and "named_store rd wr" and "quiet_sbom rd env"
    and "signing_brings env cfg Q"
    and "WorkflowStatus_Reconcile env cfg ns (pods, w) = (Ok u, (pods', w'))"
    and "\<forall>p \<in> set pods. unvisited p \<and> \<not> ps_signed p" and "distinct (map ps_podName pods)"
    and "q \<in> set pods'" and "ps_artifactsFound q"
    and "\<And>p. rd w (ns, ps_podName q) = Some p \<Longrightarrow> unrecorded p"
  shows "\<exists>e. Q (ps_artifactInfo q) e w'"
proof -
  let ?Q = "\<lambda>q v. settled q \<longrightarrow> ps_artifactsFound q \<longrightarrow>
      (\<forall>p. rd w (ns, ps_podName q) = Some p \<longrightarrow> unrecorded p) \<longrightarrow> (\<exists>e. Q (ps_artifactInfo q) e v)"
  from WorkflowStatus_Reconcile_Ok [OF assms(5)]
  have run: "each_pod (reconcilePod env cfg ns) (pods, w) = (Ok (), (pods', w'))"
    and settled: "\<forall>p \<in> set pods'. settled p" by simp_all
  have own: "rd v1 (ns, k) = rd v (ns, k)"
    if "p \<in> set pods" "reconcilePod env cfg ns (p, v) = (r, (p1, v1))" "k \<noteq> ps_podName p" for p v r p1 v1 k
    using reconcilePod_other [OF assms(1-3) _ _ that(2), of "(ns, k)"] that(1,3) assms(6)
    by (auto simp: unvisited_def)
  have visit: "?Q p' v2" if "p \<in> set pods" "reconcilePod env cfg ns (p, v1) = (Ok (), (p', v2))"
    "rd v1 (ns, ps_podName p) = rd w (ns, ps_podName p)" for p v1 p' v2
  proof -
    have "ps_podName p' = ps_podName p" using go_fixesD [OF reconcilePod_identity that(2)] by simp
    then show ?thesis
      using reconcilePod_signed [OF assms(1,2,4) that(2)] that(1,3) assms(6) by auto
  qed
  have keep: "?Q q v1" if "?Q q v" "reconcilePod env cfg ns (p, v) = (r, (p1, v1))" for q p v r p1 v1
    using brought_kept [where P = "Q (ps_artifactInfo q)",
        OF reconcilePod_steady [OF signing_bringsD(2) [OF assms(4)]] that(2)] that(1) by blast
  have name: "ps_podName p1 = ps_podName p" if "reconcilePod env cfg ns (p, v) = (r, (p1, v1))" for p v r p1 v1
    using go_fixesD [OF reconcilePod_identity that] by simp
  have "?Q q w'"
    by (rule each_pod_settles [OF run assms(7), where g = "\<lambda>v k. rd v (ns, k)" and Q = ?Q,
          OF name own visit keep assms(8)])
  with settled assms(8-10) show ?thesis by blast
qed

end
