(* ===== verification/TwoStores.thy ===== *)
theory TwoStores imports PodFrames ProgressProperties begin

text \<open>
  The cluster as a whole: pods and workflows in an API server that stores what it is sent, apart from
  each other. The stored status label of a workflow is then a \<open>label_store\<close>, and the workflow that a
  reconciliation has picked up is the stored one.
\<close>

section \<open>Two stores\<close>

text \<open>An API server that stores what it is sent, workflows and pods under their names, and apart from each
  other and from what registries, key services and the settings are about.\<close>

definition two_stores ::
  "('h, 'w, 'z) ctrl_env_scheme \<Rightarrow> ('w \<Rightarrow> nsname \<Rightarrow> pod option) \<Rightarrow> (nsname \<Rightarrow> pod \<Rightarrow> 'w \<Rightarrow> 'w) \<Rightarrow>
   ('w \<Rightarrow> nsname \<Rightarrow> workflow option) \<Rightarrow> (nsname \<Rightarrow> workflow \<Rightarrow> 'w \<Rightarrow> 'w) \<Rightarrow> bool" where
  "two_stores env rd wr rdw wrw \<longleftrightarrow>
     pe_pods env = store_kube rd wr \<and> named_store rd wr \<and>
     ct_workflows env = store_kube rdw wrw \<and> named_store rdw wrw \<and>
     (\<forall>nn wflow w. rd (wrw nn wflow w) = rd w) \<and> (\<forall>nn p w. rdw (wr nn p w) = rdw w) \<and>
     quiet_sbom rd env \<and> quiet_sbom rdw env \<and> quiet_settings rd env \<and> quiet_settings rdw env"

lemma two_storesD:
  assumes "two_stores env rd wr rdw wrw"
  shows "pe_pods env = store_kube rd wr" "named_store rd wr"
    "ct_workflows env = store_kube rdw wrw" "named_store rdw wrw"
    "rd (wrw nn wflow w) = rd w" "rdw (wr nn p w) = rdw w"
    "quiet_sbom rd env" "quiet_sbom rdw env" "quiet_settings rd env" "quiet_settings rdw env"
  using assms unfolding two_stores_def by blast+

definition stored_label :: "('w \<Rightarrow> nsname \<Rightarrow> workflow option) \<Rightarrow> nsname \<Rightarrow> 'w \<Rightarrow> string option" where
  "stored_label rdw req w =
     (case rdw w req of None \<Rightarrow> None | Some wflow \<Rightarrow> gm_lookup (m_labels wflow) workflowStatusLabel)"

lemma go_keeps_comp: "\<forall>c. go_keeps (\<lambda>w. f w = c) m \<Longrightarrow> go_keeps (\<lambda>w. g (f w) = d) m"
  by (simp add: go_keeps_def)

lemma quiet_sbom_comp: "quiet_sbom f env \<Longrightarrow> quiet_sbom (\<lambda>w. g (f w)) env"
  unfolding quiet_sbom_def steady_sbom_def steady_attest_def steady_sign_def steady_cosign_def
  by (simp add: all_conj_distrib go_keeps_comp)

lemma go_keeps_comp_world:
  "\<forall>c. go_keeps ((\<lambda>w. f w = c) \<circ> snd) m \<Longrightarrow> go_keeps ((\<lambda>w. g (f w) = d) \<circ> snd) m"
  by (simp add: go_keeps_def)

lemma quiet_settings_comp: "quiet_settings f env \<Longrightarrow> quiet_settings (\<lambda>w. g (f w)) env"
  unfolding quiet_settings_def steady_settings_def
  by (simp add: all_conj_distrib go_keeps_comp go_keeps_comp_world)

lemma stored_label_quiet:
  assumes "two_stores env rd wr rdw wrw"
  shows "quiet_pods (stored_label rdw req) env" "quiet_settings (stored_label rdw req) env"
proof -
  note st = two_storesD [OF assms]
  let ?g = "\<lambda>r. case r req of None \<Rightarrow> None | Some wflow \<Rightarrow> gm_lookup (m_labels wflow) workflowStatusLabel"
  have g: "stored_label rdw req = (\<lambda>w. ?g (rdw w))" by (simp add: stored_label_def fun_eq_iff)
  have "quiet_kube (\<lambda>w. ?g (rdw w)) (pe_pods env)"
    unfolding quiet_kube_def st(1) by (intro allI store_kube_steady) (simp add: st(6))
  with quiet_sbom_comp [OF st(8), of ?g] show "quiet_pods (stored_label rdw req) env"
    unfolding g quiet_pods_def by blast
  show "quiet_settings (stored_label rdw req) env"
    unfolding g by (rule quiet_settings_comp [OF st(10)])
qed

lemma stored_label_store:
  assumes "two_stores env rd wr rdw wrw"
  shows "label_store env req (stored_label rdw req) (\<lambda>w. w)"
proof -
  note st = two_storesD [OF assms]
  have "stored_label rdw req (wrw (nsname_of wflow) wflow w) =
      (if nsname_of wflow = req then gm_lookup (m_labels wflow) workflowStatusLabel
       else stored_label rdw req w)" for wflow w
    using named_storeD(2) [OF st(4), of wflow "nsname_of wflow" w req] by (simp add: stored_label_def)
  then show ?thesis
    by (auto simp: label_store_def st(3) store_kube_retry store_get_def store_patch_def go_fixes_def
        stored_label_def split: option.splits)
qed

text \<open>The workflow in hand is the stored one, but for its label.\<close>

lemma picked_up_stored:
  assumes "two_stores env rd wr rdw wrw" and "picked_up env rc req w cfg wflow w1"
  obtains stored where "rdw w req = Some stored" "GetPodInfo wflow = GetPodInfo stored"
    "m_namespace wflow = fst req" "config_read env rc (fst req) w cfg" "rd w1 = rd w"
proof -
  note st = two_storesD [OF assms(1)]
  have get: "go_fixes (f \<circ> snd) (cl_Get (ct_workflows env) req)" for f :: "'b \<Rightarrow> 'e"
    by (auto simp: st(3) store_get_def go_fixes_def split: option.splits)
  from assms(2) obtain stored v v1 v2 res where
    v: "read_only env req w v" "cl_Get (ct_workflows env) req (zero_workflow, v) = (Ok (), (stored, v1))"
      "config_read env rc (m_namespace stored) w cfg" "read_only env req w v2" and
    upd: "updateWorkflowStatus env reconcileInProgrees (stored, v2) = (Ok res, (wflow, w1))"
    unfolding picked_up_def by blast
  have same: "rdw v = rdw w" "rdw v2 = rdw w" "rd v2 = rd w"
    using read_onlyD [OF v(1) st(10) get] read_onlyD [OF v(4) st(10) get] read_onlyD [OF v(4) st(9) get]
    by simp_all
  have stored: "rdw w req = Some stored"
    using v(2) same(1) by (auto simp: st(3) store_get_def split: option.splits)
  then have name: "nsname_of stored = req" using named_storeD(1) [OF st(4)] by blast
  obtain w1' where "updateWorkflowStatus env reconcileInProgrees (stored, v2) =
      (Ok no_requeue, (with_label workflowStatusLabel reconcileInProgrees stored, w1'))"
    using store_updateWorkflowStatus [OF st(3,4) name, of v2 stored] stored same(2) by metis
  with upd have wflow: "wflow = with_label workflowStatusLabel reconcileInProgrees stored" by simp
  have "steady_kube (\<lambda>u. rd u = rd w) (ct_workflows env)"
    unfolding st(3) by (intro store_kube_steady) (simp add: st(5))
  from go_keepsD [OF updateWorkflowStatus_steady [OF this] upd] same(3) have "rd w1 = rd w" by simp
  moreover have "GetPodInfo wflow = GetPodInfo stored" "m_namespace wflow = fst req"
    "m_namespace stored = fst req"
    using name by (auto simp: wflow with_label_update GetPodInfo_def nsname_of_def)
  ultimately show thesis using that [OF stored] v(3) by simp
qed

text \<open>The small cluster is of this kind.\<close>

lemma sample_two_stores:
  "two_stores sample_env sw_read_pod sw_put_pod sw_read_workflow sw_put_workflow"
proof -
  have "named_store sw_read_pod sw_put_pod"
    unfolding named_store_def
  proof (intro conjI allI impI)
    fix w nn and r :: pod and nn'
    assume "nsname_of r = nn"
    then show "sw_read_pod (sw_put_pod nn r w) nn' = (if nn' = nn then Some r else sw_read_pod w nn')"
      by (auto simp: sw_read_pod_def sw_put_pod_def nsname_of_def)
  qed (rule sw_read_name(1))
  moreover have "quiet_sbom sw_read_pod sample_env" "quiet_sbom sw_read_workflow sample_env"
    unfolding quiet_sbom_def by (intro allI sample_steady_sbom; simp add: fun_eq_iff)+
  moreover have "pe_pods sample_env = store_kube sw_read_pod sw_put_pod"
    "ct_workflows sample_env = store_kube sw_read_workflow sw_put_workflow"
    by (simp_all add: sample_env_def sample_pods_def sample_workflows_def)
  moreover have "sw_read_pod (sw_put_workflow nn wflow w) = sw_read_pod w"
    "sw_read_workflow (sw_put_pod nn p w) = sw_read_workflow w" for nn wflow p w
    by (simp_all add: fun_eq_iff)
  ultimately show ?thesis
    by (simp add: two_stores_def sample_named_store sample_quiet_settings)
qed

end
