(* ===== verification/PodRecords.thy ===== *)
theory PodRecords imports TwoStores begin

text \<open>
  What the annotations of the stored pods say, as an invariant of the world: their values are of the
  documented kinds (\<open>typed_pod\<close>), a pod recorded as \<open>Completed\<close> is recorded as signed, and a pod on
  which a signature, an SBOM or a provenance is recorded as made has an artifact for whose image it was
  made (\<open>honest\<close>). Every operation keeps it, also when it fails or panics half way.
\<close>

section \<open>The invariant\<close>

definition annotation_values :: "(string \<times> string list) list" where
  "annotation_values =
     [(podStatusAnnotation, [reconciliationInProgerss, reconciliationCompleted, reconciliationError,
         reconciliationSkipped]),
      (signedAnnotation, [signingCompleted, signingError, signingSkipped]),
      (sbomAnnotation, [sbomCompleted, sbomError, sbomSkipped]),
      (provenanceAnnotation, [provenanceCompleted, provenanceError, provenanceSkipped])]"

definition legal :: "('h, 'w, 'z) registry_env_scheme \<Rightarrow> string \<Rightarrow> string \<Rightarrow> bool" where
  "legal env key v \<longleftrightarrow>
     (case map_of annotation_values key of
        Some values \<Rightarrow> v \<in> set values
      | None \<Rightarrow> key = artifactsAnnotation \<longrightarrow> v = artifactsNotFound \<or> fst (checkOCI env v))"

definition typed_pod :: "('h, 'w, 'z) registry_env_scheme \<Rightarrow> pod \<Rightarrow> bool" where
  "typed_pod env p \<longleftrightarrow>
     (\<forall>key \<in> set (artifactsAnnotation # map fst annotation_values).
        case gm_lookup (m_annotations p) key of None \<Rightarrow> True | Some v \<Rightarrow> legal env key v)"

text \<open>The outcomes that claim something: the annotations of the three products of a pod, with the value
  that stands for success.\<close>

definition outcomes :: "(string \<times> string) list" where
  "outcomes =
     [(signedAnnotation, signingCompleted), (sbomAnnotation, sbomCompleted),
      (provenanceAnnotation, provenanceCompleted)]"

definition honest :: "(string \<Rightarrow> string \<Rightarrow> bool) \<Rightarrow> pod \<Rightarrow> bool" where
  "honest made p \<longleftrightarrow>
     (gm_lookup (m_annotations p) podStatusAnnotation = Some reconciliationCompleted \<longrightarrow>
        gm_lookup (m_annotations p) signedAnnotation = Some signingCompleted) \<and>
     (\<forall>(key, v) \<in> set outcomes. gm_lookup (m_annotations p) key = Some v \<longrightarrow>
        (case gm_lookup (m_annotations p) artifactsAnnotation of
           None \<Rightarrow> False | Some img \<Rightarrow> made key img))"

lemma typed_pod_annotated: "typed_pod env p \<Longrightarrow> legal env key v \<Longrightarrow> typed_pod env (with_annotation key v p)"
  unfolding typed_pod_def by (auto split: option.splits if_splits)

lemma honest_mono: "honest P p \<Longrightarrow> (\<And>key img. P key img \<Longrightarrow> Q key img) \<Longrightarrow> honest Q p"
  by (fastforce simp: honest_def split: option.splits)

lemma pod_keys:
  "podStatusAnnotation \<noteq> signedAnnotation" "podStatusAnnotation \<noteq> artifactsAnnotation"
  "signedAnnotation \<noteq> artifactsAnnotation" "sbomAnnotation \<noteq> podStatusAnnotation"
  "sbomAnnotation \<noteq> signedAnnotation" "sbomAnnotation \<noteq> artifactsAnnotation"
  "provenanceAnnotation \<noteq> podStatusAnnotation" "provenanceAnnotation \<noteq> signedAnnotation"
  "provenanceAnnotation \<noteq> artifactsAnnotation" "sbomAnnotation \<noteq> provenanceAnnotation"
  by (simp_all add: pod_constants)

lemmas pod_keys' [simp] = pod_keys pod_keys [symmetric]

lemma pod_values:
  "reconciliationInProgerss \<noteq> reconciliationCompleted" "reconciliationSkipped \<noteq> reconciliationCompleted"
  "reconciliationError \<noteq> reconciliationCompleted" "signingSkipped \<noteq> signingCompleted"
  "signingError \<noteq> signingCompleted" "sbomSkipped \<noteq> sbomCompleted" "sbomError \<noteq> sbomCompleted"
  "provenanceSkipped \<noteq> provenanceCompleted" "provenanceError \<noteq> provenanceCompleted"
  by (simp_all add: pod_constants)

lemmas pod_values' [simp] = pod_values pod_values [symmetric]

lemma legal_values [simp]:
  "legal env podStatusAnnotation v \<longleftrightarrow> v \<in> {reconciliationInProgerss, reconciliationCompleted,
     reconciliationError, reconciliationSkipped}"
  "legal env signedAnnotation v \<longleftrightarrow> v \<in> {signingCompleted, signingError, signingSkipped}"
  "legal env sbomAnnotation v \<longleftrightarrow> v \<in> {sbomCompleted, sbomError, sbomSkipped}"
  "legal env provenanceAnnotation v \<longleftrightarrow> v \<in> {provenanceCompleted, provenanceError, provenanceSkipped}"
  "legal env artifactsAnnotation v \<longleftrightarrow> v = artifactsNotFound \<or> fst (checkOCI env v)"
  by (simp_all add: legal_def annotation_values_def)

text \<open>What may be recorded of an honest pod.\<close>

lemma honest_status:
  "honest P p \<Longrightarrow> v = reconciliationCompleted \<longrightarrow> gm_lookup (m_annotations p) signedAnnotation = Some signingCompleted \<Longrightarrow>
     honest P (with_annotation podStatusAnnotation v p)"
  by (auto simp: honest_def outcomes_def split: option.splits)

lemma honest_artifact:
  "honest P p \<Longrightarrow> gm_lookup (m_annotations p) artifactsAnnotation = None \<Longrightarrow>
     honest P (with_annotation artifactsAnnotation v p)"
  by (auto simp: honest_def outcomes_def)

lemma honest_outcome:
  assumes "honest P p" and "key \<in> fst ` set outcomes"
    and "(key, v) \<in> set outcomes \<Longrightarrow>
      \<exists>img. gm_lookup (m_annotations p) artifactsAnnotation = Some img \<and> P key img"
    and "key = signedAnnotation \<Longrightarrow>
      gm_lookup (m_annotations p) podStatusAnnotation \<noteq> Some reconciliationCompleted"
  shows "honest P (with_annotation key v p)"
  using assms by (auto simp: honest_def outcomes_def split: option.splits)

section \<open>What the operations bring about\<close>

text \<open>A provenance that names an image as its subject.\<close>

definition provenance_of :: "('h, 'w, 'z) pod_env_scheme \<Rightarrow> string \<Rightarrow> bytes \<Rightarrow> bool" where
  "provenance_of env img prov \<longleftrightarrow>
     (\<exists>subjects wflow wflow'. GenerateSlsaV1Provenance env subjects wflow = (Ok prov, wflow') \<and>
        subject_of env img \<in> set subjects)"

text \<open>\<open>Q key img e w\<close>, for some \<open>e\<close>, says that what the annotation \<open>key\<close> records was made for the image
  \<open>img\<close>: it is what a success of the operation brings about, and nothing undoes it.\<close>

definition outcomes_brought ::
  "('h, 'w, 'z) pod_env_scheme \<Rightarrow> (string \<Rightarrow> string \<Rightarrow> 'e \<Rightarrow> 'w \<Rightarrow> bool) \<Rightarrow> bool" where
  "outcomes_brought env Q \<longleftrightarrow>
     (\<forall>cfg img v v'. SignWithConfigOpts env img cfg v = (Ok (), v') \<longrightarrow>
        (\<exists>e. Q signedAnnotation img e v')) \<and>
     (\<forall>cfg img v v'. GenerateSBOMWithConfigOpts env img (pe_PredicateCycloneDX env) cfg v = (Ok (), v') \<longrightarrow>
        (\<exists>e. Q sbomAnnotation img e v')) \<and>
     (\<forall>cfg img prov v info v'. provenance_of env img prov \<longrightarrow>
        AttestWithConfigOpts env cfg img (pe_PredicateSLSA1 env) prov v = (Ok info, v') \<longrightarrow>
        (\<exists>e. Q provenanceAnnotation img e v')) \<and>
     (\<forall>key img e. steady_pods (Q key img e) env)"

lemma outcomes_broughtD:
  assumes "outcomes_brought env Q"
  shows "SignWithConfigOpts env img cfg v = (Ok (), v') \<Longrightarrow> \<exists>e. Q signedAnnotation img e v'"
    "GenerateSBOMWithConfigOpts env img (pe_PredicateCycloneDX env) cfg v = (Ok (), v') \<Longrightarrow>
      \<exists>e. Q sbomAnnotation img e v'"
    "provenance_of env img prov \<Longrightarrow>
      AttestWithConfigOpts env cfg img (pe_PredicateSLSA1 env) prov v = (Ok info, v') \<Longrightarrow>
      \<exists>e. Q provenanceAnnotation img e v'"
    "steady_pods (Q key img e) env"
  using assms unfolding outcomes_brought_def by blast+

abbreviation made :: "(string \<Rightarrow> string \<Rightarrow> 'e \<Rightarrow> 'w \<Rightarrow> bool) \<Rightarrow> 'w \<Rightarrow> string \<Rightarrow> string \<Rightarrow> bool" where
  "made Q w \<equiv> \<lambda>key img. \<exists>e. Q key img e w"

definition records_ok ::
  "('h, 'w, 'z) registry_env_scheme \<Rightarrow> ('w \<Rightarrow> nsname \<Rightarrow> pod option) \<Rightarrow>
   (string \<Rightarrow> string \<Rightarrow> 'e \<Rightarrow> 'w \<Rightarrow> bool) \<Rightarrow> 'w \<Rightarrow> bool" where
  "records_ok env rd Q w \<longleftrightarrow>
     (\<forall>nn p. rd w nn = Some p \<longrightarrow> typed_pod env p \<and> honest (made Q w) p)"

lemma records_okD:
  assumes "records_ok env rd Q w" and "rd w nn = Some p"
  shows "typed_pod env p" "honest (made Q w) p"
  using assms unfolding records_ok_def by blast+

definition record_env ::
  "('h, 'w, 'z) ctrl_env_scheme \<Rightarrow> ('w \<Rightarrow> nsname \<Rightarrow> pod option) \<Rightarrow> (nsname \<Rightarrow> pod \<Rightarrow> 'w \<Rightarrow> 'w) \<Rightarrow>
   ('w \<Rightarrow> nsname \<Rightarrow> workflow option) \<Rightarrow> (nsname \<Rightarrow> workflow \<Rightarrow> 'w \<Rightarrow> 'w) \<Rightarrow>
   (string \<Rightarrow> string \<Rightarrow> 'e \<Rightarrow> 'w \<Rightarrow> bool) \<Rightarrow> bool" where
  "record_env env rd wr rdw wrw Q \<longleftrightarrow>
     two_stores env rd wr rdw wrw \<and> outcomes_brought env Q \<and>
     (\<forall>key img e. steady_settings (Q key img e) env \<and> steady_kube (Q key img e) (ct_workflows env))"

lemma record_envD:
  assumes "record_env env rd wr rdw wrw Q"
  shows "two_stores env rd wr rdw wrw" "outcomes_brought env Q" "steady_pods (Q key img e) env"
    "steady_settings (Q key img e) env" "steady_kube (Q key img e) (ct_workflows env)"
  using assms outcomes_broughtD(4) [of env Q] unfolding record_env_def by metis+

lemma records_ok_grows:
  assumes "records_ok env rd Q w" and "rd w' = rd w" and "\<And>key img e. Q key img e w \<Longrightarrow> Q key img e w'"
  shows "records_ok env rd Q w'"
  using assms(1) unfolding records_ok_def assms(2) by (blast intro: honest_mono assms(3))

text \<open>A library call leaves the stored pods alone and undoes nothing that was made.\<close>

lemma library_keeps:
  assumes "\<And>c. go_keeps (\<lambda>w. rd w = c) m" and "\<And>key img e. go_keeps (Q key img e) m"
  shows "go_keeps (records_ok env rd Q) m"
  unfolding go_keeps_def
proof clarify
  fix w r w'
  assume ok: "records_ok env rd Q w" and run: "m w = (r, w')"
  show "records_ok env rd Q w'"
    using go_keepsD [OF assms(1) run] go_keepsD [OF assms(2) run] by (intro records_ok_grows [OF ok]) auto
qed

lemma operations_keep:
  assumes "record_env env rd wr rdw wrw Q"
  shows "go_keeps (records_ok env rd Q) (SignWithConfigOpts env img cfg)"
    "go_keeps (records_ok env rd Q) (AttestWithConfigOpts env cfg img pt p)"
    "go_keeps (records_ok env rd Q) (GenerateSBOMWithConfigOpts env img pt cfg)"
    "go_keeps (\<lambda>w. rd w = c) (SignWithConfigOpts env img cfg)"
    "go_keeps (\<lambda>w. rd w = c) (AttestWithConfigOpts env cfg img pt p)"
    "go_keeps (\<lambda>w. rd w = c) (GenerateSBOMWithConfigOpts env img pt cfg)"
proof -
  have rd: "steady_sbom (\<lambda>w. rd w = c) env" for c
    using two_storesD(7) [OF record_envD(1) [OF assms]] by (simp add: quiet_sbom_def)
  note q = steady_podsD(1) [OF record_envD(3) [OF assms]]
  show "go_keeps (records_ok env rd Q) (SignWithConfigOpts env img cfg)"
    "go_keeps (records_ok env rd Q) (AttestWithConfigOpts env cfg img pt p)"
    "go_keeps (records_ok env rd Q) (GenerateSBOMWithConfigOpts env img pt cfg)"
    by (intro library_keeps dispatch_steady rd q)+
  show "go_keeps (\<lambda>w. rd w = c) (SignWithConfigOpts env img cfg)"
    "go_keeps (\<lambda>w. rd w = c) (AttestWithConfigOpts env cfg img pt p)"
    "go_keeps (\<lambda>w. rd w = c) (GenerateSBOMWithConfigOpts env img pt cfg)"
    by (intro dispatch_steady rd)+
qed

section \<open>One annotation\<close>

lemma patch_stored:
  assumes "record_env env rd wr rdw wrw Q" and "ps_pod ps = Some p"
    and "patch_pod env key v (ps, w) = (r, (ps', w'))" and "records_ok env rd Q w"
    and "\<And>cur. rd w (nsname_of p) = Some cur \<Longrightarrow> legal env key v \<and>
      honest (made Q w) (with_annotation key v cur)"
  shows "records_ok env rd Q w' \<and> (\<forall>cur. rd w (nsname_of p) = Some cur \<longrightarrow> r = Ok () \<and>
    ps' = ps\<lparr>ps_pod := Some (with_annotation key v cur)\<rparr> \<and>
    rd w' = (rd w)(nsname_of p \<mapsto> with_annotation key v cur))"
proof -
  note st = two_storesD [OF record_envD(1) [OF assms(1)]]
  from assms(2,3) obtain p' where patch: "PatchAnnotations (store_kube rd wr) key v (p, w) = (r, (p', w'))"
    and ps': "ps' = ps\<lparr>ps_pod := Some p'\<rparr>"
    by (auto simp: patch_pod_run st(1) split: prod.splits)
  note stored = store_PatchAnnotations_cases [OF st(2) patch]
  have grow: "Q key img e w'" if "Q key img e w" for key img e
    using go_keepsD [OF patch_pod_steady [OF record_envD(3) [OF assms(1)]] assms(3)] that by simp
  show ?thesis
  proof (cases "rd w (nsname_of p)")
    case None
    with stored assms(4) show ?thesis by simp
  next
    case (Some cur)
    let ?new = "with_annotation key v cur"
    from stored Some have run: "r = Ok ()" "p' = ?new" "rd w' = (rd w)(nsname_of p \<mapsto> p')" by simp_all
    note cur = records_okD(1) [OF assms(4) Some]
    have "honest (made Q w') ?new" "typed_pod env ?new"
      using assms(5) [OF Some] typed_pod_annotated [OF cur, of key v]
      by (auto intro: honest_mono grow)
    moreover have "honest (made Q w') q \<and> typed_pod env q" if "rd w nn = Some q" for nn q
      using assms(4) that unfolding records_ok_def by (blast intro: honest_mono grow)
    ultimately have "records_ok env rd Q w'"
      unfolding records_ok_def run(3) run(2) by simp
    with run ps' Some show ?thesis by simp
  qed
qed

section \<open>The pod in hand\<close>

text \<open>The pod in hand is \<open>p\<close>, as it is stored.\<close>

definition in_hand ::
  "('h, 'w, 'z) registry_env_scheme \<Rightarrow> ('w \<Rightarrow> nsname \<Rightarrow> pod option) \<Rightarrow>
   (string \<Rightarrow> string \<Rightarrow> 'e \<Rightarrow> 'w \<Rightarrow> bool) \<Rightarrow> podStatus \<Rightarrow> 'w \<Rightarrow> pod \<Rightarrow> bool" where
  "in_hand env rd Q ps w p \<longleftrightarrow>
     ps_pod ps = Some p \<and> rd w (nsname_of p) = Some p \<and> records_ok env rd Q w"

lemma in_handD:
  assumes "in_hand env rd Q ps w p"
  shows "ps_pod ps = Some p" "rd w (nsname_of p) = Some p" "records_ok env rd Q w"
    "typed_pod env p" "honest (made Q w) p"
proof -
  from assms have p: "ps_pod ps = Some p" "rd w (nsname_of p) = Some p" "records_ok env rd Q w"
    by (simp_all add: in_hand_def)
  with records_okD [OF p(3,2)]
  show "ps_pod ps = Some p" "rd w (nsname_of p) = Some p" "records_ok env rd Q w"
    "typed_pod env p" "honest (made Q w) p" by simp_all
qed

lemma in_hand_status:
  "in_hand env rd Q ps w p \<Longrightarrow> ps_pod ps' = ps_pod ps \<Longrightarrow> in_hand env rd Q ps' w p"
  by (simp add: in_hand_def)

lemma in_hand_during:
  assumes "in_hand env rd Q ps w p" and "m w = (res, v)"
    and "go_keeps (\<lambda>u. rd u = rd w) m" and "go_keeps (records_ok env rd Q) m"
  shows "in_hand env rd Q ps v p"
  using assms go_keepsD [OF assms(3,2)] go_keepsD [OF assms(4,2)] by (simp add: in_hand_def)

lemma patch_in_hand:
  assumes "record_env env rd wr rdw wrw Q" and "in_hand env rd Q ps w p"
    and "patch_pod env key v (ps, w) = (r, (ps', w'))" and "legal env key v"
    and "honest (made Q w) (with_annotation key v p)"
  shows "r = Ok () \<and> ps' = ps\<lparr>ps_pod := Some (with_annotation key v p)\<rparr> \<and>
    in_hand env rd Q ps' w' (with_annotation key v p)"
proof -
  note p = in_handD [OF assms(2)]
  have "records_ok env rd Q w' \<and> (\<forall>cur. rd w (nsname_of p) = Some cur \<longrightarrow> r = Ok () \<and>
      ps' = ps\<lparr>ps_pod := Some (with_annotation key v cur)\<rparr> \<and>
      rd w' = (rd w)(nsname_of p \<mapsto> with_annotation key v cur))"
    by (rule patch_stored [OF assms(1) p(1) assms(3) p(3)]) (use p(2) assms(4,5) in simp)
  with p(2) show ?thesis by (simp add: in_hand_def)
qed

definition open_pod :: "pod \<Rightarrow> bool" where
  "open_pod p \<longleftrightarrow> gm_lookup (m_annotations p) podStatusAnnotation = Some reconciliationInProgerss"

text \<open>The artifact that was found is a reference with a digest, and the one that is stored.\<close>

definition info_read :: "podStatus \<Rightarrow> pod \<Rightarrow> bool" where
  "info_read ps p \<longleftrightarrow>
     (case gm_lookup (m_annotations p) artifactsAnnotation of None \<Rightarrow> True
      | Some a \<Rightarrow> a \<noteq> artifactsNotFound \<longrightarrow> ps_artifactInfo ps = a)"

definition info_stored :: "('h, 'w, 'z) registry_env_scheme \<Rightarrow> podStatus \<Rightarrow> pod \<Rightarrow> bool" where
  "info_stored env ps p \<longleftrightarrow>
     (ps_artifactsFound ps \<longrightarrow> fst (checkOCI env (ps_artifactInfo ps)) \<and>
        gm_lookup (m_annotations p) artifactsAnnotation = Some (ps_artifactInfo ps))"

definition signed_stored :: "podStatus \<Rightarrow> pod \<Rightarrow> bool" where
  "signed_stored ps p \<longleftrightarrow>
     (ps_artifactsFound ps \<and> ps_signed ps \<longrightarrow> gm_lookup (m_annotations p) signedAnnotation = Some signingCompleted)"

lemma typed_artifact:
  "typed_pod env p \<Longrightarrow> gm_lookup (m_annotations p) artifactsAnnotation = Some a \<Longrightarrow> a \<noteq> artifactsNotFound \<Longrightarrow>
     fst (checkOCI env a)"
  by (auto simp: typed_pod_def)

lemma scan_legal:
  assumes "scan_parameters env params (False, artifactsNotFound) = (found, info)"
  shows "(if found then fst (checkOCI env info) else info = artifactsNotFound)"
  using assms by (auto simp: scan_parameters_last scan_outcome_def Let_def split: if_splits)

text \<open>An outcome of the pod in hand is recorded, honestly.\<close>

lemma patch_outcome:
  assumes env: "record_env env rd wr rdw wrw Q" and p: "in_hand env rd Q ps w p" "open_pod p" "info_stored env ps p"
    and "patch_pod env key v (ps, w) = (r, (ps', w'))" and "legal env key v"
    and "key \<in> {signedAnnotation, sbomAnnotation}"
    and "(key, v) \<in> set outcomes \<Longrightarrow> ps_artifactsFound ps \<and> (\<exists>e. Q key (ps_artifactInfo ps) e w)"
  shows "r = Ok () \<and> ps' = ps\<lparr>ps_pod := Some (with_annotation key v p)\<rparr> \<and>
    in_hand env rd Q ps' w' (with_annotation key v p) \<and> open_pod (with_annotation key v p) \<and>
    info_stored env ps' (with_annotation key v p)"
proof -
  have "key \<in> fst ` set outcomes" using assms(7) by (auto simp: outcomes_def)
  moreover have "\<exists>img. gm_lookup (m_annotations p) artifactsAnnotation = Some img \<and> made Q w key img"
    if "(key, v) \<in> set outcomes"
    using assms(8) [OF that] p(3) by (auto simp: info_stored_def)
  moreover have "gm_lookup (m_annotations p) podStatusAnnotation \<noteq> Some reconciliationCompleted"
    using p(2) by (simp add: open_pod_def)
  ultimately have "honest (made Q w) (with_annotation key v p)"
    using in_handD(5) [OF p(1)] by (intro honest_outcome) auto
  from patch_in_hand [OF env p(1) assms(5,6) this] p(2,3) assms(7) show ?thesis
    by (auto simp: open_pod_def info_stored_def)
qed

section \<open>One visit\<close>

text \<open>Each step from a pod in hand: the records hold after it whatever it returns, and after \<open>Ok\<close> the pod
  is in hand again, with more known of it.\<close>

lemma handleArtifactInfo_records:
  assumes env: "record_env env rd wr rdw wrw Q" and p: "in_hand env rd Q ps w p" "open_pod p" "info_read ps p"
    and run: "handleArtifactInfo env (ps, w) = (r, (ps', w'))"
  shows "records_ok env rd Q w' \<and>
    (\<forall>u. r = Ok u \<longrightarrow> (\<exists>p'. in_hand env rd Q ps' w' p' \<and> open_pod p' \<and> info_stored env ps' p'))"
proof (cases "gm_lookup (m_annotations p) artifactsAnnotation")
  case None
  have patched: "records_ok env rd Q w' \<and>
      (\<exists>p'. in_hand env rd Q ps' w' p' \<and> open_pod p' \<and> info_stored env ps' p')"
    if patch: "patch_pod env artifactsAnnotation info
        (ps\<lparr>ps_artifactsFound := found, ps_artifactInfo := info\<rparr>, w) = (r, (ps', w'))"
      and legal: "if found then fst (checkOCI env info) else info = artifactsNotFound" for found info
  proof -
    let ?ps = "ps\<lparr>ps_artifactsFound := found, ps_artifactInfo := info\<rparr>"
    have "in_hand env rd Q ?ps w p" by (rule in_hand_status [OF p(1)]) simp
    moreover have "honest (made Q w) (with_annotation artifactsAnnotation info p)"
      by (rule honest_artifact [OF in_handD(5) [OF p(1)] None])
    ultimately have "ps' = ?ps\<lparr>ps_pod := Some (with_annotation artifactsAnnotation info p)\<rparr>"
      "in_hand env rd Q ps' w' (with_annotation artifactsAnnotation info p)"
      using patch_in_hand [OF env _ patch, of p] legal by (auto split: if_splits)
    with p(2) in_handD(3) legal show ?thesis by (auto simp: open_pod_def info_stored_def)
  qed
  from run None in_handD(1) [OF p(1)]
  consider "r = Panic nil_dereference" "w' = w"
    | found info where "patch_pod env artifactsAnnotation info
        (ps\<lparr>ps_artifactsFound := found, ps_artifactInfo := info\<rparr>, w) = (r, (ps', w'))"
      "if found then fst (checkOCI env info) else info = artifactsNotFound"
    by (auto simp: handleArtifactInfo_def with_pod_def go_get_def go_bind_def go_upd_def go_panic_def Let_def
        split: if_splits option.splits prod.splits dest: scan_legal)
  then show ?thesis
  proof cases
    case 1
    with in_handD(3) [OF p(1)] show ?thesis by simp
  next
    case 2
    from patched [OF this] show ?thesis by blast
  qed
next
  case (Some a)
  with run in_handD(1) [OF p(1)] have run: "r = Ok ()" "w' = w"
    "ps' = ps\<lparr>ps_artifactsFound := a \<noteq> artifactsNotFound\<rparr>"
    by (simp_all add: handleArtifactInfo_def with_pod_def go_get_def go_upd_def gm_index_Some)
  moreover have "in_hand env rd Q ps' w p" by (rule in_hand_status [OF p(1)]) (simp add: run(3))
  ultimately show ?thesis
    using p(2,3) Some in_handD(3) [OF p(1)] typed_artifact [OF in_handD(4) [OF p(1)] Some]
    by (auto simp: info_read_def info_stored_def)
qed

text \<open>Signing and the SBOM: a call that may fail or panic, and an annotation that says how it ended.\<close>

lemma handleArtifactSigning_run:
  assumes "ps_artifactsFound ps" and "ps_pod ps = Some p" and "gm_lookup (m_annotations p) signedAnnotation = None"
    and "SignWithConfigOpts env (ps_artifactInfo ps) cfg w = (res, v)"
  shows "handleArtifactSigning env cfg (ps, w) =
    (case res of Panic msg \<Rightarrow> (Panic msg, (ps, v))
     | Ok u \<Rightarrow> patch_pod env signedAnnotation signingCompleted (ps\<lparr>ps_signed := True\<rparr>, v)
     | Fail e \<Rightarrow> patch_pod env signedAnnotation signingError (ps\<lparr>ps_signed := False\<rparr>, v))"
  using assms
  by (cases res) (simp_all add: handleArtifactSigning_def with_pod_def go_get_def go_bind_def go_catch_def
      go_snd_def go_ret_def go_upd_def)

lemma handleSBOMgeneration_run:
  assumes "ps_artifactsFound ps" and "ps_pod ps = Some p" and "gm_lookup (m_annotations p) sbomAnnotation = None"
    and "GenerateSBOMWithConfigOpts env (ps_artifactInfo ps) (pe_PredicateCycloneDX env) cfg w = (res, v)"
  shows "handleSBOMgeneration env cfg (ps, w) =
    (case res of Panic msg \<Rightarrow> (Panic msg, (ps, v))
     | Ok u \<Rightarrow> patch_pod env sbomAnnotation sbomCompleted (ps\<lparr>ps_sbomAttached := True\<rparr>, v)
     | Fail e \<Rightarrow> patch_pod env sbomAnnotation sbomError (ps\<lparr>ps_sbomAttached := False\<rparr>, v))"
  using assms
  by (cases res) (simp_all add: handleSBOMgeneration_def with_pod_def go_get_def go_bind_def go_catch_def
      go_snd_def go_ret_def go_upd_def)

text \<open>The state between signing and the final status.\<close>

definition before_final ::
  "('h, 'w, 'z) registry_env_scheme \<Rightarrow> ('w \<Rightarrow> nsname \<Rightarrow> pod option) \<Rightarrow>
   (string \<Rightarrow> string \<Rightarrow> 'e \<Rightarrow> 'w \<Rightarrow> bool) \<Rightarrow> podStatus \<times> 'w \<Rightarrow> bool" where
  "before_final env rd Q = (\<lambda>(ps, w). \<exists>p. in_hand env rd Q ps w p \<and> open_pod p \<and>
     info_stored env ps p \<and> signed_stored ps p)"

lemma before_final_simp:
  "before_final env rd Q (ps, w) \<longleftrightarrow> (\<exists>p. in_hand env rd Q ps w p \<and> open_pod p \<and>
     info_stored env ps p \<and> signed_stored ps p)"
  by (simp add: before_final_def)

lemma before_final_ok: "before_final env rd Q (ps, w) \<Longrightarrow> records_ok env rd Q w"
  using in_handD(3) by (auto simp: before_final_simp)

lemma handleArtifactSigning_records:
  assumes env: "record_env env rd wr rdw wrw Q" and p: "in_hand env rd Q ps w p" "open_pod p" "info_stored env ps p"
    and run: "handleArtifactSigning env cfg (ps, w) = (r, (ps', w'))"
  shows "records_ok env rd Q w' \<and> (\<forall>u. r = Ok u \<longrightarrow> before_final env rd Q (ps', w'))"
proof (cases "ps_artifactsFound ps")
  case False
  with run have "patch_pod env signedAnnotation signingSkipped (ps, w) = (r, (ps', w'))"
    by (simp add: handleArtifactSigning_def go_get_def)
  from patch_outcome [OF env p this] False in_handD(3) show ?thesis
    by (auto simp: before_final_simp signed_stored_def outcomes_def)
next
  case found: True
  show ?thesis
  proof (cases "gm_lookup (m_annotations p) signedAnnotation")
    case (Some v)
    from run handleArtifactSigning_present [OF found in_handD(1) [OF p(1)] Some, of env cfg w]
    have run: "r = Ok ()" "w' = w" "ps' = ps\<lparr>ps_signed := (v = signingCompleted)\<rparr>" by simp_all
    moreover have "in_hand env rd Q ps' w p" by (rule in_hand_status [OF p(1)]) (simp add: run(3))
    ultimately show ?thesis
      using Some p(2,3) in_handD(3) [OF p(1)] by (auto simp: before_final_simp signed_stored_def info_stored_def)
  next
    case None
    obtain res v where call: "SignWithConfigOpts env (ps_artifactInfo ps) cfg w = (res, v)"
      by (metis prod.exhaust)
    have brings: "\<exists>e. Q signedAnnotation (ps_artifactInfo ps) e v" if "res = Ok ()"
      using outcomes_broughtD(1) [OF record_envD(2) [OF env]] call that by blast
    note hand = in_hand_during [OF p(1) call operations_keep(4,1) [OF env]]
    note run = run [unfolded handleArtifactSigning_run [OF found in_handD(1) [OF p(1)] None call]]
    show ?thesis
    proof (cases "\<exists>msg. res = Panic msg")
      case True
      with run in_handD(3) [OF hand] show ?thesis by auto
    next
      case False
      let ?x = "if res = Ok () then signingCompleted else signingError"
      from False have "patch_pod env signedAnnotation ?x (ps\<lparr>ps_signed := (res = Ok ())\<rparr>, v) =
          (r, (ps', w'))" (is "patch_pod _ _ _ (?ps, _) = _") using run by (cases res) auto
      moreover have "in_hand env rd Q ?ps v p" "info_stored env ?ps p" "legal env signedAnnotation ?x"
        using in_hand_status [OF hand] p(3) by (simp_all add: info_stored_def)
      moreover have "ps_artifactsFound ?ps \<and> (\<exists>e. Q signedAnnotation (ps_artifactInfo ?ps) e v)"
        if "(signedAnnotation, ?x) \<in> set outcomes"
        using that found brings by (auto simp: outcomes_def split: if_splits)
      ultimately have "ps' = ?ps\<lparr>ps_pod := Some (with_annotation signedAnnotation ?x p)\<rparr> \<and>
          in_hand env rd Q ps' w' (with_annotation signedAnnotation ?x p) \<and>
          open_pod (with_annotation signedAnnotation ?x p) \<and>
          info_stored env ps' (with_annotation signedAnnotation ?x p)"
        using patch_outcome [OF env _ p(2)] by blast
      with in_handD(3) show ?thesis by (fastforce simp: before_final_simp signed_stored_def)
    qed
  qed
qed

lemma handleSBOMgeneration_before_final:
  assumes env: "record_env env rd wr rdw wrw Q"
  shows "go_keeps (before_final env rd Q) (handleSBOMgeneration env cfg)"
  unfolding go_keeps_def
proof clarify
  fix ps w r ps' w'
  assume "before_final env rd Q (ps, w)" and run: "handleSBOMgeneration env cfg (ps, w) = (r, (ps', w'))"
  then obtain p where p: "in_hand env rd Q ps w p" "open_pod p" "info_stored env ps p" and
    signed: "signed_stored ps p" by (auto simp: before_final_simp)
  show "before_final env rd Q (ps', w')"
  proof (cases "ps_artifactsFound ps")
    case False
    with run have "patch_pod env sbomAnnotation sbomSkipped (ps, w) = (r, (ps', w'))"
      by (simp add: handleSBOMgeneration_def go_get_def)
    from patch_outcome [OF env p this] False signed show ?thesis
      by (auto simp: before_final_simp signed_stored_def outcomes_def)
  next
    case found: True
    show ?thesis
    proof (cases "gm_lookup (m_annotations p) sbomAnnotation")
      case (Some v)
      with run found in_handD(1) [OF p(1)] have "ps' = ps" "w' = w"
        by (simp_all add: handleSBOMgeneration_def with_pod_def go_get_def go_ret_def)
      with p signed show ?thesis by (auto simp: before_final_simp)
    next
      case None
      obtain res v where call:
        "GenerateSBOMWithConfigOpts env (ps_artifactInfo ps) (pe_PredicateCycloneDX env) cfg w = (res, v)"
        by (metis prod.exhaust)
      have brings: "\<exists>e. Q sbomAnnotation (ps_artifactInfo ps) e v" if "res = Ok ()"
        using outcomes_broughtD(2) [OF record_envD(2) [OF env]] call that by blast
      note hand = in_hand_during [OF p(1) call operations_keep(6,3) [OF env]]
      note run = run [unfolded handleSBOMgeneration_run [OF found in_handD(1) [OF p(1)] None call]]
      show ?thesis
      proof (cases "\<exists>msg. res = Panic msg")
        case True
        with run have "ps' = ps" "w' = v" by auto
        with p signed hand show ?thesis
          by (auto simp: before_final_simp)
      next
        case False
        let ?x = "if res = Ok () then sbomCompleted else sbomError"
        from False have "patch_pod env sbomAnnotation ?x (ps\<lparr>ps_sbomAttached := (res = Ok ())\<rparr>, v) =
            (r, (ps', w'))" (is "patch_pod _ _ _ (?ps, _) = _") using run by (cases res) auto
        moreover have "in_hand env rd Q ?ps v p" "info_stored env ?ps p" "legal env sbomAnnotation ?x"
          using in_hand_status [OF hand] p(3) by (simp_all add: info_stored_def)
        moreover have "ps_artifactsFound ?ps \<and> (\<exists>e. Q sbomAnnotation (ps_artifactInfo ?ps) e v)"
          if "(sbomAnnotation, ?x) \<in> set outcomes"
          using that found brings by (auto simp: outcomes_def split: if_splits)
        ultimately have "ps' = ?ps\<lparr>ps_pod := Some (with_annotation sbomAnnotation ?x p)\<rparr> \<and>
            in_hand env rd Q ps' w' (with_annotation sbomAnnotation ?x p) \<and>
            open_pod (with_annotation sbomAnnotation ?x p) \<and>
            info_stored env ps' (with_annotation sbomAnnotation ?x p)"
          using patch_outcome [OF env _ p(2)] by blast
        with signed show ?thesis by (fastforce simp: before_final_simp signed_stored_def)
      qed
    qed
  qed
qed

lemma updateFinalStatus_records:
  assumes env: "record_env env rd wr rdw wrw Q" and "before_final env rd Q (ps, w)"
    and run: "updateFinalStatus env (ps, w) = (r, (ps', w'))"
  shows "\<exists>p. in_hand env rd Q ps' w' p \<and> info_stored env ps' p"
proof -
  from assms(2) obtain p where p: "in_hand env rd Q ps w p" "open_pod p" "info_stored env ps p" "signed_stored ps p"
    by (auto simp: before_final_simp)
  let ?p = "with_annotation podStatusAnnotation (verdict ps) p"
  have "verdict ps = reconciliationCompleted \<Longrightarrow> ps_artifactsFound ps \<and> ps_signed ps"
    by (auto simp: verdict_def split: if_splits)
  with p(4) have "honest (made Q w) ?p"
    by (intro honest_status in_handD(5) [OF p(1)]) (auto simp: signed_stored_def)
  moreover have "in_hand env rd Q (ps\<lparr>ps_reconciliation := True\<rparr>) w p"
    by (rule in_hand_status [OF p(1)]) simp
  ultimately have "ps' = ps\<lparr>ps_reconciliation := True\<rparr>\<lparr>ps_pod := Some ?p\<rparr>" "in_hand env rd Q ps' w' ?p"
    using patch_in_hand [OF env _ run [unfolded updateFinalStatus_run]] verdict_final(2) [of ps] by auto
  with p(3) show ?thesis by (auto simp: info_stored_def)
qed

text \<open>The end of a visit: the pod is in hand, and the artifact of its status is the stored one.\<close>

definition visited ::
  "('h, 'w, 'z) registry_env_scheme \<Rightarrow> ('w \<Rightarrow> nsname \<Rightarrow> pod option) \<Rightarrow>
   (string \<Rightarrow> string \<Rightarrow> 'e \<Rightarrow> 'w \<Rightarrow> bool) \<Rightarrow> podStatus \<Rightarrow> 'w \<Rightarrow> bool" where
  "visited env rd Q ps w \<longleftrightarrow> (\<exists>p. in_hand env rd Q ps w p \<and> info_stored env ps p)"

lemma visited_ok: "visited env rd Q ps w \<Longrightarrow> records_ok env rd Q w"
  using in_handD(3) by (auto simp: visited_def)

lemma finish_records:
  assumes env: "record_env env rd wr rdw wrw Q" and "before_final env rd Q (ps, w)"
    and "finish env cfg (ps, w) = (r, (ps', w'))"
  shows "visited env rd Q ps' w'"
proof -
  let ?sbom = "if cfg_SbomGeneration cfg
    then go_catch (handleSBOMgeneration env cfg) (\<lambda>err. go_ret ()) go_ret else go_ret ()"
  have keep: "go_keeps (before_final env rd Q) ?sbom"
    by (intro go_keeps_if go_keeps_catch go_keeps_leaf handleSBOMgeneration_before_final [OF env])
  obtain r1 ps1 w1 where sbom: "?sbom (ps, w) = (r1, (ps1, w1))" by (metis prod.exhaust)
  from go_keepsD [OF keep sbom assms(2)] have before: "before_final env rd Q (ps1, w1)" .
  show ?thesis
  proof (cases "\<exists>u. r1 = Ok u")
    case True
    with assms(3) sbom have "updateFinalStatus env (ps1, w1) = (r, (ps', w'))"
      by (auto simp: finish_def go_bind_def)
    from updateFinalStatus_records [OF env before this] show ?thesis by (simp add: visited_def)
  next
    case False
    with assms(3) sbom have "(ps', w') = (ps1, w1)" by (cases r1) (auto simp: finish_def go_bind_def)
    with before show ?thesis by (auto simp: before_final_simp visited_def)
  qed
qed

lemma handlePodReconciliation_records:
  assumes env: "record_env env rd wr rdw wrw Q"
    and p: "in_hand env rd Q ps w p" "info_read ps p" "info_stored env ps p"
    and "gm_lookup (m_annotations p) podStatusAnnotation \<in> {None, Some reconciliationInProgerss}"
    and run: "handlePodReconciliation env cfg (ps, w) = (r, (ps', w'))"
  shows "records_ok env rd Q w' \<and> (\<forall>u. r = Ok u \<longrightarrow> visited env rd Q ps' w')"
proof -
  let ?rest = "go_bind (handleArtifactInfo env) (\<lambda>_. go_bind (handleArtifactSigning env cfg) (\<lambda>_. finish env cfg))"
  have patched: "r' = Ok () \<and> ps1 = ps2\<lparr>ps_pod := Some (with_annotation podStatusAnnotation v p)\<rparr> \<and>
      in_hand env rd Q ps1 w1 (with_annotation podStatusAnnotation v p)"
    if "patch_pod env podStatusAnnotation v (ps2, w) = (r', (ps1, w1))" "ps_pod ps2 = ps_pod ps"
      "v \<in> {reconciliationInProgerss, reconciliationSkipped}" for v r' ps1 ps2 w1
  proof -
    have "honest (made Q w) (with_annotation podStatusAnnotation v p)"
      using that(3) by (intro honest_status in_handD(5) [OF p(1)]) auto
    from patch_in_hand [OF env in_hand_status [OF p(1) that(2)] that(1) _ this] that(3) show ?thesis by auto
  qed
  from run in_handD(1) [OF p(1)] consider
    "markPodAsSkipped env (ps, w) = (r, (ps', w'))"
    | "go_bind (patch_pod env podStatusAnnotation reconciliationInProgerss) (\<lambda>_. ?rest) (ps, w) = (r, (ps', w'))"
    by (auto simp: handlePodReconciliation_def finish_def go_get_def with_pod_def split: if_splits)
  then show ?thesis
  proof cases
    case 1
    then have "patch_pod env podStatusAnnotation reconciliationSkipped (ps\<lparr>ps_reconciliation := True\<rparr>, w) =
        (r, (ps', w'))" by (simp add: markPodAsSkipped_def go_bind_def go_upd_def)
    from patched [OF this] p(3) have "visited env rd Q ps' w'"
      by (auto simp: visited_def info_stored_def)
    then show ?thesis using visited_ok [of env rd Q ps' w'] by simp
  next
    case 2
    obtain r1 ps1 w1 where start: "patch_pod env podStatusAnnotation reconciliationInProgerss (ps, w) =
        (r1, (ps1, w1))" by (metis prod.exhaust)
    let ?p1 = "with_annotation podStatusAnnotation reconciliationInProgerss p"
    from patched [OF start] have "r1 = Ok ()" "ps1 = ps\<lparr>ps_pod := Some ?p1\<rparr>" and
      hand: "in_hand env rd Q ps1 w1 ?p1" by auto
    with 2 start have rest: "?rest (ps1, w1) = (r, (ps', w'))" by (simp add: go_bind_def)
    have open1: "open_pod ?p1" "info_read ps1 ?p1"
      using p(2) \<open>ps1 = _\<close> by (auto simp: open_pod_def info_read_def split: option.splits)
    obtain r2 ps2 w2 where info: "handleArtifactInfo env (ps1, w1) = (r2, (ps2, w2))" by (metis prod.exhaust)
    note two = handleArtifactInfo_records [OF env hand open1 info]
    show ?thesis
    proof (cases "\<exists>u. r2 = Ok u")
      case False
      with rest info have "w' = w2" "\<forall>u. r \<noteq> Ok u" by (cases r2; auto simp: go_bind_def)+
      with two show ?thesis by simp
    next
      case True
      with two obtain p2 where p2: "in_hand env rd Q ps2 w2 p2" "open_pod p2" "info_stored env ps2 p2" by blast
      obtain r3 ps3 w3 where sign: "handleArtifactSigning env cfg (ps2, w2) = (r3, (ps3, w3))"
        by (metis prod.exhaust)
      note three = handleArtifactSigning_records [OF env p2 sign]
      show ?thesis
      proof (cases "\<exists>u. r3 = Ok u")
        case False
        with True rest info sign have "w' = w3" "\<forall>u. r \<noteq> Ok u" by (cases r3; auto simp: go_bind_def)+
        with three show ?thesis by simp
      next
        case ok: True
        with three have before: "before_final env rd Q (ps3, w3)" by blast
        from True ok rest info sign have "finish env cfg (ps3, w3) = (r, (ps', w'))"
          by (auto simp: go_bind_def)
        from finish_records [OF env before this] show ?thesis using visited_ok [of env rd Q ps' w'] by simp
      qed
    qed
  qed
qed

lemma currentRconsiliationStatus_info: "info_read (currentRconsiliationStatus p ps) p"
  by (simp add: info_read_def currentRconsiliationStatus_def Let_def split: option.splits)

lemma currentRconsiliationStatus_stored:
  "typed_pod env p \<Longrightarrow> \<not> ps_artifactsFound ps \<Longrightarrow> info_stored env (currentRconsiliationStatus p ps) p"
  by (auto simp: info_stored_def currentRconsiliationStatus_def Let_def dest: typed_artifact split: option.splits)

text \<open>A pod status as \<open>GetPodInfo\<close> makes it.\<close>

definition fresh_status :: "podStatus \<Rightarrow> bool" where
  "fresh_status ps \<longleftrightarrow> ps_pod ps = None \<and> \<not> ps_artifactsFound ps"

lemma GetPodInfo_fresh: "GetPodInfo wflow = Inr pods \<Longrightarrow> p \<in> set pods \<Longrightarrow> fresh_status p"
  by (auto simp: GetPodInfo_def collect_pods_filter fresh_status_def new_podStatus_def Let_def split: if_splits)

lemma reconcilePod_records:
  assumes env: "record_env env rd wr rdw wrw Q" and ok: "records_ok env rd Q w" and fresh: "fresh_status ps"
    and run: "reconcilePod env cfg ns (ps, w) = (r, (ps', w'))"
  shows "records_ok env rd Q w' \<and> (\<forall>u. r = Ok u \<longrightarrow> fresh_status ps' \<or> visited env rd Q ps' w')"
proof -
  note st = two_storesD [OF record_envD(1) [OF env]]
  let ?visit = "go_bind (go_snd (getPod env ns (ps_podName ps))) (\<lambda>pod.
    go_bind (go_upd (currentRconsiliationStatus pod)) (\<lambda>_. go_get (\<lambda>ps.
      if ps_reconciliation ps then go_ret () else handlePodReconciliation env cfg)))"
  from run fresh consider "w' = w" "fresh_status ps'" | "?visit (ps, w) = (r, (ps', w'))"
    by (auto simp: reconcilePod_def fresh_status_def go_inv split: if_splits)
  then show ?thesis
  proof cases
    case 1
    with ok show ?thesis by simp
  next
    case 2
    show ?thesis
    proof (cases "rd w (ns, ps_podName ps)")
      case None
      with 2 ok show ?thesis by (auto simp: getPod_def st(1) store_get_def go_bind_def go_snd_def)
    next
      case (Some p)
      let ?cur = "currentRconsiliationStatus p ps"
      have get: "getPod env ns (ps_podName ps) w = (Ok p, w)"
        using Some by (simp add: getPod_def st(1) store_get_def)
      with 2 have rest: "(if ps_reconciliation ?cur then go_ret () else handlePodReconciliation env cfg) (?cur, w) =
          (r, (ps', w'))"
        by (simp add: go_bind_def go_snd_def go_upd_def go_get_def)
      have hand: "in_hand env rd Q ?cur w p"
        using ok Some named_storeD(1) [OF st(2) Some] by (simp add: in_hand_def)
      have stored: "info_stored env ?cur p"
        using currentRconsiliationStatus_stored [OF in_handD(4) [OF hand]] fresh by (simp add: fresh_status_def)
      show ?thesis
      proof (cases "ps_reconciliation ?cur")
        case True
        with rest have "ps' = ?cur" "w' = w" by (simp_all add: go_ret_def)
        with hand stored have "visited env rd Q ps' w'" by (auto simp: visited_def)
        then show ?thesis using visited_ok [of env rd Q ps' w'] by simp
      next
        case False
        then have status: "gm_lookup (m_annotations p) podStatusAnnotation \<in> {None, Some reconciliationInProgerss}"
          using currentRconsiliationStatus_final [of p _ ps]
          by (cases "gm_lookup (m_annotations p) podStatusAnnotation") auto
        from False rest have run: "handlePodReconciliation env cfg (?cur, w) = (r, (ps', w'))" by simp
        from handlePodReconciliation_records [OF env hand currentRconsiliationStatus_info stored status run]
        show ?thesis by blast
      qed
    qed
  qed
qed

end
