(* ===== verification/WorkflowRecords.thy ===== *)
theory WorkflowRecords imports PodRecords begin

text \<open>
  The invariant of \<open>PodRecords\<close> for all pods of a workflow and over histories of reconciliations. The
  provenance step runs after every pod was visited, on what the visits left in memory, so the artifact
  in memory has to be still the stored one (\<open>linked\<close>): nothing overwrites the artifact of a pod, and
  nothing but the provenance step writes a provenance outcome.
\<close>

section \<open>Annotations that a visit does not write\<close>

text \<open>The pod stored under \<open>nn\<close> has the value \<open>x\<close> under \<open>key\<close>, or no value.\<close>

definition noted ::
  "('w \<Rightarrow> nsname \<Rightarrow> pod option) \<Rightarrow> nsname \<Rightarrow> string \<Rightarrow> string option \<Rightarrow> 'w \<Rightarrow> bool" where
  "noted rd nn key x w \<longleftrightarrow> (\<exists>cur. rd w nn = Some cur \<and> gm_lookup (m_annotations cur) key = x)"

lemma noted_read: "rd w' nn = rd w nn \<Longrightarrow> noted rd nn key x w' = noted rd nn key x w"
  by (simp add: noted_def)

lemma noted_library:
  assumes "\<And>c. go_keeps (\<lambda>w. rd w = c) m"
  shows "go_keeps (noted rd nn key x) m"
  unfolding go_keeps_def
proof clarify
  fix w r w'
  assume "noted rd nn key x w" "m w = (r, w')"
  with go_keepsD [OF assms [of "rd w"]] noted_read [of rd w' nn w] show "noted rd nn key x w'" by simp
qed

text \<open>The same of the pod in hand.\<close>

definition noted_here ::
  "('w \<Rightarrow> nsname \<Rightarrow> pod option) \<Rightarrow> nsname \<Rightarrow> string \<Rightarrow> string option \<Rightarrow> podStatus \<times> 'w \<Rightarrow> bool" where
  "noted_here rd nn key x = (\<lambda>(ps, w). noted rd nn key x w \<and>
     (\<exists>p. ps_pod ps = Some p \<and> nsname_of p = nn \<and> gm_lookup (m_annotations p) key = x))"

lemma noted_here_simp [simp]:
  "noted_here rd nn key x (ps, w) \<longleftrightarrow> noted rd nn key x w \<and>
     (\<exists>p. ps_pod ps = Some p \<and> nsname_of p = nn \<and> gm_lookup (m_annotations p) key = x)"
  by (simp add: noted_here_def)

lemma patch_pod_stored:
  assumes "pe_pods env = store_kube rd wr" and "named_store rd wr"
    and "patch_pod env key v (ps, w) = (r, (ps', w'))"
  obtains "w' = w" "ps' = ps" "\<And>p. ps_pod ps = Some p \<Longrightarrow> rd w (nsname_of p) = None"
  | p cur where "ps_pod ps = Some p" "rd w (nsname_of p) = Some cur" "nsname_of cur = nsname_of p"
    "rd w' = (rd w)(nsname_of p \<mapsto> with_annotation key v cur)"
    "ps' = ps\<lparr>ps_pod := Some (with_annotation key v cur)\<rparr>"
proof (cases "ps_pod ps")
  case None
  with assms(3) that(1) show thesis by (simp add: patch_pod_run)
next
  case (Some p)
  with assms(3) obtain p' where patch: "PatchAnnotations (store_kube rd wr) key v (p, w) = (r, (p', w'))"
    and ps': "ps' = ps\<lparr>ps_pod := Some p'\<rparr>"
    by (auto simp: patch_pod_run assms(1) split: prod.splits)
  note stored = store_PatchAnnotations_cases [OF assms(2) patch]
  show thesis
  proof (cases "rd w (nsname_of p)")
    case None
    with stored ps' Some that(1) show thesis by simp
  next
    case cur: (Some cur)
    with stored ps' Some named_storeD(1) [OF assms(2) cur] that(2) show thesis by simp
  qed
qed

lemma patch_pod_noted:
  assumes "pe_pods env = store_kube rd wr" and "named_store rd wr" and "key' \<noteq> key"
  shows "go_keeps (noted rd nn key x \<circ> snd) (patch_pod env key' v)"
    "go_keeps (noted_here rd nn key x) (patch_pod env key' v)"
proof -
  have at: "noted rd nn key x w'"
    if "noted rd nn key x w" "patch_pod env key' v (ps, w) = (r, (ps', w'))" for ps w r ps' w'
    by (cases rule: patch_pod_stored [OF assms(1,2) that(2)])
      (use that(1) assms(3) in \<open>auto simp: noted_def\<close>)
  then show "go_keeps (noted rd nn key x \<circ> snd) (patch_pod env key' v)" by (auto simp: go_keeps_def)
  have "noted_here rd nn key x (ps', w')"
    if here: "noted_here rd nn key x (ps, w)" and run: "patch_pod env key' v (ps, w) = (r, (ps', w'))"
    for ps w r ps' w'
  proof (cases rule: patch_pod_stored [OF assms(1,2) run])
    case 1
    with here show ?thesis by simp
  next
    case (2 p cur)
    from here 2(1) have nn: "nsname_of p = nn" and at0: "noted rd nn key x w" by auto
    with 2(2) have "gm_lookup (m_annotations cur) key = x"
      by (simp add: noted_def)
    with at [OF at0 run] 2(3,5) nn assms(3) show ?thesis by simp
  qed
  then show "go_keeps (noted_here rd nn key x) (patch_pod env key' v)"
    unfolding go_keeps_def split_paired_All by blast
qed

text \<open>A patch of the annotation itself.\<close>

lemma patch_pod_writes:
  assumes "pe_pods env = store_kube rd wr" and "named_store rd wr"
    and "patch_pod env key v (ps, w) = (r, (ps', w'))" and "noted_here rd nn key x (ps, w)"
  shows "noted rd nn key (Some v) w'"
  by (cases rule: patch_pod_stored [OF assms(1-3)]) (use assms(4) in \<open>auto simp: noted_def\<close>)

lemma noted_here_upd: "(\<And>ps. ps_pod (f ps) = ps_pod ps) \<Longrightarrow> go_keeps (noted_here rd nn key x) (go_upd f)"
  by (auto simp: go_keeps_def go_upd_def)

lemma noted_here_library:
  assumes "\<And>c. go_keeps (\<lambda>w. rd w = c) m"
  shows "go_keeps (noted_here rd nn key x) (go_snd m)"
  unfolding go_keeps_def
proof clarify
  fix ps w r ps' w'
  assume here: "noted_here rd nn key x (ps, w)" and "go_snd m (ps, w) = (r, (ps', w'))"
  then have "m w = (r, w')" "ps' = ps" by (simp_all add: go_snd_inv)
  with go_keepsD [OF noted_library [OF assms]] here show "noted_here rd nn key x (ps', w')" by auto
qed

text \<open>The artifact is written only where there is none.\<close>

lemma handleArtifactInfo_noted:
  assumes "pe_pods env = store_kube rd wr" and "named_store rd wr"
    and "key = artifactsAnnotation \<Longrightarrow> x \<noteq> None"
  shows "go_keeps (noted_here rd nn key x) (handleArtifactInfo env)"
proof (cases "key = artifactsAnnotation")
  case True
  with assms(3) show ?thesis
    by (auto simp: go_keeps_def handleArtifactInfo_def with_pod_def go_get_def go_upd_def)
next
  case False
  show ?thesis
    unfolding handleArtifactInfo_def Let_def
    by (intro pod_keeps_rules patch_pod_noted(2) [OF assms(1,2) False [symmetric]] noted_here_upd; simp)
qed

definition visit_leaves :: "string \<Rightarrow> string option \<Rightarrow> bool" where
  "visit_leaves key x \<longleftrightarrow> key \<notin> {podStatusAnnotation, signedAnnotation, sbomAnnotation} \<and>
     (key = artifactsAnnotation \<longrightarrow> x \<noteq> None)"

lemma visit_leaves_simps [simp]:
  "visit_leaves artifactsAnnotation (Some img)" "visit_leaves provenanceAnnotation x"
  by (simp_all add: visit_leaves_def)

lemma handlePodReconciliation_noted:
  assumes "pe_pods env = store_kube rd wr" and "named_store rd wr" and "quiet_sbom rd env"
    and "visit_leaves key x"
  shows "go_keeps (noted_here rd nn key x) (handlePodReconciliation env cfg)"
proof -
  have keys: "podStatusAnnotation \<noteq> key" "signedAnnotation \<noteq> key" "sbomAnnotation \<noteq> key"
    and x: "key = artifactsAnnotation \<Longrightarrow> x \<noteq> None" using assms(4) by (auto simp: visit_leaves_def)
  show ?thesis
    unfolding handlePodReconciliation_def markPodAsSkipped_def handleArtifactSigning_def
      handleSBOMgeneration_def updateFinalStatus_def Let_def
    by (intro pod_keeps_rules handleArtifactInfo_noted [OF assms(1,2) x] patch_pod_noted(2) [OF assms(1,2)] keys
        noted_here_library noted_here_upd dispatch_steady [OF assms(3) [unfolded quiet_sbom_def, rule_format]]; simp)
qed

lemma reconcilePod_noted:
  assumes "pe_pods env = store_kube rd wr" and "named_store rd wr" and "quiet_sbom rd env"
    and "visit_leaves key x" and "fresh_status ps" and "noted rd nn key x w"
    and run: "reconcilePod env cfg ns (ps, w) = (r, (ps', w'))"
  shows "noted rd nn key x w' \<and>
    ((ns, ps_podName ps) = nn \<longrightarrow> ps_pod ps' \<noteq> None \<longrightarrow> noted_here rd nn key x (ps', w'))"
proof (cases "(ns, ps_podName ps) = nn")
  case False
  with reconcilePod_other [OF assms(1-3) _ False run] assms(5,6) show ?thesis
    by (simp add: fresh_status_def noted_def)
next
  case True
  let ?visit = "go_bind (go_snd (getPod env ns (ps_podName ps))) (\<lambda>pod.
    go_bind (go_upd (currentRconsiliationStatus pod)) (\<lambda>_. go_get (\<lambda>ps.
      if ps_reconciliation ps then go_ret () else handlePodReconciliation env cfg)))"
  from assms(6) obtain p where p: "rd w nn = Some p" "gm_lookup (m_annotations p) key = x"
    by (auto simp: noted_def)
  let ?cur = "currentRconsiliationStatus p ps"
  have get: "getPod env ns (ps_podName ps) w = (Ok p, w)"
    using p(1) True by (simp add: getPod_def assms(1) store_get_def)
  from run consider "w' = w" "ps_pod ps' = ps_pod ps" | "?visit (ps, w) = (r, (ps', w'))"
    by (auto simp: reconcilePod_def go_inv split: if_splits)
  then show ?thesis
  proof cases
    case 2
    with get have "(if ps_reconciliation ?cur then go_ret () else handlePodReconciliation env cfg) (?cur, w) =
        (r, (ps', w'))" by (simp add: go_bind_def go_snd_def go_upd_def go_get_def)
    moreover have "noted_here rd nn key x (?cur, w)"
      using p assms(6) named_storeD(1) [OF assms(2) p(1)] by simp
    moreover have "go_keeps (noted_here rd nn key x)
        (if ps_reconciliation ?cur then go_ret () else handlePodReconciliation env cfg)"
      by (intro go_keeps_if go_keeps_leaf handlePodReconciliation_noted [OF assms(1-4)])
    ultimately show ?thesis using go_keepsD by fastforce
  qed (use assms(5,6) in \<open>simp add: fresh_status_def\<close>)
qed

text \<open>The artifact of a pod is never overwritten.\<close>

abbreviation info_at :: "('w \<Rightarrow> nsname \<Rightarrow> pod option) \<Rightarrow> nsname \<Rightarrow> string \<Rightarrow> 'w \<Rightarrow> bool" where
  "info_at rd nn img \<equiv> noted rd nn artifactsAnnotation (Some img)"

section \<open>All pods of a workflow\<close>

text \<open>What the provenance step needs of a pod status: the artifact it found is the stored one.\<close>

definition linked ::
  "('h, 'w, 'z) registry_env_scheme \<Rightarrow> ('w \<Rightarrow> nsname \<Rightarrow> pod option) \<Rightarrow> podStatus \<Rightarrow> 'w \<Rightarrow> bool" where
  "linked env rd ps w \<longleftrightarrow>
     (ps_artifactsFound ps \<longrightarrow> fst (checkOCI env (ps_artifactInfo ps)) \<and>
        (\<forall>p. ps_pod ps = Some p \<longrightarrow> info_at rd (nsname_of p) (ps_artifactInfo ps) w))"

lemma linked_after_visit: "fresh_status ps \<or> visited env rd Q ps w \<Longrightarrow> linked env rd ps w"
  by (auto simp: fresh_status_def visited_def linked_def info_stored_def noted_def in_hand_def)

lemma linked_kept:
  "linked env rd ps w \<Longrightarrow> (\<And>nn img. info_at rd nn img w \<Longrightarrow> info_at rd nn img w') \<Longrightarrow> linked env rd ps w'"
  by (auto simp: linked_def)

text \<open>What a visit establishes no later one undoes.\<close>

lemma each_pod_establishes:
  assumes "each_pod m (ps, v) = (Ok u, (ps', v'))" and "I v" and "\<forall>p \<in> set ps. F p"
    and "\<And>p v r p1 v1. I v \<Longrightarrow> F p \<Longrightarrow> m (p, v) = (r, (p1, v1)) \<Longrightarrow> I v1"
    and "\<And>p v p1 v1. I v \<Longrightarrow> F p \<Longrightarrow> m (p, v) = (Ok (), (p1, v1)) \<Longrightarrow> L p1 v1"
    and "\<And>q p v r p1 v1. L q v \<Longrightarrow> F p \<Longrightarrow> m (p, v) = (r, (p1, v1)) \<Longrightarrow> L q v1"
  shows "\<forall>q \<in> set ps'. L q v'"
  using assms(1-3)
proof (induction ps arbitrary: v ps')
  case (Cons p ps)
  from Cons.prems(1) obtain p1 v1 ps2 where step: "m (p, v) = (Ok (), (p1, v1))"
    and rest: "each_pod m (ps, v1) = (Ok u, (ps2, v'))" and ps': "ps' = p1 # ps2"
    by (cases "m (p, v)"; cases "fst (m (p, v))") (auto split: prod.splits)
  have F: "F p" "\<forall>q \<in> set ps. F q" using Cons.prems(3) by simp_all
  from assms(4) [OF Cons.prems(2) F(1) step] have "I v1" .
  from Cons.IH [OF rest this F(2)] have later: "\<forall>q \<in> set ps2. L q v'" .
  have "L p1 v'"
    by (rule each_pod_guarded [OF rest, where I = "L p1" and G = "\<lambda>p v. F p"])
      (use assms(5) [OF Cons.prems(2) F(1) step] F(2) assms(6) in auto)
  with later ps' show ?case by simp
qed simp

section \<open>The provenance step\<close>

text \<open>A pod on which the step acts: no outcome is recorded, and its artifact is signed.\<close>

definition unattested :: "podStatus \<Rightarrow> bool" where
  "unattested ps \<longleftrightarrow>
     (\<exists>pod. ps_pod ps = Some pod \<and> gm_lookup (m_annotations pod) provenanceAnnotation = None \<and> ps_signed ps)"

abbreviation provenance_outcome :: "'b result \<Rightarrow> string" where
  "provenance_outcome res \<equiv> (if \<exists>info. res = Ok info then provenanceCompleted else provenanceError)"

lemma handleProveneceAttachment_cases:
  assumes "handleProveneceAttachment env cfg subs (ps, (wflow, w)) = (r, (ps', (wflow', w')))"
  obtains "ps_artifactsFound ps" "w' = w" "\<And>u. r = Ok u \<Longrightarrow> ps_pod ps \<noteq> None \<and> \<not> unattested ps"
  | "\<not> ps_artifactsFound ps" "patch_pod env provenanceAnnotation provenanceSkipped (ps, w) = (r, (ps', w'))"
  | prov wf res v where "ps_artifactsFound ps" "unattested ps"
    "GenerateSlsaV1Provenance env subs wflow = (Ok prov, wf)"
    "AttestWithConfigOpts env cfg (ps_artifactInfo ps) (pe_PredicateSLSA1 env) prov w = (res, v)"
    "w' = v \<and> (\<forall>u. r \<noteq> Ok u) \<or> (\<exists>b. patch_pod env provenanceAnnotation (provenance_outcome res)
       (ps\<lparr>ps_sbomAttached := b\<rparr>, v) = (r, (ps', w')))"
proof (cases "ps_artifactsFound ps")
  case False
  with assms that(2) show thesis by (auto simp: handleProveneceAttachment_def go_get_def go_mid_inv)
next
  case found: True
  have same: "sbomError = provenanceError" by (simp add: pod_constants)
  show thesis
  proof (cases "unattested ps")
    case False
    with assms found show thesis
      by (intro that(1)) (auto simp: unattested_def handleProveneceAttachment_def go_get_def go_panic_def go_ret_def
          split: option.splits if_splits)
  next
    case True
    then obtain pod where pod: "ps_pod ps = Some pod" "gm_lookup (m_annotations pod) provenanceAnnotation = None"
      "ps_signed ps" unfolding unattested_def by blast
    obtain rp wf where gen: "GenerateSlsaV1Provenance env subs wflow = (rp, wf)" by fastforce
    show thesis
    proof (cases rp)
      case (Ok prov)
      obtain res v where call:
        "AttestWithConfigOpts env cfg (ps_artifactInfo ps) (pe_PredicateSLSA1 env) prov w = (res, v)" by fastforce
      from assms found pod gen Ok call have "w' = v \<and> (\<forall>u. r \<noteq> Ok u) \<or>
        (\<exists>b. patch_pod env provenanceAnnotation (provenance_outcome res) (ps\<lparr>ps_sbomAttached := b\<rparr>, v) = (r, (ps', w')))"
        by (cases res) (auto simp: handleProveneceAttachment_def go_get_def go_bind_def go_wrap_def on_workflow_def
            go_catch_def go_snd_def go_ret_def go_upd_def go_mid_def same split: prod.splits)
      with found True gen Ok call that(3) show thesis by blast
    qed (use assms found pod gen that(1) in \<open>auto simp: handleProveneceAttachment_def go_get_def go_bind_def
        go_wrap_def on_workflow_def\<close>)
  qed
qed

lemma patch_provenance:
  assumes env: "record_env env rd wr rdw wrw Q" and ok: "records_ok env rd Q w"
    and run: "patch_pod env provenanceAnnotation v (ps, w) = (r, (ps', w'))"
    and v: "v \<in> {provenanceCompleted, provenanceError, provenanceSkipped}"
    and real: "\<And>p cur. v = provenanceCompleted \<Longrightarrow> ps_pod ps = Some p \<Longrightarrow> rd w (nsname_of p) = Some cur \<Longrightarrow>
      \<exists>img e. gm_lookup (m_annotations cur) artifactsAnnotation = Some img \<and> Q provenanceAnnotation img e w"
  shows "records_ok env rd Q w'"
proof (cases "ps_pod ps")
  case None
  with run ok show ?thesis by (simp add: patch_pod_run)
next
  case (Some p)
  have "legal env provenanceAnnotation v \<and> honest (made Q w) (with_annotation provenanceAnnotation v cur)"
    if "rd w (nsname_of p) = Some cur" for cur
  proof
    show "honest (made Q w) (with_annotation provenanceAnnotation v cur)"
    proof (rule honest_outcome [OF records_okD(2) [OF ok that]])
      assume "(provenanceAnnotation, v) \<in> set outcomes"
      then have "v = provenanceCompleted" by (auto simp: outcomes_def)
      from real [OF this Some that]
      show "\<exists>img. gm_lookup (m_annotations cur) artifactsAnnotation = Some img \<and> made Q w provenanceAnnotation img"
        by blast
    qed (simp_all add: outcomes_def)
  qed (use v in simp)
  from patch_stored [OF env Some run ok this] show ?thesis by blast
qed

lemma handleProveneceAttachment_records:
  assumes env: "record_env env rd wr rdw wrw Q" and ok: "records_ok env rd Q w" and link: "linked env rd ps w"
    and subs: "ps_artifactsFound ps \<Longrightarrow> ps_signed ps \<Longrightarrow> subject_of env (ps_artifactInfo ps) \<in> set subs"
    and run: "handleProveneceAttachment env cfg subs (ps, (wflow, w)) = (r, (ps', (wflow', w')))"
  shows "records_ok env rd Q w'"
proof (cases rule: handleProveneceAttachment_cases [OF run])
  case 1
  with ok show ?thesis by simp
next
  case 2
  from patch_provenance [OF env ok 2(2)] show ?thesis by simp
next
  case (3 prov wf res v)
  from 3(2) have signed: "ps_signed ps" by (auto simp: unattested_def)
  have ok1: "records_ok env rd Q v" by (rule go_keepsD [OF operations_keep(2) [OF env] 3(4) ok])
  have same: "rd v = rd w" using go_keepsD [OF operations_keep(5) [OF env] 3(4)] by blast
  from 3(5) consider "w' = v" | b where "patch_pod env provenanceAnnotation (provenance_outcome res)
      (ps\<lparr>ps_sbomAttached := b\<rparr>, v) = (r, (ps', w'))" by blast
  then show ?thesis
  proof cases
    case 1
    with ok1 show ?thesis by simp
  next
    case (2 b)
    show ?thesis
    proof (rule patch_provenance [OF env ok1 2])
      fix p cur
      assume "provenance_outcome res = provenanceCompleted" and p: "ps_pod (ps\<lparr>ps_sbomAttached := b\<rparr>) = Some p"
        and cur: "rd v (nsname_of p) = Some cur"
      then obtain info where "res = Ok info" by (auto split: if_splits)
      moreover have "provenance_of env (ps_artifactInfo ps) prov"
        using 3(3) subs [OF 3(1) signed] unfolding provenance_of_def by blast
      ultimately obtain e where "Q provenanceAnnotation (ps_artifactInfo ps) e v"
        using outcomes_broughtD(3) [OF record_envD(2) [OF env]] 3(4) by blast
      moreover have "info_at rd (nsname_of p) (ps_artifactInfo ps) v"
        using link 3(1) p noted_read [of rd v "nsname_of p" w] same by (simp add: linked_def)
      ultimately show "\<exists>img e. gm_lookup (m_annotations cur) artifactsAnnotation = Some img \<and>
          Q provenanceAnnotation img e v"
        using cur by (auto simp: noted_def)
    qed simp
  qed
qed

text \<open>The step writes nothing but the provenance outcome of its own pod.\<close>

lemma handleProveneceAttachment_leaves:
  assumes env: "record_env env rd wr rdw wrw Q"
    and run: "handleProveneceAttachment env cfg subs (ps, (wflow, w)) = (r, (ps', (wflow', w')))"
  shows "key \<noteq> provenanceAnnotation \<Longrightarrow> noted rd nn key x w \<Longrightarrow> noted rd nn key x w'"
    "(\<And>p. ps_pod ps = Some p \<Longrightarrow> nsname_of p \<noteq> nn) \<Longrightarrow> rd w' nn = rd w nn"
proof -
  note st = two_storesD [OF record_envD(1) [OF env]]
  have call: "rd v = rd w" if "AttestWithConfigOpts env cfg i pt prov w = (res, v)" for i pt prov res v
    using go_keepsD [OF operations_keep(5) [OF env] that] by blast
  show "noted rd nn key x w'" if other: "key \<noteq> provenanceAnnotation" and at: "noted rd nn key x w"
  proof -
    have patch: "noted rd nn key x b"
      if "patch_pod env provenanceAnnotation y (qs, a) = (res, (qs', b))" "noted rd nn key x a" for y qs a res qs' b
      using go_keepsD [OF patch_pod_noted(1) [OF st(1,2) other [symmetric]] that(1)] that(2) by simp
    show ?thesis
    proof (cases rule: handleProveneceAttachment_cases [OF run])
      case (3 prov wf res v)
      with at call [OF 3(4)] noted_read [of rd v nn w] patch show ?thesis by metis
    qed (use at patch in blast)+
  qed
  show "rd w' nn = rd w nn" if other: "\<And>p. ps_pod ps = Some p \<Longrightarrow> nsname_of p \<noteq> nn"
  proof -
    have patch: "rd b nn = rd a nn"
      if "patch_pod env provenanceAnnotation y (qs, a) = (res, (qs', b))" "ps_pod qs = ps_pod ps" for y qs a res qs' b
      by (cases rule: patch_pod_stored [OF st(1,2) that(1)]) (use other that(2) in auto)
    show ?thesis
    proof (cases rule: handleProveneceAttachment_cases [OF run])
      case (3 prov wf res v)
      from 3(5) show ?thesis using call [OF 3(4)] patch by fastforce
    qed (use patch in blast)+
  qed
qed

lemma attest_subjects_member:
  assumes "p \<in> set pods" and "ps_artifactsFound p" and "ps_signed p" and "fst (checkOCI env (ps_artifactInfo p))"
  shows "subject_of env (ps_artifactInfo p) \<in> set (attest_subjects env pods)"
  using assms by (auto simp: attest_subjects_filter attestable_def)

lemma AttestArtifacts_records:
  assumes env: "record_env env rd wr rdw wrw Q" and ok: "records_ok env rd Q w"
    and link: "\<forall>p \<in> set pods. linked env rd p w"
    and run: "AttestArtifacts env cfg (pods, (wflow, w)) = (r, (pods', (wflow', w')))"
  shows "records_ok env rd Q w'"
proof -
  let ?subs = "attest_subjects env pods"
  from run have run: "each_pod (handleProveneceAttachment env cfg ?subs) (pods, (wflow, w)) =
      (r, (pods', (wflow', w')))" by (simp add: AttestArtifacts_def go_get_def)
  have "(\<lambda>(wf, v). records_ok env rd Q v) (wflow', w')"
  proof (rule each_pod_guarded [OF run, where G = "\<lambda>p (wf, v). p \<in> set pods \<and> linked env rd p v"])
    fix p v r p1 v1
    assume "(\<lambda>(wf, v). records_ok env rd Q v) v" "(\<lambda>(wf, v). p \<in> set pods \<and> linked env rd p v) v"
      and step: "handleProveneceAttachment env cfg ?subs (p, v) = (r, (p1, v1))"
    then show "(\<lambda>(wf, v). records_ok env rd Q v) v1"
      using handleProveneceAttachment_records [OF env, where subs = ?subs and ps = p] attest_subjects_member [of p pods env]
      by (cases v; cases v1) (auto simp: linked_def)
  next
    fix q p v r p1 v1
    assume "(\<lambda>(wf, v). q \<in> set pods \<and> linked env rd q v) v"
      and "handleProveneceAttachment env cfg ?subs (p, v) = (r, (p1, v1))"
    then show "(\<lambda>(wf, v). q \<in> set pods \<and> linked env rd q v) v1"
      using handleProveneceAttachment_leaves(1) [OF env _ pod_keys(9) [symmetric]] by (cases v; cases v1) (auto intro: linked_kept)
  qed (use ok link in auto)
  then show ?thesis by simp
qed

section \<open>One reconciliation of a workflow, and histories\<close>

lemma updateWorkflowStatus_records:
  assumes env: "record_env env rd wr rdw wrw Q"
  shows "go_keeps (records_ok env rd Q \<circ> snd) (updateWorkflowStatus env v)"
proof -
  note st = two_storesD [OF record_envD(1) [OF env]]
  have rd: "steady_kube (\<lambda>w. rd w = c) (ct_workflows env)" for c
    unfolding st(3) by (intro store_kube_steady) (simp add: st(5))
  show ?thesis
    unfolding go_keeps_def
  proof clarify
    fix wflow w r wflow' w'
    assume ok: "(records_ok env rd Q \<circ> snd) (wflow, w)"
      and run: "updateWorkflowStatus env v (wflow, w) = (r, (wflow', w'))"
    from go_keepsD [OF updateWorkflowStatus_steady [OF rd [of "rd w"]] run] have "rd w' = rd w" by simp
    moreover have "Q key img e w'" if "Q key img e w" for key img e
      using go_keepsD [OF updateWorkflowStatus_steady [OF record_envD(5) [OF env]] run] that by simp
    ultimately show "(records_ok env rd Q \<circ> snd) (wflow', w')"
      using ok records_ok_grows [of env rd Q w w'] by simp
  qed
qed

text \<open>The pods of a workflow are visited, and then their provenance is attached.\<close>

lemma WorkflowStatus_Reconcile_records:
  assumes env: "record_env env rd wr rdw wrw Q" and ok: "records_ok env rd Q w"
    and fresh: "\<forall>p \<in> set pods. fresh_status p"
    and run: "WorkflowStatus_Reconcile env cfg ns (pods, w) = (r, (pods', w'))"
  shows "records_ok env rd Q w' \<and> (\<forall>u. r = Ok u \<longrightarrow> (\<forall>p \<in> set pods'. linked env rd p w'))"
proof -
  note st = two_storesD [OF record_envD(1) [OF env]]
  obtain r1 pods1 w1 where pods: "each_pod (reconcilePod env cfg ns) (pods, w) = (r1, (pods1, w1))"
    by (metis prod.exhaust)
  have same: "w' = w1" "r = Ok u \<Longrightarrow> r1 = Ok () \<and> pods' = pods1" for u
    using run pods by (cases r1; auto simp: WorkflowStatus_Reconcile_def go_bind_def go_get_def go_err_def
        go_ret_def go_fail_def split: option.splits)+
  have "records_ok env rd Q w1"
    by (rule each_pod_guarded [where I = "records_ok env rd Q" and G = "\<lambda>p v. fresh_status p", OF pods ok fresh])
      (use reconcilePod_records [OF env] in blast)+
  moreover have "\<forall>p \<in> set pods1. linked env rd p w1" if "r1 = Ok ()"
  proof (rule each_pod_establishes [where I = "records_ok env rd Q" and F = fresh_status, OF pods [unfolded that] ok fresh])
    fix p v p1 v1
    assume "records_ok env rd Q v" "fresh_status p" "reconcilePod env cfg ns (p, v) = (Ok (), (p1, v1))"
    from reconcilePod_records [OF env this] show "linked env rd p1 v1" by (auto intro: linked_after_visit)
  next
    fix q p v r p1 v1
    assume "linked env rd q v" "fresh_status p" "reconcilePod env cfg ns (p, v) = (r, (p1, v1))"
    then show "linked env rd q v1"
      using reconcilePod_noted [OF st(1,2,7) visit_leaves_simps(1)] by (blast intro: linked_kept)
  next
    fix p v r p1 v1
    assume "records_ok env rd Q v" "fresh_status p" "reconcilePod env cfg ns (p, v) = (r, (p1, v1))"
    from reconcilePod_records [OF env this] show "records_ok env rd Q v1" by blast
  qed
  ultimately show ?thesis using same by blast
qed

text \<open>After the visits, a pod in memory is the one of its name, and what a visit does not write is in
  memory and in the store what it was in the store before.\<close>

lemma WorkflowStatus_Reconcile_noted:
  assumes "pe_pods env = store_kube rd wr" and "named_store rd wr" and "quiet_sbom rd env"
    and "WorkflowStatus_Reconcile env cfg ns (pods, w) = (Ok u, (pods', w'))"
    and "\<forall>p \<in> set pods. fresh_status p" and "distinct (map ps_podName pods)"
    and "\<And>x. visit_leaves key x" and "q \<in> set pods'" and "ps_pod q \<noteq> None"
  obtains p0 where "rd w (ns, ps_podName q) = Some p0"
    "noted_here rd (ns, ps_podName q) key (gm_lookup (m_annotations p0) key) (q, w')"
proof -
  let ?x = "\<lambda>p0. gm_lookup (m_annotations p0) key"
  let ?Q = "\<lambda>q v. ps_pod q \<noteq> None \<longrightarrow> (\<exists>p0. rd w (ns, ps_podName q) = Some p0 \<and>
    noted_here rd (ns, ps_podName q) key (?x p0) (q, v))"
  have run: "each_pod (reconcilePod env cfg ns) (pods, w) = (Ok (), (pods', w'))"
    using WorkflowStatus_Reconcile_Ok [OF assms(4)] by simp
  have fresh: "ps_pod p = None" "fresh_status p" if "p \<in> set pods" for p
    using that assms(5) by (simp_all add: fresh_status_def)
  have name: "ps_podName p1 = ps_podName p" if "reconcilePod env cfg ns (p, v) = (r, (p1, v1))" for p v r p1 v1
    using go_fixesD [OF reconcilePod_identity that] by simp
  have own: "rd v1 (ns, k) = rd v (ns, k)"
    if "p \<in> set pods" "reconcilePod env cfg ns (p, v) = (r, (p1, v1))" "k \<noteq> ps_podName p" for p v r p1 v1 k
    using reconcilePod_other [OF assms(1-3) fresh(1) [OF that(1)] _ that(2), of "(ns, k)"] that(3) by simp
  have visit: "?Q p1 v2" if p: "p \<in> set pods" and step: "reconcilePod env cfg ns (p, v1) = (Ok (), (p1, v2))"
    and same: "rd v1 (ns, ps_podName p) = rd w (ns, ps_podName p)" for p v1 p1 v2
  proof
    assume held: "ps_pod p1 \<noteq> None"
    have "terminated_phase (ps_status p)"
      by (rule ccontr) (use reconcilePod_not_terminated [OF step] held fresh(1) [OF p] in simp)
    from reconcilePod_getPod [OF step this] obtain p0 where p0: "rd v1 (ns, ps_podName p) = Some p0"
      by (auto simp: getPod_def assms(1) store_get_def split: option.splits)
    then have "noted rd (ns, ps_podName p) key (?x p0) v1" by (simp add: noted_def)
    from reconcilePod_noted [OF assms(1-3,7) fresh(2) [OF p] this step] held p0 same name [OF step]
    show "\<exists>p0. rd w (ns, ps_podName p1) = Some p0 \<and>
      noted_here rd (ns, ps_podName p1) key (?x p0) (p1, v2)" by simp
  qed
  have keep: "?Q q v1" if "p \<in> set pods" "?Q q v" "reconcilePod env cfg ns (p, v) = (r, (p1, v1))"
    "ps_podName p \<noteq> ps_podName q" for q p v r p1 v1
    using that(2) own [OF that(1,3) that(4) [symmetric]] noted_read [of rd v1 "(ns, ps_podName q)" v] by simp
  have "?Q q w'"
    by (rule each_pod_settles [OF run assms(6), where g = "\<lambda>v k. rd v (ns, k)" and Q = ?Q,
          OF name own visit keep assms(8)])
  with assms(9) that show thesis by blast
qed

lemma secure_workflow_records:
  assumes env: "record_env env rd wr rdw wrw Q"
  shows "go_keeps (records_ok env rd Q \<circ> snd) (secure_workflow env cfg)"
  unfolding go_keeps_def
proof clarify
  fix wflow w r wflow' w'
  assume "(records_ok env rd Q \<circ> snd) (wflow, w)" and run: "secure_workflow env cfg (wflow, w) = (r, (wflow', w'))"
  then have ok: "records_ok env rd Q w" by simp
  note upd = updateWorkflowStatus_records [OF env]
  show "(records_ok env rd Q \<circ> snd) (wflow', w')"
  proof (cases "GetPodInfo wflow")
    case (Inl err)
    with run ok show ?thesis by (simp add: secure_workflow_def go_get_def go_ret_def)
  next
    case (Inr pods)
    obtain r1 pods1 w1 where pods: "WorkflowStatus_Reconcile env cfg (m_namespace wflow) (pods, w) = (r1, (pods1, w1))"
      by (metis prod.exhaust)
    have "\<forall>p \<in> set pods. fresh_status p" using GetPodInfo_fresh [OF Inr] by blast
    note one = WorkflowStatus_Reconcile_records [OF env ok this pods]
    let ?good = "\<lambda>_. go_snd (go_bind (updateWorkflowStatus env reconcileCompleted) (\<lambda>_. go_ret no_requeue))"
    let ?bad = "\<lambda>err. go_snd (go_bind (updateWorkflowStatus env reconcileError) (\<lambda>_. go_ret no_requeue))"
    have keep: "go_keeps ((records_ok env rd Q \<circ> snd) \<circ> snd) (?bad e)"
      "go_keeps ((records_ok env rd Q \<circ> snd) \<circ> snd) (?good u)"
      "go_keeps ((records_ok env rd Q \<circ> snd) \<circ> snd) (go_snd (handle_pods_error env e))" for e u
      unfolding handle_pods_error_def
      by (intro go_keeps_world go_keeps_bind upd go_keeps_leaf go_keeps_if)+
    from run Inr have rest: "\<exists>ps'. go_catch (go_mid (WorkflowStatus_Reconcile env cfg (m_namespace wflow)))
        (\<lambda>err. go_snd (handle_pods_error env err)) (\<lambda>_. go_catch (AttestArtifacts env cfg) ?bad ?good)
        (pods, (wflow, w)) = (r, (ps', (wflow', w')))"
      by (simp add: secure_workflow_def go_get_def go_local_inv)
    have mid: "go_mid (WorkflowStatus_Reconcile env cfg (m_namespace wflow)) (pods, (wflow, w)) =
        (r1, (pods1, (wflow, w1)))" using pods by (simp add: go_mid_def)
    show ?thesis
    proof (cases r1)
      case (Ok u)
      obtain r2 pods2 wf2 w2 where attest: "AttestArtifacts env cfg (pods1, (wflow, w1)) = (r2, (pods2, (wf2, w2)))"
        by (metis prod.exhaust)
      from one Ok have "records_ok env rd Q w1" "\<forall>p \<in> set pods1. linked env rd p w1" by simp_all
      from AttestArtifacts_records [OF env this attest] have "records_ok env rd Q w2" .
      moreover from rest mid Ok attest obtain ps' where
        "(case r2 of Ok u \<Rightarrow> ?good u (pods2, (wf2, w2)) | Fail e \<Rightarrow> ?bad e (pods2, (wf2, w2))
          | Panic p \<Rightarrow> (Panic p, (pods2, (wf2, w2)))) = (r, (ps', (wflow', w')))"
        by (auto simp: go_catch_def split: result.splits)
      ultimately show ?thesis using go_keepsD [OF keep(1)] go_keepsD [OF keep(2)]
        by (cases r2) fastforce+
    next
      case (Fail e)
      with rest mid obtain ps' where "go_snd (handle_pods_error env e) (pods1, (wflow, w1)) = (r, (ps', (wflow', w')))"
        by (auto simp: go_catch_def)
      from go_keepsD [OF keep(3) this] one show ?thesis by simp
    next
      case (Panic msg)
      with rest mid one show ?thesis by (auto simp: go_catch_def)
    qed
  qed
qed

lemma reconcile_workflow_records:
  assumes env: "record_env env rd wr rdw wrw Q"
  shows "go_keeps (records_ok env rd Q \<circ> snd) (reconcile_workflow env cfg)"
  unfolding reconcile_workflow_def Let_def
  by (auto split: option.splits intro!: go_keeps_get go_keeps_if go_keeps_bind go_keeps_leaf
      updateWorkflowStatus_records [OF env] secure_workflow_records [OF env])

lemma Reconcile_records:
  assumes env: "record_env env rd wr rdw wrw Q" and "records_ok env rd Q w"
    and "Reconcile env rc req w = (r, w')"
  shows "records_ok env rd Q w'"
proof -
  note st = two_storesD [OF record_envD(1) [OF env]]
  have get: "go_keeps (P \<circ> snd) (cl_Get (ct_workflows env) req)" for P
    by (auto simp: st(3) store_get_def go_keeps_def split: option.splits)
  have start: "records_ok env rd Q v" if v: "read_only env req w v" for v
  proof -
    have "go_fixes (rd \<circ> snd) (cl_Get (ct_workflows env) req)" by (simp add: go_fixes_world_iff(1) get)
    from read_onlyD [OF v st(9) this] have "rd v = rd w" .
    moreover have "Q key img e v" if "Q key img e w" for key img e
      using v get record_envD(4) [OF env] that unfolding read_only_def by blast
    ultimately show ?thesis by (rule records_ok_grows [OF assms(2)])
  qed
  from assms(3) show ?thesis
  proof (cases rule: Reconcile_cases)
    case 1
    then show ?thesis by (simp add: start)
  next
    case (2 cfg wflow wflow' w1 w2 w3)
    from go_keepsD [OF reconcile_workflow_records [OF env] 2(6)] start [OF 2(5)] show ?thesis by simp
  qed
qed

lemma controller_run_records:
  assumes "record_env env rd wr rdw wrw Q"
    and "\<And>w1 w2. moves w1 w2 \<Longrightarrow> records_ok env rd Q w1 \<Longrightarrow> records_ok env rd Q w2"
    and "controller_run env rc req moves w w'" and "records_ok env rd Q w"
  shows "records_ok env rd Q w'"
  using assms(3,4)
proof (induction rule: controller_run.induct)
  case (visit w w1 res w2)
  with Reconcile_records [OF assms(1)] show ?case by blast
next
  case (others w w1 w2)
  with assms(2) show ?case by blast
qed

end
