(* ===== verification/CompletionProperties.thy ===== *)
theory CompletionProperties imports WorkflowRecords SigningProperties begin

text \<open>
  From the label of a workflow to the registry: what a reconciliation that turns the label into
  \<open>Completed\<close> has left in the registry.

  \<open>sigs w\<close> is an observation of the world: the triples of a repository, a payload and a signer such that
  the repository holds a signature over the payload which that signer verifies.
\<close>

section \<open>The registry\<close>

type_synonym 'h held = "string \<times> bytes \<times> 'h signer_verifier"

text \<open>The documented behaviour of cosign's writes: when a signature was attached to an image's
  signatures with the duplicate detector of a signer (which may put a signature of that signer over
  the same payload in its place), and the result was written to a repository, the repository holds
  such a signature.\<close>

definition registry_documented ::
  "('h, 'w, 'z) sign_env_scheme \<Rightarrow> ('w \<Rightarrow> 'h held set) \<Rightarrow> bool" where
  "registry_documented env sigs \<longleftrightarrow>
     (\<forall>sv x payload sig se newSE repo opts w w1 w2.
        ce_sig_Payload env x = Inr payload \<longrightarrow> ce_sig_Base64Signature env x = Inr (b64_encode sig) \<longrightarrow>
        signed_by env sv payload sig \<longrightarrow>
        sg_AttachSignatureToEntity env se x (sg_NewDupeDetector env sv) False w = (Ok newSE, w1) \<longrightarrow>
        sg_WriteSignatures env repo newSE opts w1 = (Ok (), w2) \<longrightarrow> (repo, payload, sv) \<in> sigs w2)"

lemma registry_documentedD:
  assumes "registry_documented env sigs"
    and "ce_sig_Payload env x = Inr payload" and "ce_sig_Base64Signature env x = Inr (b64_encode sig)"
    and "signed_by env sv payload sig"
    and "sg_AttachSignatureToEntity env se x (sg_NewDupeDetector env sv) False w = (Ok newSE, w1)"
    and "sg_WriteSignatures env repo newSE opts w1 = (Ok (), w2)"
  shows "(repo, payload, sv) \<in> sigs w2"
  using assms unfolding registry_documented_def by blast

text \<open>The image a reference names is signed: its repository holds a signature over the payload made for
  the reference, by a signer obtained for the key that the configuration selects.\<close>

definition signs_image ::
  "('h, 'w, 'z) sign_env_scheme \<Rightarrow> 'h config \<Rightarrow> string \<Rightarrow> 'h held \<Rightarrow> bool" where
  "signs_image env cfg img = (\<lambda>(repo, payload, sv).
     \<exists>ref keyRef v v'. rg_ParseReference env img = Inr ref \<and> ref_Digest ref \<noteq> None \<and>
       repo = ref_Repository ref \<and> sg_payload_MarshalJSON env ref '''' = Inr payload \<and>
       key_ref cfg = Some keyRef \<and>
       SignerFromKeyOpts env (SignOci_keyopts (SignOci_options keyRef cfg)) False v = (Ok sv, v'))"

definition image_signed ::
  "('h, 'w, 'z) sign_env_scheme \<Rightarrow> 'h config \<Rightarrow> ('w \<Rightarrow> 'h held set) \<Rightarrow> string \<Rightarrow> 'w \<Rightarrow> bool" where
  "image_signed env cfg sigs img w \<longleftrightarrow> (\<exists>e \<in> sigs w. signs_image env cfg img e)"

lemma SignOci_signs:
  assumes "oci_documented env" and "registry_documented env sigs"
    and "\<And>e. steady_sign (\<lambda>w. e \<in> sigs w) env"
    and "SignOci env img keyRef cfg w = (Ok u, w')" and "key_ref cfg = Some keyRef"
  shows "image_signed env cfg sigs img w'"
proof -
  let ?so = "SignOci_options keyRef cfg"
  from SignOci_Ok [OF assms(4)] obtain ref digest sv se opts w1 w2 w3 w6 where
    prep: "SignerFromKeyOpts env (SignOci_keyopts ?so) False w = (Ok sv, w1)"
      "rg_ParseReference env img = Inr ref" "ref_Digest ref = Some digest" and
    run: "signDigest env ref (SignOci_keyopts ?so) ?so (sg_NewDupeDetector env sv) sv se opts w3 = (Ok u, w6)" and
    closed: "w' = snd (sg_Close env sv w6)" by blast
  from signDigest_Ok [OF run] obtain payload s x pub newSE wc w4 w5 where
    payload: "sg_payload_MarshalJSON env ref '''' = Inr payload" and
    signer: "digest_signer env (SignOci_keyopts ?so) ?so sv w3 = (Ok s, wc)"
      "s (Inr payload) wc = (Ok (x, pub), w4)" and
    att: "sg_AttachSignatureToEntity env se x (sg_NewDupeDetector env sv) False w4 = (Ok newSE, w5)"
      "sg_WriteSignatures env (ref_Repository ref) newSE opts w5 = (Ok (), w6)" by auto
  from digest_signer_faithful [OF assms(1) signer] obtain sig where
    "ce_sig_Payload env x = Inr payload" "ce_sig_Base64Signature env x = Inr (b64_encode sig)"
    "signed_by env sv payload sig" by blast
  from registry_documentedD [OF assms(2) this att]
  have "(ref_Repository ref, payload, sv) \<in> sigs w6" .
  with go_keepsD [OF steady_signD(13) [OF assms(3)] prod.collapse [symmetric]] closed
  have "(ref_Repository ref, payload, sv) \<in> sigs w'" by blast
  moreover have "signs_image env cfg img (ref_Repository ref, payload, sv)"
    using prep payload assms(5) unfolding signs_image_def by auto
  ultimately show ?thesis unfolding image_signed_def by blast
qed

lemma go_keeps_const: "go_keeps (\<lambda>w. c) m" "go_keeps ((\<lambda>w. c) \<circ> f) m"
  by (simp_all add: go_keeps_def)

lemma steady_const:
  "steady_pods (\<lambda>w. c) env" "steady_settings (\<lambda>w. c) env'" "steady_kube (\<lambda>w. c) k"
  by (simp_all add: steady_pods_def steady_sbom_def steady_attest_def steady_sign_def steady_cosign_def
      steady_kube_def steady_settings_def go_keeps_const)

text \<open>Conditions that the world has no part in.\<close>

lemma steady_guard:
  "steady_pods P env \<Longrightarrow> steady_pods (\<lambda>w. a \<longrightarrow> P w \<and> b) env"
  "steady_settings P env' \<Longrightarrow> steady_settings (\<lambda>w. a \<longrightarrow> P w \<and> b) env'"
  "steady_kube P k \<Longrightarrow> steady_kube (\<lambda>w. a \<longrightarrow> P w \<and> b) k"
  by (cases a; cases b; simp add: steady_const)+

lemma signing_brings_signature:
  assumes "oci_documented env" and "registry_documented env sigs"
    and "\<And>e. steady_pods (\<lambda>w. e \<in> sigs w) env"
  shows "signing_brings env cfg (\<lambda>img e w. e \<in> sigs w \<and> signs_image env cfg img e)"
proof -
  have steady: "steady_sign (\<lambda>w. e \<in> sigs w) env" for e
    using assms(3) by (simp add: steady_pods_def steady_sbom_def steady_attest_def)
  have "\<exists>e. e \<in> sigs v' \<and> signs_image env cfg img e"
    if run: "SignWithConfigOpts env img cfg v = (Ok (), v')" for img v v'
  proof -
    from signing.success [OF run] obtain keyRef where
      "key_ref cfg = Some keyRef" "SignOci env img keyRef cfg v = (Ok (), v')" .
    from SignOci_signs [OF assms(1,2) steady this(2,1)] show ?thesis
      unfolding image_signed_def by blast
  qed
  moreover have "steady_pods (\<lambda>w. e \<in> sigs w \<and> signs_image env cfg img e) env" for img e
    using steady_guard(1) [OF assms(3), of True] by simp
  ultimately show ?thesis unfolding signing_brings_def by blast
qed

definition registry_keeps ::
  "('h, 'w, 'z) ctrl_env_scheme \<Rightarrow> (nsname \<Rightarrow> pod \<Rightarrow> 'w \<Rightarrow> 'w) \<Rightarrow> (nsname \<Rightarrow> workflow \<Rightarrow> 'w \<Rightarrow> 'w) \<Rightarrow>
   ('w \<Rightarrow> 'h held set) \<Rightarrow> bool" where
  "registry_keeps env wr wrw sigs \<longleftrightarrow>
     (\<forall>e. steady_sbom (\<lambda>w. e \<in> sigs w) env \<and> steady_settings (\<lambda>w. e \<in> sigs w) env) \<and>
     (\<forall>nn p w. sigs w \<subseteq> sigs (wr nn p w)) \<and>
     (\<forall>nn wflow w. sigs w \<subseteq> sigs (wrw nn wflow w))"

lemma registry_keepsD:
  assumes "two_stores env rd wr rdw wrw" and "registry_keeps env wr wrw sigs"
  shows "steady_pods (\<lambda>w. e \<in> sigs w) env" "steady_kube (\<lambda>w. e \<in> sigs w) (ct_workflows env)"
    "steady_settings (\<lambda>w. e \<in> sigs w) env"
  using assms(2) store_kube_steady [where P = "\<lambda>w. e \<in> sigs w" and wr = wr]
    store_kube_steady [where P = "\<lambda>w. e \<in> sigs w" and wr = wrw]
  unfolding registry_keeps_def steady_pods_def two_storesD(1,3) [OF assms(1)] by blast+

section \<open>Completion\<close>

text \<open>C2: A workflow labelled \<open>Completed\<close> has its images signed in the registry. When a reconciliation turns
  the stored label into \<open>Completed\<close>, it has reconciled the pods of the stored workflow with the settings
  it read, and if the pods have different names, then for every pod that has an artifact and that
  carried no record of an earlier visit when the reconciliation started (no final status, no signing
  annotation) the registry holds, at the end, a signature for its image: in the image's repository,
  over the payload of its reference, by a signer obtained for the configured key. The hypotheses say
  that the API server stores what it is sent, how a registry answers a write, and that no call takes
  a signature out of the registry. A pod that does carry such a record is exempt for a reason: its
  record alone makes it count as signed.\<close>

theorem completed_means_signed:
  assumes "two_stores env rd wr rdw wrw" and "oci_documented env" and "registry_documented env sigs"
    and "registry_keeps env wr wrw sigs"
    and "Reconcile env rc req w = (r, w')"
    and "stored_label rdw req w \<noteq> Some reconcileCompleted"
    and "stored_label rdw req w' = Some reconcileCompleted"
  shows "\<exists>wflow cfg pods pods' w1 w2.
    rdw w req = Some wflow \<and> GetPodInfo wflow = Inr pods \<and> config_read env rc (fst req) w cfg \<and>
    WorkflowStatus_Reconcile env cfg (fst req) (pods, w1) = (Ok (), (pods', w2)) \<and>
    (distinct (map ps_podName pods) \<longrightarrow>
      (\<forall>q \<in> set pods'. ps_artifactsFound q \<longrightarrow>
         (\<forall>p. rd w (fst req, ps_podName q) = Some p \<longrightarrow> unrecorded p) \<longrightarrow>
         image_signed env cfg sigs (ps_artifactInfo q) w'))"
proof -
  note st = two_storesD [OF assms(1)]
  from stored_label_store [OF assms(1)] stored_label_quiet [OF assms(1)] assms(5-7)
  obtain cfg wflow w1 pods pods' w2 w3 where
    up: "picked_up env rc req w cfg wflow w1" and label: "labelled env w3 w'" and
    sec: "secured env cfg wflow w1 pods pods' w2 w3"
    by (rule Reconcile_Completed)
  from picked_up_stored [OF assms(1) up] obtain stored where
    stored: "rdw w req = Some stored" and same: "GetPodInfo wflow = GetPodInfo stored"
      "m_namespace wflow = fst req" and cfg: "config_read env rc (fst req) w cfg" and rd: "rd w1 = rd w" .
  from sec same have info: "GetPodInfo stored = Inr pods" and
    run: "WorkflowStatus_Reconcile env cfg (fst req) (pods, w1) = (Ok (), (pods', w2))"
    by (simp_all add: secured_def)
  have fresh: "\<forall>p \<in> set pods. unvisited p \<and> \<not> ps_signed p"
    using info by (auto simp: GetPodInfo_def collect_pods_filter unvisited_def new_podStatus_def Let_def
        split: if_splits)
  note steady = registry_keepsD [OF assms(1,4)]
  have "image_signed env cfg sigs (ps_artifactInfo q) w'"
    if q: "distinct (map ps_podName pods)" "q \<in> set pods'" "ps_artifactsFound q"
      "\<forall>p. rd w (fst req, ps_podName q) = Some p \<longrightarrow> unrecorded p" for q
  proof -
    from WorkflowStatus_Reconcile_signed [OF st(1,2,7)
        signing_brings_signature [OF assms(2,3) steady(1)] run fresh q(1-3)] q(4) rd
    obtain e where e: "e \<in> sigs w2" "signs_image env cfg (ps_artifactInfo q) e" by auto
    have "e \<in> sigs w'" by (rule secured_kept [OF sec label steady(1,2) e(1)])
    with e(2) show ?thesis unfolding image_signed_def by blast
  qed
  with stored info cfg run show ?thesis by blast
qed

text \<open>The small cluster: its registry remembers what was written, and every signer signs alike.\<close>

definition sample_sigs :: "sworld \<Rightarrow> handle held set" where
  "sample_sigs w = {(repo, payload, sv).
     (repo, Signature payload (b64_encode (CHR ''s'' # payload))) \<in> set (sw_signatures w)}"

lemma sample_signatures_kept: "registry_keeps sample_env sw_put_pod sw_put_workflow sample_sigs"
proof -
  have "steady_sbom (\<lambda>w. e \<in> sample_sigs w) sample_env" for e
    by (rule sample_steady_sbom) (auto simp: sample_sigs_def publish_def)
  moreover have "steady_settings P sample_env" for P
    by (auto simp: steady_settings_def sample_env_def go_keeps_leaf) (auto simp: go_keeps_def)
  ultimately show ?thesis by (auto simp: registry_keeps_def sample_sigs_def)
qed

lemma sample_registry: "registry_documented sample_env sample_sigs"
proof -
  have "(repo, payload, sv) \<in> sample_sigs w2"
    if "ce_sig_Payload sample_env x = Inr payload"
      "ce_sig_Base64Signature sample_env x = Inr (b64_encode sig)" "signed_by sample_env sv payload sig"
      "sg_AttachSignatureToEntity sample_env se x (sg_NewDupeDetector sample_env sv) False w = (Ok newSE, w1)"
      "sg_WriteSignatures sample_env repo newSE opts w1 = (Ok (), w2)"
    for sv x payload sig se newSE repo opts w w1 w2
    using that
    by (cases x) (auto simp: sample_env_def sample_sigs_def signed_by_def go_ret_def write_registry_def
        publish_def split: if_splits)
  then show ?thesis unfolding registry_documented_def by blast
qed

theorem completed_means_signed_witness:
  "let w = sample_world (two_pods NodeSucceeded) False;
       w' = snd (Reconcile sample_env sample_reconciler sample_req w);
       pods = projr (GetPodInfo (two_pods NodeSucceeded))
   in map ps_podName pods = [''wfl-t-a'', ''wfl-t-b''] \<and> sw_published w' = [''r.io/img''] \<and>
     (\<exists>cfg pods' w1 w2.
        WorkflowStatus_Reconcile sample_env cfg ''ns'' (pods, w1) = (Ok (), (pods', w2)) \<and>
        (\<forall>q \<in> set pods'. ps_artifactsFound q \<longrightarrow>
           image_signed sample_env cfg sample_sigs (ps_artifactInfo q) w'))"
proof -
  let ?w = "sample_world (two_pods NodeSucceeded) False"
  let ?w' = "snd (Reconcile sample_env sample_reconciler sample_req ?w)"
  let ?pods = "projr (GetPodInfo (two_pods NodeSucceeded))"
  have labels: "stored_label sw_read_workflow sample_req ?w \<noteq> Some reconcileCompleted"
    "stored_label sw_read_workflow sample_req ?w' = Some reconcileCompleted"
    "sw_published ?w' = [''r.io/img'']" by code_simp+
  have names: "map ps_podName ?pods = [''wfl-t-a'', ''wfl-t-b'']" by code_simp
  have stored: "sw_read_workflow ?w sample_req = Some (two_pods NodeSucceeded)"
    by (simp add: sw_read_workflow_def sample_world_def sample_req_def two_pods_def sample_workflow_def)
  have fresh: "unrecorded p" if "sw_read_pod ?w nn = Some p" for nn p
    using that by (auto simp: sw_read_pod_def sample_world_def sample_pod_def unrecorded_def
        split: option.splits if_splits)
  from completed_means_signed [OF sample_two_stores sample_oci sample_registry sample_signatures_kept
      prod.collapse [symmetric] labels(1,2)]
  obtain wflow cfg pods pods' w1 w2 where
    "sw_read_workflow ?w sample_req = Some wflow" "GetPodInfo wflow = Inr pods" and
    run: "WorkflowStatus_Reconcile sample_env cfg (fst sample_req) (pods, w1) = (Ok (), (pods', w2))" and
    signed: "distinct (map ps_podName pods) \<longrightarrow>
      (\<forall>q \<in> set pods'. ps_artifactsFound q \<longrightarrow>
         (\<forall>p. sw_read_pod ?w (fst sample_req, ps_podName q) = Some p \<longrightarrow> unrecorded p) \<longrightarrow>
         image_signed sample_env cfg sample_sigs (ps_artifactInfo q) ?w')" by blast
  with stored have pods: "pods = ?pods" by simp
  have "\<forall>q \<in> set pods'. ps_artifactsFound q \<longrightarrow>
      image_signed sample_env cfg sample_sigs (ps_artifactInfo q) ?w'"
    using signed fresh names unfolding pods by simp
  with run have "\<exists>cfg pods' w1 w2.
      WorkflowStatus_Reconcile sample_env cfg ''ns'' (?pods, w1) = (Ok (), (pods', w2)) \<and>
      (\<forall>q \<in> set pods'. ps_artifactsFound q \<longrightarrow>
         image_signed sample_env cfg sample_sigs (ps_artifactInfo q) ?w')"
    unfolding pods sample_req_def by auto
  with names labels(3) show ?thesis unfolding Let_def by blast
qed

section \<open>Skipped nodes\<close>

lemma skipped_visit:
  assumes "WorkflowStatus_Reconcile env cfg ns (pods, w) = (Ok u, (pods', w'))" and "p \<in> set pods"
    and "ps_pod p = None" and "ps_status p = NodeSkipped \<or> ps_status p = NodeOmitted"
  shows "\<exists>p' \<in> set pods'. ps_node p' = ps_node p \<and> ps_pod p' = None"
proof -
  from WorkflowStatus_Reconcile_Ok [OF assms(1)]
  have "each_pod (reconcilePod env cfg ns) (pods, w) = (Ok (), (pods', w'))" by simp
  from each_pod_Ok [OF this] assms(2) obtain p' v1 v2 where
    p': "p' \<in> set pods'" "reconcilePod env cfg ns (p, v1) = (Ok (), (p', v2))"
    by (auto simp: list_all2_conv_all_nth in_set_conv_nth) (metis nth_mem)
  from reconcilePod_not_terminated [OF p'(2)] assms(3,4) p'(1) show ?thesis
    by (intro bexI [of _ p']) (auto simp: terminated_phase_def)
qed

lemma provenance_step_without_pod:
  "ps_pod p = None \<Longrightarrow> handleProveneceAttachment env cfg subs (p, v) = (Panic nil_dereference, (p, v))"
  by (cases v) (simp add: handleProveneceAttachment_def go_get_def go_mid_def patch_pod_run go_panic_def)

text \<open>C25: A workflow with a pod node that was skipped or omitted is never completed. No pod is fetched for
  such a node, so when all visits have ended well its status holds no pod, and on that status the
  provenance step panics with a nil dereference; attaching the provenances therefore does not end
  well, and no reconciliation turns the stored label into \<open>Completed\<close>.\<close>

theorem skipped_node_never_completed:
  assumes "two_stores env rd wr rdw wrw" and "rdw w req = Some wflow"
    and "(k, n) \<in> set (wf_Nodes wflow)" and "node_Type n = ''Pod''"
    and "node_Phase n = NodeSkipped \<or> node_Phase n = NodeOmitted"
    and "Reconcile env rc req w = (r, w')" and "stored_label rdw req w \<noteq> Some reconcileCompleted"
  shows "stored_label rdw req w' \<noteq> Some reconcileCompleted \<and>
    (\<forall>pods cfg ns v pods1 v1. GetPodInfo wflow = Inr pods \<longrightarrow>
       WorkflowStatus_Reconcile env cfg ns (pods, v) = (Ok (), (pods1, v1)) \<longrightarrow>
       (\<exists>p \<in> set pods1. ps_node p = n \<and>
          (\<forall>subs s. handleProveneceAttachment env cfg subs (p, s) = (Panic nil_dereference, (p, s)))) \<and>
       (\<forall>wflow1 s. AttestArtifacts env cfg (pods1, (wflow1, v1)) \<noteq> (Ok (), s)))"
proof -
  have visited: "\<exists>p \<in> set pods1. ps_node p = n \<and> ps_pod p = None"
    if "GetPodInfo wflow = Inr pods" "WorkflowStatus_Reconcile env cfg ns (pods, v) = (Ok (), (pods1, v1))"
    for pods ns v pods1 v1 and cfg :: "'a config"
  proof -
    have "pods = collect_pods (m_name wflow) (wf_Nodes wflow)"
      using that(1) by (auto simp: GetPodInfo_def Let_def split: if_splits)
    with assms(3,4) have "new_podStatus (m_name wflow) n \<in> set pods" by (force simp: collect_pods_filter)
    from skipped_visit [OF that(2) this] assms(5) show ?thesis by (simp add: new_podStatus_def)
  qed
  have blocked: "AttestArtifacts env cfg (pods1, (wflow1, v1)) \<noteq> (Ok (), s)"
    if "GetPodInfo wflow = Inr pods" "WorkflowStatus_Reconcile env cfg ns (pods, v) = (Ok (), (pods1, v1))"
    for pods cfg ns v pods1 v1 wflow1 s
    using visited [OF that] AttestArtifacts_Ok_pods [of env cfg pods1 "(wflow1, v1)" "()" s] by blast
  have "stored_label rdw req w' \<noteq> Some reconcileCompleted"
  proof
    assume "stored_label rdw req w' = Some reconcileCompleted"
    with stored_label_store [OF assms(1)] stored_label_quiet [OF assms(1)] assms(6,7)
    obtain cfg wflow1 w1 pods pods1 w2 w3 where
      up: "picked_up env rc req w cfg wflow1 w1" and sec: "secured env cfg wflow1 w1 pods pods1 w2 w3"
      by (rule Reconcile_Completed)
    from picked_up_stored [OF assms(1) up] assms(2) have "GetPodInfo wflow1 = GetPodInfo wflow" by auto
    with sec blocked show False unfolding secured_def by metis
  qed
  with visited blocked provenance_step_without_pod show ?thesis by metis
qed

theorem skipped_node_never_completed_witness:
  "let w = sample_world (sample_workflow [sample_node ''a'' NodeSkipped []]) False; (r, w') = sample_reconcile w
   in r = Panic nil_dereference \<and> stored_label sw_read_workflow sample_req w' \<noteq> Some reconcileCompleted"
proof -
  let ?n = "sample_node ''a'' NodeSkipped []"
  let ?w = "sample_world (sample_workflow [?n]) False"
  have stored: "sw_read_workflow ?w sample_req = Some (sample_workflow [?n])"
    by (simp add: sw_read_workflow_def sample_world_def sample_req_def sample_workflow_def)
  have node: "(fst ?n, snd ?n) \<in> set (wf_Nodes (sample_workflow [?n]))" "node_Type (snd ?n) = ''Pod''"
    "node_Phase (snd ?n) = NodeSkipped \<or> node_Phase (snd ?n) = NodeOmitted"
    by (simp_all add: sample_workflow_def sample_node_def)
  have start: "stored_label sw_read_workflow sample_req ?w \<noteq> Some reconcileCompleted" by code_simp
  have "fst (sample_reconcile ?w) = Panic nil_dereference" by code_simp
  moreover have "stored_label sw_read_workflow sample_req (snd (sample_reconcile ?w)) \<noteq> Some reconcileCompleted"
    using skipped_node_never_completed [OF sample_two_stores stored node
        prod.collapse [symmetric] start] unfolding sample_reconcile_def by blast
  ultimately show ?thesis by (simp add: Let_def split_beta)
qed

section \<open>What a pod's annotations say\<close>

lemma plain_record_env:
  assumes "two_stores env rd wr rdw wrw"
  shows "record_env env rd wr rdw wrw (\<lambda>key img (e :: unit) w. True)"
  using assms by (simp add: record_env_def outcomes_brought_def steady_const)

definition pods_recorded ::
  "('h, 'w, 'z) registry_env_scheme \<Rightarrow> ('w \<Rightarrow> nsname \<Rightarrow> pod option) \<Rightarrow> 'w \<Rightarrow> bool" where
  "pods_recorded env rd w \<longleftrightarrow>
     (\<forall>nn p. rd w nn = Some p \<longrightarrow> typed_pod env p \<and> honest (\<lambda>key img. True) p)"

text \<open>C7: The annotations of the pods are well formed, against an API server that stores every patch of
  an existing object and refuses a patch only because the object is missing (\<open>two_stores\<close>; lost writes
  and conflicts are not covered). Over any history of reconciliations, mixed with anything else that
  keeps this so, every stored pod keeps to the documented values: the status is \<open>In-Progress\<close>,
  \<open>Completed\<close>, \<open>Error\<close> or \<open>Skipped\<close>, the signing outcome \<open>Completed\<close>, \<open>Error\<close> or \<open>Skipped\<close>, the
  SBOM's and the provenance's \<open>Attached\<close>, \<open>Error\<close> or \<open>Skipped\<close>, and the artifact is a reference with
  a digest or \<open>No-Artifacts-Found\<close>; and a pod whose status is \<open>Completed\<close> has the signing outcome
  \<open>Completed\<close> and an artifact. Reconciliations that end half way are included, with an error or a panic
  of reading the settings, signing, generating the SBOM or the provenance, attesting or a registry.\<close>

theorem annotations_well_formed:
  assumes "two_stores env rd wr rdw wrw"
    and "\<And>w1 w2. moves w1 w2 \<Longrightarrow> pods_recorded env rd w1 \<Longrightarrow> pods_recorded env rd w2"
    and "controller_run env rc req moves w w'" and "pods_recorded env rd w"
  shows "pods_recorded env rd w'"
proof -
  let ?Q = "\<lambda>key img (e :: unit) w. True"
  have same: "pods_recorded env rd = records_ok env rd ?Q"
    by (simp add: fun_eq_iff pods_recorded_def records_ok_def)
  from controller_run_records [OF plain_record_env [OF assms(1)]] assms(2-4) show ?thesis unfolding same by blast
qed

lemma sample_pods_unannotated:
  assumes "sw_read_pod (sample_world wflow refuses) nn = Some p"
  shows "typed_pod env p \<and> honest P p"
  using assms by (auto simp: sw_read_pod_def sample_world_def sample_pod_def typed_pod_def honest_def
      split: option.splits if_splits)

theorem annotations_well_formed_witness:
  "let w' = snd (sample_reconcile (argo_progress (two_pods NodeSucceeded)
        (snd (sample_reconcile (sample_world (two_pods NodeRunning) True)))))
   in sample_annotation ''wfl-t-b'' signedAnnotation w' = Some signingError \<and>
      pods_recorded sample_env sw_read_pod w'"
proof -
  let ?moves = "\<lambda>w1 w2. w2 = argo_progress (two_pods NodeSucceeded) w1"
  let ?w = "sample_world (two_pods NodeRunning) True"
  let ?w' = "snd (sample_reconcile (argo_progress (two_pods NodeSucceeded) (snd (sample_reconcile ?w))))"
  have "pods_recorded sample_env sw_read_pod w2" if "?moves w1 w2" "pods_recorded sample_env sw_read_pod w1"
    for w1 w2 using that by (simp add: pods_recorded_def)
  moreover have "pods_recorded sample_env sw_read_pod ?w"
    using sample_pods_unannotated unfolding pods_recorded_def by blast
  ultimately have "pods_recorded sample_env sw_read_pod ?w'"
    by (rule annotations_well_formed [OF sample_two_stores _ sample_two_visits])
  moreover have "sample_annotation ''wfl-t-b'' signedAnnotation ?w' = Some signingError" by code_simp
  ultimately show ?thesis by (simp add: Let_def)
qed

definition recorded_signatures_real ::
  "('h, 'w, 'z) sign_env_scheme \<Rightarrow> ('w \<Rightarrow> nsname \<Rightarrow> pod option) \<Rightarrow> ('w \<Rightarrow> 'h held set) \<Rightarrow> 'w \<Rightarrow> bool" where
  "recorded_signatures_real env rd sigs w \<longleftrightarrow>
     (\<forall>nn p. rd w nn = Some p \<longrightarrow>
        typed_pod env p \<and>
        honest (\<lambda>key img. key = signedAnnotation \<longrightarrow> (\<exists>cfg. image_signed env cfg sigs img w)) p)"

text \<open>C3: A recorded signature is a real one. Over any history of reconciliations, whatever fails in it and
  however the settings change, mixed with anything else that keeps this so: whenever a stored pod
  carries the signing outcome \<open>Completed\<close>, and so whenever its status is \<open>Completed\<close>, its artifacts
  annotation names an image for which the registry holds a signature, made for that image's reference
  with the key of some configuration. The hypotheses are the same as for the completion of a
  workflow.\<close>

theorem recorded_signature_published:
  assumes "two_stores env rd wr rdw wrw" and "oci_documented env" and "registry_documented env sigs"
    and "registry_keeps env wr wrw sigs"
    and "\<And>w1 w2. moves w1 w2 \<Longrightarrow> recorded_signatures_real env rd sigs w1 \<Longrightarrow>
      recorded_signatures_real env rd sigs w2"
    and "controller_run env rc req moves w w'" and "recorded_signatures_real env rd sigs w"
  shows "recorded_signatures_real env rd sigs w'"
proof -
  let ?Q = "\<lambda>key img e w. key = signedAnnotation \<longrightarrow> e \<in> sigs w \<and> (\<exists>cfg. signs_image env cfg img e)"
  note steady = registry_keepsD [OF assms(1,4)]
  have "(\<lambda>key img. key = signedAnnotation \<longrightarrow> (\<exists>cfg. image_signed env cfg sigs img w)) =
      (\<lambda>key img. \<exists>e. ?Q key img e w)" for w
    unfolding image_signed_def by blast
  then have same: "recorded_signatures_real env rd sigs = records_ok env rd ?Q"
    by (intro ext) (simp only: recorded_signatures_real_def records_ok_def)
  have "\<exists>e. ?Q signedAnnotation img e v'" if "SignWithConfigOpts env img cfg v = (Ok (), v')" for cfg img v v'
    using signing_bringsD(1) [OF signing_brings_signature [OF assms(2,3) steady(1)] that] by blast
  then have "outcomes_brought env ?Q"
    unfolding outcomes_brought_def using steady_guard(1) [OF steady(1)] by auto
  with assms(1) steady_guard(2) [OF steady(3)] steady_guard(3) [OF steady(2)]
  have "record_env env rd wr rdw wrw ?Q" unfolding record_env_def by blast
  from controller_run_records [OF this] assms(5-7) show ?thesis unfolding same by blast
qed

theorem recorded_signature_published_witness:
  "let w' = snd (sample_reconcile (argo_progress (two_pods NodeSucceeded)
        (snd (sample_reconcile (sample_world (two_pods NodeRunning) False)))))
   in sample_annotation ''wfl-t-b'' signedAnnotation w' = Some signingCompleted \<and>
      recorded_signatures_real sample_env sw_read_pod sample_sigs w'"
proof -
  let ?moves = "\<lambda>w1 w2. w2 = argo_progress (two_pods NodeSucceeded) w1"
  let ?real = "recorded_signatures_real sample_env sw_read_pod sample_sigs"
  let ?w = "sample_world (two_pods NodeRunning) False"
  let ?w' = "snd (sample_reconcile (argo_progress (two_pods NodeSucceeded) (snd (sample_reconcile ?w))))"
  have "sample_sigs (argo_progress new w1) = sample_sigs w1" for new w1
    by (simp add: sample_sigs_def argo_progress_def)
  then have "?real w2" if "?moves w1 w2" "?real w1" for w1 w2
    using that by (simp add: recorded_signatures_real_def image_signed_def)
  moreover have "?real ?w"
    using sample_pods_unannotated unfolding recorded_signatures_real_def by blast
  ultimately have "?real ?w'"
    by (rule recorded_signature_published [OF sample_two_stores sample_oci sample_registry
          sample_signatures_kept _ sample_two_visits])
  moreover have "sample_annotation ''wfl-t-b'' signedAnnotation ?w' = Some signingCompleted" by code_simp
  ultimately show ?thesis by (simp add: Let_def)
qed

end
