(* ===== verification/AttestationProperties.thy ===== *)
theory AttestationProperties imports CompletionProperties begin

text \<open>
  From the annotations of the pods to the attestations in the registry: an SBOM or a provenance that is
  recorded as attached was generated, attested and written.

  \<open>atts w\<close> is an observation of the world, as \<open>sigs w\<close> is for signatures: the triples of a repository, a
  payload and a signer such that the repository holds an envelope which that signer made of the payload.
\<close>

section \<open>One attestation\<close>

text \<open>The documented behaviour of cosign's writes, as for signatures: when an attestation made of an
  envelope was attached with the duplicate detector of its signer (which may put one of that signer over
  the same payload in its place), and the result was written to a repository, the repository holds
  such an attestation.\<close>

definition attestations_documented ::
  "('h, 'w, 'z) attest_env_scheme \<Rightarrow> ('w \<Rightarrow> 'h held set) \<Rightarrow> bool" where
  "attestations_documented env atts \<longleftrightarrow>
     (\<forall>sv payload envelope opts att se newSE repo ro v v' w w1 w2.
        at_dsse_SignMessage env sv (at_IntotoPayloadType env) payload v = (Ok envelope, v') \<longrightarrow>
        at_NewAttestation env envelope opts = Inr att \<longrightarrow>
        at_AttachAttestationToEntity env se att (sg_NewDupeDetector env sv) False w = (Ok newSE, w1) \<longrightarrow>
        at_WriteAttestations env repo newSE ro w1 = (Ok (), w2) \<longrightarrow> (repo, payload, sv) \<in> atts w2)"

lemma attestations_documentedD:
  assumes "attestations_documented env atts"
    and "at_dsse_SignMessage env sv (at_IntotoPayloadType env) payload v = (Ok envelope, v')"
    and "at_NewAttestation env envelope opts = Inr att"
    and "at_AttachAttestationToEntity env se att (sg_NewDupeDetector env sv) False w = (Ok newSE, w1)"
    and "at_WriteAttestations env repo newSE ro w1 = (Ok (), w2)"
  shows "(repo, payload, sv) \<in> atts w2"
  using assms unfolding attestations_documented_def by blast

text \<open>An attestation of a document about an image: in the image's repository, over the payload made of the
  document for the image's digest, by a signer obtained for the key that the configuration selects.\<close>

definition attests_image ::
  "('h, 'w, 'z) attest_env_scheme \<Rightarrow> 'h config \<Rightarrow> string \<Rightarrow> string \<Rightarrow> bytes \<Rightarrow> 'h held \<Rightarrow> bool" where
  "attests_image env cfg pt img document = (\<lambda>(repo, payload, sv).
     \<exists>ref keyRef v v'. rg_ParseReference env img = Inr ref \<and> ref_Digest ref \<noteq> None \<and>
       repo = ref_Repository ref \<and>
       attest_payload env pt (case at_NewHash env (ref_Identifier ref) of Inl _ \<Rightarrow> '''' | Inr h \<Rightarrow> h)
         repo document = Inr payload \<and>
       key_ref cfg = Some keyRef \<and>
       SignerFromKeyOpts env (ac_KeyOpts (AttestOci_command (AttestOci_options keyRef pt cfg))) False v =
         (Ok sv, v'))"

definition attested_in ::
  "('h, 'w, 'z) attest_env_scheme \<Rightarrow> 'h config \<Rightarrow> 'h held set \<Rightarrow> string \<Rightarrow> string \<Rightarrow> bytes \<Rightarrow> bool" where
  "attested_in env cfg E pt img document \<longleftrightarrow> (\<exists>e \<in> E. attests_image env cfg pt img document e)"

lemma attested_in_mono: "attested_in env cfg E pt img document \<Longrightarrow> E \<subseteq> F \<Longrightarrow> attested_in env cfg F pt img document"
  by (auto simp: attested_in_def)

lemma go_keeps_grows:
  assumes "\<And>e. go_keeps (\<lambda>w. e \<in> S w) m" and "m w = (r, w')"
  shows "S w \<subseteq> S w'"
  using go_keepsD [OF assms] by blast

lemma AttestOci_attests:
  assumes "attestations_documented env atts" and "\<And>e. steady_attest (\<lambda>w. e \<in> atts w) env"
    and "AttestOci env cfg img keyRef pt document w = (Ok info, w')" and "key_ref cfg = Some keyRef"
  shows "attested_in env cfg (atts w') pt img document"
proof -
  from AttestOci_Ok [OF assms(3)] obtain ref digest sv payload envelope ptype tlog lines att newSE ro
    w1 w2 w3 w4 w5 w6 where
    prep: "rg_ParseReference env img = Inr ref" "ref_Digest ref = Some digest"
      "SignerFromKeyOpts env (ac_KeyOpts (AttestOci_command (AttestOci_options keyRef pt cfg))) False w1 =
        (Ok sv, w2)"
      "attest_payload env pt (case at_NewHash env (ref_Identifier ref) of Inl _ \<Rightarrow> '''' | Inr h \<Rightarrow> h)
        (ref_Repository ref) document = Inr payload" and
    made: "at_dsse_SignMessage env sv (at_IntotoPayloadType env) payload w2 = (Ok envelope, w3)"
      "at_NewAttestation env envelope (attestation_options env sv ptype tlog) = Inr att"
      "at_AttachAttestationToEntity env (sg_SignedUnknown env ref ro) att (sg_NewDupeDetector env sv) False w4 =
        (Ok newSE, w5)"
      "at_WriteAttestations env (ref_Repository ref) newSE ro w5 = (Ok (), w6)" and
    closed: "w' = snd (sg_Close env sv w6)" by blast
  from attestations_documentedD [OF assms(1) made] have "(ref_Repository ref, payload, sv) \<in> atts w6" .
  with go_keepsD [OF steady_signD(13) [OF steady_attestD(1) [OF assms(2)]] prod.collapse [symmetric]] closed
  have "(ref_Repository ref, payload, sv) \<in> atts w'" by blast
  moreover have "attests_image env cfg pt img document (ref_Repository ref, payload, sv)"
    using prep assms(4) unfolding attests_image_def by auto
  ultimately show ?thesis unfolding attested_in_def by blast
qed

section \<open>SBOM and provenance\<close>

text \<open>The SBOM of one image: generated for it, and attested.\<close>

definition sbom_of ::
  "('h, 'w, 'z) sbom_env_scheme \<Rightarrow> 'h config \<Rightarrow> 'h held set \<Rightarrow> string \<Rightarrow> string \<Rightarrow> bool" where
  "sbom_of env cfg E pt img \<longleftrightarrow>
     (\<exists>sbom v v'. GenerateSBOMwithSyft env (cfg_AuthKeyChain cfg) img v = (Ok sbom, v') \<and>
        attested_in env cfg E pt img sbom)"

text \<open>The image's manifest was read: of a multi-platform image, which has an index, every platform has its
  SBOM, of any other the image itself.\<close>

definition sboms_for ::
  "('h, 'w, 'z) sbom_env_scheme \<Rightarrow> 'h config \<Rightarrow> 'h held set \<Rightarrow> string \<Rightarrow> string \<Rightarrow>
   'h index_manifest option \<Rightarrow> bool" where
  "sboms_for env cfg E pt img index \<longleftrightarrow>
     (case index of
        None \<Rightarrow> sbom_of env cfg E pt img
      | Some im \<Rightarrow> \<forall>d \<in> set (im_Manifests im). \<exists>ref. rg_ParseReference env img = Inr ref \<and>
          sbom_of env cfg E pt (platform_ref ref (mf_Digest d)))"

definition sbom_attested ::
  "('h, 'w, 'z) sbom_env_scheme \<Rightarrow> 'h config \<Rightarrow> 'h held set \<Rightarrow> string \<Rightarrow> string \<Rightarrow> bool" where
  "sbom_attested env cfg E pt img \<longleftrightarrow>
     (\<exists>manifest multi index v v'. GetManifest env (cfg_AuthKeyChain cfg) img v = (Ok manifest, v') \<and>
        checkIfMultiMlatformImage env manifest = Inr (multi, index) \<and> sboms_for env cfg E pt img index)"

text \<open>The provenance of an image: generated from a workflow, with the image among its subjects, and
  attested.\<close>

definition provenance_attested ::
  "('h, 'w, 'z) pod_env_scheme \<Rightarrow> 'h config \<Rightarrow> 'h held set \<Rightarrow> string \<Rightarrow> bool" where
  "provenance_attested env cfg E img \<longleftrightarrow>
     (\<exists>prov. provenance_of env img prov \<and> attested_in env cfg E (pe_PredicateSLSA1 env) img prov)"

lemma sbom_of_mono: "sbom_of env cfg E pt img \<Longrightarrow> E \<subseteq> F \<Longrightarrow> sbom_of env cfg F pt img"
  unfolding sbom_of_def using attested_in_mono by blast

lemma sboms_for_mono: "sboms_for env cfg E pt img index \<Longrightarrow> E \<subseteq> F \<Longrightarrow> sboms_for env cfg F pt img index"
  unfolding sboms_for_def using sbom_of_mono by (cases index) (simp_all, blast+)

lemma sbom_attested_mono: "sbom_attested env cfg E pt img \<Longrightarrow> E \<subseteq> F \<Longrightarrow> sbom_attested env cfg F pt img"
  unfolding sbom_attested_def using sboms_for_mono by blast

lemma provenance_attested_mono:
  "provenance_attested env cfg E img \<Longrightarrow> E \<subseteq> F \<Longrightarrow> provenance_attested env cfg F img"
  unfolding provenance_attested_def using attested_in_mono by blast

lemma sbom_platform_attests:
  assumes "attestations_documented env atts" and "\<And>e. steady_sbom (\<lambda>w. e \<in> atts w) env"
    and "key_ref cfg = Some keyRef" and "sbom_platform env cfg keyRef img pt d w = (Ok False, w')"
  shows "\<exists>ref. rg_ParseReference env img = Inr ref \<and> sbom_of env cfg (atts w') pt (platform_ref ref (mf_Digest d))"
proof -
  from assms(4) obtain ref sbom info w1 w2 x where ref: "rg_ParseReference env img = Inr ref"
    and gen: "GenerateSBOMwithSyft env (cfg_AuthKeyChain cfg) (platform_ref ref (mf_Digest d)) w = (Ok sbom, w1)"
    and att: "AttestOci env cfg (platform_ref ref (mf_Digest d)) keyRef pt sbom w1 = (Ok info, w2)"
    and log: "sb_Platform_String env (mf_Platform d) w2 = (Ok x, w')"
    by (auto simp: sbom_platform_def Let_def go_inv)
  note steady = steady_sbomD(1) [OF assms(2)]
  have "atts w2 \<subseteq> atts w'" by (rule go_keeps_grows [OF steady_sbomD(3) [OF assms(2)] log])
  with attested_in_mono AttestOci_attests [OF assms(1) steady att assms(3)]
  have "attested_in env cfg (atts w') pt (platform_ref ref (mf_Digest d)) sbom" by blast
  with ref gen show ?thesis unfolding sbom_of_def by blast
qed

lemma sbom_platforms_attest:
  assumes "attestations_documented env atts" and "\<And>e. steady_sbom (\<lambda>w. e \<in> atts w) env"
    and "key_ref cfg = Some keyRef" and "sbom_platforms env cfg keyRef img pt failed ds w = (Ok False, w')"
  shows "\<not> failed \<and> (\<forall>d \<in> set ds. \<exists>ref. rg_ParseReference env img = Inr ref \<and>
    sbom_of env cfg (atts w') pt (platform_ref ref (mf_Digest d)))"
  using assms(4)
proof (induction ds arbitrary: failed w)
  case (Cons d ds)
  from Cons.prems obtain f w1 where one: "sbom_platform env cfg keyRef img pt d w = (Ok f, w1)"
    and rest: "sbom_platforms env cfg keyRef img pt (failed \<or> f) ds w1 = (Ok False, w')"
    by (auto simp: go_inv)
  from Cons.IH [OF rest] have done_false: "\<not> failed" "\<not> f" by simp_all
  have "atts w1 \<subseteq> atts w'" by (rule go_keeps_grows [OF sbom_platforms_steady [OF assms(2)] rest])
  with sbom_platform_attests [OF assms(1-3), of img pt d w w1] one done_false(2) sbom_of_mono
  have "\<exists>ref. rg_ParseReference env img = Inr ref \<and> sbom_of env cfg (atts w') pt (platform_ref ref (mf_Digest d))"
    by (metis (full_types))
  with Cons.IH [OF rest] done_false(1) show ?case by simp
qed (simp add: go_inv)

lemma GenerateSBOMforOCI_attests:
  assumes "attestations_documented env atts" and "\<And>e. steady_sbom (\<lambda>w. e \<in> atts w) env"
    and "key_ref cfg = Some keyRef" and "GenerateSBOMforOCI env cfg keyRef img pt w = (Ok u, w')"
  shows "sbom_attested env cfg (atts w') pt img"
proof -
  note steady = steady_sbomD(1) [OF assms(2)]
  from assms(4) obtain manifest multi index w1 where
    m: "GetManifest env (cfg_AuthKeyChain cfg) img w = (Ok manifest, w1)"
      "checkIfMultiMlatformImage env manifest = Inr (multi, index)" and
    rest: "(if multi then (case index of None \<Rightarrow> go_panic nil_dereference
        | Some im \<Rightarrow> go_bind (sbom_platforms env cfg keyRef img pt False (im_Manifests im)) (\<lambda>failed.
            if failed then go_fail (errors_New ''failed to generate SBOM for all platforms'') else go_ret ()))
      else go_bind (go_wrap ''generating SBOM with syft: ''
          (GenerateSBOMwithSyft env (cfg_AuthKeyChain cfg) img)) (\<lambda>sbom.
        go_bind (go_wrap ''attesting SBOM: '' (AttestOci env cfg img keyRef pt sbom)) (\<lambda>_. go_ret ()))) w1 =
      (Ok u, w')"
    by (auto simp: GenerateSBOMforOCI_def go_bind_Ok go_wrap_Ok go_of_Ok)
  have index: "multi \<longleftrightarrow> index \<noteq> None"
    using m(2) by (auto simp: checkIfMultiMlatformImage_def split: sum.splits if_splits)
  have "sboms_for env cfg (atts w') pt img index"
  proof (cases index)
    case (Some im)
    with rest index have "sbom_platforms env cfg keyRef img pt False (im_Manifests im) w1 = (Ok False, w')"
      by (auto simp: go_inv split: if_splits)
    from sbom_platforms_attest [OF assms(1-3) this] Some show ?thesis by (simp add: sboms_for_def)
  next
    case None
    with rest index obtain sbom info w2 where
      "GenerateSBOMwithSyft env (cfg_AuthKeyChain cfg) img w1 = (Ok sbom, w2)" and
      att: "AttestOci env cfg img keyRef pt sbom w2 = (Ok info, w')"
      by (auto simp: go_inv)
    with AttestOci_attests [OF assms(1) steady att assms(3)] None show ?thesis
      unfolding sboms_for_def sbom_of_def by auto
  qed
  with m show ?thesis unfolding sbom_attested_def by blast
qed

lemma provenance_attests:
  assumes "attestations_documented env atts" and "\<And>e. steady_sbom (\<lambda>w. e \<in> atts w) env"
    and "provenance_of env img prov"
    and "AttestWithConfigOpts env cfg img (pe_PredicateSLSA1 env) prov w = (Ok info, w')"
  shows "provenance_attested env cfg (atts w') img"
proof -
  from attesting.success [OF assms(4)] obtain keyRef where "key_ref cfg = Some keyRef"
    "AttestOci env cfg img keyRef (pe_PredicateSLSA1 env) prov w = (Ok info, w')" .
  from AttestOci_attests [OF assms(1) steady_sbomD(1) [OF assms(2)] this(2,1)] assms(3)
  show ?thesis unfolding provenance_attested_def by blast
qed

section \<open>What the annotations record\<close>

lemma go_keeps_subset:
  "\<forall>e. go_keeps (\<lambda>w. e \<in> S w) m \<Longrightarrow> go_keeps (\<lambda>w. E \<subseteq> S w) m"
  "\<forall>e. go_keeps ((\<lambda>w. e \<in> S w) \<circ> f) m' \<Longrightarrow> go_keeps ((\<lambda>w. E \<subseteq> S w) \<circ> f) m'"
  unfolding go_keeps_def by (simp_all add: subset_iff) blast+

lemma registry_keeps_subset:
  assumes "two_stores env rd wr rdw wrw" and "registry_keeps env wr wrw atts"
  shows "steady_pods (\<lambda>w. E \<subseteq> atts w) env" "steady_kube (\<lambda>w. E \<subseteq> atts w) (ct_workflows env)"
    "steady_settings (\<lambda>w. E \<subseteq> atts w) env"
proof -
  have "steady_sbom (\<lambda>w. E \<subseteq> atts w) env" "steady_settings (\<lambda>w. E \<subseteq> atts w) env"
    using assms(2) unfolding registry_keeps_def steady_sbom_def steady_attest_def steady_sign_def
      steady_cosign_def steady_settings_def
    by (simp_all add: all_conj_distrib go_keeps_subset)
  moreover have "steady_kube (\<lambda>w. E \<subseteq> atts w) (store_kube rd wr)"
    "steady_kube (\<lambda>w. E \<subseteq> atts w) (store_kube rdw wrw)"
    using assms(2) unfolding registry_keeps_def by (intro store_kube_steady; blast)+
  ultimately show "steady_pods (\<lambda>w. E \<subseteq> atts w) env" "steady_kube (\<lambda>w. E \<subseteq> atts w) (ct_workflows env)"
    "steady_settings (\<lambda>w. E \<subseteq> atts w) env"
    by (simp_all add: steady_pods_def two_storesD(1,3) [OF assms(1)])
qed

definition recorded_attestations_real ::
  "('h, 'w, 'z) pod_env_scheme \<Rightarrow> ('w \<Rightarrow> nsname \<Rightarrow> pod option) \<Rightarrow> ('w \<Rightarrow> 'h held set) \<Rightarrow> 'w \<Rightarrow> bool" where
  "recorded_attestations_real env rd atts w \<longleftrightarrow>
     (\<forall>nn p. rd w nn = Some p \<longrightarrow> typed_pod env p \<and>
        honest (\<lambda>key img.
          (key = sbomAnnotation \<longrightarrow>
             (\<exists>cfg. sbom_attested env cfg (atts w) (pe_PredicateCycloneDX env) img)) \<and>
          (key = provenanceAnnotation \<longrightarrow> (\<exists>cfg. provenance_attested env cfg (atts w) img))) p)"

text \<open>C4: A recorded attestation is a real one. Over any history of reconciliations, whatever fails in it
  and however the settings change, mixed with anything else that keeps this so: whenever a stored pod
  carries the SBOM outcome \<open>Attached\<close>, its artifacts annotation names an image whose manifest was read
  and whose SBOM, or the SBOM of each of its platforms, was generated and is attested in the registry;
  whenever it carries the provenance outcome \<open>Attached\<close>, a provenance generated from a workflow, with
  that image as one of its subjects, is attested in the registry for it. Each attestation lies in the
  repository of the image, over the payload made of the document for the image's digest, by a signer
  obtained for the key of some configuration. The hypotheses say that the API server stores what it is
  sent, how a registry answers the write of an attestation, and that no call takes one out of it.\<close>

theorem recorded_attestations_published:
  assumes "two_stores env rd wr rdw wrw" and "attestations_documented env atts"
    and "registry_keeps env wr wrw atts"
    and "\<And>w1 w2. moves w1 w2 \<Longrightarrow> recorded_attestations_real env rd atts w1 \<Longrightarrow>
      recorded_attestations_real env rd atts w2"
    and "controller_run env rc req moves w w'" and "recorded_attestations_real env rd atts w"
  shows "recorded_attestations_real env rd atts w'"
proof -
  let ?real = "\<lambda>E key img.
    (key = sbomAnnotation \<longrightarrow> (\<exists>cfg. sbom_attested env cfg E (pe_PredicateCycloneDX env) img)) \<and>
    (key = provenanceAnnotation \<longrightarrow> (\<exists>cfg. provenance_attested env cfg E img))"
  let ?Q = "\<lambda>key img E w. E \<subseteq> atts w \<and> ?real E key img"
  have "?real (atts w) = (\<lambda>key img. \<exists>E. ?Q key img E w)" for w
    using sbom_attested_mono provenance_attested_mono by (intro ext) blast
  then have same: "recorded_attestations_real env rd atts = records_ok env rd ?Q"
    by (intro ext) (simp only: recorded_attestations_real_def records_ok_def)
  note steady = registry_keeps_subset [OF assms(1,3)]
  have sbom: "steady_sbom (\<lambda>w. e \<in> atts w) env" for e
    using assms(3) unfolding registry_keeps_def by blast
  have "\<exists>E. ?Q sbomAnnotation img E v'"
    if run: "GenerateSBOMWithConfigOpts env img (pe_PredicateCycloneDX env) cfg v = (Ok (), v')" for cfg img v v'
  proof -
    from sbom_generation.success [OF run] obtain keyRef where "key_ref cfg = Some keyRef"
      "GenerateSBOMforOCI env cfg keyRef img (pe_PredicateCycloneDX env) v = (Ok (), v')" .
    from GenerateSBOMforOCI_attests [OF assms(2) sbom this] show ?thesis by auto
  qed
  moreover have "\<exists>E. ?Q provenanceAnnotation img E v'"
    if "provenance_of env img prov"
      "AttestWithConfigOpts env cfg img (pe_PredicateSLSA1 env) prov v = (Ok info, v')" for cfg img prov v info v'
    using provenance_attests [OF assms(2) sbom that] by auto
  ultimately have "outcomes_brought env ?Q"
    unfolding outcomes_brought_def using steady_guard(1) [OF steady(1), of True] by auto
  with assms(1) steady_guard(2) [OF steady(3), of True] steady_guard(3) [OF steady(2), of True]
  have "record_env env rd wr rdw wrw ?Q" unfolding record_env_def by simp
  from controller_run_records [OF this] assms(4-6) show ?thesis unfolding same by blast
qed

text \<open>The small cluster: the envelope of a payload is the payload.\<close>

definition sample_atts :: "sworld \<Rightarrow> handle held set" where
  "sample_atts w = {(repo, payload, sv). (repo, Signature payload '''') \<in> set (sw_attestations w)}"

lemma sample_attestations_kept: "registry_keeps sample_env sw_put_pod sw_put_workflow sample_atts"
proof -
  have "steady_sbom (\<lambda>w. e \<in> sample_atts w) sample_env" for e
    by (rule sample_steady_sbom) (auto simp: sample_atts_def publish_attestation_def)
  moreover have "steady_settings P sample_env" for P
    by (auto simp: steady_settings_def sample_env_def go_keeps_leaf) (auto simp: go_keeps_def)
  ultimately show ?thesis by (auto simp: registry_keeps_def sample_atts_def)
qed

lemma sample_attestations: "attestations_documented sample_env sample_atts"
proof -
  have "(repo, payload, sv) \<in> sample_atts w2"
    if "at_dsse_SignMessage sample_env sv (at_IntotoPayloadType sample_env) payload v = (Ok envelope, v')"
      "at_NewAttestation sample_env envelope opts = Inr att"
      "at_AttachAttestationToEntity sample_env se att (sg_NewDupeDetector sample_env sv) False w = (Ok newSE, w1)"
      "at_WriteAttestations sample_env repo newSE ro w1 = (Ok (), w2)"
    for sv payload envelope opts att se newSE repo ro v v' w w1 w2
    using that by (auto simp: sample_env_def sample_atts_def go_ret_def write_registry_def publish_attestation_def
        split: if_splits)
  then show ?thesis unfolding attestations_documented_def by blast
qed

theorem recorded_attestations_published_witness:
  "let w = (sample_world (two_pods NodeRunning) False)\<lparr>sw_config := Some [sbomGenerationKey \<mapsto> ''true'']\<rparr>;
       w' = snd (sample_reconcile (argo_progress (two_pods NodeSucceeded) (snd (sample_reconcile w))))
   in sample_annotation ''wfl-t-b'' sbomAnnotation w' = Some sbomCompleted \<and>
      sample_annotation ''wfl-t-b'' provenanceAnnotation w' = Some provenanceCompleted \<and>
      recorded_attestations_real sample_env sw_read_pod sample_atts w'"
proof -
  let ?moves = "\<lambda>w1 w2. w2 = argo_progress (two_pods NodeSucceeded) w1"
  let ?real = "recorded_attestations_real sample_env sw_read_pod sample_atts"
  let ?w = "(sample_world (two_pods NodeRunning) False)\<lparr>sw_config := Some [sbomGenerationKey \<mapsto> ''true'']\<rparr>"
  let ?w' = "snd (sample_reconcile (argo_progress (two_pods NodeSucceeded) (snd (sample_reconcile ?w))))"
  have "sample_atts (argo_progress new w1) = sample_atts w1" for new w1
    by (simp add: sample_atts_def argo_progress_def)
  then have "?real w2" if "?moves w1 w2" "?real w1" for w1 w2
    using that by (simp add: recorded_attestations_real_def)
  moreover have "?real ?w"
  proof -
    have same: "sw_read_pod ?w = sw_read_pod (sample_world (two_pods NodeRunning) False)"
      by (simp add: fun_eq_iff sw_read_pod_def)
    show ?thesis
      unfolding recorded_attestations_real_def same using sample_pods_unannotated by blast
  qed
  ultimately have "?real ?w'"
    by (rule recorded_attestations_published [OF sample_two_stores sample_attestations
          sample_attestations_kept _ sample_two_visits])
  moreover have "sample_annotation ''wfl-t-b'' sbomAnnotation ?w' = Some sbomCompleted" by code_simp
  moreover have "sample_annotation ''wfl-t-b'' provenanceAnnotation ?w' = Some provenanceCompleted" by code_simp
  ultimately show ?thesis by (simp add: Let_def)
qed

end
