(* ===== verification/VerdictProperties.thy ===== *)
theory VerdictProperties imports AttestationProperties begin

text \<open>
  What a completed workflow says of provenances: the outcome that each of its pods carries in the end.
\<close>

section \<open>The outcome of one pod\<close>

text \<open>The recorded outcome of a pod, and the one the provenance step owes the pod \<open>q\<close> when \<open>before\<close> was
  recorded when the reconciliation started and the registry holds the attestations \<open>E\<close>.\<close>

definition provenance_recorded :: "('w \<Rightarrow> nsname \<Rightarrow> pod option) \<Rightarrow> 'w \<Rightarrow> nsname \<Rightarrow> string option" where
  "provenance_recorded rd w nn =
     (case rd w nn of None \<Rightarrow> None | Some p \<Rightarrow> gm_lookup (m_annotations p) provenanceAnnotation)"

definition provenance_decided ::
  "('h, 'w, 'z) pod_env_scheme \<Rightarrow> 'h config \<Rightarrow> 'h held set \<Rightarrow> string option \<Rightarrow> podStatus \<Rightarrow> string option \<Rightarrow> bool" where
  "provenance_decided env cfg E before q recorded \<longleftrightarrow>
     (if \<not> ps_artifactsFound q then recorded = Some provenanceSkipped
      else if before \<noteq> None then recorded = before
      else recorded = Some provenanceError \<or>
        recorded = Some provenanceCompleted \<and> provenance_attested env cfg E (ps_artifactInfo q))"

lemma provenance_decided_mono:
  "provenance_decided env cfg E x q y \<Longrightarrow> E \<subseteq> F \<Longrightarrow> provenance_decided env cfg F x q y"
  by (auto simp: provenance_decided_def intro: provenance_attested_mono)

lemma provenance_recorded_noted: "noted rd nn provenanceAnnotation y w \<Longrightarrow> provenance_recorded rd w nn = y"
  by (auto simp: noted_def provenance_recorded_def)

lemma provenance_recorded_read: "rd w' nn = rd w nn \<Longrightarrow> provenance_recorded rd w' nn = provenance_recorded rd w nn"
  by (simp add: provenance_recorded_def)

lemma handleProveneceAttachment_decides:
  assumes st: "two_stores env rd wr rdw wrw" and reg: "attestations_documented env atts" "registry_keeps env wr wrw atts"
    and run: "handleProveneceAttachment env cfg subs (q, (wfl0, w)) = (Ok u, (q', (wfl0', w')))"
    and here: "noted_here rd nn provenanceAnnotation x (q, w)"
    and subs: "ps_artifactsFound q \<Longrightarrow> ps_signed q \<and> subject_of env (ps_artifactInfo q) \<in> set subs"
  shows "provenance_decided env cfg (atts w') x q (provenance_recorded rd w' nn)"
proof -
  note store = two_storesD(1,2) [OF st]
  note writes = provenance_recorded_noted [OF patch_pod_writes [OF store]]
  note steady = registry_keeps_subset [OF st reg(2)]
  show ?thesis
  proof (cases rule: handleProveneceAttachment_cases [OF run])
    case 1
    from here obtain p where "ps_pod q = Some p" "gm_lookup (m_annotations p) provenanceAnnotation = x"
      "noted rd nn provenanceAnnotation x w" by auto
    with 1 subs show ?thesis
      by (auto simp: provenance_decided_def unattested_def dest: provenance_recorded_noted)
  next
    case 2
    from writes [OF 2(2) here] 2(1) show ?thesis by (simp add: provenance_decided_def)
  next
    case (3 prov wfl1 res v)
    from 3(5) obtain b where patch: "patch_pod env provenanceAnnotation (provenance_outcome res)
        (q\<lparr>ps_sbomAttached := b\<rparr>, v) = (Ok u, (q', w'))" by blast
    have "rd v = rd w" using go_keepsD [OF operations_keep(5) [OF plain_record_env [OF st]] 3(4)] by blast
    then have "noted_here rd nn provenanceAnnotation x (q\<lparr>ps_sbomAttached := b\<rparr>, v)"
      using here noted_read [of rd v nn w] by simp
    from writes [OF patch this] have made: "provenance_recorded rd w' nn = Some (provenance_outcome res)" .
    have "provenance_attested env cfg (atts w') (ps_artifactInfo q)" if "res = Ok info" for info
    proof -
      have "provenance_of env (ps_artifactInfo q) prov"
        using 3(1,3) subs unfolding provenance_of_def by blast
      moreover have "steady_sbom (\<lambda>w. e \<in> atts w) env" for e
        using reg(2) unfolding registry_keeps_def by blast
      ultimately have "provenance_attested env cfg (atts v) (ps_artifactInfo q)"
        using provenance_attests [OF reg(1)] 3(4) that by blast
      moreover have "atts v \<subseteq> atts w'" using go_keepsD [OF patch_pod_steady [OF steady(1)] patch] by simp
      ultimately show ?thesis by (rule provenance_attested_mono)
    qed
    moreover have "x = None" using 3(2) here by (auto simp: unattested_def)
    ultimately show ?thesis using made 3(1) by (auto simp: provenance_decided_def)
  qed
qed

section \<open>All pods of a workflow\<close>

definition found_artifact :: "podStatus \<Rightarrow> string \<times> bool \<times> string" where
  "found_artifact p = (ps_podName p, ps_artifactsFound p, ps_artifactInfo p)"

lemma handleProveneceAttachment_artifact:
  "go_fixes (\<lambda>(p, v). found_artifact p) (handleProveneceAttachment env cfg subs)"
  unfolding handleProveneceAttachment_def
  by (intro go_fixes_rules on_workflow_fixes | simp add: found_artifact_def)+

lemma provenance_decided_same:
  "found_artifact p = found_artifact q \<Longrightarrow>
     provenance_decided env cfg E x p y \<longleftrightarrow> provenance_decided env cfg E x q y"
  by (simp add: provenance_decided_def found_artifact_def)

lemma AttestArtifacts_decides:
  assumes st: "two_stores env rd wr rdw wrw" and reg: "attestations_documented env atts" "registry_keeps env wr wrw atts"
    and run: "AttestArtifacts env cfg (pods, (wfl0, w)) = (Ok u, (pods3, (wfl3, w3)))"
    and "distinct (map ps_podName pods)"
    and here: "\<And>q. q \<in> set pods \<Longrightarrow> noted_here rd (ns, ps_podName q) provenanceAnnotation (x (ps_podName q)) (q, w)"
    and found: "\<And>q. q \<in> set pods \<Longrightarrow> ps_artifactsFound q \<Longrightarrow> ps_signed q \<and> fst (checkOCI env (ps_artifactInfo q))"
    and "q \<in> set pods"
  shows "provenance_decided env cfg (atts w3) (x (ps_podName q)) q (provenance_recorded rd w3 (ns, ps_podName q))"
proof -
  let ?subs = "attest_subjects env pods"
  let ?Q = "\<lambda>q (wfl0, v). provenance_decided env cfg (atts v) (x (ps_podName q)) q
    (provenance_recorded rd v (ns, ps_podName q))"
  let ?step = "handleProveneceAttachment env cfg ?subs"
  note env = plain_record_env [OF st]
  note steady = registry_keeps_subset [OF st reg(2)]
  from run have loop: "each_pod ?step (pods, (wfl0, w)) = (Ok u, (pods3, (wfl3, w3)))"
    by (simp add: AttestArtifacts_def go_get_def)
  have artifact: "found_artifact p1 = found_artifact p" if "?step (p, v) = (r, (p1, v1))" for p v r p1 v1
    using go_fixesD [OF handleProveneceAttachment_artifact that] by simp
  then have name: "ps_podName p1 = ps_podName p" if "?step (p, v) = (r, (p1, v1))" for p v r p1 v1
    using that by (fastforce simp: found_artifact_def)
  have own: "rd (snd v1) (ns, k) = rd (snd v) (ns, k)"
    if p: "p \<in> set pods" and step: "?step (p, v) = (r, (p1, v1))" and k: "k \<noteq> ps_podName p" for p v r p1 v1 k
  proof -
    obtain a b a1 b1 where "v = (a, b)" "v1 = (a1, b1)" by fastforce
    with handleProveneceAttachment_leaves(2) [OF env, of cfg ?subs p a b r p1 a1 b1 "(ns, k)"] step here [OF p] k
    show ?thesis by auto
  qed
  have visit: "?Q p1 v2" if p: "p \<in> set pods" and step: "?step (p, v1) = (Ok (), (p1, v2))"
    and same: "rd (snd v1) (ns, ps_podName p) = rd (snd (wfl0, w)) (ns, ps_podName p)" for p v1 p1 v2
  proof -
    obtain a b a2 b2 where v: "v1 = (a, b)" "v2 = (a2, b2)" by fastforce
    have "noted_here rd (ns, ps_podName p) provenanceAnnotation (x (ps_podName p)) (p, b)"
      using here [OF p] same v(1) noted_read [of rd b "(ns, ps_podName p)" w] by simp
    moreover have "ps_signed p \<and> subject_of env (ps_artifactInfo p) \<in> set ?subs" if "ps_artifactsFound p"
      using found [OF p that] attest_subjects_member [OF p that, of env] by simp
    ultimately have "provenance_decided env cfg (atts b2) (x (ps_podName p)) p
        (provenance_recorded rd b2 (ns, ps_podName p))"
      using handleProveneceAttachment_decides [OF st reg step [unfolded v]] by blast
    with v(2) provenance_decided_same [OF artifact [OF step], of env] name [OF step] show ?thesis by simp
  qed
  have keep: "?Q q v1" if p: "p \<in> set pods" and q: "?Q q v" and step: "?step (p, v) = (r, (p1, v1))"
    and other: "ps_podName p \<noteq> ps_podName q" for q p v r p1 v1
  proof -
    obtain a b a1 b1 where v: "v = (a, b)" "v1 = (a1, b1)" by fastforce
    have "atts b \<subseteq> atts b1"
      using go_keepsD [OF handleProveneceAttachment_steady [OF steady(1)] step] v by simp
    with q own [OF p step other [symmetric]] provenance_recorded_read [of rd b1 "(ns, ps_podName q)" b] v show ?thesis
      by (auto intro: provenance_decided_mono)
  qed
  obtain q3 where q3: "q3 \<in> set pods3" "found_artifact q3 = found_artifact q"
  proof -
    have "map found_artifact pods3 = map found_artifact pods"
      by (rule each_pod_map_fixes [OF handleProveneceAttachment_artifact loop])
    then have "found_artifact q \<in> found_artifact ` set pods3" using assms(8) by (metis image_eqI list.set_map)
    with that show thesis by (metis imageE)
  qed
  have "?Q q3 (wfl3, w3)"
    by (rule each_pod_settles [OF loop assms(5), where g = "\<lambda>v k. rd (snd v) (ns, k)" and Q = ?Q,
          OF name own visit keep q3(1)])
  then show ?thesis using provenance_decided_same [OF q3(2), of env] q3(2) by (simp add: found_artifact_def)
qed

section \<open>Completion\<close>

text \<open>C5: A workflow labelled \<open>Completed\<close> has the provenance of every pod decided. When a reconciliation
  turns the stored label into \<open>Completed\<close>, and the pods of the stored workflow have different names,
  then every one of these pods is stored in the end with the outcome it is owed: \<open>Skipped\<close> if it has no
  artifact; the outcome of an earlier reconciliation if one was recorded; and otherwise \<open>Attached\<close>, and
  then a provenance with its image among the subjects is attested in the registry with the settings that
  were read, or \<open>Error\<close>. The hypotheses say that the API server stores what it is sent, how a registry
  answers the write of an attestation, that no call takes one out of it, and that the artifacts recorded
  before are references with a digest, as \<open>annotations_well_formed\<close> shows of every history.\<close>

theorem completed_means_provenance_decided:
  assumes "two_stores env rd wr rdw wrw" and "attestations_documented env atts"
    and "registry_keeps env wr wrw atts" and "pods_recorded env rd w"
    and "Reconcile env rc req w = (r, w')"
    and "stored_label rdw req w \<noteq> Some reconcileCompleted"
    and "stored_label rdw req w' = Some reconcileCompleted"
  shows "\<exists>wflow cfg pods pods' w1 w2.
    rdw w req = Some wflow \<and> GetPodInfo wflow = Inr pods \<and> config_read env rc (fst req) w cfg \<and>
    WorkflowStatus_Reconcile env cfg (fst req) (pods, w1) = (Ok (), (pods', w2)) \<and>
    (distinct (map ps_podName pods) \<longrightarrow>
      (\<forall>q \<in> set pods'. let nn = (fst req, ps_podName q) in
         provenance_decided env cfg (atts w') (provenance_recorded rd w nn) q (provenance_recorded rd w' nn)))"
proof -
  note st = two_storesD [OF assms(1)] and env = plain_record_env [OF assms(1)]
  note steady = registry_keeps_subset [OF assms(1,3)]
  from stored_label_store [OF assms(1)] stored_label_quiet [OF assms(1)] assms(5-7)
  obtain cfg wflow w1 pods pods' w2 w3 where
    up: "picked_up env rc req w cfg wflow w1" and label: "labelled env w3 w'" and
    sec: "secured env cfg wflow w1 pods pods' w2 w3"
    by (rule Reconcile_Completed)
  from picked_up_stored [OF assms(1) up] obtain stored where
    stored: "rdw w req = Some stored" and same: "GetPodInfo wflow = GetPodInfo stored"
      "m_namespace wflow = fst req" and cfg: "config_read env rc (fst req) w cfg" and rd: "rd w1 = rd w" .
  from sec same obtain pods3 wflow3 where info: "GetPodInfo stored = Inr pods" and
    run: "WorkflowStatus_Reconcile env cfg (fst req) (pods, w1) = (Ok (), (pods', w2))" and
    attest: "AttestArtifacts env cfg (pods', (wflow, w2)) = (Ok (), (pods3, (wflow3, w3)))"
    by (auto simp: secured_def)
  have fresh: "\<forall>p \<in> set pods. fresh_status p" using GetPodInfo_fresh [OF info] by blast
  have "records_ok env rd (\<lambda>key img (e :: unit) w. True) w1"
    using assms(4) rd by (simp add: pods_recorded_def records_ok_def)
  from WorkflowStatus_Reconcile_records [OF env this fresh run]
  have linked: "linked env rd q w2" if "q \<in> set pods'" for q using that by simp
  have settled: "settled q" if "q \<in> set pods'" for q using WorkflowStatus_Reconcile_Ok [OF run] that by simp
  have "provenance_decided env cfg (atts w') (provenance_recorded rd w (fst req, ps_podName q)) q
      (provenance_recorded rd w' (fst req, ps_podName q))"
    if distinct: "distinct (map ps_podName pods)" and q: "q \<in> set pods'" for q
  proof -
    have "map ps_podName pods' = map ps_podName pods"
      using arg_cong [OF WorkflowStatus_Reconcile_identity [OF run], of "map fst"] by (simp add: o_def)
    with distinct have names: "distinct (map ps_podName pods')" by simp
    have here: "noted_here rd (fst req, ps_podName p) provenanceAnnotation
        (provenance_recorded rd w (fst req, ps_podName p)) (p, w2)" if p: "p \<in> set pods'" for p
    proof -
      from WorkflowStatus_Reconcile_noted [OF st(1,2,7) run fresh distinct visit_leaves_simps(2) p
          AttestArtifacts_Ok_pods [OF attest p]]
      obtain p0 where "rd w1 (fst req, ps_podName p) = Some p0"
        "noted_here rd (fst req, ps_podName p) provenanceAnnotation
          (gm_lookup (m_annotations p0) provenanceAnnotation) (p, w2)" .
      with rd show ?thesis by (simp add: provenance_recorded_def)
    qed
    have found: "ps_signed p \<and> fst (checkOCI env (ps_artifactInfo p))" if "p \<in> set pods'" "ps_artifactsFound p" for p
      using settled [OF that(1)] linked [OF that(1)] that(2) by (simp add: settled_def linked_def)
    have "provenance_decided env cfg (atts w3) (provenance_recorded rd w (fst req, ps_podName q)) q
        (provenance_recorded rd w3 (fst req, ps_podName q))"
      by (rule AttestArtifacts_decides [OF assms(1-3) attest names here found q])
    moreover have "atts w3 \<subseteq> atts w'" using label steady(2) [of "atts w3"] unfolding labelled_def by blast
    moreover have "steady_kube (\<lambda>w. rd w = rd w3) (ct_workflows env)"
      unfolding st(3) by (intro store_kube_steady) (simp add: st(5))
    with label have "rd w' = rd w3" unfolding labelled_def by blast
    ultimately show ?thesis
      using provenance_recorded_read [of rd w' "(fst req, ps_podName q)" w3] by (simp add: provenance_decided_mono)
  qed
  with stored info cfg run show ?thesis unfolding Let_def by blast
qed

theorem completed_means_provenance_decided_witness:
  "let w = sample_world (two_pods NodeSucceeded) False;
       w' = snd (Reconcile sample_env sample_reconciler sample_req w);
       pods = projr (GetPodInfo (two_pods NodeSucceeded));
       recorded = \<lambda>w name. provenance_recorded sw_read_pod w (''ns'', name)
   in map ps_podName pods = [''wfl-t-a'', ''wfl-t-b''] \<and>
     recorded w' ''wfl-t-a'' = Some provenanceSkipped \<and> recorded w' ''wfl-t-b'' = Some provenanceCompleted \<and>
     (\<exists>cfg pods' w1 w2.
        WorkflowStatus_Reconcile sample_env cfg ''ns'' (pods, w1) = (Ok (), (pods', w2)) \<and>
        (\<forall>q \<in> set pods'. provenance_decided sample_env cfg (sample_atts w')
           (recorded w (ps_podName q)) q (recorded w' (ps_podName q))))"
proof -
  let ?w = "sample_world (two_pods NodeSucceeded) False"
  let ?w' = "snd (Reconcile sample_env sample_reconciler sample_req ?w)"
  let ?pods = "projr (GetPodInfo (two_pods NodeSucceeded))"
  let ?rec = "\<lambda>w name. provenance_recorded sw_read_pod w (''ns'', name)"
  have labels: "stored_label sw_read_workflow sample_req ?w \<noteq> Some reconcileCompleted"
    "stored_label sw_read_workflow sample_req ?w' = Some reconcileCompleted" by code_simp+
  have facts: "map ps_podName ?pods = [''wfl-t-a'', ''wfl-t-b'']"
    "?rec ?w' ''wfl-t-a'' = Some provenanceSkipped" "?rec ?w' ''wfl-t-b'' = Some provenanceCompleted" by code_simp+
  have stored: "sw_read_workflow ?w sample_req = Some (two_pods NodeSucceeded)"
    by (simp add: sw_read_workflow_def sample_world_def sample_req_def two_pods_def sample_workflow_def)
  have recorded: "pods_recorded sample_env sw_read_pod ?w"
    using sample_pods_unannotated unfolding pods_recorded_def by blast
  have ns: "fst sample_req = ''ns''" by (simp add: sample_req_def)
  from completed_means_provenance_decided [OF sample_two_stores sample_attestations sample_attestations_kept
      recorded prod.collapse [symmetric] labels, unfolded ns Let_def]
  obtain wflow cfg pods pods' w1 w2 where
    "sw_read_workflow ?w sample_req = Some wflow" "GetPodInfo wflow = Inr pods" and
    run: "WorkflowStatus_Reconcile sample_env cfg ''ns'' (pods, w1) = (Ok (), (pods', w2))" and
    decided: "distinct (map ps_podName pods) \<longrightarrow> (\<forall>q \<in> set pods'.
      provenance_decided sample_env cfg (sample_atts ?w') (?rec ?w (ps_podName q)) q (?rec ?w' (ps_podName q)))"
    by blast
  with stored have pods: "pods = ?pods" by simp
  have "\<forall>q \<in> set pods'. provenance_decided sample_env cfg (sample_atts ?w')
      (?rec ?w (ps_podName q)) q (?rec ?w' (ps_podName q))"
    using decided facts(1) unfolding pods by simp
  with run have "\<exists>cfg pods' w1 w2.
      WorkflowStatus_Reconcile sample_env cfg ''ns'' (?pods, w1) = (Ok (), (pods', w2)) \<and>
      (\<forall>q \<in> set pods'. provenance_decided sample_env cfg (sample_atts ?w')
         (?rec ?w (ps_podName q)) q (?rec ?w' (ps_podName q)))"
    unfolding pods by blast
  with facts show ?thesis unfolding Let_def by blast
qed

end
