(* ===== verification/StaleRecords.thy ===== *)
theory StaleRecords imports CompletionProperties begin

text \<open>
  The limits of completion: a workflow is labelled \<open>Completed\<close> on the strength of what earlier visits
  wrote on its pods, whatever that was.

  \<open>stale ph p\<close> says that a stored pod, whose node is in the phase \<open>ph\<close>, carries records with which a
  visit settles it without signing. \<open>f\<close> is any observation of the world that the API server's writes,
  the reads of the settings and attesting leave alone, such as the signatures in a registry.
\<close>

section \<open>Stored pods\<close>

text \<open>The stored pod has a final status, or its node failed with an error; and it has no artifact on
  record, or any signing outcome.\<close>

definition stale :: "node_phase \<Rightarrow> pod \<Rightarrow> bool" where
  "stale ph p \<longleftrightarrow>
     (ph = NodeError \<or>
      (\<exists>st. gm_lookup (m_annotations p) podStatusAnnotation = Some st \<and> st \<noteq> reconciliationInProgerss)) \<and>
     (gm_lookup (m_annotations p) artifactsAnnotation \<in> {None, Some artifactsNotFound} \<or>
      gm_lookup (m_annotations p) signedAnnotation \<noteq> None)"

lemma stale_skipped: "stale ph p \<Longrightarrow> stale ph (with_annotation podStatusAnnotation reconciliationSkipped p)"
  by (auto simp: stale_def pod_constants)

lemma patch_stored_pod:
  assumes "pe_pods env = store_kube rd wr" and "named_store rd wr"
    and "\<And>nn r w. f (wr nn r w) = f w" and "ps_pod ps = Some p" and "rd w (nsname_of p) = Some cur"
  obtains w' where "patch_pod env key v (ps, w) = (Ok (), (ps\<lparr>ps_pod := Some (with_annotation key v cur)\<rparr>, w'))"
    and "rd w' = (rd w)(nsname_of p \<mapsto> with_annotation key v cur)" and "f w' = f w"
proof -
  obtain r p' w' where run: "PatchAnnotations (store_kube rd wr) key v (p, w) = (r, (p', w'))"
    by (metis prod.exhaust)
  have name: "nsname_of cur = nsname_of p" using named_storeD(1) [OF assms(2,5)] .
  have "f w' = f w"
    using PatchAnnotations_store_run [of rd w p cur wr key v, OF assms(5) name] run assms(3)
    by (auto split: if_splits)
  with store_PatchAnnotations_cases [OF assms(2) run] run assms(1,4,5) that show thesis
    by (simp add: patch_pod_run)
qed

section \<open>One pod\<close>

text \<open>A visit of a pod that ended with a stale record settles it, and at most marks it as skipped.\<close>

lemma stale_visit:
  assumes "pe_pods env = store_kube rd wr" and "named_store rd wr" and "\<And>nn r w. f (wr nn r w) = f w"
    and "terminated_phase (ps_status ps)" and "\<not> ps_artifactsFound ps"
    and "rd w (ns, ps_podName ps) = Some cur" and "stale (ps_status ps) cur"
  obtains ps' p' w' where "reconcilePod env cfg ns (ps, w) = (Ok (), (ps', w'))"
    and "settled ps'" and "ps_pod ps' = Some p'" and "nsname_of p' = (ns, ps_podName ps)"
    and "rd w' = rd w \<or> rd w' =
      (rd w)((ns, ps_podName ps) \<mapsto> with_annotation podStatusAnnotation reconciliationSkipped cur)"
    and "f w' = f w"
proof -
  let ?cur = "currentRconsiliationStatus cur ps"
  have name: "nsname_of cur = (ns, ps_podName ps)" using named_storeD(1) [OF assms(2,6)] .
  have get: "getPod env ns (ps_podName ps) w = (Ok cur, w)"
    using assms(6) by (simp add: getPod_def assms(1) store_get_def)
  have "ps_status ps \<in> {NodeSucceeded, NodeFailed, NodeError}"
    using assms(4) by (simp add: terminated_phase_def)
  note visit = reconcilePod_terminated [OF this get, of cfg]
  have signed: "ps_artifactsFound ?cur \<longrightarrow> ps_signed ?cur"
    using assms(5,7) by (auto simp: stale_def currentRconsiliationStatus_def Let_def split: option.splits)
  show thesis
  proof (cases "ps_reconciliation ?cur")
    case True
    with signed visit name show thesis by (intro that [of ?cur w cur]) (simp_all add: settled_def)
  next
    case False
    with assms(7) currentRconsiliationStatus_final [of cur _ ps] have err: "ps_status ps = NodeError"
      unfolding stale_def by blast
    let ?ps = "?cur\<lparr>ps_reconciliation := True\<rparr>"
    have hand: "ps_pod ?ps = Some cur" "rd w (nsname_of cur) = Some cur" using assms(6) name by simp_all
    obtain w' where w': "patch_pod env podStatusAnnotation reconciliationSkipped (?ps, w) = (Ok (),
        (?ps\<lparr>ps_pod := Some (with_annotation podStatusAnnotation reconciliationSkipped cur)\<rparr>, w'))"
      "rd w' = (rd w)(nsname_of cur \<mapsto> with_annotation podStatusAnnotation reconciliationSkipped cur)"
      "f w' = f w" by (rule patch_stored_pod [where f = f, OF assms(1-3) hand])
    have "handlePodReconciliation env cfg (?cur, w) = patch_pod env podStatusAnnotation reconciliationSkipped (?ps, w)"
      using err by (simp add: handlePodReconciliation_def markPodAsSkipped_def go_get_def go_bind_def go_upd_def)
    with visit False w'(1) have ok: "reconcilePod env cfg ns (ps, w) = (Ok (),
        (?ps\<lparr>ps_pod := Some (with_annotation podStatusAnnotation reconciliationSkipped cur)\<rparr>, w'))" by simp
    show thesis
      by (rule that [OF ok, of "with_annotation podStatusAnnotation reconciliationSkipped cur"]) (use signed name w'(2,3) in \<open>simp_all add: settled_def\<close>)
  qed
qed

text \<open>The provenance step never fails when the provenance can be made: what goes wrong with the
  registry is recorded on the pod.\<close>

lemma provenance_step_stored:
  assumes "pe_pods env = store_kube rd wr" and "named_store rd wr" and "\<And>nn r w. f (wr nn r w) = f w"
    and "\<And>subs wflow e wflow'. GenerateSlsaV1Provenance env subs wflow \<noteq> (Fail e, wflow')"
    and "\<And>img pt p. go_fixes f (AttestWithConfigOpts env cfg img pt p)"
    and "\<And>img pt p. go_fixes rd (AttestWithConfigOpts env cfg img pt p)"
    and "ps_pod ps = Some p" and "rd w (nsname_of p) \<noteq> None"
    and "handleProveneceAttachment env cfg subs (ps, (wflow, w)) = (r, (ps', (wflow', w')))"
  shows "(\<forall>e. r \<noteq> Fail e) \<and> f w' = f w \<and> dom (rd w) \<subseteq> dom (rd w')"
proof -
  have patched: "r = Ok () \<and> f w' = f v \<and> dom (rd v) \<subseteq> dom (rd w')"
    if run: "go_mid (patch_pod env key x) (q, (u, v)) = (r, (ps', (wflow', w')))" and hand: "ps_pod q = Some p"
      and there: "rd v (nsname_of p) \<noteq> None" for key x q u v
  proof -
    from there obtain cur where cur: "rd v (nsname_of p) = Some cur" by blast
    obtain v' where "patch_pod env key x (q, v) = (Ok (), (q\<lparr>ps_pod := Some (with_annotation key x cur)\<rparr>, v'))"
      "rd v' = (rd v)(nsname_of p \<mapsto> with_annotation key x cur)" "f v' = f v"
      by (rule patch_stored_pod [where f = f, OF assms(1-3) hand cur])
    with run show ?thesis by (auto simp: go_mid_def)
  qed
  consider "\<not> ps_artifactsFound ps" | "ps_artifactsFound ps"
    "gm_lookup (m_annotations p) provenanceAnnotation \<noteq> None \<or> \<not> ps_signed ps"
    | "ps_artifactsFound ps" "gm_lookup (m_annotations p) provenanceAnnotation = None" "ps_signed ps"
    by blast
  then show ?thesis
  proof cases
    case 1
    then have "go_mid (patch_pod env provenanceAnnotation provenanceSkipped) (ps, (wflow, w)) =
        (r, (ps', (wflow', w')))" using assms(9) by (simp add: handleProveneceAttachment_def go_get_def)
    from patched [OF this assms(7,8)] show ?thesis by simp
  next
    case 2
    then have "r = Ok ()" "w' = w"
      using assms(7,9) by (auto simp: handleProveneceAttachment_def go_get_def go_ret_def)
    then show ?thesis by simp
  next
    case 3
    obtain rg wflow1 where g: "GenerateSlsaV1Provenance env subs wflow = (rg, wflow1)" by fastforce
    note step = assms(7,9) 3 g
    show ?thesis
    proof (cases rg)
      case (Ok prov)
      obtain ra w1 where a: "AttestWithConfigOpts env cfg (ps_artifactInfo ps) (pe_PredicateSLSA1 env) prov w =
          (ra, w1)" by fastforce
      have same: "f w1 = f w" "rd w1 = rd w"
        using go_fixesD [OF assms(5) a] go_fixesD [OF assms(6) a] by simp_all
      show ?thesis
      proof (cases ra)
        case (Panic m)
        with step Ok a same show ?thesis
          by (auto simp: handleProveneceAttachment_def go_get_def go_bind_def go_wrap_def on_workflow_def
              go_catch_def go_snd_def)
      next
        case (Ok info)
        with step \<open>rg = Ok prov\<close> a have "go_mid (patch_pod env provenanceAnnotation provenanceCompleted)
            (ps\<lparr>ps_sbomAttached := True\<rparr>, (wflow1, w1)) = (r, (ps', (wflow', w')))"
          by (simp add: handleProveneceAttachment_def go_get_def go_bind_def go_wrap_def on_workflow_def
              go_catch_def go_snd_def go_ret_def go_upd_def)
        from patched [OF this] same assms(7,8) show ?thesis by simp
      next
        case (Fail e)
        with step \<open>rg = Ok prov\<close> a have "go_mid (patch_pod env provenanceAnnotation sbomError)
            (ps\<lparr>ps_sbomAttached := False\<rparr>, (wflow1, w1)) = (r, (ps', (wflow', w')))"
          by (simp add: handleProveneceAttachment_def go_get_def go_bind_def go_wrap_def on_workflow_def
              go_catch_def go_snd_def go_ret_def go_upd_def)
        from patched [OF this] same assms(7,8) show ?thesis by simp
      qed
    next
      case (Fail e)
      with g assms(4) show ?thesis by blast
    next
      case (Panic m)
      with step show ?thesis
        by (auto simp: handleProveneceAttachment_def go_get_def go_bind_def go_wrap_def on_workflow_def)
    qed
  qed
qed

section \<open>All pods\<close>

lemma each_pod_all_Ok:
  assumes "I v" and "\<forall>p \<in> set ps. G p"
    and "\<And>p v. I v \<Longrightarrow> G p \<Longrightarrow> \<exists>p' v'. m (p, v) = (Ok (), (p', v')) \<and> I v' \<and> H p'"
  shows "\<exists>ps' v'. each_pod m (ps, v) = (Ok (), (ps', v')) \<and> I v' \<and> (\<forall>p \<in> set ps'. H p)"
  using assms(1,2)
proof (induction ps arbitrary: v)
  case (Cons p ps)
  obtain p' v1 where step: "m (p, v) = (Ok (), (p', v1))" "I v1" "H p'"
    using assms(3) [OF Cons.prems(1), of p] Cons.prems(2) by auto
  from Cons.IH [OF step(2)] Cons.prems(2) obtain ps' v' where
    "each_pod m (ps, v1) = (Ok (), (ps', v'))" "I v'" "\<forall>p \<in> set ps'. H p" by auto
  with step show ?case by auto
qed simp

lemma each_pod_no_Fail:
  assumes "each_pod m (ps, v) = (r, (ps', v'))" and "I v" and "\<forall>p \<in> set ps. G p"
    and "\<And>p v r p' v'. I v \<Longrightarrow> G p \<Longrightarrow> m (p, v) = (r, (p', v')) \<Longrightarrow> I v' \<and> (\<forall>e. r \<noteq> Fail e)"
  shows "I v' \<and> (\<forall>e. r \<noteq> Fail e)"
  using assms(1-3)
proof (induction ps arbitrary: v ps')
  case (Cons p ps)
  obtain res p1 v1 where step: "m (p, v) = (res, (p1, v1))" by (metis prod.exhaust)
  have I: "I v1" "\<forall>e. res \<noteq> Fail e" using assms(4) [OF Cons.prems(2) _ step] Cons.prems(3) by simp_all
  show ?case
  proof (cases res)
    case (Ok u)
    with Cons.prems(1) step obtain ps2 where "each_pod m (ps, v1) = (r, (ps2, v'))" by (auto split: prod.splits)
    from Cons.IH [OF this I(1)] Cons.prems(3) show ?thesis by simp
  qed (use Cons.prems(1) step I in auto)
qed auto

text \<open>All visits of pods with stale records end well and settle them.\<close>

lemma stale_visits:
  assumes "pe_pods env = store_kube rd wr" and "named_store rd wr" and "\<And>nn r w. f (wr nn r w) = f w"
    and "\<forall>p \<in> set pods. terminated_phase (ps_status p) \<and> \<not> ps_artifactsFound p \<and>
      (\<exists>cur. rd w (ns, ps_podName p) = Some cur \<and> stale (ps_status p) cur)"
  obtains pods' w' where "WorkflowStatus_Reconcile env cfg ns (pods, w) = (Ok (), (pods', w'))"
    and "f w' = f w" and "\<forall>q \<in> set pods'. \<exists>p. ps_pod q = Some p \<and> rd w' (nsname_of p) \<noteq> None"
proof -
  let ?I = "\<lambda>v. f v = f w \<and> (\<forall>p \<in> set pods. \<exists>cur. rd v (ns, ps_podName p) = Some cur \<and> stale (ps_status p) cur)"
  let ?H = "\<lambda>q. settled q \<and> (\<exists>p. ps_pod q = Some p \<and> (\<exists>p0 \<in> set pods. nsname_of p = (ns, ps_podName p0)))"
  have step: "\<exists>p' v'. reconcilePod env cfg ns (p, v) = (Ok (), (p', v')) \<and> ?I v' \<and> ?H p'"
    if I: "?I v" and p: "p \<in> set pods" for p v
  proof -
    from I p obtain cur where cur: "rd v (ns, ps_podName p) = Some cur" "stale (ps_status p) cur" by blast
    have ended: "terminated_phase (ps_status p)" "\<not> ps_artifactsFound p" using assms(4) p by blast+
    obtain p' q v' where run: "reconcilePod env cfg ns (p, v) = (Ok (), (p', v'))" "settled p'"
      "ps_pod p' = Some q" "nsname_of q = (ns, ps_podName p)" and
      rd: "rd v' = rd v \<or> rd v' =
        (rd v)((ns, ps_podName p) \<mapsto> with_annotation podStatusAnnotation reconciliationSkipped cur)" and
      f: "f v' = f v" by (rule stale_visit [where f = f, OF assms(1-3) ended cur])
    have "\<exists>cur. rd v' (ns, ps_podName x) = Some cur \<and> stale (ps_status x) cur" if x: "x \<in> set pods" for x
    proof -
      from I x obtain c where "rd v (ns, ps_podName x) = Some c" "stale (ps_status x) c" by blast
      with rd cur stale_skipped show ?thesis by (cases "ps_podName x = ps_podName p") auto
    qed
    with run f I p show ?thesis by (intro exI [of _ p'] exI [of _ v']) auto
  qed
  have start: "?I w" "\<forall>p \<in> set pods. p \<in> set pods" using assms(4) by auto
  from each_pod_all_Ok [of ?I w pods "\<lambda>p. p \<in> set pods" "reconcilePod env cfg ns" ?H, OF start step]
  obtain pods' w' where run: "each_pod (reconcilePod env cfg ns) (pods, w) = (Ok (), (pods', w'))" and
    I: "?I w'" and H: "\<forall>q \<in> set pods'. ?H q" by blast
  have "validateAllPodsReconciled pods' = None" using H by (simp add: validate_None)
  then have "WorkflowStatus_Reconcile env cfg ns (pods, w) = (Ok (), (pods', w'))"
    using run by (simp add: WorkflowStatus_Reconcile_def go_bind_def go_get_def go_err_def go_ret_def)
  moreover have "\<forall>q \<in> set pods'. \<exists>p. ps_pod q = Some p \<and> rd w' (nsname_of p) \<noteq> None"
    using H I by fastforce
  ultimately show thesis using that I by blast
qed

lemma attesting_never_fails:
  assumes "pe_pods env = store_kube rd wr" and "named_store rd wr" and "\<And>nn r w. f (wr nn r w) = f w"
    and "\<And>subs wflow e wflow'. GenerateSlsaV1Provenance env subs wflow \<noteq> (Fail e, wflow')"
    and "\<And>img pt p. go_fixes f (AttestWithConfigOpts env cfg img pt p)"
    and "\<And>img pt p. go_fixes rd (AttestWithConfigOpts env cfg img pt p)"
    and "\<forall>q \<in> set pods. \<exists>p. ps_pod q = Some p \<and> rd w (nsname_of p) \<noteq> None"
    and "AttestArtifacts env cfg (pods, (wflow, w)) = (r, (pods', (wflow', w')))"
  shows "(\<forall>e. r \<noteq> Fail e) \<and> f w' = f w"
proof -
  let ?I = "\<lambda>(u :: workflow, v). f v = f w \<and> dom (rd w) \<subseteq> dom (rd v)"
  have step: "?I v' \<and> (\<forall>e. r \<noteq> Fail e)"
    if I: "?I v" and q: "q \<in> set pods"
      and run: "handleProveneceAttachment env cfg (attest_subjects env pods) (q, v) = (r, (q', v'))"
    for q v r q' v'
  proof -
    obtain u x u' x' where v: "v = (u, x)" "v' = (u', x')" by (metis prod.exhaust)
    from assms(7) q obtain p where p: "ps_pod q = Some p" "rd w (nsname_of p) \<noteq> None" by blast
    with I v have "rd x (nsname_of p) \<noteq> None" by auto
    from provenance_step_stored [where f = f, OF assms(1-6) p(1) this run [unfolded v]] I v
      order_trans [of "dom (rd w)" "dom (rd x)" "dom (rd x')"] show ?thesis by simp
  qed
  have "each_pod (handleProveneceAttachment env cfg (attest_subjects env pods)) (pods, (wflow, w)) =
      (r, (pods', (wflow', w')))" using assms(8) by (simp add: AttestArtifacts_def go_get_def)
  from each_pod_no_Fail [of _ pods "(wflow, w)" r pods' "(wflow', w')" ?I "\<lambda>q. q \<in> set pods", OF this _ _ step]
  show ?thesis by simp
qed

section \<open>The workflow\<close>

lemma labelling_keeps:
  assumes "ct_workflows env = store_kube rdw wrw" and "\<And>nn r w. g (wrw nn r w) = g w"
    and "updateWorkflowStatus env v (wflow, w) = (r, (wflow', w'))"
  shows "g w' = g w"
proof -
  have "steady_kube (\<lambda>u. g u = g w) (ct_workflows env)"
    unfolding assms(1) by (intro store_kube_steady) (simp add: assms(2))
  from go_keepsD [OF updateWorkflowStatus_steady [OF this] assms(3)] show ?thesis by simp
qed

lemma quiet_attesting: "quiet_sbom g env \<Longrightarrow> go_fixes g (AttestWithConfigOpts env cfg img pt p)"
  by (simp add: go_fixes_iff quiet_sbom_def dispatch_steady)

lemma stale_secure_workflow:
  assumes "two_stores env rd wr rdw wrw"
    and "\<And>nn p w. f (wr nn p w) = f w" and "\<And>nn wflow w. f (wrw nn wflow w) = f w"
    and "\<And>img pt p. go_fixes f (AttestWithConfigOpts env cfg img pt p)"
    and "\<And>subs wflow e wflow'. GenerateSlsaV1Provenance env subs wflow \<noteq> (Fail e, wflow')"
    and "rdw w req = Some wflow" and "GetPodInfo wflow = Inr pods"
    and "\<forall>p \<in> set pods. terminated_phase (ps_status p) \<and>
      (\<exists>cur. rd w (fst req, ps_podName p) = Some cur \<and> stale (ps_status p) cur)"
    and "secure_workflow env cfg (wflow, w) = (Ok res, (wflow', w'))"
  shows "res = no_requeue \<and> stored_label rdw req w' = Some reconcileCompleted \<and> f w' = f w"
proof -
  note st = two_storesD [OF assms(1)]
  have name: "nsname_of wflow = req" using named_storeD(1) [OF st(4) assms(6)] .
  then have ns: "m_namespace wflow = fst req" by (auto simp: nsname_of_def)
  have pods: "quiet_pods rdw env"
    unfolding quiet_pods_def quiet_kube_def st(1) by (auto intro: st(8) store_kube_steady simp: st(6))
  have "\<forall>p \<in> set pods. \<not> ps_artifactsFound p"
    using assms(7) by (auto simp: GetPodInfo_def collect_pods_filter new_podStatus_def Let_def split: if_splits)
  with assms(8) have ready: "\<forall>p \<in> set pods. terminated_phase (ps_status p) \<and> \<not> ps_artifactsFound p \<and>
      (\<exists>cur. rd w (fst req, ps_podName p) = Some cur \<and> stale (ps_status p) cur)" by blast
  obtain pods1 w1 where visits: "WorkflowStatus_Reconcile env cfg (fst req) (pods, w) = (Ok (), (pods1, w1))"
    and f1: "f w1 = f w" and stored: "\<forall>q \<in> set pods1. \<exists>p. ps_pod q = Some p \<and> rd w1 (nsname_of p) \<noteq> None"
    by (rule stale_visits [where f = f, OF st(1,2) assms(2) ready])
  have w1: "rdw w1 = rdw w" using go_fixesD [OF WorkflowStatus_Reconcile_quiet [OF pods] visits] by simp
  obtain r pods2 wflow2 w2 where att: "AttestArtifacts env cfg (pods1, (wflow, w1)) = (r, (pods2, (wflow2, w2)))"
    by (metis prod.exhaust)
  have r: "\<forall>e. r \<noteq> Fail e" and f2: "f w2 = f w1"
    using attesting_never_fails [where f = f, OF st(1,2) assms(2) assms(5) assms(4) quiet_attesting [OF st(7)] stored att]
    by blast+
  have w2: "rdw w2 req = Some wflow" and name2: "nsname_of wflow2 = req"
    using go_fixesD [OF AttestArtifacts_quiet [OF pods] att] go_fixesD [OF AttestArtifacts_name att] w1 assms(6) name
    by simp_all
  obtain w3 where upd: "updateWorkflowStatus env reconcileCompleted (wflow2, w2) =
      (Ok no_requeue, (with_label workflowStatusLabel reconcileCompleted wflow, w3))"
    and w3: "rdw w3 req = Some (with_label workflowStatusLabel reconcileCompleted wflow)"
    by (rule store_updateWorkflowStatus [OF st(3,4) name2 w2])
  have f3: "f w3 = f w2" by (rule labelling_keeps [where g = f, OF st(3) assms(3) upd])
  have "r = Ok ()"
    using assms(9) r by (cases r) (auto simp: secure_workflow_def go_get_def go_local_def go_catch_def go_mid_def
        go_snd_def assms(7) ns visits att)
  with assms(9) have "res = no_requeue \<and> w' = w3"
    by (auto simp: secure_workflow_def go_get_def go_local_def go_catch_def go_mid_def go_snd_def go_bind_def
        go_ret_def assms(7) ns visits att upd)
  with f1 f2 f3 w3 show ?thesis by (simp add: stored_label_def)
qed

text \<open>C14: Settled is not signed. When every pod node of an enabled workflow without a verdict ended, and
  every one of its pods carries a record with which a visit settles it without signing (a final status,
  or a node that ended with an error; and no artifact on record, or any signing outcome, \<open>Error\<close>
  included), then a reconciliation that ends well labels the workflow \<open>Completed\<close> and signs nothing:
  any observation of the world that labels, annotations, the reads of the settings and attesting leave
  alone, such as the signatures in the registry, is what it was, whatever signing would do. The
  hypotheses are an API server that stores what it is sent, and that the provenance can be generated.\<close>

theorem stale_records_complete:
  assumes "two_stores env rd wr rdw wrw"
    and "\<And>nn p w. f (wr nn p w) = f w" and "\<And>nn wflow w. f (wrw nn wflow w) = f w"
    and "quiet_settings f env" and "\<And>cfg img pt p. go_fixes f (AttestWithConfigOpts env cfg img pt p)"
    and "\<And>subs wflow e wflow'. GenerateSlsaV1Provenance env subs wflow \<noteq> (Fail e, wflow')"
    and "rdw w req = Some wflow" and "gm_index (m_labels wflow) enableLabel = featureEnabled"
    and "\<not> label_done (gm_lookup (m_labels wflow) workflowStatusLabel)"
    and "GetPodInfo wflow = Inr pods"
    and "\<forall>p \<in> set pods. terminated_phase (ps_status p) \<and>
      (\<exists>cur. rd w (fst req, ps_podName p) = Some cur \<and> stale (ps_status p) cur)"
    and "Reconcile env rc req w = (Ok res, w')"
  shows "res = no_requeue \<and> stored_label rdw req w' = Some reconcileCompleted \<and> f w' = f w"
proof -
  note st = two_storesD [OF assms(1)]
  have name: "nsname_of wflow = req" using named_storeD(1) [OF st(4) assms(7)] .
  have get: "go_fixes (g \<circ> snd) (cl_Get (ct_workflows env) req)" for g :: "'b \<Rightarrow> 'e"
    by (auto simp: st(3) store_get_def go_fixes_def split: option.splits)
  obtain cfg w1 wflow1 where w1: "rdw w1 req = Some wflow" and ro: "read_only env req w w1"
    and run: "reconcile_workflow env cfg (wflow, w1) = (Ok res, (wflow1, w'))"
    by (rule Reconcile_found [OF assms(12) st(3) quiet_settings_comp [OF st(10)] assms(7)])
  have same: "f w1 = f w" "rd w1 = rd w"
    using read_onlyD [OF ro assms(4) get] read_onlyD [OF ro st(9) get] by simp_all
  let ?wflow = "with_label workflowStatusLabel reconcileInProgrees wflow"
  obtain w2 where upd: "updateWorkflowStatus env reconcileInProgrees (wflow, w1) = (Ok no_requeue, (?wflow, w2))"
    and w2: "rdw w2 req = Some ?wflow"
    by (rule store_updateWorkflowStatus [OF st(3,4) name w1])
  have kept: "f w2 = f w" "rd w2 = rd w"
    using labelling_keeps [where g = f, OF st(3) assms(3) upd] labelling_keeps [where g = rd, OF st(3) st(5) upd]
      same by simp_all
  have info: "GetPodInfo ?wflow = Inr pods" using assms(10)
    by (auto simp: GetPodInfo_def with_label_update Let_def split: if_splits)
  have "secure_workflow env cfg (?wflow, w2) = (Ok res, (wflow1, w'))"
    using run upd assms(8,9)
    by (auto simp: reconcile_workflow_def label_done_def go_get_def go_bind_def split: option.splits if_splits)
  from stale_secure_workflow [where f = f, OF assms(1-3) assms(5,6) w2 info _ this] assms(11) kept show ?thesis
    by simp
qed

text \<open>Attesting does not write signatures.\<close>

lemma signature_writer_ignored:
  "SignerFromKeyOpts (env1\<lparr>sg_WriteSignatures := g\<rparr>) ko b = SignerFromKeyOpts env1 ko b"
  "CosignRemoteAuthOptsWithKeyChain (env1\<lparr>sg_WriteSignatures := g\<rparr>) = CosignRemoteAuthOptsWithKeyChain env1"
  by (simp_all add: fun_eq_iff SignerFromKeyOpts_def signerFromKeyRef_def cosignSeecretSigner_def kmsSigner_def
      pkcs11_certSigner_def keylessSigner_def CosignRemoteAuthOptsWithKeyChain_def
      GetRemoteOptsWithKeychain_def Let_def cong: option.case_cong if_cong)

lemma signature_writer_ignored_attesting:
  "AttestWithConfigOpts (env2\<lparr>sg_WriteSignatures := g\<rparr>) cfg img pt p = AttestWithConfigOpts env2 cfg img pt p"
proof -
  have "AttestOci (env2\<lparr>sg_WriteSignatures := g\<rparr>) = AttestOci env2"
    by (simp add: fun_eq_iff AttestOci_def attest_tlog_def attest_uploadToTlog_def attest_payload_def Let_def
        signature_writer_ignored cong: option.case_cong sum.case_cong if_cong)
  then show ?thesis by (simp add: AttestWithConfigOpts_def)
qed

lemma sample_attesting: "go_fixes sw_signatures (AttestWithConfigOpts sample_env cfg img pt p)"
proof -
  let ?env = "sample_env\<lparr>sg_WriteSignatures := (\<lambda>repo se opts. go_ret ())\<rparr>"
  have "steady_sbom (\<lambda>w. sw_signatures w = c) ?env" for c
    unfolding steady_sbom_def steady_attest_def steady_sign_def steady_cosign_def sample_env_def
    by (simp add: go_keeps_leaf sample_key_steady write_registry_steady)
  then have "quiet_sbom sw_signatures ?env" by (simp add: quiet_sbom_def)
  from quiet_attesting [OF this] show ?thesis by (simp add: signature_writer_ignored_attesting)
qed

lemma sample_provenance: "GenerateSlsaV1Provenance sample_env subs wflow \<noteq> (Fail e, wflow')"
proof -
  have env: "pv_json_Marshal_any sample_env m = Inr ''json''" "pv_json_Marshal_artifact sample_env a = Inr (art_rest a)"
    "pv_json_Marshal_parameter sample_env q = Inr (par_rest q)" "pv_protojson_Unmarshal_struct sample_env b = Inr Opaque"
    "pv_protojson_Marshal_provenance sample_env bd rd = Inr ''predicate''"
    "pv_protojson_Marshal_statement sample_env st = Inr ''statement''" for m a q b bd rd st
    by (simp_all add: sample_env_def)
  have "GetByproducts sample_env wflow \<noteq> Inl e" for e
    using byproducts_of_Inl [of "pv_json_Marshal_artifact sample_env"]
      byproducts_of_Inl [of "pv_json_Marshal_parameter sample_env"]
    by (auto simp: GetByproducts_def env split: option.splits sum.splits)
  then show ?thesis
    by (auto simp: GenerateSlsaV1Provenance_def ConstrunctWorkflowBuildDefinition_def ConstrunctWorkflowRunDetails_def
        GetInternalParams_run GetAnyProtoStruct_def GetResolvedDependencies_def GenerateProvenance_def
        GetProtoStruct_def env go_bind_def go_of_def go_ret_def go_fail_def split: sum.splits)
qed

text \<open>The registry refused the signature on the first visit and accepts everything on the second: the
  image is attested, and never signed.\<close>

definition stale_world :: sworld where
  "stale_world =
     (argo_progress (two_pods NodeError) (snd (sample_reconcile (sample_world (two_pods NodeRunning) True))))
       \<lparr>sw_refuses := False\<rparr>"

theorem stale_records_complete_witness:
  "let (r, w') = sample_reconcile stale_world
   in r = Ok no_requeue \<and> stored_label sw_read_workflow sample_req w' = Some reconcileCompleted \<and>
      sw_signatures w' = [] \<and> sw_attested w' = [''r.io/img''] \<and>
      sample_annotation ''wfl-t-b'' signedAnnotation stale_world = Some signingError"
proof -
  let ?r = "sample_reconcile stale_world"
  let ?stored = "the (sw_read_workflow stale_world sample_req)"
  have "let w = stale_world; r = sample_reconcile w; wf = the (sw_read_workflow w sample_req)
     in fst r = Ok no_requeue \<and> sw_signatures w = [] \<and> sw_attested (snd r) = [''r.io/img''] \<and>
       sample_annotation ''wfl-t-b'' signedAnnotation w = Some signingError \<and>
       sample_annotation ''wfl-t-b'' podStatusAnnotation w = Some reconciliationError \<and>
       sample_annotation ''wfl-t-a'' artifactsAnnotation w = None \<and>
       sw_pods w (''ns'', ''wfl-t-a'') \<noteq> None \<and> sw_pods w (''ns'', ''wfl-t-b'') \<noteq> None \<and>
       sw_read_workflow w sample_req \<noteq> None \<and> gm_index (m_labels wf) enableLabel = featureEnabled \<and>
       \<not> label_done (gm_lookup (m_labels wf) workflowStatusLabel) \<and> \<not> isl (GetPodInfo wf) \<and>
       map (\<lambda>p. (ps_podName p, ps_status p)) (projr (GetPodInfo wf)) =
         [(''wfl-t-a'', NodeError), (''wfl-t-b'', NodeSucceeded)]" by code_simp
  then have run: "fst ?r = Ok no_requeue" "sw_signatures stale_world = []" "sw_attested (snd ?r) = [''r.io/img'']"
    "sample_annotation ''wfl-t-b'' signedAnnotation stale_world = Some signingError"
    "sample_annotation ''wfl-t-b'' podStatusAnnotation stale_world = Some reconciliationError"
    "sample_annotation ''wfl-t-a'' artifactsAnnotation stale_world = None" and
    pods: "sw_pods stale_world (''ns'', ''wfl-t-a'') \<noteq> None" "sw_pods stale_world (''ns'', ''wfl-t-b'') \<noteq> None" and
    there: "sw_read_workflow stale_world sample_req \<noteq> None" and
    stored: "gm_index (m_labels ?stored) enableLabel = featureEnabled"
    "\<not> label_done (gm_lookup (m_labels ?stored) workflowStatusLabel)" "\<not> isl (GetPodInfo ?stored)"
    "map (\<lambda>p. (ps_podName p, ps_status p)) (projr (GetPodInfo ?stored)) =
       [(''wfl-t-a'', NodeError), (''wfl-t-b'', NodeSucceeded)]"
    unfolding Let_def by blast+
  from there obtain wflow where wflow: "sw_read_workflow stale_world sample_req = Some wflow" by blast
  note facts = stored [unfolded wflow option.sel]
  from facts(3) obtain ps where info: "GetPodInfo wflow = Inr ps" by (cases "GetPodInfo wflow") auto
  have names: "map (\<lambda>p. (ps_podName p, ps_status p)) ps = [(''wfl-t-a'', NodeError), (''wfl-t-b'', NodeSucceeded)]"
    using facts(4) info by simp
  have stale: "\<exists>cur. sw_read_pod stale_world (''ns'', n) = Some cur \<and> stale ph cur"
    if "(n, ph) = (''wfl-t-a'', NodeError) \<or> (n, ph) = (''wfl-t-b'', NodeSucceeded)" for n ph
    using that run(4-6) pods
    by (auto simp: sw_read_pod_def sample_annotation_def stale_def pod_constants split: option.splits)
  have "terminated_phase (ps_status p) \<and>
      (\<exists>cur. sw_read_pod stale_world (fst sample_req, ps_podName p) = Some cur \<and> stale (ps_status p) cur)"
    if "p \<in> set ps" for p
  proof -
    have "(ps_podName p, ps_status p) \<in> set (map (\<lambda>p. (ps_podName p, ps_status p)) ps)" using that by simp
    with names have "(ps_podName p, ps_status p) = (''wfl-t-a'', NodeError) \<or>
        (ps_podName p, ps_status p) = (''wfl-t-b'', NodeSucceeded)" by simp
    with stale [of "ps_podName p" "ps_status p"] show ?thesis by (auto simp: terminated_phase_def sample_req_def)
  qed
  then have all: "\<forall>p \<in> set ps. terminated_phase (ps_status p) \<and>
      (\<exists>cur. sw_read_pod stale_world (fst sample_req, ps_podName p) = Some cur \<and> stale (ps_status p) cur)" ..
  have quiet: "sw_signatures (sw_put_pod nn p w) = sw_signatures w"
    "sw_signatures (sw_put_workflow nn wf w) = sw_signatures w" for nn p wf w by simp_all
  have ok: "Reconcile sample_env sample_reconciler sample_req stale_world = (Ok no_requeue, snd ?r)"
    using run(1) by (simp add: sample_reconcile_def prod_eq_iff)
  from stale_records_complete [where f = sw_signatures, OF sample_two_stores quiet sample_quiet_settings
      sample_attesting sample_provenance wflow facts(1,2) info all ok] run show ?thesis
    by (simp add: Let_def split_beta)
qed

end
