(* ===== verification/TestSupport.thy ===== *)
theory TestSupport imports Strconv begin

text \<open>
  What the repository gives its tests: the double of Rekor's entries client
  (\<open>cosign/rekor/mock/mock_rekor_client.go\<close>) and the helpers of the end-to-end tests
  (\<open>test/utils/utils.go\<close>), which run \<open>kubectl\<close> and \<open>kind\<close> in the directory of the project.

  The operating system and Ginkgo's writer are the record \<open>shell_env\<close>; what \<open>Fprintf\<close> returns is dropped.
\<close>

section \<open>The Rekor double\<close>

text \<open>\<open>Entries\<close> is a slice of pointers: the outer \<open>None\<close> is the nil slice, an inner one a nil pointer.\<close>

record 'e entries_client =
  ec_Entries :: "'e option list option"

record 'e log_entry_created =
  lec_ETag :: string
  lec_Location :: string
  lec_Payload :: 'e

definition deref :: "'e option \<Rightarrow> ('w, 'e) go" where
  "deref p =
     (case p of
        None \<Rightarrow> go_panic ''invalid memory address or nil pointer dereference''
      | Some e \<Rightarrow> go_ret e)"

definition first_entry :: "'e entries_client \<Rightarrow> ('w, 'e) go" where
  "first_entry m =
     (case ec_Entries m of
        None \<Rightarrow> go_fail (errors_New ''entry not provided'')
      | Some [] \<Rightarrow> go_panic ''index out of range [0] with length 0''
      | Some (p # ps) \<Rightarrow> deref p)"

definition CreateLogEntry :: "'e entries_client \<Rightarrow> ('w, 'e log_entry_created) go" where
  "CreateLogEntry m =
     go_bind (first_entry m) (\<lambda>e.
     go_ret \<lparr>lec_ETag = '''', lec_Location = '''', lec_Payload = e\<rparr>)"

definition GetLogEntryByIndex :: "'e entries_client \<Rightarrow> ('w, 'e) go" where
  "GetLogEntryByIndex m = first_entry m"

definition GetLogEntryByUUID :: "'e entries_client \<Rightarrow> ('w, 'e) go" where
  "GetLogEntryByUUID m = first_entry m"

fun search_entries :: "'e list \<Rightarrow> 'e option list \<Rightarrow> ('w, 'e list) go" where
  "search_entries resp [] = go_ret resp"
| "search_entries resp (p # ps) = go_bind (deref p) (\<lambda>e. search_entries (resp @ [e]) ps)"

definition SearchLogQuery :: "'e entries_client \<Rightarrow> ('w, 'e list) go" where
  "SearchLogQuery m =
     (case ec_Entries m of None \<Rightarrow> go_ret [] | Some ps \<Rightarrow> search_entries [] ps)"

definition SetTransport :: "'e entries_client \<Rightarrow> 'e entries_client" where
  "SetTransport m = m"

lemma search_entries_all: "search_entries resp (map Some es) = go_ret (resp @ es)"
  by (induction es arbitrary: resp) (simp_all add: deref_def)

lemma search_entries_nil:
  "None \<in> set ps \<Longrightarrow>
   search_entries resp ps w = (Panic ''invalid memory address or nil pointer dereference'', w)"
proof (induction ps arbitrary: resp)
  case (Cons p ps)
  then show ?case by (cases p) (simp_all add: deref_def go_bind_def go_panic_def)
qed simp

text \<open>On the entries it was given, the double answers a search with all of them and every other call
  with the first; without a slice it finds nothing, and every other call fails.\<close>

lemma rekor_double_given:
  assumes "ec_Entries m = Some (map Some (e # es))"
  shows "SearchLogQuery m w = (Ok (e # es), w)" "GetLogEntryByIndex m w = (Ok e, w)"
    "GetLogEntryByUUID m w = (Ok e, w)"
    "CreateLogEntry m w = (Ok \<lparr>lec_ETag = '''', lec_Location = '''', lec_Payload = e\<rparr>, w)"
  using assms
  by (simp_all add: search_entries_all SearchLogQuery_def GetLogEntryByIndex_def GetLogEntryByUUID_def CreateLogEntry_def
      first_entry_def deref_def go_run)

lemma rekor_double_not_given:
  assumes "ec_Entries m = None"
  shows "SearchLogQuery m w = (Ok [], w)"
    "GetLogEntryByIndex m w = (Fail (errors_New ''entry not provided''), w)"
    "GetLogEntryByUUID m w = (Fail (errors_New ''entry not provided''), w)"
    "CreateLogEntry m w = (Fail (errors_New ''entry not provided''), w)"
  using assms
  by (simp_all add: SearchLogQuery_def GetLogEntryByIndex_def GetLogEntryByUUID_def CreateLogEntry_def
      first_entry_def go_run)

text \<open>The guard is on the slice, not on its length: an empty slice that is not nil panics.\<close>

lemma rekor_double_empty:
  "ec_Entries m = Some [] \<Longrightarrow>
   CreateLogEntry m w = (Panic ''index out of range [0] with length 0'', w)"
  by (simp add: CreateLogEntry_def first_entry_def go_run)

section \<open>Strings\<close>

text \<open>\<open>strings.Replace(s, old, new, -1)\<close> for an \<open>old\<close> that is not empty: \<open>skip\<close> characters of an
  occurrence are still to be dropped. \<open>Sprintf_s\<close> is \<open>fmt.Sprintf\<close> for a template whose only verb is
  one \<open>%s\<close>.\<close>

fun replace_from :: "nat \<Rightarrow> string \<Rightarrow> string \<Rightarrow> string \<Rightarrow> string" where
  "replace_from skip old new [] = []"
| "replace_from (Suc skip) old new (c # s) = replace_from skip old new s"
| "replace_from 0 old new (c # s) =
     (if HasPrefix (c # s) old then new @ replace_from (length old - 1) old new s
      else c # replace_from 0 old new s)"

definition ReplaceAll :: "string \<Rightarrow> string \<Rightarrow> string \<Rightarrow> string" where
  "ReplaceAll s old new = replace_from 0 old new s"

fun Sprintf_s :: "string \<Rightarrow> string \<Rightarrow> string" where
  "Sprintf_s [] v = []"
| "Sprintf_s (c # s) v = (if HasPrefix (c # s) ''%s'' then v @ tl s else c # Sprintf_s s v)"

definition newline :: char where "newline = CHR 0x0A"

lemma replace_from_skip: "replace_from (length s) old new (s @ t) = replace_from 0 old new t"
proof (induction s)
  case Nil
  show ?case by simp
next
  case (Cons c s)
  then show ?case by simp
qed

lemma replace_from_head:
  assumes "old \<noteq> []"
  shows "replace_from 0 old new (old @ t) = new @ replace_from 0 old new t"
proof (cases old)
  case (Cons c s)
  then have "HasPrefix (c # s @ t) old" by (simp add: HasPrefix_def)
  with Cons show ?thesis by (simp add: replace_from_skip)
qed (use assms in simp)

lemma replace_from_before:
  assumes "\<And>i. i < length s \<Longrightarrow> \<not> HasPrefix (drop i s @ t) old"
  shows "replace_from 0 old new (s @ t) = s @ replace_from 0 old new t"
  using assms
proof (induction s)
  case (Cons c s)
  have "\<not> HasPrefix (c # s @ t) old" using Cons.prems [of 0] by simp
  moreover have "\<not> HasPrefix (drop i s @ t) old" if "i < length s" for i
    using Cons.prems [of "Suc i"] that by simp
  ultimately show ?case using Cons.IH by simp
qed simp

section \<open>Running a command\<close>

record exec_cmd =
  cmd_Args :: "string list"
  cmd_Dir :: string
  cmd_Env :: "string list"

record 'w shell_env =
  sh_Getwd :: "('w, string \<times> goerr option) go"
  sh_Chdir :: "string \<Rightarrow> ('w, unit) go"
  sh_Environ :: "('w, string list) go"
  sh_LookupEnv :: "string \<Rightarrow> ('w, string option) go"
  sh_CombinedOutput :: "exec_cmd \<Rightarrow> ('w, bytes \<times> goerr option) go"
  sh_GinkgoWriter :: "string \<Rightarrow> ('w, unit) go"

definition Command :: "string \<Rightarrow> string list \<Rightarrow> exec_cmd" where
  "Command name args = \<lparr>cmd_Args = name # args, cmd_Dir = '''', cmd_Env = []\<rparr>"

definition warnError :: "'w shell_env \<Rightarrow> goerr \<Rightarrow> ('w, unit) go" where
  "warnError env err = sh_GinkgoWriter env (''warning: '' @ err_Error err @ [newline])"

text \<open>\<open>GetProjectDir\<close> returns a directory also beside an error, and \<open>Run\<close> the output of the command.
  \<open>Run\<close> drops the first error, and reports that the directory could not be changed without returning.\<close>

definition GetProjectDir :: "'w shell_env \<Rightarrow> ('w, string \<times> goerr option) go" where
  "GetProjectDir env =
     go_bind (sh_Getwd env) (\<lambda>(wd, err).
       if err \<noteq> None then go_ret (wd, err) else go_ret (ReplaceAll wd ''/test/e2e'' '''', None))"

definition Run :: "'w shell_env \<Rightarrow> exec_cmd \<Rightarrow> ('w, bytes \<times> goerr option) go" where
  "Run env cmd =
     go_bind (GetProjectDir env) (\<lambda>(dir, _).
     let cmd = cmd\<lparr>cmd_Dir := dir\<rparr>
     in go_bind (go_catch (sh_Chdir env (cmd_Dir cmd))
          (\<lambda>err. sh_GinkgoWriter env (''chdir dir: '' @ err_Error err @ [newline])) go_ret) (\<lambda>_.
     go_bind (sh_Environ env) (\<lambda>environ.
     let cmd = cmd\<lparr>cmd_Env := environ @ [''GO111MODULE=on'']\<rparr>;
         command = Join (cmd_Args cmd) CHR '' ''
     in go_bind (sh_GinkgoWriter env (''running: '' @ command @ [newline])) (\<lambda>_.
     go_bind (sh_CombinedOutput env cmd) (\<lambda>(output, err).
       case err of
         Some e \<Rightarrow> go_ret (output, Some (errors_New (command @ '' failed with error: ('' @ err_Error e @
           '') '' @ output)))
       | None \<Rightarrow> go_ret (output, None))))))"

text \<open>The two ways the helpers use the error of a run: they return it, or they print it.\<close>

definition run_err :: "'w shell_env \<Rightarrow> exec_cmd \<Rightarrow> ('w, unit) go" where
  "run_err env cmd = go_bind (Run env cmd) (\<lambda>(_, err). go_err err)"

definition run_warn :: "'w shell_env \<Rightarrow> exec_cmd \<Rightarrow> ('w, unit) go" where
  "run_warn env cmd = go_catch (run_err env cmd) (warnError env) go_ret"

section \<open>The test cluster\<close>

definition prometheusOperatorVersion :: string where "prometheusOperatorVersion = ''v0.72.0''"
definition prometheusOperatorURL :: string where
  "prometheusOperatorURL = ''https://github.com/prometheus-operator/prometheus-operator/'' @
     ''releases/download/%s/bundle.yaml''"
definition certmanagerVersion :: string where "certmanagerVersion = ''v1.14.4''"
definition certmanagerURLTmpl :: string where
  "certmanagerURLTmpl =
     ''https://github.com/jetstack/cert-manager/releases/download/%s/cert-manager.yaml''"

definition InstallPrometheusOperator :: "'w shell_env \<Rightarrow> ('w, unit) go" where
  "InstallPrometheusOperator env =
     (let url = Sprintf_s prometheusOperatorURL prometheusOperatorVersion
      in run_err env (Command ''kubectl'' [''create'', ''-f'', url]))"

definition UninstallPrometheusOperator :: "'w shell_env \<Rightarrow> ('w, unit) go" where
  "UninstallPrometheusOperator env =
     (let url = Sprintf_s prometheusOperatorURL prometheusOperatorVersion
      in run_warn env (Command ''kubectl'' [''delete'', ''-f'', url]))"

definition UninstallCertManager :: "'w shell_env \<Rightarrow> ('w, unit) go" where
  "UninstallCertManager env =
     (let url = Sprintf_s certmanagerURLTmpl certmanagerVersion
      in run_warn env (Command ''kubectl'' [''delete'', ''-f'', url]))"

definition InstallCertManager :: "'w shell_env \<Rightarrow> ('w, unit) go" where
  "InstallCertManager env =
     (let url = Sprintf_s certmanagerURLTmpl certmanagerVersion
      in go_bind (run_err env (Command ''kubectl'' [''apply'', ''-f'', url])) (\<lambda>_.
         run_err env (Command ''kubectl''
           [''wait'', ''deployment.apps/cert-manager-webhook'', ''--for'', ''condition=Available'',
            ''--namespace'', ''cert-manager'', ''--timeout'', ''5m''])))"

definition LoadImageToKindClusterWithName :: "'w shell_env \<Rightarrow> string \<Rightarrow> ('w, unit) go" where
  "LoadImageToKindClusterWithName env name =
     go_bind (sh_LookupEnv env ''KIND_CLUSTER'') (\<lambda>v.
     let cluster = (case v of Some c \<Rightarrow> c | None \<Rightarrow> ''kind'');
         kindOptions = [''load'', ''docker-image'', name, ''--name'', cluster]
     in run_err env (Command ''kind'' kindOptions))"

fun non_empty_loop :: "string list \<Rightarrow> string list \<Rightarrow> string list" where
  "non_empty_loop res [] = res"
| "non_empty_loop res (element # elements) =
     non_empty_loop (if element \<noteq> '''' then res @ [element] else res) elements"

definition GetNonEmptyLines :: "string \<Rightarrow> string list" where
  "GetNonEmptyLines output = non_empty_loop [] (Split output newline)"

subsection \<open>Lines\<close>

lemma non_empty_loop_filter: "non_empty_loop res es = res @ filter (\<lambda>e. e \<noteq> []) es"
  by (induction es arbitrary: res) auto

text \<open>Lines that are not empty are read back from what a command printed one under another.\<close>

lemma GetNonEmptyLines_Join:
  assumes "\<forall>l \<in> set ls. l \<noteq> [] \<and> newline \<notin> set l"
  shows "GetNonEmptyLines (Join ls newline) = ls"
proof (cases ls)
  case (Cons l ls')
  with assms have "Split (Join ls newline) newline = ls" by (intro Split_Join) auto
  then show ?thesis using assms by (simp add: GetNonEmptyLines_def non_empty_loop_filter)
qed (simp add: GetNonEmptyLines_def)

lemma GetNonEmptyLines_lines:
  "l \<in> set (GetNonEmptyLines output) \<Longrightarrow> l \<noteq> [] \<and> newline \<notin> set l"
  using Split_parts by (auto simp: GetNonEmptyLines_def non_empty_loop_filter)

subsection \<open>The directory of the project\<close>

text \<open>No occurrence of \<open>/test/e2e\<close> begins in a path and ends in the one that follows it.\<close>

lemma no_straddle:
  assumes "HasPrefix (s @ ''/test/e2e'') ''/test/e2e''" and "s \<noteq> []"
  shows "HasPrefix s ''/test/e2e''"
proof (cases "length s < 9")
  case True
  have "length ''/test/e2e'' = 9" by simp
  with assms(1) have "take 9 (s @ ''/test/e2e'') = ''/test/e2e''" unfolding HasPrefix_def by metis
  then have "drop (length s) (take 9 (s @ ''/test/e2e'')) = drop (length s) ''/test/e2e''" by metis
  moreover have "drop (length s) (take 9 (s @ ''/test/e2e'')) = take (9 - length s) ''/test/e2e''"
    using True by (simp only: drop_take drop_append) simp
  ultimately have "take (9 - length s) ''/test/e2e'' = drop (length s) ''/test/e2e''" by metis
  moreover have "length s \<in> {1, 2, 3, 4, 5, 6, 7, 8}" using True assms(2)
    by (simp only: insert_iff empty_iff) (cases "length s", simp, linarith)
  ultimately show ?thesis by auto
next
  case False
  with assms(1) show ?thesis by (simp add: HasPrefix_def)
qed

text \<open>In the directory of the end-to-end tests, the project is the directory two levels up, when its own
  path does not hold \<open>/test/e2e\<close>.\<close>

lemma GetProjectDir_e2e:
  assumes "sh_Getwd env w = (Ok (root @ ''/test/e2e'', None), w')" and "\<not> Contains root ''/test/e2e''"
  shows "GetProjectDir env w = (Ok (root, None), w')"
proof -
  have "\<not> HasPrefix (drop i root @ ''/test/e2e'') ''/test/e2e''" if "i < length root" for i
  proof
    assume "HasPrefix (drop i root @ ''/test/e2e'') ''/test/e2e''"
    from no_straddle [OF this] that have "prefix ''/test/e2e'' (drop i root)"
      by (simp add: HasPrefix_prefix)
    with assms(2) show False
      by (meson Contains_sublist prefix_imp_sublist sublist_drop sublist_order.order.trans)
  qed
  then have "ReplaceAll (root @ ''/test/e2e'') ''/test/e2e'' '''' = root"
    using replace_from_before [of root "''/test/e2e''" "''/test/e2e''" "''''"]
      replace_from_head [of "''/test/e2e''" "''''" "''''"]
    by (simp add: ReplaceAll_def)
  with assms(1) show ?thesis by (simp add: GetProjectDir_def go_run)
qed

text \<open>The occurrence need not be the end of the path.\<close>

lemma ReplaceAll_anywhere: "ReplaceAll ''/src/test/e2e-fork/test/e2e'' ''/test/e2e'' '''' = ''/src-fork''"
  by code_simp

subsection \<open>Commands\<close>

text \<open>The command runs in the directory of the project with \<open>GO111MODULE=on\<close> added to the environment,
  whether or not the directory could be changed; its output is returned beside the error.\<close>

lemma Run_executes:
  assumes "GetProjectDir env w = (Ok (dir, err), w1)"
    and "sh_Chdir env dir w1 = (Ok (), w2)" and "sh_Environ env w2 = (Ok environ, w3)"
    and "sh_GinkgoWriter env (''running: '' @ Join (cmd_Args cmd) CHR '' '' @ [newline]) w3 = (Ok (), w4)"
    and "sh_CombinedOutput env
      (cmd\<lparr>cmd_Dir := dir, cmd_Env := environ @ [''GO111MODULE=on'']\<rparr>) w4 = (Ok (output, e), w5)"
  shows "Run env cmd w = (Ok (output, map_option (\<lambda>e. errors_New (Join (cmd_Args cmd) CHR '' '' @
    '' failed with error: ('' @ err_Error e @ '') '' @ output)) e), w5)"
  using assms by (cases e) (simp_all add: Run_def go_run Let_def)

lemma test_urls:
  "Sprintf_s prometheusOperatorURL prometheusOperatorVersion =
     ''https://github.com/prometheus-operator/prometheus-operator/releases/download/v0.72.0/bundle.yaml''"
  "Sprintf_s certmanagerURLTmpl certmanagerVersion =
     ''https://github.com/jetstack/cert-manager/releases/download/v1.14.4/cert-manager.yaml''"
  by code_simp+

text \<open>The webhook is waited for only after the manifests were applied.\<close>

lemma InstallCertManager_applies_first:
  assumes "InstallCertManager env w = (Ok u, w')"
  obtains w1 where "run_err env (Command ''kubectl'' [''apply'', ''-f'',
      ''https://github.com/jetstack/cert-manager/releases/download/v1.14.4/cert-manager.yaml'']) w = (Ok (), w1)"
    and "run_err env (Command ''kubectl''
      [''wait'', ''deployment.apps/cert-manager-webhook'', ''--for'', ''condition=Available'',
       ''--namespace'', ''cert-manager'', ''--timeout'', ''5m'']) w1 = (Ok (), w')"
  using assms by (auto simp: InstallCertManager_def test_urls Let_def go_inv)

end
