(* ===== verification/Spec2Isabelle.thy ===== *)
theory Spec2Isabelle
  imports ControllerProperties PodProperties StatusProperties SigningProperties ProgressProperties
    AuthorityProperties ProcessProperties CompletionProperties AttestationProperties
    VerdictProperties StaleRecords TestSupport
begin

text \<open>
  A verification development for \<open>argo-supply-chain-security\<close>: a Kubernetes controller that watches Argo
  workflows and, for each one that carries the label \<open>argo.slsa.io/enable: "true"\<close>, signs the container
  images its pods produced, generates and attests SBOMs for them and attaches a SLSA provenance.

  The program and its model. \<open>Reconcile\<close> (\<open>internal/controller/workflow_controller.go\<close>) reads the
  settings (\<open>pkg/config\<close>), the workflow and a keychain (\<open>pkg/auth\<close>), labels the workflow
  \<open>In-Progress\<close> (\<open>pkg/statusupdater\<close>), and hands its pod nodes to
  \<open>internal/workflow-pod-reconciler\<close>, which for every pod decides on the artifact, signs it
  (\<open>pkg/signer\<close>, \<open>pkg/signer/sign\<close>), generates the SBOM (\<open>pkg/sbom\<close>) and records each outcome as
  an annotation of the pod; afterwards a provenance (\<open>pkg/provenance\<close>) is generated and attested
  (\<open>pkg/signer/attest\<close>) for every signed artifact, and the workflow is labelled \<open>Completed\<close> or
  \<open>Error\<close>. The state of one reconciliation is the world, the in-memory workflow and the list of its pod
  statuses; the state that survives is in the API server's labels and annotations, part of the world.

  Conventions (\<open>GoCore\<close>). A Go function that may return an error is a function from its state to a
  result (\<open>Ok\<close>, \<open>Fail\<close> with the error, \<open>Panic\<close>) and the new state; \<open>go_bind\<close> is the early return on
  an error, \<open>go_catch\<close> an error that is handled, \<open>go_wrap\<close> \<open>fmt.Errorf\<close> with \<open>%w\<close> or \<open>%v\<close>,
  \<open>go_defer\<close> a deferred call. The world \<open>'w\<close> is abstract. Third-party code (cosign, sigstore, Rekor,
  Fulcio, the registry client, syft, client-go, the Argo and protobuf libraries) is not modelled: its
  functions are the fields of the environment records \<open>cosign_env\<close>, \<open>registry_env\<close>, \<open>sign_env\<close>,
  \<open>attest_env\<close>, \<open>sbom_env\<close>, \<open>prov_env\<close>, \<open>pod_env\<close>, \<open>auth_env\<close>, \<open>ctrl_env\<close>, \<open>main_env\<close>, each
  extending the one before by what one more package calls, and its values are of the opaque type \<open>'h\<close>;
  \<open>tsa_env\<close> (with \<open>http_env\<close> and \<open>mock_env\<close>) extends \<open>cosign_env\<close>, and \<open>dsse_env\<close> \<open>attest_env\<close>.

  Theories, in the order of the code's layers:
  \<^item> \<open>GoCore\<close>: results, computations, strings, maps, and the two proof collections: \<open>go_run\<close> evaluates,
    \<open>go_inv\<close> inverts, \<open>go_fixes_rules\<close> composes statements that something is left unchanged.
  \<^item> \<open>KubeObjects\<close>: pods, workflows, nodes; the API client \<open>kube\<close> with its documented behaviour.
  \<^item> \<open>StatusUpdater\<close> (\<open>pkg/statusupdater/updater.go\<close>): \<open>patchMetadata\<close>; locale \<open>metadata_patcher\<close>.
  \<^item> \<open>Base64\<close>, \<open>CosignSigner\<close> (\<open>pkg/signer/internal/pkg/cosign\<close>: payload, Fulcio and Rekor signers;
    locales \<open>faithful_signer\<close> and, for signers that read first, \<open>cosign_signer\<close>), \<open>Config\<close> (\<open>pkg/config/config.go\<close>), \<open>Registry\<close>
    (\<open>GetRemoteOptsWithKeychain\<close>, \<open>pkg/signer/cosignauth\<close>), \<open>Sign\<close> (\<open>pkg/signer/sign/sign.go\<close>),
    \<open>Attest\<close> (\<open>pkg/signer/attest/attest.go\<close>), \<open>Sbom\<close> (\<open>pkg/sbom/syft\<close>, \<open>pkg/sbom/oci\<close>,
    \<open>pkg/crane\<close>), \<open>SignerDispatch\<close> (\<open>pkg/signer/signer.go\<close>, \<open>pkg/sbom/sbom.go\<close>; locale
    \<open>signer_dispatch\<close>), \<open>Provenance\<close> (\<open>pkg/provenance\<close>).
  \<^item> \<open>PodStatus\<close> and \<open>WorkflowPods\<close> (\<open>internal/workflow-pod-reconciler\<close>), \<open>Auth\<close>
    (\<open>pkg/auth/auth.go\<close>), \<open>Controller\<close> (\<open>internal/controller\<close>), \<open>Manager\<close> (\<open>cmd/main.go\<close>: flags,
    TLS and manager options, set-up, exit codes).
  \<^item> The parts of \<open>pkg/signer/internal\<close> that the controller does not call: \<open>Tsa\<close> (\<open>cosign/tsa\<close>: signer
    wrapper, HTTP client, in-process authority; locales \<open>timestamp_authority\<close> and \<open>timestamping\<close>),
    \<open>LocalSigners\<close> (\<open>ephemeral/signer.go\<close>, \<open>payload/attestor.go\<close>), \<open>FulcioRoots\<close>
    (\<open>fulcioroots.go\<close>, \<open>tsa/utils.go\<close>), \<open>Helpers\<close> (\<open>payload/size\<close>, \<open>common.go\<close>, \<open>now\<close>,
    \<open>oci/remote\<close>), over \<open>Strconv\<close>, what they use of Go's \<open>strconv\<close> and \<open>strings\<close>, with
    \<open>int64\<close> as \<open>64 word\<close>. \<open>TestSupport\<close>: the double of Rekor's client (\<open>cosign/rekor/mock\<close>) and
    the helpers of the end-to-end tests (\<open>test/utils/utils.go\<close>).
  \<^item> \<open>Frames\<close>: whatever property of the world the libraries keep (the \<open>steady_\<close> predicates), and
    whatever observation of it they leave alone (the \<open>quiet_\<close> predicates), the program keeps or leaves
    alone; one lemma per operation of the controller, over the rules of \<open>go_keeps\<close>.
    \<open>LabelMachine\<close>: the status label of a workflow as an abstract state machine, histories of
    reconciliations, and that they refine it; what the reconciliation that sets \<open>Completed\<close> did.
    \<open>ErrorSets\<close>: which errors a computation can return.
    \<open>PodFrames\<close>: which stored pod a step touches, and that a successful signing is the only way to a
    signed pod. \<open>TwoStores\<close>: pods and workflows in one API server. \<open>PodRecords\<close> and
    \<open>WorkflowRecords\<close>: what the annotations of a stored pod claim (which step brought each outcome about,
    for which image), as an invariant that every operation of the controller keeps, also when it fails,
    together with the link between a pod's record in memory and the stored pod it came from.
  \<^item> \<open>SampleEnv\<close>: a concrete environment, on which the documented behaviour holds and the witnesses
    are evaluated; it models none of the repository's code.
  \<^item> \<open>ControllerProperties\<close>, \<open>PodProperties\<close>, \<open>StatusProperties\<close>, \<open>SigningProperties\<close>,
    \<open>ProgressProperties\<close>, \<open>AuthorityProperties\<close>, \<open>ProcessProperties\<close>, \<open>CompletionProperties\<close> (signatures in
    the registry), \<open>AttestationProperties\<close> (SBOMs and provenances in the registry), \<open>VerdictProperties\<close>
    (the provenance outcomes of a completed workflow) and \<open>StaleRecords\<close> (workflows completed on the
    strength of earlier records): the properties.

  Hypotheses. \<open>kube_documented\<close> and \<open>retry_documented\<close> (client-go), \<open>oci_documented\<close> (cosign's
  signature values), \<open>rfc3161_documented\<close> and \<open>mock_documented\<close> (the timestamp library), \<open>label_store\<close>
  and \<open>named_store\<close> (the API server's treatment of one label and of one object), \<open>two_stores\<close> (an API
  server that keeps pods and workflows), \<open>registry_documented\<close> and
  \<open>attestations_documented\<close> (a repository holds the signatures and the attestations that were written to
  it), \<open>registry_keeps\<close> (no call removes one), and the \<open>steady_\<close> and \<open>quiet_\<close>
  predicates (a library operation keeps, or does not touch, what is observed). Each is satisfied by
  \<open>SampleEnv\<close>.

  Bounds and termination. \<open>retry.OnError\<close> has the source's three steps; every loop of the source
  iterates over a finite list and is structural recursion, so every definition is total. Go's maps are
  iterated in an order that is a parameter: the nodes of a workflow are a list in the order of the visit.

  What the lemmas show: the safety of completion (a workflow is labelled \<open>Completed\<close> only after every
  pod node ran to its end and every pod is settled; the registry then holds a signature for the image of
  every pod that has one and carried no record of an earlier visit, \<open>completed_means_signed\<close>, and every pod carries the provenance outcome it
  is owed, \<open>completed_means_provenance_decided\<close>; over any
  history of reconciliations the annotations keep their documented values,
  \<open>annotations_well_formed\<close>, a pod recorded as signed has a signature in the registry,
  \<open>recorded_signature_published\<close>, and an SBOM or a provenance recorded as attached was made of that image
  and is attested there, \<open>recorded_attestations_published\<close>) and its limits (\<open>settled\<close> counts a failed signature
  that was recorded on an earlier visit, so a workflow can be completed with nothing signed,
  \<open>stale_records_complete\<close>; the order of the nodes can decide the verdict, \<open>node_order_decides_status\<close>; and
  a skipped node keeps its workflow from being completed, \<open>skipped_node_never_completed\<close>), that
  the pods and the label follow their state machines, what exactly is signed, logged, attested and
  written, which failures stop a workflow and which are only recorded, and the functional behaviour of
  every package on its branches. Progress: against a server that stores what it is sent, a workflow whose
  pods have ended is not left without a verdict by a reconciliation that is not requeued
  (\<open>no_silent_stall\<close>), and over any infinite history the label changes at most twice
  (\<open>label_settles\<close>). For the rest of the signer packages: what a timestamp is made over, what the TLS
  transport guarantees, what the DSSE envelope really holds, in which calls the root pools are made, the
  round trip of \<open>SOURCE_DATE_EPOCH\<close>, and the order in which the process starts.

  Not modelled: logging and the options of the logger; deployment manifests and build files; concurrent
  reconciliations of one workflow, which the work queue rules out.
\<close>

section \<open>Two runs of the small cluster\<close>

text \<open>Settled is not signed. Two pods, one still running; the other one's image could not be signed,
  and the failed attempt was recorded. When the first pod has finished, the next reconciliation labels
  the workflow \<open>Completed\<close>, although no signature and no attestation was ever published and the pod's
  own annotations still say \<open>Error\<close>. (\<open>stale_records_complete\<close> is the general statement.)\<close>

lemma completed_with_nothing_signed:
  "let (res1, w1) = sample_reconcile (sample_world (two_pods NodeRunning) True);
       (res2, w2) = sample_reconcile (argo_progress (two_pods NodeSucceeded) w1)
   in res1 = Ok no_requeue \<and> sample_label w1 = Some reconcileInProgrees \<and>
      res2 = Ok no_requeue \<and> sample_label w2 = Some reconcileCompleted \<and>
      sw_published w2 = [] \<and> sw_attested w2 = [] \<and>
      sample_annotation ''wfl-t-b'' signedAnnotation w2 = Some signingError \<and>
      sample_annotation ''wfl-t-b'' podStatusAnnotation w2 = Some reconciliationError"
  by code_simp

text \<open>One pod is still running and the image of the other one cannot be signed: in one order of the
  nodes the workflow stays \<open>In-Progress\<close>, in the other it is labelled \<open>Error\<close>.
  (\<open>node_order_decides_status\<close> is the general statement.)\<close>

lemma node_order_example:
  "let running = sample_node ''a'' NodeRunning [];
       failing = sample_node ''b'' NodeSucceeded [(''OCI'', ''img@sha256:aa'')]
   in sample_label (snd (sample_reconcile (sample_world (sample_workflow [running, failing]) True))) =
        Some reconcileInProgrees \<and>
      sample_label (snd (sample_reconcile (sample_world (sample_workflow [failing, running]) True))) =
        Some reconcileError"
  by code_simp

end
